(* ===== verification/Prelude.thy ===== *)
theory Prelude
  imports Main "HOL-Library.Word"
begin

text \<open>
  Shared ground of the development: the machine integers of the wasm32 target, the C
  conversions between them that the glue performs, byte lists, and the generic facts about
  lists and words that several component theories use.

  The named collections are: \<open>c_casts\<close> (the C integer conversions, unfolded),
  \<open>byte_simps\<close> (byte-level lemmas on words and lists).
\<close>

unbundle bit_operations_syntax

named_theorems c_casts
named_theorems byte_simps

section \<open>Machine integers\<close>

type_synonym u8 = "8 word"
type_synonym u16 = "16 word"
type_synonym u32 = "32 word"
type_synonym u64 = "64 word"

text \<open>
  wasm32: \<open>size_t\<close>, \<open>unsigned\<close> and pointers have 32 bits; \<open>int\<close> is a signed 32-bit
  integer. A C \<open>int\<close> value is an \<open>int\<close> of the model in the range of 32-bit two's
  complement. \<open>c_int\<close> is the conversion \<open>(int)x\<close> of a \<open>size_t\<close> or \<open>uint32_t\<close>,
  \<open>c_u32\<close> the conversion \<open>(uint32_t)x\<close> (or \<open>(size_t)x\<close>) of an \<open>int\<close>.
\<close>

definition c_int :: "nat \<Rightarrow> int" where
  [c_casts]: "c_int n = sint (word_of_nat n :: u32)"

definition c_u32 :: "int \<Rightarrow> nat" where
  [c_casts]: "c_u32 i = unat (word_of_int i :: u32)"

lemma c_int_small [simp]: "n < 2 ^ 31 \<Longrightarrow> c_int n = int n"
  by (simp add: c_int_def signed_of_nat signed_take_bit_int_eq_self)

lemma c_u32_nat [simp]: "0 \<le> i \<Longrightarrow> i < 2 ^ 32 \<Longrightarrow> c_u32 i = nat i"
  by (simp add: c_u32_def unsigned_of_int take_bit_int_eq_self)

lemma c_u32_bound: "c_u32 i < 2 ^ 32"
  unfolding c_u32_def using unsigned_less [of "word_of_int i :: u32"] by simp

lemma c_u32_minus_one: "c_u32 (- 1) = 4294967295"
  by (simp add: c_u32_def unsigned_minus_1_eq_mask mask_eq_exp_minus_1)

section \<open>Lists\<close>

lemma length_16_conv:
  "length xs = 16 \<longleftrightarrow> (\<exists>a b c d e f g h i j k l m n p q.
     xs = [a, b, c, d, e, f, g, h, i, j, k, l, m, n, p, q])"
  by (auto simp: eval_nat_numeral length_Suc_conv)

lemma list_all_upt_iff: "list_all P [0..<n] \<longleftrightarrow> (\<forall>i<n. P i)"
  by (auto simp: list_all_iff)

text \<open>A bounded check on all bytes is a check of 256 numerals.\<close>

lemma all_u8_iff: "(\<forall>x::u8. P x) \<longleftrightarrow> list_all (\<lambda>i. P (word_of_nat i)) [0..<256]"
proof
  assume "list_all (\<lambda>i. P (word_of_nat i)) [0..<256]"
  then have h: "\<forall>i<256. P (word_of_nat i)" by (simp only: list_all_upt_iff)
  show "\<forall>x::u8. P x"
  proof
    fix x :: u8
    have "unat x < 256" using unsigned_less [of x] by simp
    with h have "P (word_of_nat (unat x))" by blast
    then show "P x" by simp
  qed
qed (simp add: list_all_iff)

section \<open>Exclusive or\<close>

lemmas xor_ac = xor.assoc xor.commute xor.left_commute

lemma xor_left_self [simp, byte_simps]: "(a::'a::len word) XOR (a XOR b) = b"
  by (simp flip: xor.assoc)

lemma xor_eq_cancel [simp]: "((a::'a::len word) XOR b) XOR b = a"
  by (simp add: xor.assoc)

lemma push_bit_xor_word: "push_bit n ((a::'a::len word) XOR b) = push_bit n a XOR push_bit n b"
  by (rule push_bit_xor)

end
