(* ===== verification/Aes_Simd.thy ===== *)
theory Aes_Simd
  imports Prelude
begin

text \<open>
  Model of \<open>src/aes_simd.c\<close>: the AES block functions that the linker substitutes for
  OpenSSL's \<open>AES_encrypt\<close> and \<open>AES_decrypt\<close> when the build sets \<open>simd_aes=on\<close>.

  A \<open>v128_t\<close> is the list of its 16 bytes in memory order, so \<open>wasm_v128_load\<close> and
  \<open>wasm_v128_store\<close> are the identity on such a list. The intrinsics of \<open>wasm_simd128.h\<close>
  are lane-wise functions on the list. A load outside the array it reads is \<open>None\<close>.
\<close>

section \<open>The intrinsics\<close>

type_synonym v128 = "u8 list"

definition wasm_i8x16_shuffle :: "v128 \<Rightarrow> v128 \<Rightarrow> nat list \<Rightarrow> v128" where
  "wasm_i8x16_shuffle a b is = map (\<lambda>i. (a @ b) ! i) is"

definition wasm_v128_xor :: "v128 \<Rightarrow> v128 \<Rightarrow> v128" where
  "wasm_v128_xor a b = map2 (\<lambda>x y. x XOR y) a b"

definition wasm_v128_and :: "v128 \<Rightarrow> v128 \<Rightarrow> v128" where
  "wasm_v128_and a b = map2 (\<lambda>x y. x AND y) a b"

definition wasm_i8x16_shl :: "v128 \<Rightarrow> nat \<Rightarrow> v128" where
  "wasm_i8x16_shl a n = map (push_bit (n mod 8)) a"

definition wasm_u8x16_gt :: "v128 \<Rightarrow> v128 \<Rightarrow> v128" where
  "wasm_u8x16_gt a b = map2 (\<lambda>x y. if y < x then 0xff else 0) a b"

definition wasm_u8x16_splat :: "u8 \<Rightarrow> v128" where
  "wasm_u8x16_splat x = replicate 16 x"

definition wasm_v128_load :: "u8 list \<Rightarrow> nat \<Rightarrow> v128 option" where
  "wasm_v128_load mem off =
     (if off + 16 \<le> length mem then Some (take 16 (drop off mem)) else None)"

section \<open>The S-boxes\<close>

definition AES_SBOX :: "u8 list" where
  "AES_SBOX = [
    0x63, 0x7c, 0x77, 0x7b, 0xf2, 0x6b, 0x6f, 0xc5,
    0x30, 0x01, 0x67, 0x2b, 0xfe, 0xd7, 0xab, 0x76,
    0xca, 0x82, 0xc9, 0x7d, 0xfa, 0x59, 0x47, 0xf0,
    0xad, 0xd4, 0xa2, 0xaf, 0x9c, 0xa4, 0x72, 0xc0,
    0xb7, 0xfd, 0x93, 0x26, 0x36, 0x3f, 0xf7, 0xcc,
    0x34, 0xa5, 0xe5, 0xf1, 0x71, 0xd8, 0x31, 0x15,
    0x04, 0xc7, 0x23, 0xc3, 0x18, 0x96, 0x05, 0x9a,
    0x07, 0x12, 0x80, 0xe2, 0xeb, 0x27, 0xb2, 0x75,
    0x09, 0x83, 0x2c, 0x1a, 0x1b, 0x6e, 0x5a, 0xa0,
    0x52, 0x3b, 0xd6, 0xb3, 0x29, 0xe3, 0x2f, 0x84,
    0x53, 0xd1, 0x00, 0xed, 0x20, 0xfc, 0xb1, 0x5b,
    0x6a, 0xcb, 0xbe, 0x39, 0x4a, 0x4c, 0x58, 0xcf,
    0xd0, 0xef, 0xaa, 0xfb, 0x43, 0x4d, 0x33, 0x85,
    0x45, 0xf9, 0x02, 0x7f, 0x50, 0x3c, 0x9f, 0xa8,
    0x51, 0xa3, 0x40, 0x8f, 0x92, 0x9d, 0x38, 0xf5,
    0xbc, 0xb6, 0xda, 0x21, 0x10, 0xff, 0xf3, 0xd2,
    0xcd, 0x0c, 0x13, 0xec, 0x5f, 0x97, 0x44, 0x17,
    0xc4, 0xa7, 0x7e, 0x3d, 0x64, 0x5d, 0x19, 0x73,
    0x60, 0x81, 0x4f, 0xdc, 0x22, 0x2a, 0x90, 0x88,
    0x46, 0xee, 0xb8, 0x14, 0xde, 0x5e, 0x0b, 0xdb,
    0xe0, 0x32, 0x3a, 0x0a, 0x49, 0x06, 0x24, 0x5c,
    0xc2, 0xd3, 0xac, 0x62, 0x91, 0x95, 0xe4, 0x79,
    0xe7, 0xc8, 0x37, 0x6d, 0x8d, 0xd5, 0x4e, 0xa9,
    0x6c, 0x56, 0xf4, 0xea, 0x65, 0x7a, 0xae, 0x08,
    0xba, 0x78, 0x25, 0x2e, 0x1c, 0xa6, 0xb4, 0xc6,
    0xe8, 0xdd, 0x74, 0x1f, 0x4b, 0xbd, 0x8b, 0x8a,
    0x70, 0x3e, 0xb5, 0x66, 0x48, 0x03, 0xf6, 0x0e,
    0x61, 0x35, 0x57, 0xb9, 0x86, 0xc1, 0x1d, 0x9e,
    0xe1, 0xf8, 0x98, 0x11, 0x69, 0xd9, 0x8e, 0x94,
    0x9b, 0x1e, 0x87, 0xe9, 0xce, 0x55, 0x28, 0xdf,
    0x8c, 0xa1, 0x89, 0x0d, 0xbf, 0xe6, 0x42, 0x68,
    0x41, 0x99, 0x2d, 0x0f, 0xb0, 0x54, 0xbb, 0x16]"

definition AES_INV_SBOX :: "u8 list" where
  "AES_INV_SBOX = [
    0x52, 0x09, 0x6a, 0xd5, 0x30, 0x36, 0xa5, 0x38,
    0xbf, 0x40, 0xa3, 0x9e, 0x81, 0xf3, 0xd7, 0xfb,
    0x7c, 0xe3, 0x39, 0x82, 0x9b, 0x2f, 0xff, 0x87,
    0x34, 0x8e, 0x43, 0x44, 0xc4, 0xde, 0xe9, 0xcb,
    0x54, 0x7b, 0x94, 0x32, 0xa6, 0xc2, 0x23, 0x3d,
    0xee, 0x4c, 0x95, 0x0b, 0x42, 0xfa, 0xc3, 0x4e,
    0x08, 0x2e, 0xa1, 0x66, 0x28, 0xd9, 0x24, 0xb2,
    0x76, 0x5b, 0xa2, 0x49, 0x6d, 0x8b, 0xd1, 0x25,
    0x72, 0xf8, 0xf6, 0x64, 0x86, 0x68, 0x98, 0x16,
    0xd4, 0xa4, 0x5c, 0xcc, 0x5d, 0x65, 0xb6, 0x92,
    0x6c, 0x70, 0x48, 0x50, 0xfd, 0xed, 0xb9, 0xda,
    0x5e, 0x15, 0x46, 0x57, 0xa7, 0x8d, 0x9d, 0x84,
    0x90, 0xd8, 0xab, 0x00, 0x8c, 0xbc, 0xd3, 0x0a,
    0xf7, 0xe4, 0x58, 0x05, 0xb8, 0xb3, 0x45, 0x06,
    0xd0, 0x2c, 0x1e, 0x8f, 0xca, 0x3f, 0x0f, 0x02,
    0xc1, 0xaf, 0xbd, 0x03, 0x01, 0x13, 0x8a, 0x6b,
    0x3a, 0x91, 0x11, 0x41, 0x4f, 0x67, 0xdc, 0xea,
    0x97, 0xf2, 0xcf, 0xce, 0xf0, 0xb4, 0xe6, 0x73,
    0x96, 0xac, 0x74, 0x22, 0xe7, 0xad, 0x35, 0x85,
    0xe2, 0xf9, 0x37, 0xe8, 0x1c, 0x75, 0xdf, 0x6e,
    0x47, 0xf1, 0x1a, 0x71, 0x1d, 0x29, 0xc5, 0x89,
    0x6f, 0xb7, 0x62, 0x0e, 0xaa, 0x18, 0xbe, 0x1b,
    0xfc, 0x56, 0x3e, 0x4b, 0xc6, 0xd2, 0x79, 0x20,
    0x9a, 0xdb, 0xc0, 0xfe, 0x78, 0xcd, 0x5a, 0xf4,
    0x1f, 0xdd, 0xa8, 0x33, 0x88, 0x07, 0xc7, 0x31,
    0xb1, 0x12, 0x10, 0x59, 0x27, 0x80, 0xec, 0x5f,
    0x60, 0x51, 0x7f, 0xa9, 0x19, 0xb5, 0x4a, 0x0d,
    0x2d, 0xe5, 0x7a, 0x9f, 0x93, 0xc9, 0x9c, 0xef,
    0xa0, 0xe0, 0x3b, 0x4d, 0xae, 0x2a, 0xf5, 0xb0,
    0xc8, 0xeb, 0xbb, 0x3c, 0x83, 0x53, 0x99, 0x61,
    0x17, 0x2b, 0x04, 0x7e, 0xba, 0x77, 0xd6, 0x26,
    0xe1, 0x69, 0x14, 0x63, 0x55, 0x21, 0x0c, 0x7d]"

definition aes_sub_bytes :: "v128 \<Rightarrow> v128" where
  "aes_sub_bytes state = map (\<lambda>b. AES_SBOX ! unat b) state"

definition aes_inv_sub_bytes :: "v128 \<Rightarrow> v128" where
  "aes_inv_sub_bytes state = map (\<lambda>b. AES_INV_SBOX ! unat b) state"

section \<open>Rows and columns\<close>

definition aes_shift_rows :: "v128 \<Rightarrow> v128" where
  "aes_shift_rows state = wasm_i8x16_shuffle state state
     [0, 5, 10, 15,
      4, 9, 14, 3,
      8, 13, 2, 7,
      12, 1, 6, 11]"

definition aes_inv_shift_rows :: "v128 \<Rightarrow> v128" where
  "aes_inv_shift_rows state = wasm_i8x16_shuffle state state
     [0, 13, 10, 7,
      4, 1, 14, 11,
      8, 5, 2, 15,
      12, 9, 6, 3]"

definition aes_xtime :: "v128 \<Rightarrow> v128" where
  "aes_xtime x =
     (let shl = wasm_i8x16_shl x 1;
          high = wasm_u8x16_gt x (wasm_u8x16_splat 0x7f);
          reduce = wasm_v128_and high (wasm_u8x16_splat 0x1b)
      in wasm_v128_xor shl reduce)"

definition rot_col_1 :: "v128 \<Rightarrow> v128" where
  "rot_col_1 s = wasm_i8x16_shuffle s s [1, 2, 3, 0, 5, 6, 7, 4, 9, 10, 11, 8, 13, 14, 15, 12]"

definition rot_col_2 :: "v128 \<Rightarrow> v128" where
  "rot_col_2 s = wasm_i8x16_shuffle s s [2, 3, 0, 1, 6, 7, 4, 5, 10, 11, 8, 9, 14, 15, 12, 13]"

definition rot_col_3 :: "v128 \<Rightarrow> v128" where
  "rot_col_3 s = wasm_i8x16_shuffle s s [3, 0, 1, 2, 7, 4, 5, 6, 11, 8, 9, 10, 15, 12, 13, 14]"

definition aes_mix_columns :: "v128 \<Rightarrow> v128" where
  "aes_mix_columns s =
     (let t = aes_xtime s;
          s_rot1 = rot_col_1 s;
          s_rot2 = rot_col_2 s;
          s_rot3 = rot_col_3 s;
          t_rot1 = rot_col_1 t;
          out = wasm_v128_xor t t_rot1;
          out = wasm_v128_xor out s_rot1;
          out = wasm_v128_xor out s_rot2;
          out = wasm_v128_xor out s_rot3
      in out)"

definition aes_inv_mix_columns :: "v128 \<Rightarrow> v128" where
  "aes_inv_mix_columns s =
     (let mc = aes_mix_columns s;
          s_rot1 = rot_col_1 s;
          s_rot2 = rot_col_2 s;
          s_rot3 = rot_col_3 s;
          col_sum = wasm_v128_xor s s_rot1;
          col_sum = wasm_v128_xor col_sum s_rot2;
          col_sum = wasm_v128_xor col_sum s_rot3;
          alt_sum = wasm_v128_xor s s_rot2;
          four_alt = aes_xtime (aes_xtime alt_sum);
          eight_col = aes_xtime (aes_xtime (aes_xtime col_sum));
          m_diff = wasm_v128_xor eight_col four_alt
      in wasm_v128_xor mc m_diff)"

section \<open>Round keys\<close>

text \<open>
  OpenSSL's \<open>AES_KEY\<close> (\<open>openssl/aes.h\<close>): \<open>rd_key\<close> is an array of \<open>4 * (AES_MAXNR + 1) = 60\<close>
  32-bit words, \<open>rounds\<close> an \<open>int\<close>. The code reads the array through a \<open>const uint8_t *\<close>;
  wasm is little-endian, so the bytes of a word come least significant first.
\<close>

record aes_key =
  rd_key :: "u32 list"
  rounds :: int

definition le_bytes :: "u32 \<Rightarrow> u8 list" where
  "le_bytes w = [ucast w, ucast (drop_bit 8 w), ucast (drop_bit 16 w), ucast (drop_bit 24 w)]"

definition rd_key_bytes :: "aes_key \<Rightarrow> u8 list" where
  "rd_key_bytes key = concat (map le_bytes (rd_key key))"

definition aes_key_wf :: "aes_key \<Rightarrow> bool" where
  "aes_key_wf key \<longleftrightarrow> length (rd_key key) = 60"

definition load_round_key :: "u8 list \<Rightarrow> nat \<Rightarrow> v128 option" where
  "load_round_key mem rk = map_option
     (\<lambda>raw. wasm_i8x16_shuffle raw raw
        [3, 2, 1, 0,
         7, 6, 5, 4,
         11, 10, 9, 8,
         15, 14, 13, 12])
     (wasm_v128_load mem rk)"

section \<open>The block functions\<close>

text \<open>
  The loop \<open>for (round = 1; round < rounds; round++)\<close> is \<open>aes_encrypt_loop\<close>: the first
  argument is the number of iterations left, \<open>rk\<close> the byte offset the pointer has reached.
\<close>

fun aes_encrypt_loop :: "nat \<Rightarrow> u8 list \<Rightarrow> v128 \<Rightarrow> nat \<Rightarrow> (v128 \<times> nat) option" where
  "aes_encrypt_loop 0 mem state rk = Some (state, rk)"
| "aes_encrypt_loop (Suc n) mem state rk =
     (let state = aes_sub_bytes state;
          state = aes_shift_rows state;
          state = aes_mix_columns state
      in case load_round_key mem rk of
           None \<Rightarrow> None
         | Some k \<Rightarrow> aes_encrypt_loop n mem (wasm_v128_xor state k) (rk + 16))"

definition aes_encrypt_simd :: "v128 \<Rightarrow> aes_key \<Rightarrow> v128 option" where
  "aes_encrypt_simd in_block key =
     (let mem = rd_key_bytes key in
      case load_round_key mem 0 of
        None \<Rightarrow> None
      | Some k0 \<Rightarrow>
          (case aes_encrypt_loop (nat (rounds key - 1)) mem (wasm_v128_xor in_block k0) 16 of
             None \<Rightarrow> None
           | Some (state, rk) \<Rightarrow>
               (let state = aes_sub_bytes state;
                    state = aes_shift_rows state
                in case load_round_key mem rk of
                     None \<Rightarrow> None
                   | Some k \<Rightarrow> Some (wasm_v128_xor state k))))"

fun aes_decrypt_loop :: "nat \<Rightarrow> u8 list \<Rightarrow> v128 \<Rightarrow> nat \<Rightarrow> (v128 \<times> nat) option" where
  "aes_decrypt_loop 0 mem state rk = Some (state, rk)"
| "aes_decrypt_loop (Suc n) mem state rk =
     (let state = aes_inv_sub_bytes state;
          state = aes_inv_shift_rows state;
          state = aes_inv_mix_columns state
      in case load_round_key mem rk of
           None \<Rightarrow> None
         | Some k \<Rightarrow> aes_decrypt_loop n mem (wasm_v128_xor state k) (rk + 16))"

definition aes_decrypt_simd :: "v128 \<Rightarrow> aes_key \<Rightarrow> v128 option" where
  "aes_decrypt_simd in_block key =
     (let mem = rd_key_bytes key in
      case load_round_key mem 0 of
        None \<Rightarrow> None
      | Some k0 \<Rightarrow>
          (case aes_decrypt_loop (nat (rounds key - 1)) mem (wasm_v128_xor in_block k0) 16 of
             None \<Rightarrow> None
           | Some (state, rk) \<Rightarrow>
               (let state = aes_inv_sub_bytes state;
                    state = aes_inv_shift_rows state
                in case load_round_key mem rk of
                     None \<Rightarrow> None
                   | Some k \<Rightarrow> Some (wasm_v128_xor state k))))"

text \<open>
  The linker wrappers. \<open>simd128\<close> is the build's \<open>__wasm_simd128__\<close>; \<open>real\<close> stands for
  OpenSSL's own \<open>__real_AES_encrypt\<close> (or \<open>_decrypt\<close>), which is outside this repository.
\<close>

definition wrap_AES_encrypt ::
    "bool \<Rightarrow> (v128 \<Rightarrow> aes_key \<Rightarrow> v128 option) \<Rightarrow> v128 \<Rightarrow> aes_key \<Rightarrow> v128 option" where
  "wrap_AES_encrypt simd128 real in_block key =
     (if simd128 \<and> (rounds key = 10 \<or> rounds key = 12 \<or> rounds key = 14)
      then aes_encrypt_simd in_block key
      else real in_block key)"

definition wrap_AES_decrypt ::
    "bool \<Rightarrow> (v128 \<Rightarrow> aes_key \<Rightarrow> v128 option) \<Rightarrow> v128 \<Rightarrow> aes_key \<Rightarrow> v128 option" where
  "wrap_AES_decrypt simd128 real in_block key =
     (if simd128 \<and> (rounds key = 10 \<or> rounds key = 12 \<or> rounds key = 14)
      then aes_decrypt_simd in_block key
      else real in_block key)"

end
