(* ===== verification/Gf256.thy ===== *)
theory Gf256
  imports Prelude
begin

text \<open>
  The field of FIPS 197, section 4: bytes as polynomials over GF(2) modulo
  \<open>x^8 + x^4 + x^3 + x + 1\<close>. This is the reference the AES code is compared with; it has no
  counterpart in the repository. \<open>gf_mul c x\<close> is the sum of \<open>xtime8 ^^ i\<close> applied to \<open>x\<close>
  over the bits \<open>i\<close> of \<open>c\<close> (FIPS 197, 4.2.1). The lemmas show that it is linear in both
  arguments, associative and commutative, so that inverses are unique.
\<close>

definition xtime8 :: "u8 \<Rightarrow> u8" where
  "xtime8 b = push_bit 1 b XOR (if 0x7f < b then 0x1b else 0)"

definition gf_term :: "u8 \<Rightarrow> u8 \<Rightarrow> nat \<Rightarrow> u8" where
  "gf_term c x i = (if bit c i then (xtime8 ^^ i) x else 0)"

definition gf_mul :: "u8 \<Rightarrow> u8 \<Rightarrow> u8" where
  "gf_mul c x = foldr (\<lambda>i acc. gf_term c x i XOR acc) [0..<8] 0"

definition gf_inv :: "u8 \<Rightarrow> u8" where
  "gf_inv x = (case find (\<lambda>y. gf_mul x y = 1) (map word_of_nat [0..<256]) of
                 None \<Rightarrow> 0 | Some y \<Rightarrow> y)"

section \<open>Multiplication by x\<close>

lemma gt_7f_bit: "(0x7f < (b::u8)) = bit b 7"
proof -
  have "\<forall>b::u8. (0x7f < b) = bit b 7" unfolding all_u8_iff by code_simp
  then show ?thesis by blast
qed

lemma xtime8_xor: "xtime8 (a XOR b) = xtime8 a XOR xtime8 b"
  by (simp add: xtime8_def gt_7f_bit bit_xor_iff push_bit_xor_word xor_ac)

lemma xtime8_0 [simp]: "xtime8 0 = 0"
  by (simp add: xtime8_def)

lemma xtime8_pow_xor: "(xtime8 ^^ i) (a XOR b) = (xtime8 ^^ i) a XOR (xtime8 ^^ i) b"
  by (induction i) (simp_all add: xtime8_xor)

lemma xtime8_pow_0 [simp]: "(xtime8 ^^ i) 0 = 0"
  by (induction i) simp_all

section \<open>Multiplication\<close>

lemma gf_mul_sum: "gf_mul c x =
    gf_term c x 0 XOR gf_term c x 1 XOR gf_term c x 2 XOR gf_term c x 3 XOR
    gf_term c x 4 XOR gf_term c x 5 XOR gf_term c x 6 XOR gf_term c x 7"
  by (simp add: gf_mul_def numeral_eq_Suc)

text \<open>The same sum with each power of x computed once, for evaluation.\<close>

fun xtime_powers :: "bool list \<Rightarrow> u8 \<Rightarrow> u8 \<Rightarrow> u8" where
  "xtime_powers [] x acc = acc"
| "xtime_powers (b # bs) x acc = xtime_powers bs (xtime8 x) (if b then x XOR acc else acc)"

lemma gf_mul_code [code]: "gf_mul c x = xtime_powers
   [bit c 0, bit c 1, bit c 2, bit c 3, bit c 4, bit c 5, bit c 6, bit c 7] x 0"
  by (simp add: gf_mul_sum gf_term_def numeral_eq_Suc xor_ac)

lemma gf_term_xor_left: "gf_term (c XOR d) x i = gf_term c x i XOR gf_term d x i"
  by (auto simp: gf_term_def bit_xor_iff)

lemma gf_term_xor_right: "gf_term c (x XOR y) i = gf_term c x i XOR gf_term c y i"
  by (simp add: gf_term_def xtime8_pow_xor)

lemma gf_mul_xor_left: "gf_mul (c XOR d) x = gf_mul c x XOR gf_mul d x"
  by (simp only: gf_mul_sum gf_term_xor_left xor_ac)

lemma gf_mul_xor_right: "gf_mul c (x XOR y) = gf_mul c x XOR gf_mul c y"
  by (simp only: gf_mul_sum gf_term_xor_right xor_ac)

lemma gf_mul_0_left [simp]: "gf_mul 0 x = 0"
  by (simp add: gf_mul_sum gf_term_def)

lemma gf_mul_0_right [simp]: "gf_mul c 0 = 0"
  by (simp add: gf_mul_sum gf_term_def)

lemma gf_term_xtime_right: "gf_term c (xtime8 x) i = xtime8 (gf_term c x i)"
  by (simp add: gf_term_def funpow_swap1)

lemma gf_mul_xtime_right: "gf_mul c (xtime8 x) = xtime8 (gf_mul c x)"
  by (simp only: gf_mul_sum gf_term_xtime_right xtime8_xor)

lemma less_8_cases: "n < 8 \<Longrightarrow> n = 0 \<or> n = 1 \<or> n = 2 \<or> n = 3 \<or> n = 4 \<or> n = 5 \<or> n = 6 \<or> n = (7::nat)"
  by arith

lemma bit_push_bit_1: "bit (push_bit 1 (c::u8)) n = (0 < n \<and> n < 8 \<and> bit c (n - 1))"
  by (simp only: bit_push_bit_iff) auto

lemma bit_xtime8:
  "bit (xtime8 c) 0 = bit c 7" "bit (xtime8 c) 1 = (bit c 0 \<noteq> bit c 7)"
  "bit (xtime8 c) 2 = bit c 1" "bit (xtime8 c) 3 = (bit c 2 \<noteq> bit c 7)"
  "bit (xtime8 c) 4 = (bit c 3 \<noteq> bit c 7)" "bit (xtime8 c) 5 = bit c 4"
  "bit (xtime8 c) 6 = bit c 5" "bit (xtime8 c) 7 = bit c 6"
  unfolding xtime8_def gt_7f_bit bit_xor_iff bit_push_bit_1 by simp_all

lemma xtime8_pow_1:
  "(xtime8 ^^ 0) 1 = 1" "(xtime8 ^^ 1) 1 = 2" "(xtime8 ^^ 2) 1 = 4" "(xtime8 ^^ 3) 1 = 8"
  "(xtime8 ^^ 4) 1 = 16" "(xtime8 ^^ 5) 1 = 32" "(xtime8 ^^ 6) 1 = 64" "(xtime8 ^^ 7) 1 = 128"
  by code_simp+

lemma gf_mul_1_right [simp]: "gf_mul c 1 = c"
proof (rule bit_word_eqI)
  fix n assume "n < LENGTH(8)"
  then have "n < 8" by simp
  from less_8_cases [OF this] show "bit (gf_mul c 1) n = bit c n"
    by (elim disjE) (simp_all only: gf_mul_sum gf_term_def xtime8_pow_1, simp_all add: bit_xor_iff)
qed

text \<open>Two additive functions on bytes that agree on the powers of x are equal.\<close>

lemma additive_ext:
  fixes f g :: "u8 \<Rightarrow> u8"
  assumes f: "\<And>a b. f (a XOR b) = f a XOR f b" and g: "\<And>a b. g (a XOR b) = g a XOR g b"
    and eq: "\<And>i. i < 8 \<Longrightarrow> f ((xtime8 ^^ i) 1) = g ((xtime8 ^^ i) 1)"
  shows "f x = g x"
proof -
  have "f 0 = 0" "g 0 = 0" using f [of 0 0] g [of 0 0] by simp_all
  then have t: "f (gf_term c 1 i) = g (gf_term c 1 i)" if "i < 8" for c i
    using eq [OF that] by (simp add: gf_term_def)
  have "f (gf_mul x 1) = g (gf_mul x 1)"
    by (simp only: gf_mul_sum f g) (simp add: t)
  then show ?thesis by simp
qed

lemma xtime8_pow_8: "(xtime8 ^^ 8) x =
    x XOR (xtime8 ^^ 1) x XOR (xtime8 ^^ 3) x XOR (xtime8 ^^ 4) x"
proof (rule additive_ext [where f = "xtime8 ^^ 8" and
    g = "\<lambda>x. x XOR (xtime8 ^^ 1) x XOR (xtime8 ^^ 3) x XOR (xtime8 ^^ 4) x"])
  show "(xtime8 ^^ 8) ((xtime8 ^^ i) 1) = (xtime8 ^^ i) 1 XOR (xtime8 ^^ 1) ((xtime8 ^^ i) 1) XOR
      (xtime8 ^^ 3) ((xtime8 ^^ i) 1) XOR (xtime8 ^^ 4) ((xtime8 ^^ i) 1)" if "i < 8" for i
    using less_8_cases [OF that] by (elim disjE) (simp_all only: xtime8_pow_1, code_simp+)
qed (simp_all only: xtime8_pow_xor xor_ac)

lemma xtime8_gf_term: "xtime8 (gf_term c x i) = (if bit c i then (xtime8 ^^ Suc i) x else 0)"
  by (simp add: gf_term_def)

lemma gf_mul_xtime_left: "gf_mul (xtime8 c) x = xtime8 (gf_mul c x)"
proof -
  let ?p = "\<lambda>i. (xtime8 ^^ i) x"
  have L: "gf_mul (xtime8 c) x =
     (if bit c 7 then ?p 0 else 0) XOR (if bit c 0 \<noteq> bit c 7 then ?p 1 else 0) XOR
     (if bit c 1 then ?p 2 else 0) XOR (if bit c 2 \<noteq> bit c 7 then ?p 3 else 0) XOR
     (if bit c 3 \<noteq> bit c 7 then ?p 4 else 0) XOR (if bit c 4 then ?p 5 else 0) XOR
     (if bit c 5 then ?p 6 else 0) XOR (if bit c 6 then ?p 7 else 0)"
    by (simp only: gf_mul_sum gf_term_def bit_xtime8)
  have R: "xtime8 (gf_mul c x) =
     (if bit c 0 then ?p 1 else 0) XOR (if bit c 1 then ?p 2 else 0) XOR
     (if bit c 2 then ?p 3 else 0) XOR (if bit c 3 then ?p 4 else 0) XOR
     (if bit c 4 then ?p 5 else 0) XOR (if bit c 5 then ?p 6 else 0) XOR
     (if bit c 6 then ?p 7 else 0) XOR (if bit c 7 then ?p 8 else 0)"
    by (simp only: gf_mul_sum xtime8_xor xtime8_gf_term numeral_eq_Suc pred_numeral_simps
        BitM.simps One_nat_def)
  show ?thesis
    unfolding L R xtime8_pow_8
    by (cases "bit c 7"; cases "bit c 0"; cases "bit c 2"; cases "bit c 3") (simp_all add: xor_ac)
qed

lemma gf_mul_pow_left: "gf_mul ((xtime8 ^^ i) c) x = (xtime8 ^^ i) (gf_mul c x)"
  by (induction i) (simp_all add: gf_mul_xtime_left)

lemma gf_mul_pow_right: "gf_mul c ((xtime8 ^^ i) x) = (xtime8 ^^ i) (gf_mul c x)"
  by (induction i) (simp_all add: gf_mul_xtime_right)

lemma gf_mul_term_left: "gf_mul (gf_term a b i) x = gf_term a (gf_mul b x) i"
  by (simp add: gf_term_def gf_mul_pow_left)

lemma gf_mul_term_right: "gf_mul c (gf_term a b i) = gf_term a (gf_mul c b) i"
  by (simp add: gf_term_def gf_mul_pow_right)

lemma gf_mul_assoc: "gf_mul (gf_mul a b) x = gf_mul a (gf_mul b x)"
  by (simp only: gf_mul_sum [of a] gf_mul_xor_left gf_mul_term_left)

lemma gf_mul_swap: "gf_mul c (gf_mul x y) = gf_mul x (gf_mul c y)"
  by (simp only: gf_mul_sum [of x] gf_mul_xor_right gf_mul_term_right)

lemma gf_mul_commute: "gf_mul c x = gf_mul x c"
  using gf_mul_swap [of c x 1] by simp

lemma gf_mul_1_left [simp]: "gf_mul 1 x = x"
  by (subst gf_mul_commute) simp

lemma gf_inv_unique:
  assumes "gf_mul x y = 1" and "gf_mul x z = 1"
  shows "y = z"
proof -
  have "y = gf_mul (gf_mul x z) y" using assms(2) by simp
  also have "\<dots> = gf_mul z (gf_mul x y)" by (simp add: gf_mul_commute [of x z] gf_mul_assoc)
  also have "\<dots> = z" using assms(1) by simp
  finally show ?thesis .
qed

lemma all_u8_mem: "(x::u8) \<in> set (map word_of_nat [0..<256])"
proof -
  have "unat x < 256" using unsigned_less [of x] by simp
  then show ?thesis by (force intro: image_eqI [of _ _ "unat x"])
qed

lemma gf_inv_eq: "gf_mul x y = 1 \<Longrightarrow> gf_inv x = y"
proof -
  assume h: "gf_mul x y = 1"
  with all_u8_mem [of y] obtain z where z: "find (\<lambda>y. gf_mul x y = 1) (map word_of_nat [0..<256]) = Some z"
    by (cases "find (\<lambda>y. gf_mul x y = 1) (map word_of_nat [0..<256])") (auto simp: find_None_iff)
  then have "gf_mul x z = 1" by (auto simp: find_Some_iff)
  with h have "z = y" by (rule gf_inv_unique [rotated])
  with z show ?thesis by (simp add: gf_inv_def)
qed

lemma gf_inv_0: "gf_inv 0 = 0"
  by (simp add: gf_inv_def find_None_iff split: option.split) (auto simp: find_Some_iff)

section \<open>The multipliers of the column mixes\<close>

lemma gf_mul_consts:
  "gf_mul 2 x = xtime8 x"
  "gf_mul 3 x = x XOR xtime8 x"
  "gf_mul 9 x = x XOR xtime8 (xtime8 (xtime8 x))"
  "gf_mul 11 x = x XOR xtime8 x XOR xtime8 (xtime8 (xtime8 x))"
  "gf_mul 13 x = x XOR xtime8 (xtime8 x) XOR xtime8 (xtime8 (xtime8 x))"
  "gf_mul 14 x = xtime8 x XOR xtime8 (xtime8 x) XOR xtime8 (xtime8 (xtime8 x))"
  by (simp_all add: gf_mul_sum gf_term_def numeral_eq_Suc)

end
