(* ===== verification/Aes_Fips.thy ===== *)
theory Aes_Fips
  imports Gf256
begin

text \<open>
  The cipher of FIPS 197, section 5, as a reference: the round transformations on a state
  of 16 bytes stored column by column (byte \<open>4 * c + r\<close> is row \<open>r\<close>, column \<open>c\<close>), the cipher,
  and the equivalent inverse cipher of section 5.3.5. Nothing here models the repository.
\<close>

definition affine :: "u8 \<Rightarrow> u8" where
  "affine y = y XOR word_rotl 1 y XOR word_rotl 2 y XOR word_rotl 3 y XOR word_rotl 4 y XOR 0x63"

definition fips_sbox :: "u8 \<Rightarrow> u8" where
  "fips_sbox x = affine (gf_inv x)"

definition at_rc :: "u8 list \<Rightarrow> nat \<Rightarrow> nat \<Rightarrow> u8" where
  "at_rc s r c = s ! (4 * c + r)"

definition of_rc :: "(nat \<Rightarrow> nat \<Rightarrow> u8) \<Rightarrow> u8 list" where
  "of_rc f = map (\<lambda>k. f (k mod 4) (k div 4)) [0..<16]"

definition fips_sub_bytes :: "u8 list \<Rightarrow> u8 list" where
  "fips_sub_bytes s = of_rc (\<lambda>r c. fips_sbox (at_rc s r c))"

definition fips_shift_rows :: "u8 list \<Rightarrow> u8 list" where
  "fips_shift_rows s = of_rc (\<lambda>r c. at_rc s r ((c + r) mod 4))"

definition fips_inv_shift_rows :: "u8 list \<Rightarrow> u8 list" where
  "fips_inv_shift_rows s = of_rc (\<lambda>r c. at_rc s r ((c + 4 - r) mod 4))"

text \<open>Column mixing by a circulant matrix whose first row is \<open>m\<close>.\<close>

definition fips_mix :: "u8 list \<Rightarrow> u8 list \<Rightarrow> u8 list" where
  "fips_mix m s = of_rc (\<lambda>r c.
     gf_mul (m ! ((4 - r) mod 4)) (at_rc s 0 c) XOR gf_mul (m ! ((5 - r) mod 4)) (at_rc s 1 c) XOR
     gf_mul (m ! ((6 - r) mod 4)) (at_rc s 2 c) XOR gf_mul (m ! ((7 - r) mod 4)) (at_rc s 3 c))"

definition fips_mix_columns :: "u8 list \<Rightarrow> u8 list" where
  "fips_mix_columns = fips_mix [2, 3, 1, 1]"

definition fips_inv_mix_columns :: "u8 list \<Rightarrow> u8 list" where
  "fips_inv_mix_columns = fips_mix [14, 11, 13, 9]"

definition fips_add_round_key :: "u8 list \<Rightarrow> u8 list \<Rightarrow> u8 list" where
  "fips_add_round_key s k = of_rc (\<lambda>r c. at_rc s r c XOR at_rc k r c)"

text \<open>The key schedule is a list of 32-bit words; a round key is four of them, each word
  being a column with its most significant byte in row 0.\<close>

definition be_bytes :: "u32 \<Rightarrow> u8 list" where
  "be_bytes w = [ucast (drop_bit 24 w), ucast (drop_bit 16 w), ucast (drop_bit 8 w), ucast w]"

definition fips_round_key :: "u32 list \<Rightarrow> nat \<Rightarrow> u8 list" where
  "fips_round_key w i = concat (map be_bytes [w ! (4 * i), w ! (4 * i + 1), w ! (4 * i + 2), w ! (4 * i + 3)])"

section \<open>Rounds in general\<close>

text \<open>
  The structure shared by the cipher and its inverse: \<open>n\<close> middle rounds, each a step followed
  by the addition of a round key.
\<close>

fun run_rounds :: "('s \<Rightarrow> 's \<Rightarrow> 's) \<Rightarrow> ('s \<Rightarrow> 's) \<Rightarrow> 's list \<Rightarrow> 's \<Rightarrow> 's" where
  "run_rounds add step [] s = s"
| "run_rounds add step (k # ks) s = run_rounds add step ks (add (step s) k)"

definition block_cipher ::
    "('s \<Rightarrow> 's \<Rightarrow> 's) \<Rightarrow> ('s \<Rightarrow> 's) \<Rightarrow> ('s \<Rightarrow> 's) \<Rightarrow> 's \<Rightarrow> 's list \<Rightarrow> 's \<Rightarrow> 's \<Rightarrow> 's" where
  "block_cipher add step fin k0 ks kn s = add (fin (run_rounds add step ks (add s k0))) kn"

definition fips_cipher :: "nat \<Rightarrow> u32 list \<Rightarrow> u8 list \<Rightarrow> u8 list" where
  "fips_cipher Nr w = block_cipher fips_add_round_key
     (\<lambda>s. fips_mix_columns (fips_shift_rows (fips_sub_bytes s)))
     (\<lambda>s. fips_shift_rows (fips_sub_bytes s))
     (fips_round_key w 0) (map (fips_round_key w) [1..<Nr]) (fips_round_key w Nr)"

lemma run_rounds_append:
  "run_rounds add step (ks @ ls) s = run_rounds add step ls (run_rounds add step ks s)"
  by (induction ks arbitrary: s) simp_all

text \<open>
  The interface of the equivalent inverse cipher: six transformations of a state and the key
  addition, with the laws FIPS 197 section 5.3.5 relies on. On them a cipher that runs the
  inverse transformations in the same order, with the middle round keys reversed and passed
  through the inverse column mix, undoes the forward one, for any number of rounds.
\<close>

locale round_transformations =
  fixes add :: "'s \<Rightarrow> 's \<Rightarrow> 's"
    and sub isub shift ishift mix imix :: "'s \<Rightarrow> 's"
    and wf :: "'s \<Rightarrow> bool"
  assumes wf_add: "wf a \<Longrightarrow> wf k \<Longrightarrow> wf (add a k)"
    and wf_sub: "wf a \<Longrightarrow> wf (sub a)"
    and wf_shift: "wf a \<Longrightarrow> wf (shift a)"
    and wf_mix: "wf a \<Longrightarrow> wf (mix a)"
    and add_cancel: "wf a \<Longrightarrow> wf k \<Longrightarrow> add (add a k) k = a"
    and isub_sub: "wf a \<Longrightarrow> isub (sub a) = a"
    and ishift_shift: "wf a \<Longrightarrow> ishift (shift a) = a"
    and imix_mix: "wf a \<Longrightarrow> imix (mix a) = a"
    and imix_add: "wf a \<Longrightarrow> wf k \<Longrightarrow> imix (add a k) = add (imix a) (imix k)"
    and wf_imix: "wf a \<Longrightarrow> wf (imix a)"
    and isub_shift: "wf a \<Longrightarrow> isub (shift a) = shift (isub a)"
begin

lemma wf_run:
  "list_all wf ks \<Longrightarrow> wf s \<Longrightarrow> wf (run_rounds add (\<lambda>s. mix (shift (sub s))) ks s)"
  by (induction ks arbitrary: s) (simp_all add: wf_add wf_mix wf_shift wf_sub)

lemma inverse_step:
  assumes "wf s"
  shows "ishift (isub (shift (sub s))) = s"
  using assms by (simp add: isub_shift isub_sub ishift_shift wf_sub)

lemma inverse_rounds:
  assumes "list_all wf ks" and "wf s"
  shows "run_rounds add (\<lambda>s. imix (ishift (isub s))) (map imix (rev ks))
           (shift (sub (run_rounds add (\<lambda>s. mix (shift (sub s))) ks s))) = shift (sub s)"
  using assms
proof (induction ks arbitrary: s rule: rev_induct)
  case Nil
  then show ?case by simp
next
  case (snoc k ks)
  let ?s = "run_rounds add (\<lambda>s. mix (shift (sub s))) ks s"
  let ?m = "shift (sub ?s)"
  from snoc.prems have k: "wf k" and ks: "list_all wf ks" and s: "wf ?s"
    by (simp_all add: wf_run)
  then have m: "wf ?m" by (simp add: wf_shift wf_sub)
  have "add (imix (ishift (isub (shift (sub (add (mix ?m) k)))))) (imix k) = ?m"
    using k m by (simp add: inverse_step wf_add wf_mix imix_add imix_mix add_cancel wf_imix)
  then show ?case
    using snoc.IH [OF ks snoc.prems(2)] by (simp add: run_rounds_append)
qed

lemma decrypt_encrypt:
  assumes "wf k0" and "list_all wf ks" and "wf kn" and "wf p"
  shows "block_cipher add (\<lambda>s. imix (ishift (isub s))) (\<lambda>s. ishift (isub s))
           kn (map imix (rev ks)) k0
           (block_cipher add (\<lambda>s. mix (shift (sub s))) (\<lambda>s. shift (sub s)) k0 ks kn p) = p"
proof -
  have p: "wf (add p k0)" using assms by (simp add: wf_add)
  then have "wf (shift (sub (run_rounds add (\<lambda>s. mix (shift (sub s))) ks (add p k0))))"
    using assms(2) by (simp add: wf_run wf_shift wf_sub)
  then show ?thesis
    using assms p by (simp add: block_cipher_def add_cancel inverse_rounds inverse_step)
qed

end

end
