(* ===== verification/Aes_Sbox.thy ===== *)
theory Aes_Sbox
  imports Aes_Simd Aes_Fips
begin

text \<open>
  The two S-box tables of \<open>Aes_Simd\<close> are the S-box of FIPS 197 (the affine image of the
  field inverse) and its inverse, checked entry by entry.
\<close>

definition inv_affine :: "u8 \<Rightarrow> u8" where
  "inv_affine y = word_rotl 1 y XOR word_rotl 3 y XOR word_rotl 6 y XOR 0x05"

definition sbox_entry_ok :: "u8 \<Rightarrow> u8 \<Rightarrow> bool" where
  "sbox_entry_ok x s \<longleftrightarrow>
     affine (inv_affine s) = s \<and> gf_mul x (inv_affine s) = (if x = 0 then 0 else 1) \<and>
     (x = 0 \<longrightarrow> inv_affine s = 0)"

lemma sbox_entries_1:
  "list_all2 sbox_entry_ok (map word_of_nat [0..<64]) (take 64 AES_SBOX)"
  by code_simp

lemma sbox_entries_2:
  "list_all2 sbox_entry_ok (map word_of_nat [64..<128]) (take 64 (drop 64 AES_SBOX))"
  by code_simp

lemma sbox_entries_3:
  "list_all2 sbox_entry_ok (map word_of_nat [128..<192]) (take 64 (drop 128 AES_SBOX))"
  by code_simp

lemma sbox_entries_4:
  "list_all2 sbox_entry_ok (map word_of_nat [192..<256]) (drop 192 AES_SBOX)"
  by code_simp

lemma length_AES_SBOX [simp]: "length AES_SBOX = 256"
  by (simp add: AES_SBOX_def)

lemma length_AES_INV_SBOX [simp]: "length AES_INV_SBOX = 256"
  by (simp add: AES_INV_SBOX_def)

lemma sbox_entries: "list_all2 sbox_entry_ok (map word_of_nat [0..<256]) AES_SBOX"
proof -
  have l: "[0..<256] = [0..<64] @ [64..<128] @ [128..<192] @ [192..<(256::nat)]"
    using upt_add_eq_append [of 0 64 192] upt_add_eq_append [of 64 128 128]
      upt_add_eq_append [of 128 192 64] by simp
  have r: "AES_SBOX = take 64 AES_SBOX @ take 64 (drop 64 AES_SBOX) @
             take 64 (drop 128 AES_SBOX) @ drop 192 AES_SBOX"
    by (simp add: AES_SBOX_def)
  show ?thesis
    unfolding l by (subst r) (intro list_all2_appendI sbox_entries_1 sbox_entries_2
      sbox_entries_3 sbox_entries_4 | simp only: map_append)+
qed

lemma unat_u8_less [simp]: "unat (x::u8) < 256"
  using unsigned_less [of x] by simp

lemma sbox_entry: "sbox_entry_ok x (AES_SBOX ! unat x)"
  using list_all2_nthD [OF sbox_entries, of "unat x"] by simp

lemma sbox_fips: "AES_SBOX ! unat x = fips_sbox x"
proof (cases "x = 0")
  case True
  then show ?thesis
    using sbox_entry [of x] by (auto simp: sbox_entry_ok_def fips_sbox_def gf_inv_0)
next
  case False
  then have "gf_mul x (inv_affine (AES_SBOX ! unat x)) = 1"
    and a: "affine (inv_affine (AES_SBOX ! unat x)) = AES_SBOX ! unat x"
    using sbox_entry [of x] by (simp_all add: sbox_entry_ok_def)
  then have "gf_inv x = inv_affine (AES_SBOX ! unat x)" by (intro gf_inv_eq)
  with a show ?thesis by (simp add: fips_sbox_def)
qed

lemma inv_sbox_table: "map ((!) AES_INV_SBOX \<circ> unat) AES_SBOX = map word_of_nat [0..<256]"
  by (simp add: AES_SBOX_def AES_INV_SBOX_def upt_conv_Cons)

lemma sbox_inv_table: "map ((!) AES_SBOX \<circ> unat) AES_INV_SBOX = map word_of_nat [0..<256]"
  by (simp add: AES_SBOX_def AES_INV_SBOX_def upt_conv_Cons)

lemma inv_sbox_sbox: "AES_INV_SBOX ! unat (AES_SBOX ! unat x) = x"
  using arg_cong [OF inv_sbox_table, of "\<lambda>l. l ! unat x"] by simp

lemma sbox_inv_sbox: "AES_SBOX ! unat (AES_INV_SBOX ! unat x) = x"
  using arg_cong [OF sbox_inv_table, of "\<lambda>l. l ! unat x"] by simp

end
