(* ===== verification/Aes_Correct.thy ===== *)
theory Aes_Correct
  imports Aes_Sbox
begin

text \<open>
  The block functions of \<open>Aes_Simd\<close> against the reference of \<open>Aes_Fips\<close>: each SIMD
  transformation is the reference one, the encryption loop is the FIPS cipher for every
  number of rounds the wrapper lets through, and decryption with the reversed key schedule
  undoes it.
\<close>

section \<open>The transformations\<close>

lemma of_rc_list: "of_rc f =
    [f 0 0, f 1 0, f 2 0, f 3 0, f 0 1, f 1 1, f 2 1, f 3 1,
     f 0 2, f 1 2, f 2 2, f 3 2, f 0 3, f 1 3, f 2 3, f 3 3]"
proof -
  have "[0..<16] = [0, 1, 2, 3, 4, 5, 6, 7, 8, 9, 10, 11, 12, 13, 14, 15::nat]" by code_simp
  then show ?thesis by (simp add: of_rc_def)
qed

lemmas simd_defs = wasm_i8x16_shuffle_def wasm_v128_xor_def wasm_v128_and_def
  wasm_i8x16_shl_def wasm_u8x16_gt_def wasm_u8x16_splat_def

lemma aes_sub_bytes_fips: "length s = 16 \<Longrightarrow> aes_sub_bytes s = fips_sub_bytes s"
  by (auto simp: length_16_conv aes_sub_bytes_def fips_sub_bytes_def of_rc_list at_rc_def sbox_fips)

lemma aes_shift_rows_fips: "length s = 16 \<Longrightarrow> aes_shift_rows s = fips_shift_rows s"
  by (auto simp: length_16_conv aes_shift_rows_def fips_shift_rows_def of_rc_list at_rc_def simd_defs)

lemma aes_inv_shift_rows_fips: "length s = 16 \<Longrightarrow> aes_inv_shift_rows s = fips_inv_shift_rows s"
  by (auto simp: length_16_conv aes_inv_shift_rows_def fips_inv_shift_rows_def of_rc_list at_rc_def simd_defs)

lemma replicate_16: "replicate 16 x = [x, x, x, x, x, x, x, x, x, x, x, x, x, x, x, x]"
  by (simp add: numeral_eq_Suc)

lemma aes_xtime_bytes: "length s = 16 \<Longrightarrow> aes_xtime s = map xtime8 s"
  by (auto simp: length_16_conv aes_xtime_def xtime8_def simd_defs Let_def replicate_16)

lemma aes_mix_columns_fips: "length s = 16 \<Longrightarrow> aes_mix_columns s = fips_mix_columns s"
  by (auto simp: length_16_conv aes_mix_columns_def aes_xtime_bytes fips_mix_columns_def fips_mix_def
      of_rc_list at_rc_def rot_col_1_def rot_col_2_def rot_col_3_def simd_defs gf_mul_consts xor_ac)

lemma aes_inv_mix_columns_fips: "length s = 16 \<Longrightarrow> aes_inv_mix_columns s = fips_inv_mix_columns s"
  by (auto simp: length_16_conv aes_inv_mix_columns_def aes_mix_columns_def aes_xtime_bytes
      fips_inv_mix_columns_def fips_mix_def of_rc_list at_rc_def rot_col_1_def rot_col_2_def
      rot_col_3_def simd_defs gf_mul_consts xtime8_xor xor_ac Let_def)


section \<open>Their inverses\<close>

lemma length_of_rc [simp]: "length (of_rc f) = 16"
  by (simp add: of_rc_def)

lemma length_fips [simp]:
  "length (fips_sub_bytes s) = 16" "length (fips_shift_rows s) = 16"
  "length (fips_inv_shift_rows s) = 16" "length (fips_mix_columns s) = 16"
  "length (fips_inv_mix_columns s) = 16" "length (fips_add_round_key s k) = 16"
  by (simp_all add: fips_sub_bytes_def fips_shift_rows_def fips_inv_shift_rows_def
      fips_mix_columns_def fips_inv_mix_columns_def fips_mix_def fips_add_round_key_def)

lemma length_aes_inv_sub_bytes [simp]: "length (aes_inv_sub_bytes s) = length s"
  by (simp add: aes_inv_sub_bytes_def)

lemma length_xor [simp]: "length s = 16 \<Longrightarrow> length k = 16 \<Longrightarrow> length (wasm_v128_xor s k) = 16"
  by (simp add: wasm_v128_xor_def)

lemma xor_fips: "length s = 16 \<Longrightarrow> length k = 16 \<Longrightarrow> wasm_v128_xor s k = fips_add_round_key s k"
  by (auto simp: length_16_conv wasm_v128_xor_def fips_add_round_key_def of_rc_list at_rc_def)

lemma xor_cancel_v128: "length s = 16 \<Longrightarrow> length k = 16 \<Longrightarrow> wasm_v128_xor (wasm_v128_xor s k) k = s"
  by (auto simp: length_16_conv wasm_v128_xor_def)

lemma inv_sub_sub: "aes_inv_sub_bytes (aes_sub_bytes s) = s"
  by (simp add: aes_inv_sub_bytes_def aes_sub_bytes_def comp_def inv_sbox_sbox)

lemma inv_shift_shift: "length s = 16 \<Longrightarrow> aes_inv_shift_rows (aes_shift_rows s) = s"
  by (auto simp: length_16_conv aes_shift_rows_def aes_inv_shift_rows_def simd_defs)

lemma inv_sub_shift: "length s = 16 \<Longrightarrow>
    aes_inv_sub_bytes (aes_shift_rows s) = aes_shift_rows (aes_inv_sub_bytes s)"
  by (auto simp: length_16_conv aes_shift_rows_def aes_inv_sub_bytes_def simd_defs)

text \<open>One byte of a mixed column, and of an inversely mixed one.\<close>

definition mix_byte :: "u8 \<Rightarrow> u8 \<Rightarrow> u8 \<Rightarrow> u8 \<Rightarrow> u8" where
  "mix_byte a b c d = xtime8 a XOR xtime8 b XOR b XOR c XOR d"

definition inv_mix_byte :: "u8 \<Rightarrow> u8 \<Rightarrow> u8 \<Rightarrow> u8 \<Rightarrow> u8" where
  "inv_mix_byte a b c d = mix_byte a b c d XOR
     xtime8 (xtime8 (xtime8 (a XOR b XOR c XOR d))) XOR xtime8 (xtime8 (a XOR c))"

lemma aes_mix_columns_list:
  "aes_mix_columns [a, b, c, d, e, f, g, h, i, j, k, l, m, n, p, q] =
     [mix_byte a b c d, mix_byte b c d a, mix_byte c d a b, mix_byte d a b c,
      mix_byte e f g h, mix_byte f g h e, mix_byte g h e f, mix_byte h e f g,
      mix_byte i j k l, mix_byte j k l i, mix_byte k l i j, mix_byte l i j k,
      mix_byte m n p q, mix_byte n p q m, mix_byte p q m n, mix_byte q m n p]"
  by (simp add: aes_mix_columns_def aes_xtime_bytes rot_col_1_def rot_col_2_def rot_col_3_def
      simd_defs mix_byte_def Let_def xor.assoc)

lemma aes_inv_mix_columns_list:
  "aes_inv_mix_columns [a, b, c, d, e, f, g, h, i, j, k, l, m, n, p, q] =
     [inv_mix_byte a b c d, inv_mix_byte b c d a, inv_mix_byte c d a b, inv_mix_byte d a b c,
      inv_mix_byte e f g h, inv_mix_byte f g h e, inv_mix_byte g h e f, inv_mix_byte h e f g,
      inv_mix_byte i j k l, inv_mix_byte j k l i, inv_mix_byte k l i j, inv_mix_byte l i j k,
      inv_mix_byte m n p q, inv_mix_byte n p q m, inv_mix_byte p q m n, inv_mix_byte q m n p]"
  by (simp add: aes_inv_mix_columns_def aes_mix_columns_list aes_xtime_bytes rot_col_1_def
      rot_col_2_def rot_col_3_def simd_defs inv_mix_byte_def Let_def xor.assoc)

lemma inv_mix_byte_mix:
  "inv_mix_byte (mix_byte a b c d) (mix_byte b c d a) (mix_byte c d a b) (mix_byte d a b c) = a"
  by (simp add: inv_mix_byte_def mix_byte_def xtime8_xor xor_ac)

lemma inv_mix_byte_xor:
  "inv_mix_byte (a XOR a') (b XOR b') (c XOR c') (d XOR d') =
     inv_mix_byte a b c d XOR inv_mix_byte a' b' c' d'"
  by (simp add: inv_mix_byte_def mix_byte_def xtime8_xor xor_ac)

lemma inv_mix_mix: "length s = 16 \<Longrightarrow> aes_inv_mix_columns (aes_mix_columns s) = s"
  by (auto simp: length_16_conv aes_mix_columns_list aes_inv_mix_columns_list inv_mix_byte_mix)

lemma inv_mix_xor: "length s = 16 \<Longrightarrow> length k = 16 \<Longrightarrow>
    aes_inv_mix_columns (wasm_v128_xor s k) = wasm_v128_xor (aes_inv_mix_columns s) (aes_inv_mix_columns k)"
  by (auto simp: length_16_conv aes_inv_mix_columns_list wasm_v128_xor_def inv_mix_byte_xor)

lemma length_aes [simp]:
  "length s = 16 \<Longrightarrow> length (aes_sub_bytes s) = 16" "length s = 16 \<Longrightarrow> length (aes_shift_rows s) = 16"
  "length s = 16 \<Longrightarrow> length (aes_mix_columns s) = 16" "length s = 16 \<Longrightarrow> length (aes_inv_mix_columns s) = 16"
  "length s = 16 \<Longrightarrow> length (aes_inv_shift_rows s) = 16"
  by (simp_all add: aes_sub_bytes_fips aes_shift_rows_fips aes_mix_columns_fips
      aes_inv_mix_columns_fips aes_inv_shift_rows_fips)

interpretation aes: round_transformations wasm_v128_xor aes_sub_bytes aes_inv_sub_bytes
  aes_shift_rows aes_inv_shift_rows aes_mix_columns aes_inv_mix_columns "\<lambda>s. length s = 16"
  by unfold_locales
    (simp_all add: xor_cancel_v128 inv_sub_sub inv_shift_shift inv_sub_shift inv_mix_mix inv_mix_xor)


section \<open>Round keys\<close>

lemma length_le_bytes [simp]: "length (le_bytes w) = 4"
  by (simp add: le_bytes_def)

lemma drop_bytes: "drop (4 * n) (concat (map le_bytes ws)) = concat (map le_bytes (drop n ws))"
proof (induction n arbitrary: ws)
  case (Suc n)
  then show ?case by (cases ws) simp_all
qed simp

lemma take_bytes: "take (4 * n) (concat (map le_bytes ws)) = concat (map le_bytes (take n ws))"
proof (induction n arbitrary: ws)
  case (Suc n)
  then show ?case by (cases ws) simp_all
qed simp

lemma length_bytes: "length (concat (map le_bytes ws)) = 4 * length ws"
  by (induction ws) (simp_all add: le_bytes_def)

lemma take_4_drop:
  "n + 4 \<le> length ws \<Longrightarrow> take 4 (drop n ws) = [ws ! n, ws ! (n + 1), ws ! (n + 2), ws ! (n + 3)]"
  by (rule nth_equalityI) (auto simp: less_Suc_eq numeral_eq_Suc)

lemma load_round_key_fips:
  assumes "4 * i + 4 \<le> length (rd_key key)"
  shows "load_round_key (rd_key_bytes key) (16 * i) = Some (fips_round_key (rd_key key) i)"
proof -
  have "take 16 (drop (16 * i) (rd_key_bytes key)) =
      concat (map le_bytes (take 4 (drop (4 * i) (rd_key key))))"
    using drop_bytes [of "4 * i" "rd_key key"] take_bytes [of 4 "drop (4 * i) (rd_key key)"]
    by (simp add: rd_key_bytes_def)
  moreover have "16 * i + 16 \<le> length (rd_key_bytes key)"
    using assms by (simp add: rd_key_bytes_def length_bytes)
  ultimately show ?thesis
    using assms by (simp add: load_round_key_def wasm_v128_load_def take_4_drop le_bytes_def
        fips_round_key_def be_bytes_def wasm_i8x16_shuffle_def)
qed

lemma length_fips_round_key [simp]: "length (fips_round_key w i) = 16"
  by (simp add: fips_round_key_def be_bytes_def)

section \<open>The loops\<close>

text \<open>Both loops run the middle rounds with the round keys from the pointer on.\<close>

lemma aes_encrypt_loop_run:
  assumes "4 * (i + n) \<le> length (rd_key key)"
  shows "aes_encrypt_loop n (rd_key_bytes key) s (16 * i) =
    Some (run_rounds wasm_v128_xor (\<lambda>s. aes_mix_columns (aes_shift_rows (aes_sub_bytes s)))
            (map (fips_round_key (rd_key key)) [i..<i + n]) s, 16 * (i + n))"
  using assms
proof (induction n arbitrary: s i)
  case (Suc n)
  then show ?case
    using Suc.IH [of "Suc i"] Suc.prems
    by (simp add: load_round_key_fips Let_def upt_conv_Cons add.commute [of "16 * i" 16] del: upt_Suc)
qed simp

lemma aes_decrypt_loop_run:
  assumes "4 * (i + n) \<le> length (rd_key key)"
  shows "aes_decrypt_loop n (rd_key_bytes key) s (16 * i) =
    Some (run_rounds wasm_v128_xor (\<lambda>s. aes_inv_mix_columns (aes_inv_shift_rows (aes_inv_sub_bytes s)))
            (map (fips_round_key (rd_key key)) [i..<i + n]) s, 16 * (i + n))"
  using assms
proof (induction n arbitrary: s i)
  case (Suc n)
  then show ?case
    using Suc.IH [of "Suc i"] Suc.prems
    by (simp add: load_round_key_fips Let_def upt_conv_Cons add.commute [of "16 * i" 16] del: upt_Suc)
qed simp

definition aes_rounds_ok :: "aes_key \<Rightarrow> bool" where
  "aes_rounds_ok key \<longleftrightarrow> rounds key = 10 \<or> rounds key = 12 \<or> rounds key = 14"

lemma aes_rounds_nat:
  assumes "aes_rounds_ok key" and "aes_key_wf key"
  shows "1 \<le> nat (rounds key)" and "4 * nat (rounds key) + 4 \<le> length (rd_key key)"
    and "nat (rounds key - 1) = nat (rounds key) - 1"
  using assms by (auto simp: aes_rounds_ok_def aes_key_wf_def)

lemma aes_encrypt_simd_cipher:
  assumes "aes_rounds_ok key" and "aes_key_wf key"
  shows "aes_encrypt_simd p key = Some (block_cipher wasm_v128_xor
     (\<lambda>s. aes_mix_columns (aes_shift_rows (aes_sub_bytes s))) (\<lambda>s. aes_shift_rows (aes_sub_bytes s))
     (fips_round_key (rd_key key) 0) (map (fips_round_key (rd_key key)) [1..<nat (rounds key)])
     (fips_round_key (rd_key key) (nat (rounds key))) p)"
  using aes_rounds_nat [OF assms] load_round_key_fips [of 0 key]
    aes_encrypt_loop_run [of 1 "nat (rounds key) - 1" key]
  by (simp add: aes_encrypt_simd_def block_cipher_def load_round_key_fips Let_def)

lemma aes_decrypt_simd_cipher:
  assumes "aes_rounds_ok key" and "aes_key_wf key"
  shows "aes_decrypt_simd p key = Some (block_cipher wasm_v128_xor
     (\<lambda>s. aes_inv_mix_columns (aes_inv_shift_rows (aes_inv_sub_bytes s)))
     (\<lambda>s. aes_inv_shift_rows (aes_inv_sub_bytes s))
     (fips_round_key (rd_key key) 0) (map (fips_round_key (rd_key key)) [1..<nat (rounds key)])
     (fips_round_key (rd_key key) (nat (rounds key))) p)"
  using aes_rounds_nat [OF assms] load_round_key_fips [of 0 key]
    aes_decrypt_loop_run [of 1 "nat (rounds key) - 1" key]
  by (simp add: aes_decrypt_simd_def block_cipher_def load_round_key_fips Let_def)

lemma run_rounds_fips:
  assumes "list_all (\<lambda>k. length k = 16) ks" and "length s = 16"
  shows "run_rounds wasm_v128_xor (\<lambda>s. aes_mix_columns (aes_shift_rows (aes_sub_bytes s))) ks s =
    run_rounds fips_add_round_key (\<lambda>s. fips_mix_columns (fips_shift_rows (fips_sub_bytes s))) ks s"
  using assms
  by (induction ks arbitrary: s)
    (simp_all add: xor_fips aes_sub_bytes_fips aes_shift_rows_fips aes_mix_columns_fips)

lemma aes_encrypt_simd_fips:
  assumes "aes_rounds_ok key" and "aes_key_wf key" and "length p = 16"
  shows "aes_encrypt_simd p key = Some (fips_cipher (nat (rounds key)) (rd_key key) p)"
proof -
  let ?ks = "map (fips_round_key (rd_key key)) [1..<nat (rounds key)]"
  let ?p = "wasm_v128_xor p (fips_round_key (rd_key key) 0)"
  have ks: "list_all (\<lambda>k. length k = 16) ?ks" by (simp add: list_all_iff)
  have "length (run_rounds wasm_v128_xor (\<lambda>s. aes_mix_columns (aes_shift_rows (aes_sub_bytes s))) ?ks ?p) = 16"
    by (rule aes.wf_run) (use ks assms(3) in simp_all)
  then show ?thesis
    using assms ks
    by (simp add: aes_encrypt_simd_cipher fips_cipher_def block_cipher_def run_rounds_fips
        aes_sub_bytes_fips aes_shift_rows_fips xor_fips)
qed

section \<open>Decryption keys\<close>

text \<open>
  What OpenSSL's \<open>AES_set_decrypt_key\<close> leaves in an \<open>AES_KEY\<close> (FIPS 197, 5.3.5): the round
  keys of the encryption schedule in reverse, the middle ones passed through InvMixColumns.
\<close>

definition decrypt_schedule_of :: "aes_key \<Rightarrow> aes_key \<Rightarrow> bool" where
  "decrypt_schedule_of ek dk \<longleftrightarrow>
     (let n = nat (rounds ek) in
      rounds dk = rounds ek \<and>
      fips_round_key (rd_key dk) 0 = fips_round_key (rd_key ek) n \<and>
      fips_round_key (rd_key dk) n = fips_round_key (rd_key ek) 0 \<and>
      list_all (\<lambda>i. fips_round_key (rd_key dk) i =
                    fips_inv_mix_columns (fips_round_key (rd_key ek) (n - i))) [1..<n])"

lemma rev_upt_map: "rev (map f [1..<n]) = map (\<lambda>i. f (n - i)) [1..<n]"
  by (rule nth_equalityI) (auto simp: rev_nth Suc_diff_Suc)

lemma decrypt_keys:
  assumes "decrypt_schedule_of ek dk"
  shows "map (fips_round_key (rd_key dk)) [1..<nat (rounds ek)] =
    map aes_inv_mix_columns (rev (map (fips_round_key (rd_key ek)) [1..<nat (rounds ek)]))"
  using assms unfolding rev_upt_map
  by (auto simp: decrypt_schedule_of_def Let_def list_all_iff aes_inv_mix_columns_fips)

lemma aes_decrypt_encrypt:
  assumes "aes_rounds_ok ek" and "aes_key_wf ek" and "aes_key_wf dk"
    and "decrypt_schedule_of ek dk" and "length p = 16"
  shows "Option.bind (aes_encrypt_simd p ek) (\<lambda>c. aes_decrypt_simd c dk) = Some p"
proof -
  let ?n = "nat (rounds ek)" and ?k = "fips_round_key (rd_key ek)"
  have dk: "aes_rounds_ok dk" "rounds dk = rounds ek" "fips_round_key (rd_key dk) 0 = ?k ?n"
    "fips_round_key (rd_key dk) ?n = ?k 0"
    using assms(1,4) by (simp_all add: decrypt_schedule_of_def aes_rounds_ok_def Let_def)
  have ks: "list_all (\<lambda>k. length k = 16) (map ?k [1..<?n])" by (simp add: list_all_iff)
  show ?thesis
    using aes.decrypt_encrypt [of "?k 0" "map ?k [1..<?n]" "?k ?n" p] ks assms dk
    by (simp add: aes_encrypt_simd_cipher aes_decrypt_simd_cipher decrypt_keys del: One_nat_def)
qed

section \<open>Properties\<close>

text \<open>The AES-128 example of FIPS 197, appendix C.1: plaintext, ciphertext and schedules.\<close>

definition kat_plain :: "u8 list" where
  "kat_plain = [0x00, 0x11, 0x22, 0x33, 0x44, 0x55, 0x66, 0x77, 0x88, 0x99, 0xaa, 0xbb, 0xcc, 0xdd, 0xee, 0xff]"

definition kat_cipher :: "u8 list" where
  "kat_cipher = [0x69, 0xc4, 0xe0, 0xd8, 0x6a, 0x7b, 0x04, 0x30, 0xd8, 0xcd, 0xb7, 0x80, 0x70, 0xb4, 0xc5, 0x5a]"

definition kat_ek :: aes_key where
  "kat_ek = \<lparr> rd_key =
    [0x00010203, 0x04050607, 0x08090a0b, 0x0c0d0e0f,
     0xd6aa74fd, 0xd2af72fa, 0xdaa678f1, 0xd6ab76fe,
     0xb692cf0b, 0x643dbdf1, 0xbe9bc500, 0x6830b3fe,
     0xb6ff744e, 0xd2c2c9bf, 0x6c590cbf, 0x0469bf41,
     0x47f7f7bc, 0x95353e03, 0xf96c32bc, 0xfd058dfd,
     0x3caaa3e8, 0xa99f9deb, 0x50f3af57, 0xadf622aa,
     0x5e390f7d, 0xf7a69296, 0xa7553dc1, 0x0aa31f6b,
     0x14f9701a, 0xe35fe28c, 0x440adf4d, 0x4ea9c026,
     0x47438735, 0xa41c65b9, 0xe016baf4, 0xaebf7ad2,
     0x549932d1, 0xf0855768, 0x1093ed9c, 0xbe2c974e,
     0x13111d7f, 0xe3944a17, 0xf307a78b, 0x4d2b30c5,
     0x00000000, 0x00000000, 0x00000000, 0x00000000,
     0x00000000, 0x00000000, 0x00000000, 0x00000000,
     0x00000000, 0x00000000, 0x00000000, 0x00000000,
     0x00000000, 0x00000000, 0x00000000, 0x00000000],
    rounds = 10 \<rparr>"

definition kat_dk :: aes_key where
  "kat_dk = \<lparr> rd_key =
    [0x13111d7f, 0xe3944a17, 0xf307a78b, 0x4d2b30c5,
     0x13aa29be, 0x9c8faff6, 0xf770f580, 0x00f7bf03,
     0x1362a463, 0x8f258648, 0x6bff5a76, 0xf7874a83,
     0x8d82fc74, 0x9c47222b, 0xe4dadc3e, 0x9c7810f5,
     0x72e3098d, 0x11c5de5f, 0x789dfe15, 0x78a2cccb,
     0x2ec41027, 0x6326d7d2, 0x6958204a, 0x003f32de,
     0xa8a2f504, 0x4de2c7f5, 0x0a7ef798, 0x69671294,
     0xc7c6e391, 0xe54032f1, 0x479c306d, 0x6319e50c,
     0xa0db0299, 0x2286d160, 0xa2dc029c, 0x2485d561,
     0x8c56dff0, 0x825dd3f9, 0x805ad3fc, 0x8659d7fd,
     0x00010203, 0x04050607, 0x08090a0b, 0x0c0d0e0f,
     0x00000000, 0x00000000, 0x00000000, 0x00000000,
     0x00000000, 0x00000000, 0x00000000, 0x00000000,
     0x00000000, 0x00000000, 0x00000000, 0x00000000,
     0x00000000, 0x00000000, 0x00000000, 0x00000000],
    rounds = 10 \<rparr>"


text \<open>A schedule cut into its round keys, for evaluation.\<close>

fun chunk4 :: "u32 list \<Rightarrow> u8 list list" where
  "chunk4 (a # b # c # d # r) = (be_bytes a @ be_bytes b @ be_bytes c @ be_bytes d) # chunk4 r"
| "chunk4 _ = []"

lemma nth_chunk4: "4 * i + 3 < length w \<Longrightarrow> chunk4 w ! i = fips_round_key w i"
proof (induction w arbitrary: i rule: chunk4.induct)
  case (1 a b c d r)
  then show ?case by (cases i) (simp_all add: fips_round_key_def numeral_eq_Suc)
qed simp_all

lemma kat_middle_chunks:
  "map aes_inv_mix_columns (take 9 (drop 1 (chunk4 (rd_key kat_ek)))) =
     rev (take 9 (drop 1 (chunk4 (rd_key kat_dk))))"
  by code_simp

lemma kat_lengths [simp]:
  "length (rd_key kat_ek) = 60" "length (rd_key kat_dk) = 60"
  "length (chunk4 (rd_key kat_ek)) = 15" "length (chunk4 (rd_key kat_dk)) = 15"
  by (code_simp+)

lemma kat_middle_keys:
  assumes "0 < i" and "i < 10"
  shows "fips_round_key (rd_key kat_dk) i = aes_inv_mix_columns (fips_round_key (rd_key kat_ek) (10 - i))"
proof -
  have "aes_inv_mix_columns (chunk4 (rd_key kat_ek) ! (10 - i)) = chunk4 (rd_key kat_dk) ! i"
    using arg_cong [OF kat_middle_chunks, of "\<lambda>l. l ! (9 - i)"] assms Suc_diff_le [of i 9]
    by (simp add: rev_nth Suc_diff_Suc)
  then show ?thesis
    using assms by (simp add: nth_chunk4)
qed

lemma kat_outer_keys:
  "rounds kat_ek = 10" "rounds kat_dk = 10"
  "fips_round_key (rd_key kat_dk) 0 = fips_round_key (rd_key kat_ek) 10"
  "fips_round_key (rd_key kat_dk) 10 = fips_round_key (rd_key kat_ek) 0"
  by (code_simp+)

text \<open>C1: For every key structure OpenSSL can pass (60 round-key words) and every
  16-byte block, the AES_encrypt wrapper returns exactly the FIPS 197 cipher of the block
  under the key schedule when the build has SIMD and the round count is 10, 12 or 14 (all
  its round-key loads stay inside the structure), and otherwise it is OpenSSL's own function.\<close>

theorem aes_wrapper_encrypts_fips:
  assumes "aes_key_wf key" and "length p = 16"
  shows "wrap_AES_encrypt simd128 real p key =
    (if simd128 \<and> rounds key \<in> {10, 12, 14}
     then Some (fips_cipher (nat (rounds key)) (rd_key key) p) else real p key)"
  using assms aes_encrypt_simd_fips [of key p] by (auto simp: wrap_AES_encrypt_def aes_rounds_ok_def)

theorem aes_wrapper_encrypts_fips_witness:
  "wrap_AES_encrypt True (\<lambda>_ _. None) kat_plain kat_ek = Some (fips_cipher 10 (rd_key kat_ek) kat_plain)
   \<and> wrap_AES_encrypt True (\<lambda>_ _. None) kat_plain kat_ek = Some kat_cipher"
proof
  show "wrap_AES_encrypt True (\<lambda>_ _. None) kat_plain kat_ek = Some (fips_cipher 10 (rd_key kat_ek) kat_plain)"
    by (subst aes_wrapper_encrypts_fips) (simp_all add: aes_key_wf_def kat_ek_def kat_plain_def)
  show "wrap_AES_encrypt True (\<lambda>_ _. None) kat_plain kat_ek = Some kat_cipher"
    by code_simp
qed

text \<open>C2: With a decryption key laid out as OpenSSL's AES_set_decrypt_key does, the
  AES_decrypt wrapper of a SIMD build returns the block the AES_encrypt wrapper enciphered,
  for all three key sizes.\<close>

theorem aes_wrapper_decrypts:
  assumes "rounds ek \<in> {10, 12, 14}" and "aes_key_wf ek" and "aes_key_wf dk"
    and "decrypt_schedule_of ek dk" and "length p = 16"
  shows "Option.bind (wrap_AES_encrypt True real_enc p ek) (\<lambda>c. wrap_AES_decrypt True real_dec c dk) = Some p"
proof -
  have "rounds dk = rounds ek" using assms(4) by (simp add: decrypt_schedule_of_def Let_def)
  then show ?thesis
    using assms aes_decrypt_encrypt [of ek dk p]
    by (auto simp: aes_rounds_ok_def wrap_AES_encrypt_def wrap_AES_decrypt_def)
qed

theorem aes_wrapper_decrypts_witness:
  "Option.bind (wrap_AES_encrypt True (\<lambda>_ _. None) kat_plain kat_ek)
     (\<lambda>c. wrap_AES_decrypt True (\<lambda>_ _. None) c kat_dk) = Some kat_plain"
proof (rule aes_wrapper_decrypts)
  show "decrypt_schedule_of kat_ek kat_dk"
    using kat_middle_keys kat_outer_keys
    by (simp add: decrypt_schedule_of_def aes_inv_mix_columns_fips list_all_iff Let_def)
qed (simp_all add: aes_key_wf_def kat_ek_def kat_dk_def kat_plain_def)

text \<open>The forward S-box table is the FIPS 197 substitution (inverse in GF(2^8), then the
  affine map) at every byte, and the two tables are mutually inverse.\<close>

theorem aes_sboxes:
  "AES_SBOX ! unat x = fips_sbox x \<and> AES_INV_SBOX ! unat (AES_SBOX ! unat x) = x \<and>
   AES_SBOX ! unat (AES_INV_SBOX ! unat x) = x"
  by (intro conjI sbox_fips inv_sbox_sbox sbox_inv_sbox)

text \<open>On every 16-byte state the SIMD InvMixColumns, computed as MixColumns plus a
  correction, is multiplication by the FIPS 197 inverse matrix (14, 11, 13, 9), and it undoes
  the SIMD MixColumns.\<close>

theorem aes_inv_mix_columns_fips_inverse:
  assumes "length s = 16"
  shows "aes_inv_mix_columns s = fips_mix [14, 11, 13, 9] s \<and>
    aes_inv_mix_columns (aes_mix_columns s) = s"
  using assms inv_mix_mix [of s] aes_inv_mix_columns_fips [of s]
  unfolding fips_inv_mix_columns_def by blast

theorem aes_inv_mix_columns_fips_inverse_witness:
  "aes_inv_mix_columns kat_plain = fips_mix [14, 11, 13, 9] kat_plain \<and>
    aes_inv_mix_columns (aes_mix_columns kat_plain) = kat_plain"
  by (rule aes_inv_mix_columns_fips_inverse) (simp add: kat_plain_def)

end
