(* ===== verification/Glue.thy ===== *)
theory Glue
  imports Prelude "HOL-Library.Monad_Syntax"
begin

text \<open>
  The C environment in which the glue of \<open>src/*.c\<close> runs: OpenSSL and the allocator as an
  unknown library, a ledger of the objects that are live, and the helpers of
  \<open>src/include/support.h\<close> and \<open>src/include/algs.h\<close>.

  OpenSSL is not part of the repository, so its behaviour is a parameter: \<open>lib\<close> maps the
  history of calls made so far and the next call to its answer. A theorem that holds for
  every \<open>lib\<close> holds for whatever OpenSSL answers. The model runs the glue on explicit worlds
  and returns \<open>None\<close> when the C program stops: \<open>abort ()\<close>, or an access outside an array.
\<close>

section \<open>The library\<close>

text \<open>Pointers are numbers, \<open>NULL\<close> is 0. \<open>Mem\<close> is a block of \<open>malloc\<close>, \<open>Obj t\<close> an OpenSSL
  object of type \<open>t\<close>.\<close>

type_synonym ptr = nat

datatype kind = Mem | Obj string

text \<open>An entry of an \<open>OSSL_PARAM\<close> array, by the \<open>OSSL_PARAM_construct_\<close> function that makes
  it; the end marker is the end of the list.\<close>

datatype ossl_param =
    octet_string string "u8 list"
  | utf8_string string string
  | int_param string int
  | uint_param string nat
  | uint32_param string nat
  | uint64_param string nat
  | size_t_param string nat

datatype arg =
    Ptr ptr
  | Val int
  | Buf "u8 list"
  | Str string
  | Pars "ossl_param list"

text \<open>
  What a call answers: its integer result, whether the pointer it returns (if it returns one)
  is not \<open>NULL\<close>, the bytes it writes to its output buffer, the length it stores through
  its length argument, the strings (or \<open>NULL\<close>) and flags it stores through its other
  arguments, and the lines it passes to the key-log callback while it runs (a TLS call). A
  call uses the components its C prototype has.
\<close>

record answer =
  rc :: int
  granted :: bool
  written :: "u8 list"
  outl :: int
  text1 :: "u8 list option"
  text2 :: "u8 list option"
  flg :: int
  lines :: "u8 list list"

text \<open>An entry of the call log: function, arguments, and the pointer it returned (or 0).\<close>

datatype event = Ev string "arg list" ptr

text \<open>Which algorithm families OpenSSL was built without (the \<open>OPENSSL_NO_\<close> macros).\<close>

record build =
  no_blake2 :: bool
  no_rmd160 :: bool
  no_sm3 :: bool
  no_camellia :: bool
  no_aria :: bool
  no_sm4 :: bool

text \<open>\<open>strerr\<close> holds OpenSSL's constant tables of error strings, by table and code; \<open>statics\<close> the
  pointers in the \<open>static\<close> variables of the C files, by name.\<close>

record world =
  lib :: "event list \<Rightarrow> string \<Rightarrow> arg list \<Rightarrow> answer"
  strerr :: "string \<Rightarrow> nat \<Rightarrow> u8 list option"
  cfg :: build
  log :: "event list"
  live :: "ptr \<rightharpoonup> kind"
  nxt :: ptr
  fault :: bool
  statics :: "string \<Rightarrow> ptr"

type_synonym 'a outcome = "('a \<times> world) option"

text \<open>The fault flag records a use of an object that is not live: a use after free, a double
  free, or a free by the wrong function.\<close>

definition usable :: "world \<Rightarrow> arg \<Rightarrow> bool" where
  "usable w a = (case a of Ptr p \<Rightarrow> p = 0 \<or> live w p \<noteq> None | _ \<Rightarrow> True)"

definition record_call :: "string \<Rightarrow> arg list \<Rightarrow> ptr \<Rightarrow> world \<Rightarrow> world" where
  "record_call fn args p w = w\<lparr> log := log w @ [Ev fn args p],
     fault := fault w \<or> \<not> list_all (usable w) args \<rparr>"

definition ccall :: "string \<Rightarrow> arg list \<Rightarrow> world \<Rightarrow> answer outcome" where
  "ccall fn args w = Some (lib w (log w) fn args, record_call fn args 0 w)"

text \<open>A call that returns a new object, by value or through a pointer argument.\<close>

definition acquire :: "kind \<Rightarrow> string \<Rightarrow> arg list \<Rightarrow> world \<Rightarrow> (answer \<times> ptr) outcome" where
  "acquire k fn args w =
     (let a = lib w (log w) fn args in
      if granted a
      then Some ((a, nxt w), (record_call fn args (nxt w) w)
             \<lparr> live := (live w)(nxt w \<mapsto> k), nxt := Suc (nxt w) \<rparr>)
      else Some ((a, 0), record_call fn args 0 w))"

definition create :: "kind \<Rightarrow> string \<Rightarrow> arg list \<Rightarrow> world \<Rightarrow> ptr outcome" where
  "create k fn args w = do { ((a, p), w) \<leftarrow> acquire k fn args w; Some (p, w) }"

text \<open>Taking one more reference to a counted object cannot fail; the reference is an object of
  its own, which its owner has to free.\<close>

definition retain :: "kind \<Rightarrow> string \<Rightarrow> arg list \<Rightarrow> world \<Rightarrow> ptr outcome" where
  "retain k fn args w = Some (nxt w, (record_call fn args (nxt w) w)
     \<lparr> live := (live w)(nxt w \<mapsto> k), nxt := Suc (nxt w) \<rparr>)"

text \<open>An object that is freed together with another one, which owns it.\<close>

definition perish :: "ptr \<Rightarrow> kind \<Rightarrow> world \<Rightarrow> unit outcome" where
  "perish p k w = Some ((),
     if p = 0 then w
     else if live w p = Some k then w\<lparr> live := (live w)(p := None) \<rparr>
     else w\<lparr> fault := True \<rparr>)"

text \<open>A function that frees its argument; all of those the code calls accept \<open>NULL\<close>.\<close>

definition release :: "kind \<Rightarrow> string \<Rightarrow> ptr \<Rightarrow> world \<Rightarrow> unit outcome" where
  "release k fn p w =
     (let w' = record_call fn [Ptr p] 0 w in
      Some ((), if p = 0 then w'
                else if live w p = Some k then w'\<lparr> live := (live w)(p := None) \<rparr>
                else w'\<lparr> fault := True \<rparr>))"

text \<open>Reading or writing a field of the structure at \<open>p\<close>.\<close>

definition deref :: "ptr \<Rightarrow> world \<Rightarrow> unit outcome" where
  "deref p w = Some ((), w\<lparr> fault := fault w \<or> live w p = None \<rparr>)"

definition malloc :: "nat \<Rightarrow> world \<Rightarrow> ptr outcome" where
  "malloc n = create Mem ''malloc'' [Val (int n)]"

definition cfree :: "ptr \<Rightarrow> world \<Rightarrow> unit outcome" where
  "cfree = release Mem ''free''"

text \<open>\<open>realloc\<close> leaves the old block in place when it fails.\<close>

definition realloc :: "ptr \<Rightarrow> nat \<Rightarrow> world \<Rightarrow> ptr outcome" where
  "realloc p n w = do {
     (q, w) \<leftarrow> create Mem ''realloc'' [Ptr p, Val (int n)] w;
     if q = 0 then Some (0, w)
     else if p = 0 then Some (q, w)
     else if live w p = Some Mem then Some (q, w\<lparr> live := (live w)(p := None) \<rparr>)
     else Some (q, w\<lparr> fault := True \<rparr>) }"

text \<open>\<open>ERR_peek_last_error\<close> answers an \<open>unsigned long\<close>.\<close>

definition ERR_peek_last_error :: "world \<Rightarrow> nat outcome" where
  "ERR_peek_last_error w = do { (a, w) \<leftarrow> ccall ''ERR_peek_last_error'' [] w; Some (c_u32 (rc a), w) }"

text \<open>A string the library answers with, \<open>NULL\<close> counting as empty.\<close>

definition text_of :: "u8 list option \<Rightarrow> u8 list" where
  "text_of t = (case t of None \<Rightarrow> [] | Some s \<Rightarrow> s)"

section \<open>support.h\<close>

definition xmalloc :: "nat \<Rightarrow> world \<Rightarrow> ptr outcome" where
  "xmalloc n w = do {
     (p, w) \<leftarrow> malloc n w;
     if p = 0 \<and> n \<noteq> 0 then None else Some (p, w) }"

text \<open>An \<open>openssl_list_u8_t\<close> (or \<open>openssl_string_t\<close>) the code fills for the caller: the block
  it allocated, the length it set, and the bytes stored in the block.\<close>

record list_u8 =
  at :: ptr
  len :: nat
  bytes :: "u8 list"

definition list_u8_take :: "u8 list \<Rightarrow> world \<Rightarrow> list_u8 outcome" where
  "list_u8_take src w = do {
     (p, w) \<leftarrow> xmalloc (if length src \<noteq> 0 then length src else 1) w;
     Some (\<lparr> at = p, len = length src, bytes = src \<rparr>, w) }"

definition string_take :: "u8 list \<Rightarrow> world \<Rightarrow> list_u8 outcome" where
  "string_take src w = do {
     (p, w) \<leftarrow> xmalloc (if length src \<noteq> 0 then length src else 1) w;
     Some (\<lparr> at = p, len = length src, bytes = src \<rparr>, w) }"

section \<open>algs.h\<close>

text \<open>\<open>EVP_MD\<close> objects of the \<open>EVP_\<close> accessors are static; one is known by its accessor.\<close>

definition wit_digest_md :: "build \<Rightarrow> nat \<Rightarrow> string option" where
  "wit_digest_md B a =
     (if a = 0 then Some ''EVP_md5'' else if a = 1 then Some ''EVP_sha1''
      else if a = 2 then Some ''EVP_sha224'' else if a = 3 then Some ''EVP_sha256''
      else if a = 4 then Some ''EVP_sha384'' else if a = 5 then Some ''EVP_sha512''
      else if a = 6 then Some ''EVP_sha512_224'' else if a = 7 then Some ''EVP_sha512_256''
      else if a = 8 then Some ''EVP_sha3_224'' else if a = 9 then Some ''EVP_sha3_256''
      else if a = 10 then Some ''EVP_sha3_384'' else if a = 11 then Some ''EVP_sha3_512''
      else if a = 12 then Some ''EVP_shake128'' else if a = 13 then Some ''EVP_shake256''
      else if \<not> no_blake2 B \<and> a = 14 then Some ''EVP_blake2s256''
      else if \<not> no_blake2 B \<and> a = 15 then Some ''EVP_blake2b512''
      else if \<not> no_rmd160 B \<and> a = 16 then Some ''EVP_ripemd160''
      else if \<not> no_sm3 B \<and> a = 17 then Some ''EVP_sm3''
      else None)"

definition digest_names :: "string list" where
  "digest_names =
     [''MD5'', ''SHA1'', ''SHA2-224'', ''SHA2-256'', ''SHA2-384'', ''SHA2-512'',
      ''SHA2-512/224'', ''SHA2-512/256'', ''SHA3-224'', ''SHA3-256'', ''SHA3-384'', ''SHA3-512'',
      ''SHAKE-128'', ''SHAKE-256'', ''BLAKE2S-256'', ''BLAKE2B-512'', ''RIPEMD-160'', ''SM3'']"

definition wit_digest_name :: "nat \<Rightarrow> string option" where
  "wit_digest_name a = (if a < 18 then Some (digest_names ! a) else None)"

end
