(* ===== verification/Ledger.thy ===== *)
theory Ledger
  imports Glue "HOL-Library.Multiset"
begin

text \<open>
  Reasoning about the glue: weakest preconditions for the world-passing programs of \<open>Glue\<close>,
  and ledger triples, which say what a function does to the objects that are live, on every
  path and for every behaviour of the library. A proof runs the calculus forward: the rules of
  \<open>wp_elims\<close> carry the one fact \<open>reached\<close> over a primitive, those of \<open>wp_rules\<close> decompose the
  program text; the \<open>_first\<close> collections hold special cases to be tried before, and \<open>wp_known\<close>
  the rules for a test or an allocation whose outcome is an assumption. The locale \<open>owned_resource\<close> states the contract of a WIT resource
  (construct, borrow, drop) and derives that every session over it is balanced.
\<close>

named_theorems wp_rules
named_theorems wp_first
named_theorems wp_known
named_theorems wp_elims
named_theorems wp_elims_first
named_theorems ledger_simps

section \<open>Weakest preconditions\<close>

text \<open>\<open>wp S m Q\<close>: the run \<open>m\<close> stops only if \<open>S\<close>, and otherwise its result and final world
  satisfy \<open>Q\<close>.\<close>

definition wp :: "bool \<Rightarrow> 'a outcome \<Rightarrow> ('a \<Rightarrow> world \<Rightarrow> bool) \<Rightarrow> bool" where
  "wp S m Q = (case m of None \<Rightarrow> S | Some (a, w) \<Rightarrow> Q a w)"

definition grants :: "(event list \<Rightarrow> string \<Rightarrow> arg list \<Rightarrow> answer) \<Rightarrow> string \<Rightarrow> bool" where
  "grants L fn = (\<forall>h args. granted (L h fn args))"

text \<open>
  The loops that print the error queue end when \<open>ERR_get_error\<close> answers 0. OpenSSL keeps at most
  16 codes (\<open>ERR_NUM_ERRORS\<close>), so 17 calls are enough; \<open>drains\<close> says this of a library.
\<close>

fun queue_ends :: "nat \<Rightarrow> (event list \<Rightarrow> string \<Rightarrow> arg list \<Rightarrow> answer) \<Rightarrow> event list \<Rightarrow> bool" where
  "queue_ends 0 L h = False"
| "queue_ends (Suc n) L h =
     (let c = c_u32 (rc (L h ''ERR_get_error'' [])) in
      c = 0 \<or> queue_ends n L (h @ [Ev ''ERR_get_error'' [] 0, Ev ''ERR_error_string_n'' [Val (int c), Val 256] 0]))"

definition drains :: "(event list \<Rightarrow> string \<Rightarrow> arg list \<Rightarrow> answer) \<Rightarrow> bool" where
  "drains L = (\<forall>h. queue_ends 17 L h)"

text \<open>
  Other loops read objects from a source until it is exhausted. However far the history \<open>h\<close> has
  come, the source \<open>p\<close> has only finitely many objects left: after \<open>n\<close> more calls of the reader
  \<open>fn\<close> the loop's test \<open>stop\<close> holds.
\<close>

fun reads :: "string \<Rightarrow> ptr \<Rightarrow> event list \<Rightarrow> nat" where
  "reads fn p [] = 0"
| "reads fn p (Ev f as r # es) = (if f = fn \<and> as = [Ptr p] then 1 else 0) + reads fn p es"

definition runs_out :: "string \<Rightarrow> (event list \<Rightarrow> ptr \<Rightarrow> bool) \<Rightarrow> bool" where
  "runs_out fn stop = (\<forall>h p. \<exists>n. \<forall>t. n \<le> reads fn p t \<longrightarrow> stop (h @ t) p)"

definition store_ends :: "(event list \<Rightarrow> string \<Rightarrow> arg list \<Rightarrow> answer) \<Rightarrow> event list \<Rightarrow> ptr \<Rightarrow> bool" where
  "store_ends L h p = (rc (L h ''OSSL_STORE_eof'' [Ptr p]) \<noteq> 0)"

definition pem_ends :: "(event list \<Rightarrow> string \<Rightarrow> arg list \<Rightarrow> answer) \<Rightarrow> event list \<Rightarrow> ptr \<Rightarrow> bool" where
  "pem_ends L h p = (\<not> granted (L h ''PEM_read_bio_X509'' [Ptr p]))"

text \<open>A service of the library on which a run relies: an allocator, which may refuse; the error
  queue, a store or a list of certificates, which may have no end; the contents of a memory BIO and
  the encoding of a certificate, whose length may not be negative.\<close>

definition exceptional :: "(event list \<Rightarrow> string \<Rightarrow> arg list \<Rightarrow> answer) \<Rightarrow> (string \<times> bool) list" where
  "exceptional L =
     [(''ERR_get_error'', \<not> drains L),
      (''OSSL_STORE_load'', \<not> runs_out ''OSSL_STORE_load'' (store_ends L)),
      (''PEM_read_bio_X509'', \<not> runs_out ''PEM_read_bio_X509'' (pem_ends L)),
      (''BIO_get_mem_data'', \<exists>h args. rc (L h ''BIO_get_mem_data'' args) < 0),
      (''i2d_X509'', \<exists>h args. rc (L h ''i2d_X509'' args) < 0)]"

definition plain_service :: "string \<Rightarrow> bool" where
  "plain_service fn \<longleftrightarrow> fn \<notin> {''ERR_get_error'', ''OSSL_STORE_load'', ''PEM_read_bio_X509'', ''BIO_get_mem_data'', ''i2d_X509''}"

definition fails :: "(event list \<Rightarrow> string \<Rightarrow> arg list \<Rightarrow> answer) \<Rightarrow> string \<Rightarrow> bool" where
  "fails L fn = (case map_of (exceptional L) fn of Some bad \<Rightarrow> bad | None \<Rightarrow> \<not> grants L fn)"

lemma fails_plain: "plain_service fn \<Longrightarrow> fails L fn = (\<not> grants L fn)"
  by (simp add: fails_def exceptional_def plain_service_def)

lemma fails_exceptional:
  "fails L ''ERR_get_error'' = (\<not> drains L)"
  "fails L ''OSSL_STORE_load'' = (\<not> runs_out ''OSSL_STORE_load'' (store_ends L))"
  "fails L ''PEM_read_bio_X509'' = (\<not> runs_out ''PEM_read_bio_X509'' (pem_ends L))"
  "fails L ''BIO_get_mem_data'' = (\<exists>h args. rc (L h ''BIO_get_mem_data'' args) < 0)"
  "fails L ''i2d_X509'' = (\<exists>h args. rc (L h ''i2d_X509'' args) < 0)"
  by (simp_all add: fails_def exceptional_def)

lemma plain_services [simp]:
  "plain_service ''malloc''" "plain_service ''BN_new''" "plain_service ''realloc''"
  "plain_service ''BN_CTX_new''" "plain_service ''BN_bin2bn''" "plain_service ''BN_dup''"
  "plain_service ''X509_STORE_new''" "plain_service ''X509_get_pubkey''" "plain_service ''X509_REQ_get_pubkey''"
  by (simp_all add: plain_service_def)

definition may_stop :: "string list \<Rightarrow> world \<Rightarrow> bool" where
  "may_stop fns w = list_ex (fails (lib w)) fns"

text \<open>The part of a world that no call changes, and the part the ledger reasoning needs.\<close>

definition unchanged :: "world \<Rightarrow> world \<Rightarrow> bool" where
  "unchanged w w' \<longleftrightarrow> fault w' = fault w \<and> lib w' = lib w \<and> cfg w' = cfg w"

definition wf_world :: "world \<Rightarrow> bool" where
  "wf_world w \<longleftrightarrow> 0 < nxt w \<and> live w 0 = None \<and> (\<forall>p\<ge>nxt w. live w p = None)"

lemma unchanged_refl: "unchanged w w"
  by (simp add: unchanged_def)

lemma unchanged_trans [trans]: "unchanged u v \<Longrightarrow> unchanged v w \<Longrightarrow> unchanged u w"
  by (simp add: unchanged_def)

lemma wp_ret [wp_rules]: "Q a w \<Longrightarrow> wp S (Some (a, w)) Q"
  by (simp add: wp_def)

lemma wp_stop [wp_rules]: "S \<Longrightarrow> wp S None Q"
  by (simp add: wp_def)

lemma wp_bind [wp_rules]:
  "wp S m (\<lambda>a w. wp S (f a w) Q) \<Longrightarrow> wp S (Option.bind m (\<lambda>(a, w). f a w)) Q"
  by (cases m) (auto simp: wp_def)

lemma wp_bind_pair [wp_first]:
  "wp S m (\<lambda>x w. case x of (a, b) \<Rightarrow> wp S (f a b w) Q) \<Longrightarrow>
   wp S (Option.bind m (\<lambda>((a, b), w). f a b w)) Q"
  by (cases m) (auto simp: wp_def)

declare case_prodI [wp_first]
declare case_prodI2 [wp_rules]

lemma wp_if [wp_rules]:
  "(c \<Longrightarrow> wp S a Q) \<Longrightarrow> (\<not> c \<Longrightarrow> wp S b Q) \<Longrightarrow> wp S (if c then a else b) Q"
  by simp

lemma wp_if_not [wp_first]:
  "(\<not> c \<Longrightarrow> wp S a Q) \<Longrightarrow> (c \<Longrightarrow> wp S b Q) \<Longrightarrow> wp S (if \<not> c then a else b) Q"
  by simp

lemma wp_if_const [wp_first]:
  "wp S a Q \<Longrightarrow> wp S (if True then a else b) Q" "wp S b Q \<Longrightarrow> wp S (if False then a else b) Q"
  "wp S a Q \<Longrightarrow> wp S (if \<not> False then a else b) Q" "wp S b Q \<Longrightarrow> wp S (if \<not> True then a else b) Q"
  "wp S a Q \<Longrightarrow> wp S (if x = x then a else b) Q" "wp S b Q \<Longrightarrow> wp S (if x \<noteq> x then a else b) Q"
  by simp_all

lemma wp_if_known [wp_known]:
  "c \<Longrightarrow> wp S a Q \<Longrightarrow> wp S (if c then a else b) Q"
  "\<not> c \<Longrightarrow> wp S b Q \<Longrightarrow> wp S (if c then a else b) Q"
  "c \<Longrightarrow> wp S b Q \<Longrightarrow> wp S (if \<not> c then a else b) Q"
  by simp_all

lemma wp_let [wp_rules]: "wp S (f v) Q \<Longrightarrow> wp S (Let v f) Q"
  by simp

lemma wp_option [wp_rules]:
  "(x = None \<Longrightarrow> wp S a Q) \<Longrightarrow> (\<And>y. x = Some y \<Longrightarrow> wp S (b y) Q) \<Longrightarrow>
   wp S (case x of None \<Rightarrow> a | Some y \<Rightarrow> b y) Q"
  by (cases x) simp_all

lemma wp_sum [wp_rules]:
  "(\<And>e. x = Inl e \<Longrightarrow> wp S (a e) Q) \<Longrightarrow> (\<And>y. x = Inr y \<Longrightarrow> wp S (b y) Q) \<Longrightarrow>
   wp S (case x of Inl e \<Rightarrow> a e | Inr y \<Rightarrow> b y) Q"
  by (cases x) simp_all

lemma wp_case_const [wp_first]:
  "wp S a Q \<Longrightarrow> wp S (case None of None \<Rightarrow> a | Some y \<Rightarrow> b y) Q"
  "wp S (b v) Q \<Longrightarrow> wp S (case Some v of None \<Rightarrow> a | Some y \<Rightarrow> b y) Q"
  "wp S (c e) Q \<Longrightarrow> wp S (case Inl e of Inl e \<Rightarrow> c e | Inr y \<Rightarrow> d y) Q"
  "wp S (d z) Q \<Longrightarrow> wp S (case Inr z of Inl e \<Rightarrow> c e | Inr y \<Rightarrow> d y) Q"
  by simp_all

lemma wp_conseq: "wp S m P \<Longrightarrow> (\<And>a w. P a w \<Longrightarrow> Q a w) \<Longrightarrow> wp S m Q"
  by (auto simp: wp_def split: option.splits)

lemma wp_weaken: "wp S m P \<Longrightarrow> (S \<Longrightarrow> T) \<Longrightarrow> (\<And>a w. P a w \<Longrightarrow> Q a w) \<Longrightarrow> wp T m Q"
  by (auto simp: wp_def split: option.splits)

section \<open>The primitives\<close>

text \<open>
  \<open>reached w0 w m n\<close>: the run that started in \<open>w0\<close> is in world \<open>w\<close>, the live objects are \<open>m\<close>
  and the next pointer is \<open>n\<close>. The rules below carry this one fact through a run.
\<close>

definition reached :: "world \<Rightarrow> world \<Rightarrow> (ptr \<rightharpoonup> kind) \<Rightarrow> ptr \<Rightarrow> bool" where
  "reached w0 w m n \<longleftrightarrow> live w = m \<and> nxt w = n \<and> unchanged w0 w"

definition usable_in :: "(ptr \<rightharpoonup> kind) \<Rightarrow> arg \<Rightarrow> bool" where
  "usable_in m a = (case a of Ptr p \<Rightarrow> p = 0 \<or> m p \<noteq> None | _ \<Rightarrow> True)"

lemma usable_in_simps [simp]:
  "usable_in m (Val i)" "usable_in m (Buf b)" "usable_in m (Str s)" "usable_in m (Pars ps)"
  "usable_in m (Ptr p) \<longleftrightarrow> p = 0 \<or> m p \<noteq> None"
  by (simp_all add: usable_in_def)

lemma usable_live: "usable w = usable_in (live w)"
  by (simp add: fun_eq_iff usable_def usable_in_def)

lemma record_call_simps [simp]:
  "lib (record_call fn args p w) = lib w" "cfg (record_call fn args p w) = cfg w"
  "live (record_call fn args p w) = live w" "nxt (record_call fn args p w) = nxt w"
  "log (record_call fn args p w) = log w @ [Ev fn args p]"
  "fault (record_call fn args p w) = (fault w \<or> \<not> list_all (usable w) args)"
  by (simp_all add: record_call_def)

lemma wp_ccall [wp_elims]:
  assumes "reached w0 w m n" and "list_all (usable_in m) args"
    and "\<And>a w'. reached w0 w' m n \<Longrightarrow> Q a w'"
  shows "wp S (ccall fn args w) Q"
  using assms by (simp add: wp_def ccall_def reached_def unchanged_def usable_live)

lemma wp_acquire [wp_elims]:
  assumes "reached w0 w m n" and "list_all (usable_in m) args"
    and "\<And>a w'. reached w0 w' (m(n \<mapsto> k)) (Suc n) \<Longrightarrow> granted a \<Longrightarrow> Q (a, n) w'"
    and "\<And>a w'. reached w0 w' m n \<Longrightarrow> \<not> grants (lib w0) fn \<Longrightarrow> Q (a, 0) w'"
  shows "wp S (acquire k fn args w) Q"
proof (cases "granted (lib w (log w) fn args)")
  case True
  then show ?thesis using assms(1-3)
    by (simp add: wp_def acquire_def reached_def unchanged_def usable_live)
next
  case False
  then have "\<not> grants (lib w0) fn" using assms(1) by (auto simp: grants_def reached_def unchanged_def)
  then show ?thesis using False assms(1,2,4)
    by (simp add: wp_def acquire_def reached_def unchanged_def usable_live)
qed

lemma wp_create [wp_elims]:
  assumes "reached w0 w m n" and "list_all (usable_in m) args"
    and "\<And>w'. reached w0 w' (m(n \<mapsto> k)) (Suc n) \<Longrightarrow> Q n w'"
    and "\<And>w'. reached w0 w' m n \<Longrightarrow> \<not> grants (lib w0) fn \<Longrightarrow> Q 0 w'"
  shows "wp S (create k fn args w) Q"
  unfolding create_def
  by (rule wp_bind_pair, rule wp_acquire [OF assms(1,2)]) (auto intro!: wp_ret assms(3,4))

lemma wp_release [wp_elims]:
  assumes "reached w0 w m n" and "p \<noteq> 0 \<and> m p = Some k \<or> p = 0 \<and> m 0 = None"
    and "\<And>w'. reached w0 w' (m(p := None)) n \<Longrightarrow> Q () w'"
  shows "wp S (release k fn p w) Q"
proof (cases "p = 0")
  case True
  then have "m(p := None) = m" using assms(2) by (simp add: fun_upd_idem)
  with True assms(1,3) show ?thesis
    by (simp add: wp_def release_def reached_def unchanged_def usable_live)
next
  case False
  then show ?thesis
    using assms by (simp add: wp_def release_def reached_def unchanged_def usable_def)
qed

lemma wp_retain [wp_elims]:
  assumes "reached w0 w m n" and "list_all (usable_in m) args"
    and "\<And>w'. reached w0 w' (m(n \<mapsto> k)) (Suc n) \<Longrightarrow> Q n w'"
  shows "wp S (retain k fn args w) Q"
  using assms by (simp add: wp_def retain_def reached_def unchanged_def usable_live)

lemma wp_perish [wp_elims]:
  assumes "reached w0 w m n" and "p \<noteq> 0 \<and> m p = Some k \<or> p = 0 \<and> m 0 = None"
    and "\<And>w'. reached w0 w' (m(p := None)) n \<Longrightarrow> Q () w'"
  shows "wp S (perish p k w) Q"
proof (cases "p = 0")
  case True
  then have "m(p := None) = m" using assms(2) by (simp add: fun_upd_idem)
  with True assms(1,3) show ?thesis by (simp add: wp_def perish_def)
next
  case False
  then show ?thesis using assms by (simp add: wp_def perish_def reached_def unchanged_def)
qed

lemma wp_deref [wp_elims]:
  assumes "reached w0 w m n" and "m p \<noteq> None" and "\<And>w'. reached w0 w' m n \<Longrightarrow> Q () w'"
  shows "wp S (deref p w) Q"
  using assms by (auto simp: wp_def deref_def reached_def unchanged_def)

lemma wp_malloc [wp_elims]:
  assumes "reached w0 w m n" and "\<And>w'. reached w0 w' (m(n \<mapsto> Mem)) (Suc n) \<Longrightarrow> Q n w'"
    and "\<And>w'. reached w0 w' m n \<Longrightarrow> \<not> grants (lib w0) ''malloc'' \<Longrightarrow> Q 0 w'"
  shows "wp S (malloc k w) Q"
  unfolding malloc_def by (rule wp_create [OF assms(1)]) (simp_all add: assms(2,3))

lemma wp_cfree [wp_elims]:
  assumes "reached w0 w m n" and "p \<noteq> 0 \<and> m p = Some Mem \<or> p = 0 \<and> m 0 = None"
    and "\<And>w'. reached w0 w' (m(p := None)) n \<Longrightarrow> Q () w'"
  shows "wp S (cfree p w) Q"
  unfolding cfree_def using assms by (rule wp_release)

lemma wp_xmalloc [wp_elims]:
  assumes "reached w0 w m n" and "n \<noteq> 0" and "\<not> grants (lib w0) ''malloc'' \<Longrightarrow> S"
    and "\<And>w'. reached w0 w' (m(n \<mapsto> Mem)) (Suc n) \<Longrightarrow> Q n w'"
    and "\<And>w'. reached w0 w' m n \<Longrightarrow> k = 0 \<Longrightarrow> Q 0 w'"
  shows "wp S (xmalloc k w) Q"
  unfolding xmalloc_def
  by (rule wp_bind, rule wp_malloc [OF assms(1)]) (use assms(2-) in \<open>auto intro!: wp_ret wp_stop\<close>)

lemma wp_realloc [wp_elims]:
  assumes "reached w0 w m n" and "p \<noteq> 0 \<and> m p = Some Mem \<or> p = 0 \<and> m 0 = None"
    and "n \<noteq> 0" and "m n = None"
    and "\<And>w'. reached w0 w' ((m(p := None))(n \<mapsto> Mem)) (Suc n) \<Longrightarrow> Q n w'"
    and "\<And>w'. reached w0 w' m n \<Longrightarrow> \<not> grants (lib w0) ''realloc'' \<Longrightarrow> Q 0 w'"
  shows "wp S (realloc p k w) Q"
proof -
  have "p \<noteq> n" using assms(2-4) by auto
  moreover have "p = 0 \<Longrightarrow> m(p := None) = m" using assms(2) by (simp add: fun_upd_idem)
  ultimately show ?thesis
    unfolding realloc_def using assms
    by (intro wp_bind wp_create [OF assms(1)])
      (auto simp: reached_def unchanged_def fun_upd_twist intro!: wp_ret)
qed

lemma wp_ERR_peek_last_error [wp_elims]:
  assumes "reached w0 w m n" and "\<And>e w'. reached w0 w' m n \<Longrightarrow> Q e w'"
  shows "wp S (ERR_peek_last_error w) Q"
  unfolding ERR_peek_last_error_def
  by (rule wp_bind, rule wp_ccall [OF assms(1)]) (simp_all add: wp_ret assms(2))

text \<open>Special cases: an allocation whose failure is tested next, and the sizes for which
  \<open>xmalloc\<close> cannot return \<open>NULL\<close>.\<close>

lemma wp_create_test [wp_elims_first]:
  assumes "reached w0 w m n" and "n \<noteq> 0" and "list_all (usable_in m) args"
    and "\<And>w'. reached w0 w' m n \<Longrightarrow> \<not> grants (lib w0) fn \<Longrightarrow> wp S (f w') Q"
    and "\<And>w'. reached w0 w' (m(n \<mapsto> k)) (Suc n) \<Longrightarrow> wp S (g n w') Q"
  shows "wp S (Option.bind (create k fn args w) (\<lambda>(p, w). if p = 0 then f w else g p w)) Q"
  by (rule wp_bind, rule wp_create [OF assms(1)]) (use assms(2-) in simp_all)

lemma wp_xmalloc_some [wp_elims_first]:
  assumes "reached w0 w m n" and "n \<noteq> 0" and "\<not> grants (lib w0) ''malloc'' \<Longrightarrow> S"
    and "\<And>w'. reached w0 w' (m(n \<mapsto> Mem)) (Suc n) \<Longrightarrow> Q n w'"
  shows "wp S (xmalloc (if k \<noteq> 0 then k else 1) w) Q" "wp S (xmalloc (numeral i) w) Q"
    "wp S (xmalloc (Suc k) w) Q"
  by (rule wp_xmalloc [OF assms(1)]; use assms(2-) in \<open>simp split: if_splits\<close>)+

lemma wp_xmalloc_nonzero [wp_known]:
  assumes "k \<noteq> 0" and "reached w0 w m n" and "n \<noteq> 0" and "\<not> grants (lib w0) ''malloc'' \<Longrightarrow> S"
    and "\<And>w'. reached w0 w' (m(n \<mapsto> Mem)) (Suc n) \<Longrightarrow> Q n w'"
  shows "wp S (xmalloc k w) Q"
  by (rule wp_xmalloc [OF assms(2)]) (use assms in simp_all)

lemma wp_string_take [wp_elims]:
  assumes "reached w0 w m n" and "n \<noteq> 0" and "\<not> grants (lib w0) ''malloc'' \<Longrightarrow> S"
    and "\<And>w'. reached w0 w' (m(n \<mapsto> Mem)) (Suc n) \<Longrightarrow> Q \<lparr> at = n, len = length src, bytes = src \<rparr> w'"
  shows "wp S (string_take src w) Q" "wp S (list_u8_take src w) Q"
  unfolding string_take_def list_u8_take_def
  by (rule wp_bind, rule wp_xmalloc_some(1) [OF assms(1)]; use assms(2-) in \<open>auto intro!: wp_ret\<close>)+

section \<open>Ledger triples\<close>

text \<open>A footprint lists objects a function owns, each once.\<close>

type_synonym footprint = "(ptr \<times> kind) list"

definition own :: "ptr \<Rightarrow> kind \<Rightarrow> footprint" where
  "own p k = (if p = 0 then [] else [(p, k)])"

text \<open>The live objects are those of \<open>L\<close>, which the function does not know of, and those of
  \<open>A\<close>, which are its own.\<close>

definition holds :: "world \<Rightarrow> (ptr \<rightharpoonup> kind) \<Rightarrow> footprint \<Rightarrow> bool" where
  "holds w L A \<longleftrightarrow> wf_world w \<and> live w = L ++ map_of A \<and>
     distinct (map fst A) \<and> list_all (\<lambda>(p, k). L p = None) A"

text \<open>
  \<open>ledger_triple fns A m B\<close>: started in any world in which the objects \<open>A\<close> (and any others)
  are live, \<open>m\<close> uses no dead object, stops only when one of the services \<open>fns\<close> can fail,
  and leaves exactly the objects \<open>B r\<close> in place of \<open>A\<close>, where \<open>r\<close> is its result.
\<close>

definition ledger_triple ::
    "string list \<Rightarrow> footprint \<Rightarrow> (world \<Rightarrow> 'a outcome) \<Rightarrow> ('a \<Rightarrow> footprint) \<Rightarrow> bool" where
  "ledger_triple fns A m B \<longleftrightarrow> (\<forall>w L. holds w L A \<longrightarrow>
     wp (may_stop fns w) (m w) (\<lambda>r w'. holds w' L (B r) \<and> unchanged w w'))"

text \<open>What a caller holds after a function that returns a list or fails.\<close>

definition held :: "'e + list_u8 \<Rightarrow> footprint" where
  "held r = (case r of Inl e \<Rightarrow> [] | Inr l \<Rightarrow> own (at l) Mem)"

lemma held_simps [simp]: "held (Inl e) = []" "held (Inr l) = own (at l) Mem"
  by (simp_all add: held_def)

lemma own_simps [simp]: "own 0 k = []" "p \<noteq> 0 \<Longrightarrow> own p k = [(p, k)]"
  by (simp_all add: own_def)

lemma triple_call:
  assumes "ledger_triple fns A m B" and "holds w L A" and "may_stop fns w \<Longrightarrow> S"
    and "\<And>r w'. holds w' L (B r) \<Longrightarrow> unchanged w w' \<Longrightarrow> Q r w'"
  shows "wp S (m w) Q"
proof (rule wp_weaken)
  show "wp (may_stop fns w) (m w) (\<lambda>r w'. holds w' L (B r) \<and> unchanged w w')"
    using assms(1,2) by (simp add: ledger_triple_def)
qed (use assms(3,4) in auto)

lemma may_stop_mono: "set fns \<subseteq> set gns \<Longrightarrow> may_stop fns w \<Longrightarrow> may_stop gns w"
  unfolding may_stop_def list_ex_iff by blast

lemma triple_weaken:
  assumes "ledger_triple fns A m B" and "set fns \<subseteq> set gns"
  shows "ledger_triple gns A m B"
  unfolding ledger_triple_def
  by (intro allI impI, rule triple_call [OF assms(1)]) (simp_all add: may_stop_mono [OF assms(2)])

lemma fresh: "wf_world w \<Longrightarrow> nxt w \<le> p \<Longrightarrow> live w p = None"
  unfolding wf_world_def by blast

lemma wf_nxt: "wf_world w \<Longrightarrow> 0 < nxt w"
  unfolding wf_world_def by blast

lemma wf_zero: "wf_world w \<Longrightarrow> live w 0 = None"
  unfolding wf_world_def by blast

lemma upd_None_id [ledger_simps]: "m p = None \<Longrightarrow> m(p := None) = m"
  by (simp add: fun_upd_idem)

lemma upd_None_swap [ledger_simps]:
  "p \<noteq> q \<Longrightarrow> m(q \<mapsto> x, p := None) = (m(p := None))(q \<mapsto> x)"
  by (simp add: fun_upd_twist)

lemma upd_swap_eq [ledger_simps]: "p \<noteq> q \<Longrightarrow> (m(p \<mapsto> x, q \<mapsto> y) = m(q \<mapsto> y, p \<mapsto> x)) = True"
  by (simp add: fun_upd_twist)

text \<open>A triple is proved by running the calculus from an arbitrary world; \<open>post\<close> is what is
  left to check on each path.\<close>

definition post :: "world \<Rightarrow> (ptr \<rightharpoonup> kind) \<Rightarrow> footprint \<Rightarrow> world \<Rightarrow> bool" where
  "post w L B w' \<longleftrightarrow> nxt w \<le> nxt w' \<and> live w' = L ++ map_of B \<and> distinct (map fst B) \<and>
     list_all (\<lambda>(p, k). 0 < p \<and> p < nxt w' \<and> L p = None) B \<and> unchanged w w'"

lemma postI [wp_elims]:
  assumes "reached w w' m n" and "m = L ++ map_of B" and "distinct (map fst B)" and "nxt w \<le> n"
    and "list_all (\<lambda>(p, k). 0 < p \<and> p < n \<and> L p = None) B"
  shows "post w L B w'"
  using assms by (simp add: reached_def post_def)

lemma may_stopI [wp_rules]:
  "\<not> grants (lib w) fn \<Longrightarrow> fn \<in> set fns \<and> plain_service fn \<Longrightarrow> may_stop fns w"
  unfolding may_stop_def list_ex_iff by (rule bexI [where x = fn]) (auto simp: fails_plain)

lemma holds_known:
  assumes "holds w L A" and "nxt w \<le> p \<or> p = 0"
  shows "L p = None" and "map_of A p = None"
proof -
  have "live w p = None" using assms fresh wf_zero unfolding holds_def by metis
  then show "L p = None" "map_of A p = None" using assms(1) by (simp_all add: holds_def)
qed

lemma post_holds:
  assumes h: "holds w L A" and p: "post w L B w'"
  shows "holds w' L B \<and> unchanged w w'"
proof -
  have n: "0 < nxt w" "nxt w \<le> nxt w'" using h p wf_nxt unfolding holds_def post_def by blast+
  have "live w' q = None" if "nxt w' \<le> q \<or> q = 0" for q
  proof -
    have "L q = None" using holds_known(1) [OF h] that n(2) by (metis le_trans)
    moreover have "q \<notin> fst ` set B" using p that unfolding post_def list_all_iff by force
    ultimately show ?thesis using p by (simp add: post_def map_of_eq_None_iff)
  qed
  then show ?thesis
    using p n unfolding holds_def wf_world_def post_def list_all_iff by auto
qed

lemma wp_holds:
  assumes h: "holds w L A"
    and "nxt w \<noteq> 0 \<Longrightarrow> 0 < nxt w \<Longrightarrow> reached w w (L ++ map_of A) (nxt w) \<Longrightarrow>
      distinct (map fst A) \<Longrightarrow> (\<And>p. nxt w \<le> p \<Longrightarrow> L p = None) \<Longrightarrow> L 0 = None \<Longrightarrow>
      list_all (\<lambda>(p, k). 0 < p \<and> p < nxt w \<and> L p = None) A \<Longrightarrow>
      wp S (m w) (\<lambda>r w'. post w L (B r) w')"
  shows "wp S (m w) (\<lambda>r w'. holds w' L (B r) \<and> unchanged w w')"
proof -
  have "0 < p \<and> p < nxt w" if "(p, k) \<in> set A" for p k
  proof -
    have "p \<in> fst ` set A" using that by force
    then have "map_of A p \<noteq> None" by (simp add: map_of_eq_None_iff)
    then show ?thesis using holds_known(2) [OF h] by (metis not_le_imp_less not_gr_zero)
  qed
  then show ?thesis
    using h wf_nxt [of w] holds_known(1) [OF h]
    by (intro wp_conseq [OF assms(2)] post_holds [OF h])
      (auto simp: holds_def list_all_iff reached_def unchanged_refl)
qed

lemma ledger_tripleI [wp_rules]:
  assumes "\<And>w L. nxt w \<noteq> 0 \<Longrightarrow> 0 < nxt w \<Longrightarrow> reached w w (L ++ map_of A) (nxt w) \<Longrightarrow>
      distinct (map fst A) \<Longrightarrow> (\<And>p. nxt w \<le> p \<Longrightarrow> L p = None) \<Longrightarrow> L 0 = None \<Longrightarrow>
      list_all (\<lambda>(p, k). 0 < p \<and> p < nxt w \<and> L p = None) A \<Longrightarrow>
      wp (may_stop fns w) (m w) (\<lambda>r w'. post w L (B r) w')"
  shows "ledger_triple fns A m B"
  unfolding ledger_triple_def by (intro allI impI wp_holds) (use assms in blast)+

text \<open>
  The weaker claim for code that does not check its allocations: when the allocators \<open>fns\<close> do
  not fail, \<open>m\<close> does not stop and the ledger is as stated.
\<close>

definition granted_triple ::
    "string list \<Rightarrow> footprint \<Rightarrow> (world \<Rightarrow> 'a outcome) \<Rightarrow> ('a \<Rightarrow> footprint) \<Rightarrow> bool" where
  "granted_triple fns A m B \<longleftrightarrow> (\<forall>w L. holds w L A \<longrightarrow> \<not> may_stop fns w \<longrightarrow>
     wp False (m w) (\<lambda>r w'. holds w' L (B r) \<and> unchanged w w'))"

lemma ledger_granted: "ledger_triple fns A m B \<Longrightarrow> granted_triple fns A m B"
  unfolding ledger_triple_def granted_triple_def by (auto intro: wp_weaken)

lemma granted_tripleI:
  assumes "\<And>w L. grants (lib w) f \<Longrightarrow> grants (lib w) g \<Longrightarrow>
      nxt w \<noteq> 0 \<Longrightarrow> 0 < nxt w \<Longrightarrow> reached w w (L ++ map_of A) (nxt w) \<Longrightarrow>
      distinct (map fst A) \<Longrightarrow> (\<And>p. nxt w \<le> p \<Longrightarrow> L p = None) \<Longrightarrow> L 0 = None \<Longrightarrow>
      list_all (\<lambda>(p, k). 0 < p \<and> p < nxt w \<and> L p = None) A \<Longrightarrow>
      wp False (m w) (\<lambda>r w'. post w L (B r) w')"
    and "plain_service f \<and> plain_service g"
  shows "granted_triple [f, g] A m B"
  unfolding granted_triple_def by (intro allI impI wp_holds) (use assms in \<open>auto simp: may_stop_def fails_plain\<close>)

lemma wp_create_granted [wp_known]:
  assumes "grants (lib w0) fn" and "reached w0 w m n" and "list_all (usable_in m) args"
    and "\<And>w'. reached w0 w' (m(n \<mapsto> k)) (Suc n) \<Longrightarrow> Q n w'"
  shows "wp S (create k fn args w) Q"
  by (rule wp_create [OF assms(2,3)]) (use assms in auto)

text \<open>Nothing is claimed of a footprint with \<open>NULL\<close> in it.\<close>

lemma triple_nonnull:
  assumes "p \<noteq> 0 \<Longrightarrow> ledger_triple fns ((p, k) # A) m B"
  shows "ledger_triple fns ((p, k) # A) m B"
proof (cases "p = 0")
  case True
  have "\<not> holds w L ((0, k) # A)" for w L
    using wf_zero [of w] by (auto simp: holds_def)
  with True show ?thesis by (simp add: ledger_triple_def)
qed (rule assms)

section \<open>Composition\<close>

lemma triple_ret: "ledger_triple fns (B a) (\<lambda>w. Some (a, w)) B"
  by (simp add: ledger_triple_def wp_def unchanged_def)

text \<open>A test made before anything happens.\<close>

lemma triple_option:
  assumes "x = None \<Longrightarrow> ledger_triple fns A a B" and "\<And>y. x = Some y \<Longrightarrow> ledger_triple fns A (b y) B"
  shows "ledger_triple fns A (\<lambda>w. case x of None \<Rightarrow> a w | Some y \<Rightarrow> b y w) B"
  using assms by (cases x) simp_all

lemma triple_if:
  assumes "c \<Longrightarrow> ledger_triple fns A a B" and "\<not> c \<Longrightarrow> ledger_triple fns A b B"
  shows "ledger_triple fns A (\<lambda>w. if c then a w else b w) B"
  using assms by (cases c) simp_all

lemma triple_bind:
  assumes "ledger_triple fns A m B" and "\<And>r. ledger_triple fns (B r) (f r) C"
  shows "ledger_triple fns A (\<lambda>w. Option.bind (m w) (\<lambda>(r, w). f r w)) C"
  unfolding ledger_triple_def
proof (intro allI impI)
  fix w L assume h: "holds w L A"
  have "wp (may_stop fns w) (f r w') (\<lambda>r w''. holds w'' L (C r) \<and> unchanged w w'')"
    if "holds w' L (B r)" and u: "unchanged w w'" for r w'
  proof (rule triple_call [OF assms(2) that(1)])
    show "may_stop fns w" if "may_stop fns w'" using that u by (simp add: may_stop_def unchanged_def)
  qed (use unchanged_trans [OF u] in simp)
  then show "wp (may_stop fns w) (Option.bind (m w) (\<lambda>(r, w). f r w))
      (\<lambda>r w'. holds w' L (C r) \<and> unchanged w w')"
    by (intro wp_bind triple_call [OF assms(1) h]) simp_all
qed

lemma holds_append: "holds w L (A @ F) \<longleftrightarrow>
    holds w (L ++ map_of F) A \<and> distinct (map fst F) \<and> list_all (\<lambda>(p, k). L p = None) F"
  by (auto simp: holds_def map_of_append list_all_iff map_add_None map_of_eq_None_iff
      split: prod.splits) (force simp: map_of_eq_None_iff)+

lemma holds_perm: "mset A = mset B \<Longrightarrow> holds w L A = holds w L B"
proof -
  have "holds w L B" if "mset A = mset B" and h: "holds w L A" for A B
  proof -
    have d: "distinct (map fst A)" using h by (simp add: holds_def)
    have s: "set A = set B" using that(1) by (rule mset_eq_setD)
    have "mset (map fst A) = mset (map fst B)" using that(1) by simp
    then have e: "distinct (map fst B)" using d by (metis mset_eq_imp_distinct_iff)
    have "map_of A = map_of B" using map_of_inject_set [OF d e] s by blast
    then show ?thesis using h e s by (simp add: holds_def list_all_iff)
  qed
  then show "mset A = mset B \<Longrightarrow> holds w L A = holds w L B" by metis
qed

lemma triple_perm:
  assumes "ledger_triple fns A' m B'" and "mset A = mset A'" and "\<And>r. mset (B' r) = mset (B r)"
  shows "ledger_triple fns A m B"
  using assms(1) holds_perm [OF assms(2)] holds_perm [OF assms(3)]
  by (simp add: ledger_triple_def)

lemma holds_swap: "holds w L (A @ B) \<Longrightarrow> holds w L (B @ A)"
proof -
  assume h: "holds w L (A @ B)"
  then have "dom (map_of B) \<inter> dom (map_of A) = {}"
    by (auto simp: holds_def dom_map_of_conv_image_fst)
  then have "map_of (A @ B) = map_of (B @ A)"
    by (simp add: map_of_append map_add_comm)
  then show ?thesis using h by (auto simp: holds_def)
qed

lemma triple_swap: "ledger_triple fns A m (\<lambda>r. B r @ C r) \<Longrightarrow> ledger_triple fns A m (\<lambda>r. C r @ B r)"
  unfolding ledger_triple_def by (blast intro: wp_conseq holds_swap)

lemma triple_frame:
  assumes "ledger_triple fns A m B"
  shows "ledger_triple fns (A @ F) m (\<lambda>r. B r @ F)"
  unfolding ledger_triple_def
proof (intro allI impI)
  fix w L assume "holds w L (A @ F)"
  then show "wp (may_stop fns w) (m w) (\<lambda>r w'. holds w' L (B r @ F) \<and> unchanged w w')"
    by (intro triple_call [OF assms]) (simp_all add: holds_append)
qed

text \<open>One step of a function that calls another: the callee's footprint is part of the caller's,
  the rest \<open>F\<close> stays.\<close>

lemma triple_step:
  assumes "ledger_triple fns A' m B'" and "mset A = mset (A' @ F)"
    and "\<And>r. ledger_triple fns (B' r @ F) (f r) C"
  shows "ledger_triple fns A (\<lambda>w. Option.bind (m w) (\<lambda>(r, w). f r w)) C"
  by (rule triple_bind [OF triple_perm [OF triple_frame [OF assms(1)] assms(2)] assms(3)]) simp

lemma triple_done:
  "mset A = mset (B a) \<Longrightarrow> ledger_triple fns A (\<lambda>w. Some (a, w)) B"
  using triple_perm [OF triple_ret [of fns B a]] by metis

lemma triple_bind2:
  assumes "ledger_triple fns A m (\<lambda>(x, y). B x y)" and "\<And>x y. ledger_triple fns (B x y) (f x y) C"
  shows "ledger_triple fns A (\<lambda>w. Option.bind (m w) (\<lambda>((x, y), w). f x y w)) C"
  using triple_bind [OF assms(1), of "\<lambda>p. f (fst p) (snd p)" C] assms(2)
  by (simp add: case_prod_unfold)

text \<open>
  A session over a resource: construct it, run methods on the borrowed handle (their results
  go to the caller), and hand the handle to a function that consumes it.
\<close>

fun run_methods :: "('r \<Rightarrow> world \<Rightarrow> 'x outcome) list \<Rightarrow> 'r \<Rightarrow> world \<Rightarrow> 'x list outcome" where
  "run_methods [] r w = Some ([], w)"
| "run_methods (m # ms) r w = do {
     (x, w) \<leftarrow> m r w;
     (xs, w) \<leftarrow> run_methods ms r w;
     Some (x # xs, w) }"

definition session ::
    "(world \<Rightarrow> 'r outcome) \<Rightarrow> ('r \<Rightarrow> world \<Rightarrow> 'x outcome) list \<Rightarrow> ('r \<Rightarrow> world \<Rightarrow> 'y outcome) \<Rightarrow>
     world \<Rightarrow> ('x list \<times> 'y) outcome" where
  "session mk ms fin w = do {
     (r, w) \<leftarrow> mk w;
     (xs, w) \<leftarrow> run_methods ms r w;
     (y, w) \<leftarrow> fin r w;
     Some ((xs, y), w) }"

text \<open>
  The contract of a WIT resource. \<open>owns r\<close> are the objects behind the handle \<open>r\<close>: the
  constructor allocates exactly these, each method keeps them and adds only what it returns,
  and the destructor frees exactly these.
\<close>

locale owned_resource =
  fixes fns :: "string list"
    and owns :: "'r \<Rightarrow> footprint"
    and mk :: "world \<Rightarrow> 'r outcome"
    and methods :: "('r \<Rightarrow> world \<Rightarrow> 'x outcome) set"
    and res :: "'x \<Rightarrow> footprint"
    and destroy :: "'r \<Rightarrow> world \<Rightarrow> unit outcome"
  assumes mk: "ledger_triple fns [] mk owns"
    and meth: "m \<in> methods \<Longrightarrow> ledger_triple fns (owns r) (m r) (\<lambda>x. owns r @ res x)"
    and destroy: "ledger_triple fns (owns r) (destroy r) (\<lambda>_. [])"
begin

lemma run_balanced:
  assumes "set ms \<subseteq> methods"
  shows "ledger_triple fns (owns r @ F) (run_methods ms r) (\<lambda>xs. owns r @ concat (map res (rev xs)) @ F)"
  using assms
proof (induction ms arbitrary: F)
  case Nil
  have "run_methods [] r = (\<lambda>w. Some ([], w))" by (rule ext) simp
  then show ?case
    using triple_ret [of fns "\<lambda>xs. owns r @ concat (map res (rev xs)) @ F" "[]"] by simp
next
  case (Cons m ms)
  have m: "ledger_triple fns (owns r @ F) (m r) (\<lambda>x. owns r @ res x @ F)"
    using triple_frame [OF meth [of m r], of F] Cons.prems by simp
  have "ledger_triple fns (owns r @ res x @ F)
      (\<lambda>w. Option.bind (run_methods ms r w) (\<lambda>(xs, w). Some (x # xs, w)))
      (\<lambda>xs. owns r @ concat (map res (rev xs)) @ F)" for x
  proof (rule triple_bind)
    show "ledger_triple fns (owns r @ res x @ F) (run_methods ms r)
        (\<lambda>xs. owns r @ concat (map res (rev xs)) @ res x @ F)"
      using Cons.IH [of "res x @ F"] Cons.prems by simp
    show "ledger_triple fns (owns r @ concat (map res (rev xs)) @ res x @ F)
        (\<lambda>w. Some (x # xs, w)) (\<lambda>xs. owns r @ concat (map res (rev xs)) @ F)" for xs
      using triple_ret [of fns "\<lambda>xs. owns r @ concat (map res (rev xs)) @ F" "x # xs"] by simp
  qed
  moreover have "run_methods (m # ms) r = (\<lambda>w. Option.bind (m r w) (\<lambda>(x, w).
      Option.bind (run_methods ms r w) (\<lambda>(xs, w). Some (x # xs, w))))"
    by (rule ext) simp
  ultimately show ?case by (simp only: triple_bind [OF m])
qed

lemma session_balanced:
  assumes "set ms \<subseteq> methods"
    and fin: "\<And>r. ledger_triple fns (owns r) (fin r) F"
  shows "ledger_triple fns [] (session mk ms fin) (\<lambda>(xs, y). F y @ concat (map res (rev xs)))"
proof -
  have "ledger_triple fns (owns r @ concat (map res (rev xs)))
      (\<lambda>w. Option.bind (fin r w) (\<lambda>(y, w). Some ((xs, y), w)))
      (\<lambda>(xs, y). F y @ concat (map res (rev xs)))" for r and xs :: "'x list"
  proof (rule triple_bind [OF triple_frame [OF fin]])
    show "ledger_triple fns (F y @ concat (map res (rev xs))) (\<lambda>w. Some ((xs, y), w))
        (\<lambda>(xs, y). F y @ concat (map res (rev xs)))" for y
      using triple_ret [of fns "\<lambda>(xs, y). F y @ concat (map res (rev xs))" "(xs, y)"] by simp
  qed
  then have "ledger_triple fns (owns r)
      (\<lambda>w. Option.bind (run_methods ms r w) (\<lambda>(xs, w). Option.bind (fin r w) (\<lambda>(y, w). Some ((xs, y), w))))
      (\<lambda>(xs, y). F y @ concat (map res (rev xs)))" for r
    by (rule triple_bind [OF run_balanced [OF assms(1), of r "[]", simplified]])
  from triple_bind [OF mk this] show ?thesis
    by (simp add: session_def [abs_def])
qed

lemma session_dropped:
  "set ms \<subseteq> methods \<Longrightarrow>
   ledger_triple fns [] (session mk ms destroy) (\<lambda>(xs, y). concat (map res (rev xs)))"
  using session_balanced [OF _ destroy] by simp

end

text \<open>
  A resource whose representation changes: a method returns its result and the new
  representation.
\<close>

fun run_steps :: "('r \<Rightarrow> world \<Rightarrow> ('x \<times> 'r) outcome) list \<Rightarrow> 'r \<Rightarrow> world \<Rightarrow> ('x list \<times> 'r) outcome" where
  "run_steps [] r w = Some (([], r), w)"
| "run_steps (m # ms) r w = do {
     ((x, r), w) \<leftarrow> m r w;
     ((xs, r), w) \<leftarrow> run_steps ms r w;
     Some ((x # xs, r), w) }"

text \<open>The life of such a resource: a constructor that may fail, calls, and a function that
  consumes it.\<close>

definition lifetime ::
    "(world \<Rightarrow> ('e + 'r) outcome) \<Rightarrow> ('r \<Rightarrow> world \<Rightarrow> ('x \<times> 'r) outcome) list \<Rightarrow> ('r \<Rightarrow> world \<Rightarrow> unit outcome) \<Rightarrow>
     world \<Rightarrow> ('e + 'x list) outcome" where
  "lifetime mk ms fin w = do {
     (x, w) \<leftarrow> mk w;
     (case x of
        Inl e \<Rightarrow> Some (Inl e, w)
      | Inr r \<Rightarrow> do {
          ((xs, r), w) \<leftarrow> run_steps ms r w;
          (_, w) \<leftarrow> fin r w;
          Some (Inr xs, w) }) }"

definition result_fp :: "('r \<Rightarrow> footprint) \<Rightarrow> 'e + 'r \<Rightarrow> footprint" where
  "result_fp f x = (case x of Inl e \<Rightarrow> [] | Inr r \<Rightarrow> f r)"

lemma result_fp_simps [simp]: "result_fp f (Inl e) = []" "result_fp f (Inr r) = f r"
  by (simp_all add: result_fp_def)

locale stateful_methods =
  fixes fns :: "string list"
    and owns :: "'r \<Rightarrow> footprint"
    and methods :: "('r \<Rightarrow> world \<Rightarrow> ('x \<times> 'r) outcome) set"
    and res :: "'x \<Rightarrow> footprint"
  assumes meth: "m \<in> methods \<Longrightarrow> ledger_triple fns (owns r) (m r) (\<lambda>(x, r). owns r @ res x)"
begin

lemma steps_balanced:
  assumes "set ms \<subseteq> methods"
  shows "ledger_triple fns (owns r @ F) (run_steps ms r) (\<lambda>(xs, r). owns r @ concat (map res xs) @ F)"
  using assms
proof (induction ms arbitrary: r F)
  case Nil
  have "run_steps [] r = (\<lambda>w. Some (([], r), w))" by (rule ext) simp
  then show ?case by (simp add: triple_done)
next
  case (Cons m ms)
  have m: "ledger_triple fns (owns r @ F) (m r) (\<lambda>(x, r). owns r @ res x @ F)"
    using triple_frame [OF meth [of m r], of F] Cons.prems by (simp add: case_prod_unfold)
  have "ledger_triple fns (owns r @ res x @ F)
      (\<lambda>w. Option.bind (run_steps ms r w) (\<lambda>((xs, r), w). Some ((x # xs, r), w)))
      (\<lambda>(xs, r). owns r @ concat (map res xs) @ F)" for x r
    using Cons by (intro triple_bind2 [OF Cons.IH [of r "res x @ F"]] triple_done) simp_all
  moreover have "run_steps (m # ms) r = (\<lambda>w. Option.bind (m r w) (\<lambda>((x, r), w).
      Option.bind (run_steps ms r w) (\<lambda>((xs, r), w). Some ((x # xs, r), w))))"
    by (rule ext) simp
  ultimately show ?case by (simp only: triple_bind2 [OF m])
qed

end

locale stateful_resource = stateful_methods fns owns methods res
  for fns and owns :: "'r \<Rightarrow> footprint" and methods :: "('r \<Rightarrow> world \<Rightarrow> ('x \<times> 'r) outcome) set" and res +
  fixes destroy :: "'r \<Rightarrow> world \<Rightarrow> unit outcome"
  assumes destroy: "ledger_triple fns (owns r) (destroy r) (\<lambda>_. [])"
begin

lemma life_balanced:
  assumes "set ms \<subseteq> methods" and mk: "ledger_triple fns A mk (\<lambda>x. result_fp owns x @ A)"
    and fin: "\<And>r. ledger_triple fns (owns r) (fin r) (\<lambda>_. [])"
  shows "ledger_triple fns A (lifetime mk ms fin) (\<lambda>x. result_fp (\<lambda>xs. concat (map res xs)) x @ A)"
proof -
  have f: "ledger_triple fns (owns r @ concat (map res xs) @ A)
      (\<lambda>w. do { (_, w) \<leftarrow> fin r w; Some (Inr xs, w) })
      (\<lambda>x. result_fp (\<lambda>xs. concat (map res xs)) x @ A)" for xs :: "'x list" and r
    by (rule triple_step [OF fin, where F = "concat (map res xs) @ A"]) (simp_all add: triple_done)
  have "ledger_triple fns (result_fp owns x @ A)
      (\<lambda>w. case x of Inl e \<Rightarrow> Some (Inl e, w)
        | Inr r \<Rightarrow> do { ((xs, r), w) \<leftarrow> run_steps ms r w; (_, w) \<leftarrow> fin r w; Some (Inr xs, w) })
      (\<lambda>x. result_fp (\<lambda>xs. concat (map res xs)) x @ A)" for x :: "'e + 'r"
    by (cases x) (simp_all add: triple_done triple_bind2 [OF steps_balanced [OF assms(1)] f])
  from triple_bind [OF mk this] show ?thesis by (simp add: lifetime_def [abs_def])
qed

lemma life_dropped:
  "set ms \<subseteq> methods \<Longrightarrow> ledger_triple fns A mk (\<lambda>x. result_fp owns x @ A) \<Longrightarrow>
   ledger_triple fns A (lifetime mk ms destroy) (\<lambda>x. result_fp (\<lambda>xs. concat (map res xs)) x @ A)"
  by (rule life_balanced [OF _ _ destroy])

end

end
