(* ===== verification/Runs.thy ===== *)
theory Runs
  imports Ledger
begin

text \<open>
  Evaluating a run whose allocations succeed: each primitive as an equation, the world after
  it as a constant whose fields are known. The collection \<open>run_eqs\<close> holds the equations.
\<close>

named_theorems run_eqs

lemma grantsD: "grants L fn \<Longrightarrow> granted (L h fn args)"
  by (simp add: grants_def)

definition acquired :: "kind \<Rightarrow> string \<Rightarrow> arg list \<Rightarrow> world \<Rightarrow> world" where
  "acquired k fn args w = (record_call fn args (nxt w) w)
     \<lparr> live := (live w)(nxt w \<mapsto> k), nxt := Suc (nxt w) \<rparr>"

definition released :: "kind \<Rightarrow> string \<Rightarrow> ptr \<Rightarrow> world \<Rightarrow> world" where
  "released k fn p w =
     (let w' = record_call fn [Ptr p] 0 w in
      if p = 0 then w' else if live w p = Some k then w'\<lparr> live := (live w)(p := None) \<rparr>
      else w'\<lparr> fault := True \<rparr>)"

definition touched :: "ptr \<Rightarrow> world \<Rightarrow> world" where
  "touched p w = w\<lparr> fault := fault w \<or> live w p = None \<rparr>"

lemma acquired_simps [simp]:
  "lib (acquired k fn args w) = lib w" "cfg (acquired k fn args w) = cfg w"
  "strerr (acquired k fn args w) = strerr w" "statics (acquired k fn args w) = statics w"
  "log (acquired k fn args w) = log w @ [Ev fn args (nxt w)]" "nxt (acquired k fn args w) = Suc (nxt w)"
  by (simp_all add: acquired_def record_call_def)

lemma released_simps [simp]:
  "lib (released k fn p w) = lib w" "cfg (released k fn p w) = cfg w"
  "strerr (released k fn p w) = strerr w" "statics (released k fn p w) = statics w"
  "log (released k fn p w) = log w @ [Ev fn [Ptr p] 0]" "nxt (released k fn p w) = nxt w"
  by (simp_all add: released_def record_call_def Let_def)

lemma touched_simps [simp]:
  "lib (touched p w) = lib w" "cfg (touched p w) = cfg w" "strerr (touched p w) = strerr w" "statics (touched p w) = statics w"
  "log (touched p w) = log w" "nxt (touched p w) = nxt w"
  by (simp_all add: touched_def)

lemma strerr_record_call [simp]:
  "strerr (record_call fn args p w) = strerr w" "statics (record_call fn args p w) = statics w"
  by (simp_all add: record_call_def)

lemma ccall_eq [run_eqs]: "ccall fn args w = Some (lib w (log w) fn args, record_call fn args 0 w)"
  by (simp add: ccall_def)

lemma acquire_eq [run_eqs]:
  "grants (lib w) fn \<Longrightarrow>
   acquire k fn args w = Some ((lib w (log w) fn args, nxt w), acquired k fn args w)"
  by (simp add: acquire_def acquired_def grantsD)

lemma acquire_known:
  "granted (lib w (log w) fn args) \<Longrightarrow>
   acquire k fn args w = Some ((lib w (log w) fn args, nxt w), acquired k fn args w)"
  "\<not> granted (lib w (log w) fn args) \<Longrightarrow>
   acquire k fn args w = Some ((lib w (log w) fn args, 0), record_call fn args 0 w)"
  by (simp_all add: acquire_def acquired_def)

lemma create_eq [run_eqs]:
  "grants (lib w) fn \<Longrightarrow> create k fn args w = Some (nxt w, acquired k fn args w)"
  by (simp add: create_def acquire_eq)

lemma release_eq [run_eqs]: "release k fn p w = Some ((), released k fn p w)"
  by (simp add: release_def released_def Let_def)

lemma deref_eq [run_eqs]: "deref p w = Some ((), touched p w)"
  by (simp add: deref_def touched_def)

lemma malloc_eq [run_eqs]:
  "grants (lib w) ''malloc'' \<Longrightarrow>
   malloc n w = Some (nxt w, acquired Mem ''malloc'' [Val (int n)] w)"
  by (simp add: malloc_def create_eq)

lemma cfree_eq [run_eqs]: "cfree p w = Some ((), released Mem ''free'' p w)"
  by (simp add: cfree_def release_eq)

lemma xmalloc_eq [run_eqs]:
  "grants (lib w) ''malloc'' \<Longrightarrow> 0 < nxt w \<Longrightarrow>
   xmalloc n w = Some (nxt w, acquired Mem ''malloc'' [Val (int n)] w)"
  by (simp add: xmalloc_def malloc_eq)

lemma ERR_peek_last_error_eq [run_eqs]:
  "ERR_peek_last_error w = Some (c_u32 (rc (lib w (log w) ''ERR_peek_last_error'' [])),
     record_call ''ERR_peek_last_error'' [] 0 w)"
  by (simp add: ERR_peek_last_error_def ccall_eq)

lemma string_take_eq [run_eqs]:
  assumes "grants (lib w) ''malloc''" and "0 < nxt w"
  shows "string_take src w = Some (\<lparr> at = nxt w, len = length src, bytes = src \<rparr>,
           acquired Mem ''malloc'' [Val (int (if length src \<noteq> 0 then length src else 1))] w)"
    and "list_u8_take src w = Some (\<lparr> at = nxt w, len = length src, bytes = src \<rparr>,
           acquired Mem ''malloc'' [Val (int (if length src \<noteq> 0 then length src else 1))] w)"
  using assms by (simp_all add: string_take_def list_u8_take_def xmalloc_eq)

definition reallocated :: "ptr \<Rightarrow> nat \<Rightarrow> world \<Rightarrow> world" where
  "reallocated p n w = snd (the (realloc p n w))"

lemma realloc_eq [run_eqs]:
  assumes "grants (lib w) ''realloc''" and "0 < nxt w"
  shows "realloc p n w = Some (nxt w, reallocated p n w)"
  using assms by (simp add: reallocated_def realloc_def create_eq)

lemma reallocated_simps:
  assumes "grants (lib w) ''realloc''" and "0 < nxt w"
  shows "lib (reallocated p n w) = lib w" "cfg (reallocated p n w) = cfg w"
    "strerr (reallocated p n w) = strerr w" "nxt (reallocated p n w) = Suc (nxt w)"
    "log (reallocated p n w) = log w @ [Ev ''realloc'' [Ptr p, Val (int n)] (nxt w)]"
  using assms by (simp_all add: reallocated_def realloc_def create_eq)

section \<open>Streaming computations\<close>

text \<open>
  The functional contract of a context that absorbs data: a new one has absorbed nothing,
  an update absorbs its argument, and finishing returns \<open>F\<close> of what was absorbed, with length
  \<open>n\<close>. \<open>ready\<close> says the library and the world allow it; \<open>state w r x\<close> that in \<open>w\<close> the context
  \<open>r\<close> has absorbed \<open>x\<close>.
\<close>

locale streaming =
  fixes ready :: "world \<Rightarrow> bool"
    and mk :: "world \<Rightarrow> 'r outcome"
    and upd :: "'r \<Rightarrow> u8 list \<Rightarrow> world \<Rightarrow> ('e + unit) outcome"
    and fin :: "'r \<Rightarrow> world \<Rightarrow> ('e + list_u8) outcome"
    and state :: "world \<Rightarrow> 'r \<Rightarrow> u8 list \<Rightarrow> bool"
    and F :: "u8 list \<Rightarrow> u8 list"
    and n :: nat
  assumes mk: "ready w \<Longrightarrow> \<exists>r w'. mk w = Some (r, w') \<and> state w' r []"
    and upd: "state w r x \<Longrightarrow> \<exists>w'. upd r d w = Some (Inr (), w') \<and> state w' r (x @ d)"
    and fin: "state w r x \<Longrightarrow> \<exists>p w'. fin r w = Some (Inr \<lparr> at = p, len = n, bytes = F x \<rparr>, w')"
begin

lemma run_absorbs:
  "state w r x \<Longrightarrow> \<exists>xs w'. run_methods (map (\<lambda>d r. upd r d) ds) r w = Some (xs, w') \<and>
     state w' r (x @ concat ds)"
proof (induction ds arbitrary: w x)
  case (Cons d ds)
  obtain w1 where w1: "upd r d w = Some (Inr (), w1)" "state w1 r (x @ d)"
    using upd [OF Cons.prems] by blast
  obtain xs w2 where "run_methods (map (\<lambda>d r. upd r d) ds) r w1 = Some (xs, w2)"
      "state w2 r ((x @ d) @ concat ds)"
    using Cons.IH [OF w1(2)] by blast
  with w1 show ?case by simp
qed simp

lemma session_computes:
  assumes "ready w"
  shows "\<exists>p xs w'. session mk (map (\<lambda>d r. upd r d) ds) fin w =
    Some ((xs, Inr \<lparr> at = p, len = n, bytes = F (concat ds) \<rparr>), w')"
proof -
  obtain r w1 where 1: "mk w = Some (r, w1)" "state w1 r []"
    using mk [OF assms] by blast
  obtain xs w2 where 2: "run_methods (map (\<lambda>d r. upd r d) ds) r w1 = Some (xs, w2)"
      "state w2 r (concat ds)"
    using run_absorbs [OF 1(2), of ds] by auto
  show ?thesis
    using fin [OF 2(2)] 1 2 by (auto simp: session_def)
qed

end

section \<open>Following an object\<close>

text \<open>
  Weakest preconditions for runs in which the library keeps its documented behaviour.
  \<open>idle w0 w\<close>: the library and the build are those of \<open>w0\<close>. \<open>running st w0 c r w\<close>: moreover the
  object \<open>c\<close> is in the library state \<open>r\<close>, where \<open>st\<close> reads the library states off the call log. The collection
  \<open>run_elims\<close> has a rule for each primitive; what the calls of a library do to its states,
  and what they answer, is added by the components.
\<close>

named_theorems run_elims

definition idle :: "world \<Rightarrow> world \<Rightarrow> bool" where
  "idle w0 w \<longleftrightarrow> lib w = lib w0 \<and> cfg w = cfg w0 \<and> 0 < nxt w"

lemma idle_refl: "0 < nxt w \<Longrightarrow> idle w w"
  by (simp add: idle_def)

lemma idle_trans: "idle u v \<Longrightarrow> idle v w \<Longrightarrow> idle u w"
  by (simp add: idle_def)

definition running ::
    "(event list \<Rightarrow> ptr \<rightharpoonup> 's) \<Rightarrow> world \<Rightarrow> ptr \<Rightarrow> 's \<Rightarrow> world \<Rightarrow> bool" where
  "running st w0 c r w \<longleftrightarrow> idle w0 w \<and> c \<noteq> 0 \<and> c < nxt w \<and> st (log w) c = Some r"

lemma running_idle: "running st w0 c r w \<Longrightarrow> idle w0 w"
  by (simp add: running_def)

lemma wp_run_ccall:
  assumes "running st w0 c r w"
    and "\<And>h. st h c = Some r \<Longrightarrow> st (h @ [Ev fn args 0]) c = Some r'"
    and "\<And>h w'. st h c = Some r \<Longrightarrow> running st w0 c r' w' \<Longrightarrow> Q (lib w0 h fn args) w'"
  shows "wp S (ccall fn args w) Q"
  using assms by (simp add: wp_def ccall_def running_def idle_def)

lemma wp_run_create:
  assumes "running st w0 c r w" and "grants (lib w0) fn"
    and "\<And>h p. st h c = Some r \<Longrightarrow> p \<noteq> c \<Longrightarrow> st (h @ [Ev fn args p]) c = Some r"
    and "\<And>p w'. running st w0 c r w' \<Longrightarrow> p \<noteq> 0 \<Longrightarrow> p \<noteq> c \<Longrightarrow> Q p w'"
  shows "wp S (create k fn args w) Q"
  using assms by (auto simp: wp_def create_eq running_def idle_def)

lemma wp_run_xmalloc [run_elims]:
  assumes "running st w0 c r w" and "grants (lib w0) ''malloc''"
    and "\<And>h a p. st h c = Some r \<Longrightarrow> p \<noteq> c \<Longrightarrow> st (h @ [Ev ''malloc'' a p]) c = Some r"
    and "\<And>p w'. running st w0 c r w' \<Longrightarrow> p \<noteq> 0 \<Longrightarrow> p \<noteq> c \<Longrightarrow> Q p w'"
  shows "wp S (xmalloc n w) Q"
  using assms by (auto simp: wp_def xmalloc_eq running_def idle_def)

lemma wp_run_release [run_elims]:
  assumes "running st w0 c r w"
    and "\<And>h a. st h c = Some r \<Longrightarrow> st (h @ [Ev fn a 0]) c = Some r"
    and "\<And>w'. running st w0 c r w' \<Longrightarrow> Q () w'"
  shows "wp S (release k fn p w) Q"
  using assms by (auto simp: wp_def release_eq running_def idle_def)

lemma wp_run_cfree [run_elims]:
  assumes "running st w0 c r w"
    and "\<And>h a. st h c = Some r \<Longrightarrow> st (h @ [Ev ''free'' a 0]) c = Some r"
    and "\<And>w'. running st w0 c r w' \<Longrightarrow> Q () w'"
  shows "wp S (cfree p w) Q"
  using assms by (auto simp: wp_def cfree_eq running_def idle_def)

lemma wp_run_deref [run_elims]:
  assumes "running st w0 c r w" and "\<And>w'. running st w0 c r w' \<Longrightarrow> Q () w'"
  shows "wp S (deref p w) Q"
  using assms by (auto simp: wp_def deref_eq running_def idle_def)

lemma wp_run_error [run_elims]:
  assumes "running st w0 c r w"
    and "\<And>h. st h c = Some r \<Longrightarrow> st (h @ [Ev ''ERR_peek_last_error'' [] 0]) c = Some r"
    and "\<And>e w'. running st w0 c r w' \<Longrightarrow> Q e w'"
  shows "wp S (ERR_peek_last_error w) Q"
  using assms by (auto simp: wp_def ERR_peek_last_error_eq running_def idle_def)

lemma wp_idle_ccall:
  assumes "idle w0 w" and "\<And>h w'. idle w0 w' \<Longrightarrow> Q (lib w0 h fn args) w'"
  shows "wp S (ccall fn args w) Q"
  using assms by (simp add: wp_def ccall_def idle_def)

lemma wp_idle_start:
  assumes "idle w0 w" and "c \<noteq> 0" and "c < nxt w" and "\<And>h. st (h @ [Ev fn args 0]) c = Some r"
    and "\<And>h w'. running st w0 c r w' \<Longrightarrow> Q (lib w0 h fn args) w'"
  shows "wp S (ccall fn args w) Q"
  using assms by (simp add: wp_def ccall_def running_def idle_def)

lemma wp_idle_create:
  assumes "idle w0 w" and "grants (lib w0) fn"
    and "\<And>p w'. idle w0 w' \<Longrightarrow> p \<noteq> 0 \<Longrightarrow> p < nxt w' \<Longrightarrow> Q p w'"
  shows "wp S (create k fn args w) Q"
  using assms by (auto simp: wp_def create_eq idle_def)

lemma wp_idle_xmalloc [run_elims]:
  assumes "idle w0 w" and "grants (lib w0) ''malloc''"
    and "\<And>p w'. idle w0 w' \<Longrightarrow> p \<noteq> 0 \<Longrightarrow> p < nxt w' \<Longrightarrow> Q p w'"
  shows "wp S (xmalloc n w) Q"
  using assms by (auto simp: wp_def xmalloc_eq idle_def)

lemma wp_idle_deref [run_elims]:
  assumes "idle w0 w" and "\<And>w'. idle w0 w' \<Longrightarrow> nxt w' = nxt w \<Longrightarrow> Q () w'"
  shows "wp S (deref p w) Q"
  using assms by (auto simp: wp_def deref_eq idle_def)

lemma wp_runs: "wp False m Q \<Longrightarrow> \<exists>a w. m = Some (a, w) \<and> Q a w"
  by (cases m) (auto simp: wp_def)

section \<open>Concrete worlds\<close>

text \<open>For examples: the world in which nothing has happened, and the answer of a call that
  succeeds with nothing to say.\<close>

definition full_build :: build where
  "full_build = \<lparr> no_blake2 = False, no_rmd160 = False, no_sm3 = False, no_camellia = False,
     no_aria = False, no_sm4 = False \<rparr>"

definition first_world :: "(event list \<Rightarrow> string \<Rightarrow> arg list \<Rightarrow> answer) \<Rightarrow> world" where
  "first_world L = \<lparr> lib = L, strerr = (\<lambda>_ _. None), cfg = full_build, log = [], live = Map.empty,
     nxt = 1, fault = False, statics = (\<lambda>_. 0) \<rparr>"

definition ok_answer :: answer where
  "ok_answer = \<lparr> rc = 1, granted = True, written = [], outl = 0, text1 = None, text2 = None, flg = 0, lines = [] \<rparr>"

lemma first_world_simps [simp]:
  "lib (first_world L) = L" "cfg (first_world L) = full_build" "log (first_world L) = []"
  "nxt (first_world L) = 1" "statics (first_world L) s = 0" "live (first_world L) = Map.empty" "\<not> fault (first_world L)"
  by (simp_all add: first_world_def)

lemma wf_first_world [simp]: "wf_world (first_world L)"
  by (simp add: wf_world_def)

end
