(* ===== verification/Component.thy ===== *)
theory Component
  imports Runs
begin

text \<open>
  Model of \<open>src/component.c\<close>: the error queue, randomness, and the message digests, one-shot
  and streaming.
\<close>

section \<open>error\<close>

record error_info =
  code :: nat
  library :: list_u8
  reason :: list_u8
  src_file :: "list_u8 option"
  src_line :: "nat option"
  extra :: "list_u8 option"

text \<open>\<open>ERR_lib_error_string\<close> and \<open>ERR_reason_error_string\<close> look a code up in a constant table.\<close>

definition take_option :: "u8 list option \<Rightarrow> world \<Rightarrow> list_u8 option outcome" where
  "take_option t w = (case t of
     None \<Rightarrow> Some (None, w)
   | Some s \<Rightarrow> do { (l, w) \<leftarrow> string_take s w; Some (Some l, w) })"

definition fill_error_info ::
    "nat \<Rightarrow> u8 list option \<Rightarrow> int \<Rightarrow> u8 list option \<Rightarrow> world \<Rightarrow> error_info outcome" where
  "fill_error_info c f ln d w = do {
     (lb, w) \<leftarrow> string_take (text_of (strerr w ''ERR_lib_error_string'' c)) w;
     (rs, w) \<leftarrow> string_take (text_of (strerr w ''ERR_reason_error_string'' c)) w;
     (fl, w) \<leftarrow> take_option f w;
     let l = (if ln \<noteq> 0 then Some (c_u32 ln) else None);
     (dt, w) \<leftarrow> take_option (if d \<noteq> None \<and> d \<noteq> Some [] then d else None) w;
     Some (\<lparr> code = c, library = lb, reason = rs, src_file = fl, src_line = l, extra = dt \<rparr>, w) }"

definition ERR_TXT_STRING :: int where "ERR_TXT_STRING = 2"

text \<open>\<open>ERR_get_error_all\<close>: the code as result, the file in \<open>text1\<close>, the line in \<open>outl\<close>, the data
  in \<open>text2\<close>.\<close>

definition error_data :: "answer \<Rightarrow> u8 list option" where
  "error_data a = (if flg a AND ERR_TXT_STRING \<noteq> 0 then text2 a else None)"

definition pop_error :: "world \<Rightarrow> error_info option outcome" where
  "pop_error w = do {
     (a, w) \<leftarrow> ccall ''ERR_get_error_all'' [] w;
     if c_u32 (rc a) = 0 then Some (None, w)
     else do { (i, w) \<leftarrow> fill_error_info (c_u32 (rc a)) (text1 a) (outl a) (error_data a) w; Some (Some i, w) } }"

definition clear_errors :: "world \<Rightarrow> unit outcome" where
  "clear_errors w = do { (_, w) \<leftarrow> ccall ''ERR_clear_error'' [] w; Some ((), w) }"

text \<open>\<open>sizeof\<close> of the WIT record \<open>error-info\<close> on wasm32: a 64-bit code, two strings, and three
  options.\<close>

definition sizeof_error_info :: nat where "sizeof_error_info = 56"

record error_list =
  items_at :: ptr
  items :: "error_info list"

text \<open>
  The loop of \<open>drain_errors\<close>, with \<open>n\<close> iterations of fuel: \<open>buf\<close> is the block of \<open>cap\<close>
  entries, \<open>acc\<close> the entries written so far (\<open>len\<close> of them). A write at or beyond \<open>cap\<close> is
  outside the block.
\<close>

fun drain_loop :: "nat \<Rightarrow> nat \<Rightarrow> ptr \<Rightarrow> error_info list \<Rightarrow> world \<Rightarrow> error_list outcome" where
  "drain_loop 0 cap buf acc w = None"
| "drain_loop (Suc n) cap buf acc w = do {
     (a, w) \<leftarrow> ccall ''ERR_get_error_all'' [] w;
     if c_u32 (rc a) = 0 then Some (\<lparr> items_at = buf, items = acc \<rparr>, w)
     else do {
       ((buf, cap), w) \<leftarrow>
         (if length acc = cap
          then do {
            (q, w) \<leftarrow> realloc buf (2 * cap * sizeof_error_info) w;
            if q = 0 then None else Some ((q, 2 * cap), w) }
          else Some ((buf, cap), w));
       if cap \<le> length acc then None
       else do {
         (_, w) \<leftarrow> deref buf w;
         (i, w) \<leftarrow> fill_error_info (c_u32 (rc a)) (text1 a) (outl a) (error_data a) w;
         drain_loop n cap buf (acc @ [i]) w } } }"

definition drain_errors :: "nat \<Rightarrow> world \<Rightarrow> error_list outcome" where
  "drain_errors n w = do {
     (buf, w) \<leftarrow> xmalloc (8 * sizeof_error_info) w;
     drain_loop n 8 buf [] w }"

text \<open>\<open>describe\<close> renders into a 256-byte array; the answer's text is what it holds then.\<close>

definition describe :: "nat \<Rightarrow> world \<Rightarrow> list_u8 outcome" where
  "describe c w = do {
     (a, w) \<leftarrow> ccall ''ERR_error_string_n'' [Val (int (c mod 2 ^ 32)), Val 256] w;
     string_take (text_of (text1 a)) w }"

section \<open>random\<close>

datatype random_error = Drbg_failure nat

definition rand_into :: "string \<Rightarrow> nat \<Rightarrow> world \<Rightarrow> (random_error + list_u8) outcome" where
  "rand_into fn n w = do {
     (p, w) \<leftarrow> xmalloc (if n \<noteq> 0 then n else 1) w;
     (a, w) \<leftarrow> ccall fn [Ptr p, Val (c_int n)] w;
     if rc a \<noteq> 1
     then do {
       (_, w) \<leftarrow> cfree p w;
       (e, w) \<leftarrow> ERR_peek_last_error w;
       Some (Inl (Drbg_failure e), w) }
     else Some (Inr \<lparr> at = p, len = n, bytes = written a \<rparr>, w) }"

definition random_bytes :: "nat \<Rightarrow> world \<Rightarrow> (random_error + list_u8) outcome" where
  "random_bytes = rand_into ''RAND_bytes''"

definition random_private_bytes :: "nat \<Rightarrow> world \<Rightarrow> (random_error + list_u8) outcome" where
  "random_private_bytes = rand_into ''RAND_priv_bytes''"

text \<open>The entropy estimate, a \<open>double\<close> in bits, is passed on divided by 8; the model keeps the
  number of bits.\<close>

definition random_add_seed :: "u8 list \<Rightarrow> int \<Rightarrow> world \<Rightarrow> unit outcome" where
  "random_add_seed material entropy_bits w = do {
     (_, w) \<leftarrow> ccall ''RAND_add'' [Buf material, Val (c_int (length material)), Val entropy_bits] w;
     Some ((), w) }"

section \<open>digest: one-shot\<close>

text \<open>The same table as \<open>wit_digest_md\<close>, repeated in \<open>component.c\<close>.\<close>

definition digest_md :: "build \<Rightarrow> nat \<Rightarrow> string option" where
  "digest_md B alg =
     (if alg = 0 then Some ''EVP_md5'' else if alg = 1 then Some ''EVP_sha1''
      else if alg = 2 then Some ''EVP_sha224'' else if alg = 3 then Some ''EVP_sha256''
      else if alg = 4 then Some ''EVP_sha384'' else if alg = 5 then Some ''EVP_sha512''
      else if alg = 6 then Some ''EVP_sha512_224'' else if alg = 7 then Some ''EVP_sha512_256''
      else if alg = 8 then Some ''EVP_sha3_224'' else if alg = 9 then Some ''EVP_sha3_256''
      else if alg = 10 then Some ''EVP_sha3_384'' else if alg = 11 then Some ''EVP_sha3_512''
      else if alg = 12 then Some ''EVP_shake128'' else if alg = 13 then Some ''EVP_shake256''
      else if \<not> no_blake2 B \<and> alg = 14 then Some ''EVP_blake2s256''
      else if \<not> no_blake2 B \<and> alg = 15 then Some ''EVP_blake2b512''
      else if \<not> no_rmd160 B \<and> alg = 16 then Some ''EVP_ripemd160''
      else if \<not> no_sm3 B \<and> alg = 17 then Some ''EVP_sm3''
      else None)"

datatype digest_error =
    Digest_unsupported_algorithm
  | Digest_xof_required
  | Digest_internal nat

definition digest_is_xof :: "nat \<Rightarrow> bool" where
  "digest_is_xof a \<longleftrightarrow> a = 12 \<or> a = 13"

definition digest_internal :: "world \<Rightarrow> (digest_error + 'a) outcome" where
  "digest_internal w = do { (e, w) \<leftarrow> ERR_peek_last_error w; Some (Inl (Digest_internal e), w) }"

definition digest_one_shot :: "nat \<Rightarrow> u8 list \<Rightarrow> world \<Rightarrow> (digest_error + list_u8) outcome" where
  "digest_one_shot alg data w = (case digest_md (cfg w) alg of
     None \<Rightarrow> Some (Inl Digest_unsupported_algorithm, w)
   | Some md \<Rightarrow>
       if digest_is_xof alg then Some (Inl Digest_xof_required, w)
       else do {
         (sz, w) \<leftarrow> ccall ''EVP_MD_get_size'' [Str md] w;
         (p, w) \<leftarrow> xmalloc (c_u32 (rc sz)) w;
         (a, w) \<leftarrow> ccall ''EVP_Digest'' [Buf data, Ptr p, Str md] w;
         if rc a \<noteq> 1
         then do { (_, w) \<leftarrow> cfree p w; digest_internal w }
         else Some (Inr \<lparr> at = p, len = c_u32 (outl a), bytes = written a \<rparr>, w) })"

definition digest_one_shot_xof ::
    "nat \<Rightarrow> u8 list \<Rightarrow> nat \<Rightarrow> world \<Rightarrow> (digest_error + list_u8) outcome" where
  "digest_one_shot_xof alg data out_len w = (case digest_md (cfg w) alg of
     None \<Rightarrow> Some (Inl Digest_unsupported_algorithm, w)
   | Some md \<Rightarrow>
       if \<not> digest_is_xof alg then Some (Inl Digest_xof_required, w)
       else do {
         (ctx, w) \<leftarrow> create (Obj ''EVP_MD_CTX'') ''EVP_MD_CTX_new'' [] w;
         if ctx = 0 then Some (Inl (Digest_internal 0), w)
         else do {
           (p, w) \<leftarrow> xmalloc (if out_len \<noteq> 0 then out_len else 1) w;
           (a, w) \<leftarrow> ccall ''EVP_DigestInit_ex'' [Ptr ctx, Str md] w;
           (a, w) \<leftarrow> (if rc a = 1 then ccall ''EVP_DigestUpdate'' [Ptr ctx, Buf data] w else Some (a, w));
           (a, w) \<leftarrow> (if rc a = 1 then ccall ''EVP_DigestFinalXOF'' [Ptr ctx, Ptr p, Val (int out_len)] w
                     else Some (a, w));
           (_, w) \<leftarrow> release (Obj ''EVP_MD_CTX'') ''EVP_MD_CTX_free'' ctx w;
           if rc a \<noteq> 1
           then do { (_, w) \<leftarrow> cfree p w; digest_internal w }
           else Some (Inr \<lparr> at = p, len = out_len, bytes = written a \<rparr>, w) } })"

definition digest_output_size :: "nat \<Rightarrow> world \<Rightarrow> (digest_error + nat) outcome" where
  "digest_output_size alg w = (case digest_md (cfg w) alg of
     None \<Rightarrow> Some (Inl Digest_unsupported_algorithm, w)
   | Some md \<Rightarrow> do {
       (a, w) \<leftarrow> ccall ''EVP_MD_get_size'' [Str md] w;
       Some (Inr (c_u32 (rc a)), w) })"

definition digest_block_size :: "nat \<Rightarrow> world \<Rightarrow> (digest_error + nat) outcome" where
  "digest_block_size alg w = (case digest_md (cfg w) alg of
     None \<Rightarrow> Some (Inl Digest_unsupported_algorithm, w)
   | Some md \<Rightarrow> do {
       (a, w) \<leftarrow> ccall ''EVP_MD_get_block_size'' [Str md] w;
       Some (Inr (c_u32 (rc a)), w) })"

section \<open>digest: the context resource\<close>

text \<open>
  The representation of a \<open>context\<close>: the address of the structure and its two fields. The
  handle tables of the WIT bindings are generated code; a handle is modelled by the
  representation it stands for. \<open>drop_own\<close> of a handle runs the destructor.
\<close>

record digest_rep =
  dself :: ptr
  dctx :: ptr
  dalg :: nat

definition digest_constructor :: "nat \<Rightarrow> world \<Rightarrow> digest_rep outcome" where
  "digest_constructor alg w = do {
     (r, w) \<leftarrow> xmalloc 8 w;
     (_, w) \<leftarrow> deref r w;
     (ctx, w) \<leftarrow> create (Obj ''EVP_MD_CTX'') ''EVP_MD_CTX_new'' [] w;
     (case digest_md (cfg w) alg of
        None \<Rightarrow> Some (\<lparr> dself = r, dctx = ctx, dalg = alg \<rparr>, w)
      | Some md \<Rightarrow>
          if ctx = 0 then Some (\<lparr> dself = r, dctx = ctx, dalg = alg \<rparr>, w)
          else do {
            (_, w) \<leftarrow> ccall ''EVP_DigestInit_ex'' [Ptr ctx, Str md] w;
            Some (\<lparr> dself = r, dctx = ctx, dalg = alg \<rparr>, w) }) }"

definition digest_update :: "digest_rep \<Rightarrow> u8 list \<Rightarrow> world \<Rightarrow> (digest_error + unit) outcome" where
  "digest_update r data w = do {
     (_, w) \<leftarrow> deref (dself r) w;
     if dctx r = 0 then digest_internal w
     else do {
       (a, w) \<leftarrow> ccall ''EVP_DigestUpdate'' [Ptr (dctx r), Buf data] w;
       if rc a \<noteq> 1 then digest_internal w else Some (Inr (), w) } }"

definition digest_destructor :: "digest_rep \<Rightarrow> world \<Rightarrow> unit outcome" where
  "digest_destructor r w =
     (if dself r = 0 then Some ((), w)
      else do {
        (_, w) \<leftarrow> deref (dself r) w;
        (_, w) \<leftarrow> (if dctx r \<noteq> 0 then release (Obj ''EVP_MD_CTX'') ''EVP_MD_CTX_free'' (dctx r) w
                  else Some ((), w));
        cfree (dself r) w })"

definition digest_finish :: "digest_rep \<Rightarrow> world \<Rightarrow> (digest_error + list_u8) outcome" where
  "digest_finish r w = do {
     (_, w) \<leftarrow> deref (dself r) w;
     if digest_is_xof (dalg r)
     then do { (_, w) \<leftarrow> digest_destructor r w; Some (Inl Digest_xof_required, w) }
     else do {
       (sz, w) \<leftarrow> ccall ''EVP_MD_CTX_get_size'' [Ptr (dctx r)] w;
       (p, w) \<leftarrow> xmalloc (c_u32 (rc sz)) w;
       (_, w) \<leftarrow> deref (dself r) w;
       ((ok, a), w) \<leftarrow> (if dctx r = 0 then Some ((False, sz), w)
          else do {
            (a, w) \<leftarrow> ccall ''EVP_DigestFinal_ex'' [Ptr (dctx r), Ptr p] w;
            Some ((rc a = 1, a), w) });
       (_, w) \<leftarrow> digest_destructor r w;
       if \<not> ok then do { (_, w) \<leftarrow> cfree p w; digest_internal w }
       else Some (Inr \<lparr> at = p, len = c_u32 (outl a), bytes = written a \<rparr>, w) } }"

definition digest_finish_xof :: "digest_rep \<Rightarrow> nat \<Rightarrow> world \<Rightarrow> (digest_error + list_u8) outcome" where
  "digest_finish_xof r out_len w = do {
     (_, w) \<leftarrow> deref (dself r) w;
     if \<not> digest_is_xof (dalg r)
     then do { (_, w) \<leftarrow> digest_destructor r w; Some (Inl Digest_xof_required, w) }
     else do {
       (p, w) \<leftarrow> xmalloc (if out_len \<noteq> 0 then out_len else 1) w;
       (_, w) \<leftarrow> deref (dself r) w;
       ((ok, bs), w) \<leftarrow> (if dctx r = 0 then Some ((False, []), w)
          else do {
            (a, w) \<leftarrow> ccall ''EVP_DigestFinalXOF'' [Ptr (dctx r), Ptr p, Val (int out_len)] w;
            Some ((rc a = 1, written a), w) });
       (_, w) \<leftarrow> digest_destructor r w;
       if \<not> ok then do { (_, w) \<leftarrow> cfree p w; digest_internal w }
       else Some (Inr \<lparr> at = p, len = out_len, bytes = bs \<rparr>, w) } }"

definition digest_clone :: "digest_rep \<Rightarrow> world \<Rightarrow> digest_rep outcome" where
  "digest_clone src w = do {
     (dst, w) \<leftarrow> xmalloc 8 w;
     (_, w) \<leftarrow> deref dst w;
     (_, w) \<leftarrow> deref (dself src) w;
     (ctx, w) \<leftarrow> create (Obj ''EVP_MD_CTX'') ''EVP_MD_CTX_new'' [] w;
     if ctx \<noteq> 0 \<and> dctx src \<noteq> 0
     then do {
       (_, w) \<leftarrow> ccall ''EVP_MD_CTX_copy_ex'' [Ptr ctx, Ptr (dctx src)] w;
       Some (\<lparr> dself = dst, dctx = ctx, dalg = dalg src \<rparr>, w) }
     else Some (\<lparr> dself = dst, dctx = ctx, dalg = dalg src \<rparr>, w) }"

section \<open>Resource safety\<close>

lemmas error_defs = fill_error_info_def take_option_def Let_def

lemma digest_md_shared: "digest_md B alg = wit_digest_md B alg"
  by (simp add: digest_md_def wit_digest_md_def)

lemma rand_into_triple: "ledger_triple [''malloc''] [] (rand_into fn n) held"
  unfolding rand_into_def
  by ((rule wp_known, assumption | assumption | erule wp_elims_first | rule wp_first | erule wp_elims | rule wp_rules
    | (simp (asm_lr) add: ledger_simps; fail))+)

lemma digest_one_shot_triple: "ledger_triple [''malloc''] [] (digest_one_shot alg data) held"
  unfolding digest_one_shot_def digest_internal_def
  by ((rule wp_known, assumption | assumption | erule wp_elims_first | rule wp_first | erule wp_elims | rule wp_rules
    | (simp (asm_lr) add: ledger_simps; fail))+)

lemma digest_one_shot_xof_triple: "ledger_triple [''malloc''] [] (digest_one_shot_xof alg data n) held"
  unfolding digest_one_shot_xof_def digest_internal_def
  by ((rule wp_known, assumption | assumption | erule wp_elims_first | rule wp_first | erule wp_elims | rule wp_rules
    | (simp (asm_lr) add: ledger_simps; fail))+)

text \<open>A live context is its structure and, unless its allocation failed, an \<open>EVP_MD_CTX\<close>.\<close>

definition digest_owns :: "digest_rep \<Rightarrow> footprint" where
  "digest_owns r = (dself r, Mem) # own (dctx r) (Obj ''EVP_MD_CTX'')"

lemma digest_owns_cases:
  "dctx r = 0 \<Longrightarrow> digest_owns r = [(dself r, Mem)]"
  "dctx r \<noteq> 0 \<Longrightarrow> digest_owns r = [(dself r, Mem), (dctx r, Obj ''EVP_MD_CTX'')]"
  by (simp_all add: digest_owns_def)

lemma digest_owns_nonnull:
  "(dself r \<noteq> 0 \<Longrightarrow> ledger_triple fns (digest_owns r) m B) \<Longrightarrow> ledger_triple fns (digest_owns r) m B"
  unfolding digest_owns_def by (rule triple_nonnull)

lemma digest_constructor_triple: "ledger_triple [''malloc''] [] (digest_constructor alg) digest_owns"
  unfolding digest_constructor_def
  by ((rule wp_known, assumption | assumption | erule wp_elims_first | rule wp_first | erule wp_elims | rule wp_rules
    | (simp (asm_lr) add: ledger_simps digest_owns_def; fail))+)

lemma digest_update_triple:
  "ledger_triple [''malloc''] (digest_owns r) (digest_update r data) (\<lambda>x. digest_owns r @ [])"
  unfolding digest_update_def digest_internal_def
  by (rule digest_owns_nonnull, cases "dctx r = 0"; simp only: digest_owns_cases simp_thms if_True if_False;
    (rule wp_known, assumption | assumption | erule wp_elims_first | rule wp_first | erule wp_elims | rule wp_rules | (simp (asm_lr) add: ledger_simps; fail))+)

lemma digest_destructor_triple:
  "ledger_triple [''malloc''] (digest_owns r) (digest_destructor r) (\<lambda>_. [])"
  unfolding digest_destructor_def
  by (rule digest_owns_nonnull, cases "dctx r = 0"; simp only: digest_owns_cases simp_thms if_True if_False;
    (rule wp_known, assumption | assumption | erule wp_elims_first | rule wp_first | erule wp_elims | rule wp_rules | (simp (asm_lr) add: ledger_simps; fail))+)

lemma digest_finish_triple: "ledger_triple [''malloc''] (digest_owns r) (digest_finish r) held"
  unfolding digest_finish_def digest_destructor_def digest_internal_def
  by (rule digest_owns_nonnull, cases "dctx r = 0"; simp only: digest_owns_cases simp_thms if_True if_False;
    (rule wp_known, assumption | assumption | erule wp_elims_first | rule wp_first | erule wp_elims | rule wp_rules | (simp (asm_lr) add: ledger_simps; fail))+)

lemma digest_finish_xof_triple: "ledger_triple [''malloc''] (digest_owns r) (digest_finish_xof r n) held"
  unfolding digest_finish_xof_def digest_destructor_def digest_internal_def
  by (rule digest_owns_nonnull, cases "dctx r = 0"; simp only: digest_owns_cases simp_thms if_True if_False;
    (rule wp_known, assumption | assumption | erule wp_elims_first | rule wp_first | erule wp_elims | rule wp_rules | (simp (asm_lr) add: ledger_simps; fail))+)

lemma digest_clone_triple:
  "ledger_triple [''malloc''] (digest_owns r) (digest_clone r) (\<lambda>d. digest_owns d @ digest_owns r)"
  unfolding digest_clone_def
  by (rule digest_owns_nonnull, cases "dctx r = 0"; simp only: digest_owns_cases simp_thms if_True if_False;
    (rule wp_known, assumption | assumption | erule wp_elims_first | rule wp_first | erule wp_elims | rule wp_rules | (simp (asm_lr) add: ledger_simps digest_owns_def; fail))+)

interpretation digest: owned_resource "[''malloc'']" digest_owns "digest_constructor alg"
  "range (\<lambda>data r. digest_update r data)" "\<lambda>_. []" digest_destructor for alg
  by unfold_locales
    (use digest_constructor_triple digest_update_triple digest_destructor_triple in auto)

section \<open>What the digests compute\<close>

text \<open>
  The library's digest state, read off the call log: the algorithm a context was initialised
  with and the bytes absorbed since.
\<close>

fun md_step :: "(ptr \<rightharpoonup> string \<times> u8 list) \<Rightarrow> event \<Rightarrow> (ptr \<rightharpoonup> string \<times> u8 list)" where
  "md_step st (Ev fn args p) =
     (if fn = ''EVP_DigestInit_ex'' then
        (case args of [Ptr c, Str md] \<Rightarrow> st(c \<mapsto> (md, [])) | _ \<Rightarrow> st)
      else if fn = ''EVP_DigestUpdate'' then
        (case args of [Ptr c, Buf d] \<Rightarrow> st(c := map_option (\<lambda>(md, x). (md, x @ d)) (st c)) | _ \<Rightarrow> st)
      else if fn = ''EVP_MD_CTX_copy_ex'' then
        (case args of [Ptr c, Ptr c'] \<Rightarrow> st(c := st c') | _ \<Rightarrow> st)
      else st)"

definition md_state :: "event list \<Rightarrow> ptr \<rightharpoonup> string \<times> u8 list" where
  "md_state h = foldl md_step Map.empty h"

lemma md_state_append [simp]: "md_state (h @ es) = foldl md_step (md_state h) es"
  by (simp add: md_state_def)

text \<open>
  The documented behaviour of the \<open>EVP_MD\<close> calls, for a digest function \<open>D\<close> with output size
  \<open>sz\<close>: a context absorbs what it is updated with, and finalisation yields the digest of it.
\<close>

definition digest_library ::
    "(event list \<Rightarrow> string \<Rightarrow> arg list \<Rightarrow> answer) \<Rightarrow> (string \<Rightarrow> nat) \<Rightarrow>
     (string \<Rightarrow> u8 list \<Rightarrow> u8 list) \<Rightarrow> bool" where
  "digest_library L sz D \<longleftrightarrow> (\<forall>h md c p d x.
     sz md < 2 ^ 31 \<and>
     rc (L h ''EVP_MD_get_size'' [Str md]) = int (sz md) \<and>
     rc (L h ''EVP_Digest'' [Buf d, Ptr p, Str md]) = 1 \<and>
     written (L h ''EVP_Digest'' [Buf d, Ptr p, Str md]) = D md d \<and>
     outl (L h ''EVP_Digest'' [Buf d, Ptr p, Str md]) = int (sz md) \<and>
     (md_state h c = Some (md, x) \<longrightarrow>
        rc (L h ''EVP_DigestUpdate'' [Ptr c, Buf d]) = 1 \<and>
        rc (L h ''EVP_MD_CTX_get_size'' [Ptr c]) = int (sz md) \<and>
        rc (L h ''EVP_DigestFinal_ex'' [Ptr c, Ptr p]) = 1 \<and>
        written (L h ''EVP_DigestFinal_ex'' [Ptr c, Ptr p]) = D md x \<and>
        outl (L h ''EVP_DigestFinal_ex'' [Ptr c, Ptr p]) = int (sz md)))"

lemma digest_libraryD:
  assumes "digest_library L sz D"
  shows "rc (L h ''EVP_MD_get_size'' [Str md]) = int (sz md)"
    "rc (L h ''EVP_Digest'' [Buf d, Ptr p, Str md]) = 1"
    "written (L h ''EVP_Digest'' [Buf d, Ptr p, Str md]) = D md d"
    "outl (L h ''EVP_Digest'' [Buf d, Ptr p, Str md]) = int (sz md)"
    "md_state h c = Some (md, x) \<Longrightarrow> rc (L h ''EVP_DigestUpdate'' [Ptr c, Buf d]) = 1"
    "md_state h c = Some (md, x) \<Longrightarrow> rc (L h ''EVP_MD_CTX_get_size'' [Ptr c]) = int (sz md)"
    "md_state h c = Some (md, x) \<Longrightarrow> rc (L h ''EVP_DigestFinal_ex'' [Ptr c, Ptr p]) = 1"
    "md_state h c = Some (md, x) \<Longrightarrow> written (L h ''EVP_DigestFinal_ex'' [Ptr c, Ptr p]) = D md x"
    "md_state h c = Some (md, x) \<Longrightarrow> outl (L h ''EVP_DigestFinal_ex'' [Ptr c, Ptr p]) = int (sz md)"
    "c_u32 (int (sz md)) = sz md"
proof -
  have "sz md < 2 ^ 31" using assms unfolding digest_library_def by blast
  then show "c_u32 (int (sz md)) = sz md" by simp
qed (use assms in \<open>unfold digest_library_def, blast\<close>)+

text \<open>A context in use: \<open>absorbed w r md x\<close>.\<close>

definition absorbed :: "world \<Rightarrow> digest_rep \<Rightarrow> string \<Rightarrow> u8 list \<Rightarrow> bool" where
  "absorbed w r md x \<longleftrightarrow> 0 < nxt w \<and> dself r \<noteq> 0 \<and> dctx r \<noteq> 0 \<and> \<not> digest_is_xof (dalg r) \<and>
     md_state (log w) (dctx r) = Some (md, x)"

lemma digest_constructor_absorbs:
  assumes "grants (lib w) ''malloc''" and "grants (lib w) ''EVP_MD_CTX_new''" and "0 < nxt w"
    and "digest_md (cfg w) alg = Some md" and "\<not> digest_is_xof alg"
  shows "\<exists>r w'. digest_constructor alg w = Some (r, w') \<and> absorbed w' r md [] \<and> lib w' = lib w"
  using assms by (simp add: digest_constructor_def run_eqs absorbed_def)

lemma digest_update_absorbs:
  assumes "digest_library (lib w) sz D" and "absorbed w r md x"
  shows "\<exists>w'. digest_update r d w = Some (Inr (), w') \<and> absorbed w' r md (x @ d) \<and> lib w' = lib w"
  using assms by (simp add: digest_update_def run_eqs absorbed_def digest_libraryD)

lemma digest_finish_digests:
  assumes "digest_library (lib w) sz D" and "absorbed w r md x" and "grants (lib w) ''malloc''"
  shows "\<exists>p w'. digest_finish r w = Some (Inr \<lparr> at = p, len = sz md, bytes = D md x \<rparr>, w') \<and> lib w' = lib w"
  using assms
  by (simp add: digest_finish_def digest_destructor_def run_eqs absorbed_def digest_libraryD)

lemma digest_one_shot_digests:
  assumes "digest_library (lib w) sz D" and "grants (lib w) ''malloc''" and "0 < nxt w"
    and "digest_md (cfg w) alg = Some md" and "\<not> digest_is_xof alg"
  shows "\<exists>p w'. digest_one_shot alg d w = Some (Inr \<lparr> at = p, len = sz md, bytes = D md d \<rparr>, w')"
  using assms by (simp add: digest_one_shot_def run_eqs digest_libraryD)

interpretation digest_stream: streaming
  "\<lambda>w. digest_library (lib w) sz D \<and> grants (lib w) ''malloc'' \<and> grants (lib w) ''EVP_MD_CTX_new'' \<and>
     0 < nxt w \<and> digest_md (cfg w) alg = Some md \<and> \<not> digest_is_xof alg"
  "digest_constructor alg" digest_update digest_finish
  "\<lambda>w r x. digest_library (lib w) sz D \<and> grants (lib w) ''malloc'' \<and> absorbed w r md x"
  "D md" "sz md" for alg md sz D
  by unfold_locales
    (use digest_constructor_absorbs digest_update_absorbs digest_finish_digests in fastforce)+

section \<open>Draining the error queue\<close>

text \<open>
  OpenSSL's error queue: \<open>ERR_get_error_all\<close> answers the queued codes one after the other,
  then 0. \<open>codes\<close> are the ones queued when the history was \<open>h0\<close>.
\<close>

definition taken :: "event list \<Rightarrow> nat" where
  "taken h = length (filter (\<lambda>e. case e of Ev fn args p \<Rightarrow> fn = ''ERR_get_error_all'') h)"

definition error_queue ::
    "(event list \<Rightarrow> string \<Rightarrow> arg list \<Rightarrow> answer) \<Rightarrow> event list \<Rightarrow> nat list \<Rightarrow> bool" where
  "error_queue L h0 codes \<longleftrightarrow> list_all (\<lambda>c. 0 < c \<and> c < 2 ^ 32) codes \<and>
     (\<forall>h. taken h0 \<le> taken h \<longrightarrow>
        rc (L h ''ERR_get_error_all'' []) =
          (if taken h - taken h0 < length codes then int (codes ! (taken h - taken h0)) else 0))"

lemma taken_append [simp]: "taken (h @ h') = taken h + taken h'"
  by (simp add: taken_def)

lemma taken_Cons [simp]:
  "taken (Ev fn args p # h) = (if fn = ''ERR_get_error_all'' then Suc (taken h) else taken h)"
  "taken [] = 0"
  by (simp_all add: taken_def)

text \<open>Filling in an entry allocates strings; it does not touch the queue.\<close>

lemma take_option_eq:
  assumes "grants (lib w) ''malloc''" and "0 < nxt w"
  shows "\<exists>l w'. take_option t w = Some (l, w') \<and> lib w' = lib w \<and> 0 < nxt w' \<and> taken (log w') = taken (log w)"
  using assms by (cases t) (simp_all add: take_option_def run_eqs)

lemma fill_error_info_eq:
  assumes "grants (lib w) ''malloc''" and "0 < nxt w"
  shows "\<exists>i w'. fill_error_info c f ln d w = Some (i, w') \<and> code i = c \<and>
           lib w' = lib w \<and> 0 < nxt w' \<and> taken (log w') = taken (log w)"
proof -
  let ?a = "\<lambda>t. acquired Mem ''malloc'' [Val (int (if length (text_of t) \<noteq> 0 then length (text_of t) else 1))]"
  let ?w1 = "?a (strerr w ''ERR_lib_error_string'' c) w"
  let ?w2 = "?a (strerr w ''ERR_reason_error_string'' c) ?w1"
  obtain fl w3 where 3: "take_option f ?w2 = Some (fl, w3)" "lib w3 = lib w" "0 < nxt w3"
      "taken (log w3) = taken (log w)"
    using take_option_eq [of ?w2 f] assms by auto
  obtain dt w4 where 4: "take_option (if d \<noteq> None \<and> d \<noteq> Some [] then d else None) w3 = Some (dt, w4)"
      "lib w4 = lib w" "0 < nxt w4" "taken (log w4) = taken (log w)"
    using take_option_eq [of w3] 3 assms(1) by metis
  show ?thesis
    using assms 3 4 by (simp add: fill_error_info_def run_eqs Let_def)
qed

lemma drain_loop_drains:
  assumes "error_queue (lib w) h0 codes" and "grants (lib w) ''malloc''" and "grants (lib w) ''realloc''"
    and "0 < nxt w" and "0 < cap" and "length acc \<le> cap"
    and "taken (log w) = taken h0 + (length codes - n)" and "n \<le> length codes" and "n < fuel"
  shows "\<exists>el w'. drain_loop fuel cap buf acc w = Some (el, w') \<and>
      map code (items el) = map code acc @ drop (length codes - n) codes \<and>
      lib w' = lib w \<and> taken (log w') = taken h0 + Suc (length codes)"
  using assms
proof (induction n arbitrary: fuel cap buf acc w)
  case 0
  then obtain k where "fuel = Suc k" by (cases fuel) auto
  with 0 show ?case by (simp add: ccall_eq error_queue_def c_u32_def)
next
  case (Suc n)
  then obtain k where k: "fuel = Suc k" "n < k" by (cases fuel) auto
  let ?i = "length codes - Suc n"
  let ?a = "lib w (log w) ''ERR_get_error_all'' []"
  let ?w1 = "record_call ''ERR_get_error_all'' [] 0 w"
  have i: "?i < length codes" using Suc.prems by simp
  then have c: "0 < codes ! ?i" "codes ! ?i < 2 ^ 32"
    using Suc.prems(1) by (simp_all add: error_queue_def list_all_length)
  have a: "c_u32 (rc ?a) = codes ! ?i"
    using Suc.prems i c by (simp add: error_queue_def)
  define full where "full = (length acc = cap)"
  define w2 where "w2 = (if full then reallocated buf (2 * cap * sizeof_error_info) ?w1 else ?w1)"
  define buf2 where "buf2 = (if full then nxt ?w1 else buf)"
  define cap2 where "cap2 = (if full then 2 * cap else cap)"
  have w2: "lib w2 = lib w" "0 < nxt w2" "taken (log w2) = Suc (taken (log w))" "length acc < cap2" "0 < cap2"
    using Suc.prems by (auto simp: w2_def cap2_def full_def reallocated_simps)
  have grow: "(if length acc = cap
      then do {
        (q, w) \<leftarrow> realloc buf (2 * cap * sizeof_error_info) ?w1;
        if q = 0 then None else Some ((q, 2 * cap), w) }
      else Some ((buf, cap), ?w1)) = Some ((buf2, cap2), w2)"
    using Suc.prems by (simp add: realloc_eq w2_def buf2_def cap2_def full_def)
  obtain e w3 where 3: "fill_error_info (codes ! ?i) (text1 ?a) (outl ?a) (error_data ?a) (touched buf2 w2) = Some (e, w3)"
      "code e = codes ! ?i" "lib w3 = lib w" "0 < nxt w3" "taken (log w3) = taken h0 + (length codes - n)"
    using fill_error_info_eq [of "touched buf2 w2" "codes ! ?i" "text1 ?a" "outl ?a" "error_data ?a"]
      w2 Suc.prems i by (auto simp: Suc_diff_Suc)
  have step: "drain_loop fuel cap buf acc w = drain_loop k cap2 buf2 (acc @ [e]) w3"
    using c w2 by (simp only: k drain_loop.simps ccall_eq a grow 3 deref_eq Option.bind.simps prod.case) (simp add: 3)
  obtain el w' where "drain_loop k cap2 buf2 (acc @ [e]) w3 = Some (el, w')"
      "map code (items el) = map code (acc @ [e]) @ drop (length codes - n) codes"
      "lib w' = lib w3" "taken (log w') = taken h0 + Suc (length codes)"
    using Suc.IH [of w3 cap2 "acc @ [e]" k buf2] Suc.prems w2 3 k by auto
  moreover have "drop ?i codes = codes ! ?i # drop (length codes - n) codes"
    using i Suc.prems by (simp add: Cons_nth_drop_Suc [symmetric] Suc_diff_Suc)
  ultimately show ?case using step 3 by simp
qed

lemma drain_errors_drains:
  assumes "error_queue (lib w) (log w) codes" and "grants (lib w) ''malloc''" and "grants (lib w) ''realloc''"
    and "0 < nxt w" and "length codes < fuel"
  shows "\<exists>el w'. drain_errors fuel w = Some (el, w') \<and> map code (items el) = codes \<and>
      fst (the (pop_error w')) = None"
proof -
  let ?w1 = "acquired Mem ''malloc'' [Val (int (8 * sizeof_error_info))] w"
  obtain el w' where w': "drain_loop fuel 8 (nxt w) [] ?w1 = Some (el, w')" "map code (items el) = codes"
      "lib w' = lib w" "taken (log w') = taken (log w) + Suc (length codes)"
    using drain_loop_drains [of ?w1 "log w" codes 8 "[]" "length codes" fuel "nxt w"] assms by auto
  then have "rc (lib w' (log w') ''ERR_get_error_all'' []) = 0"
    using assms(1) by (simp add: error_queue_def)
  then have "fst (the (pop_error w')) = None" by (simp add: pop_error_def ccall_eq c_u32_def)
  with w' show ?thesis using assms by (simp add: drain_errors_def xmalloc_eq)
qed

section \<open>Properties\<close>

text \<open>C3: With a library that behaves as documented for a digest function D, a streaming
  context fed any list of chunks returns D of their concatenation with its exact length, and
  so does the one-shot function; neither stops.\<close>

theorem digest_streaming_equals_one_shot:
  assumes "digest_library (lib w) sz D" and "grants (lib w) ''malloc''"
    and "grants (lib w) ''EVP_MD_CTX_new''" and "0 < nxt w"
    and "digest_md (cfg w) alg = Some md" and "\<not> digest_is_xof alg"
  shows "\<exists>p q xs w1 w2.
    digest_one_shot alg (concat chunks) w =
      Some (Inr \<lparr> at = p, len = sz md, bytes = D md (concat chunks) \<rparr>, w1) \<and>
    session (digest_constructor alg) (map (\<lambda>d r. digest_update r d) chunks) digest_finish w =
      Some ((xs, Inr \<lparr> at = q, len = sz md, bytes = D md (concat chunks) \<rparr>), w2)"
  using digest_stream.session_computes [of w sz D alg md chunks] digest_one_shot_digests [OF assms(1,2,4-)] assms
  by fastforce

definition sample_digest_lib :: "event list \<Rightarrow> string \<Rightarrow> arg list \<Rightarrow> answer" where
  "sample_digest_lib h fn args =
     (if fn = ''EVP_Digest''
      then (case args of [Buf d, _, _] \<Rightarrow> ok_answer\<lparr> written := [word_of_nat (length d)], outl := 1 \<rparr> | _ \<Rightarrow> ok_answer)
      else if fn = ''EVP_DigestFinal_ex''
      then (case args of [Ptr c, _] \<Rightarrow>
              (case md_state h c of Some (_, x) \<Rightarrow> ok_answer\<lparr> written := [word_of_nat (length x)], outl := 1 \<rparr>
               | None \<Rightarrow> ok_answer) | _ \<Rightarrow> ok_answer)
      else ok_answer)"

lemma sample_digest_lib_ok:
  "digest_library sample_digest_lib (\<lambda>_. 1) (\<lambda>_ x. [word_of_nat (length x)])"
  "grants sample_digest_lib fn"
  by (auto simp: digest_library_def grants_def sample_digest_lib_def ok_answer_def
      split: arg.split list.split option.split)

theorem digest_streaming_equals_one_shot_witness:
  "\<exists>p q xs w1 w2.
    digest_one_shot 3 (concat [[1, 2], [3]]) (first_world sample_digest_lib) =
      Some (Inr \<lparr> at = p, len = 1, bytes = [3] \<rparr>, w1) \<and>
    session (digest_constructor 3) (map (\<lambda>d r. digest_update r d) [[1, 2], [3]]) digest_finish
        (first_world sample_digest_lib) =
      Some ((xs, Inr \<lparr> at = q, len = 1, bytes = [3] \<rparr>), w2)"
  using digest_streaming_equals_one_shot [of "first_world sample_digest_lib" "\<lambda>_. 1"
      "\<lambda>_ x. [word_of_nat (length x)]" 3 "''EVP_sha256''" "[[1, 2], [3]]"]
    sample_digest_lib_ok
  by (simp add: digest_md_def digest_is_xof_def)

text \<open>C4: Whatever the library answers, a digest context that is constructed, updated any
  number of times and then finished (or finished as an XOF, or dropped) uses no freed object,
  frees all it allocated except the buffer it returns, and stops only if malloc fails.\<close>

theorem digest_sessions_balanced:
  "ledger_triple [''malloc''] [] (session (digest_constructor alg) (map (\<lambda>d r. digest_update r d) chunks)
      digest_finish) (\<lambda>(xs, y). held y) \<and>
   ledger_triple [''malloc''] [] (session (digest_constructor alg) (map (\<lambda>d r. digest_update r d) chunks)
      (\<lambda>r. digest_finish_xof r n)) (\<lambda>(xs, y). held y) \<and>
   ledger_triple [''malloc''] [] (session (digest_constructor alg) (map (\<lambda>d r. digest_update r d) chunks)
      digest_destructor) (\<lambda>(xs, y). [])"
proof -
  have ms: "set (map (\<lambda>d r. digest_update r d) chunks) \<subseteq> range (\<lambda>data r. digest_update r data)" by auto
  have c: "concat (map (\<lambda>_. []) (rev xs)) = ([] :: footprint)" for xs :: "(digest_error + unit) list"
    by (induction xs) simp_all
  show ?thesis
    using digest.session_balanced [OF ms digest_finish_triple] digest.session_dropped [OF ms]
      digest.session_balanced [OF ms digest_finish_xof_triple]
    by (simp only: c append_Nil2)
qed

text \<open>The one-shot digests and the random generators leave, on every path and for every
  library, exactly the returned buffer live.\<close>

theorem one_shots_balanced:
  "ledger_triple [''malloc''] [] (digest_one_shot alg data) held \<and>
   ledger_triple [''malloc''] [] (digest_one_shot_xof alg data n) held \<and>
   ledger_triple [''malloc''] [] (random_bytes n) held \<and>
   ledger_triple [''malloc''] [] (random_private_bytes n) held"
  by (simp add: digest_one_shot_triple digest_one_shot_xof_triple rand_into_triple
      random_bytes_def random_private_bytes_def)

text \<open>C5: When the error queue holds n codes, drain-errors returns entries with exactly these
  codes in queue order (growing its array past 8 entries without an out-of-bounds write) and
  leaves the queue empty; n + 1 iterations suffice.\<close>

theorem drain_errors_complete:
  assumes "error_queue (lib w) (log w) codes" and "grants (lib w) ''malloc''"
    and "grants (lib w) ''realloc''" and "0 < nxt w"
  shows "\<exists>el w'. drain_errors (Suc (length codes)) w = Some (el, w') \<and> map code (items el) = codes \<and>
    fst (the (pop_error w')) = None"
  using drain_errors_drains [OF assms, of "Suc (length codes)"] by simp

definition sample_error_lib :: "event list \<Rightarrow> string \<Rightarrow> arg list \<Rightarrow> answer" where
  "sample_error_lib h fn args =
     (if fn = ''ERR_get_error_all'' \<and> taken h < 9 then ok_answer\<lparr> rc := int (taken h) + 1 \<rparr>
      else ok_answer\<lparr> rc := 0 \<rparr>)"

theorem drain_errors_complete_witness:
  "\<exists>el w'. drain_errors (Suc (length (map Suc [0..<9]))) (first_world sample_error_lib) = Some (el, w') \<and>
    map code (items el) = map Suc [0..<9] \<and> fst (the (pop_error w')) = None"
  by (rule drain_errors_complete)
    (auto simp: error_queue_def sample_error_lib_def ok_answer_def list_all_iff grants_def)

text \<open>The two copies of the digest table are the same function; an algorithm without an
  EVP_MD but with a parameter name is one of a family the build leaves out.\<close>

theorem digest_tables_agree:
  "digest_md B alg = wit_digest_md B alg \<and>
   (wit_digest_md B alg = None \<and> wit_digest_name alg \<noteq> None) =
     (no_blake2 B \<and> alg \<in> {14, 15} \<or> no_rmd160 B \<and> alg = 16 \<or> no_sm3 B \<and> alg = 17) \<and>
   (wit_digest_name alg = None) = (18 \<le> alg)"
proof (cases "alg < 18")
  case True
  then have "alg \<in> set [0..<18]" by simp
  then show ?thesis
    by (simp add: upt_conv_Cons) (elim disjE; simp add: digest_md_shared wit_digest_md_def wit_digest_name_def)
qed (auto simp: digest_md_shared wit_digest_md_def wit_digest_name_def)

text \<open>C6: A context built for an algorithm the build does not have has no digest set; when
  OpenSSL reports its size as -1 (as documented) and malloc refuses 4294967295 bytes, finish
  stops the component instead of returning an internal error.\<close>

theorem digest_finish_unsupported_stops:
  assumes "digest_md (cfg w) alg = None" and "0 < nxt w"
    and "\<forall>h c. md_state h c = None \<longrightarrow> rc (lib w h ''EVP_MD_CTX_get_size'' [Ptr c]) = -1"
    and "\<forall>h n. granted (lib w h ''malloc'' [Val n]) = (n < 2 ^ 31)"
    and "grants (lib w) ''EVP_MD_CTX_new''" and "md_state (log w) (Suc (nxt w)) = None"
  shows "session (digest_constructor alg) (map (\<lambda>d r. digest_update r d) []) digest_finish w = None"
proof -
  have "\<not> digest_is_xof alg" using assms(1) by (auto simp: digest_md_def digest_is_xof_def split: if_splits)
  then show ?thesis
    using assms
    by (simp add: session_def digest_constructor_def digest_finish_def xmalloc_def malloc_def
        create_def acquire_def grantsD ccall_eq deref_eq Let_def c_u32_minus_one)
qed

definition sample_no_digest_lib :: "event list \<Rightarrow> string \<Rightarrow> arg list \<Rightarrow> answer" where
  "sample_no_digest_lib h fn args =
     (if fn = ''malloc'' then (case args of [Val n] \<Rightarrow> ok_answer\<lparr> granted := n < 2 ^ 31 \<rparr> | _ \<Rightarrow> ok_answer)
      else ok_answer\<lparr> rc := - 1 \<rparr>)"

theorem digest_finish_unsupported_stops_witness:
  "session (digest_constructor 18) (map (\<lambda>d r. digest_update r d) []) digest_finish
     (first_world sample_no_digest_lib) = None"
  by (rule digest_finish_unsupported_stops)
    (simp_all add: digest_md_def md_state_def grants_def sample_no_digest_lib_def ok_answer_def)

end
