(* ===== verification/Kdf.thy ===== *)
theory Kdf
  imports Runs
begin

text \<open>
  Model of \<open>src/kdf.c\<close>: each exported function builds an \<open>OSSL_PARAM\<close> array and runs it through
  \<open>derive\<close>. Parameter keys are the strings of \<open>openssl/core_names.h\<close>.
\<close>

section \<open>Data\<close>

datatype kdf_error =
    Kdf_unsupported_algorithm
  | Kdf_invalid_parameter
  | Kdf_output_too_large
  | Kdf_internal nat

record pbkdf2_params =
  pb_hash :: nat
  pb_iterations :: nat
  pb_salt :: "u8 list"

record hkdf_params =
  hk_hash :: nat
  hk_salt :: "u8 list option"
  hk_info :: "u8 list"

record hkdf_extract_params =
  hx_hash :: nat
  hx_salt :: "u8 list option"

record hkdf_expand_params =
  he_hash :: nat
  he_info :: "u8 list"

record scrypt_params =
  sc_salt :: "u8 list"
  sc_n :: nat
  sc_r :: nat
  sc_p :: nat
  sc_max_mem :: nat

record argon2_params =
  ar_kind :: nat
  ar_salt :: "u8 list"
  ar_secret :: "u8 list option"
  ar_ad :: "u8 list option"
  ar_t_cost :: nat
  ar_m_cost :: nat
  ar_lanes :: nat

record kbkdf_params =
  kb_hash :: nat
  kb_label :: "u8 list"
  kb_context :: "u8 list"

record ss_kdf_params =
  ss_hash :: nat
  ss_info :: "u8 list"
  ss_salt :: "u8 list option"

record x963_kdf_params =
  x9_hash :: nat
  x9_info :: "u8 list"

record tls13_expand_label_params =
  tl_hash :: nat
  tl_label :: "u8 list"
  tl_context :: "u8 list"
  tl_secret :: "u8 list"

section \<open>Derivation\<close>

definition derive :: "string \<Rightarrow> ossl_param list \<Rightarrow> nat \<Rightarrow> world \<Rightarrow> (kdf_error + list_u8) outcome" where
  "derive name params out_len w = do {
     (kdf, w) \<leftarrow> create (Obj ''EVP_KDF'') ''EVP_KDF_fetch'' [Str name] w;
     if kdf = 0 then Some (Inl Kdf_unsupported_algorithm, w)
     else do {
       (ctx, w) \<leftarrow> create (Obj ''EVP_KDF_CTX'') ''EVP_KDF_CTX_new'' [Ptr kdf] w;
       (_, w) \<leftarrow> release (Obj ''EVP_KDF'') ''EVP_KDF_free'' kdf w;
       if ctx = 0 then Some (Inl (Kdf_internal 0), w)
       else do {
         (p, w) \<leftarrow> xmalloc (if out_len \<noteq> 0 then out_len else 1) w;
         (a, w) \<leftarrow> ccall ''EVP_KDF_derive'' [Ptr ctx, Ptr p, Val (int out_len), Pars params] w;
         (_, w) \<leftarrow> release (Obj ''EVP_KDF_CTX'') ''EVP_KDF_CTX_free'' ctx w;
         if rc a \<noteq> 1
         then do {
           (_, w) \<leftarrow> cfree p w;
           (e, w) \<leftarrow> ERR_peek_last_error w;
           Some (Inl (Kdf_internal e), w) }
         else Some (Inr \<lparr> at = p, len = out_len, bytes = written a \<rparr>, w) } } }"

text \<open>
  The local array \<open>OSSL_PARAM p[cap]\<close> filled with \<open>p[i++] = ...\<close> and an end marker at \<open>p[i]\<close>:
  the last write is inside the array only when the entries before it are fewer than \<open>cap\<close>.
\<close>

definition param_array :: "nat \<Rightarrow> ossl_param list \<Rightarrow> ossl_param list option" where
  "param_array cap ps = (if length ps < cap then Some ps else None)"

definition opt_octets :: "string \<Rightarrow> u8 list option \<Rightarrow> ossl_param list" where
  "opt_octets key v = (case v of None \<Rightarrow> [] | Some b \<Rightarrow> [octet_string key b])"

definition EVP_KDF_HKDF_MODE_EXTRACT_ONLY :: int where "EVP_KDF_HKDF_MODE_EXTRACT_ONLY = 1"
definition EVP_KDF_HKDF_MODE_EXPAND_ONLY :: int where "EVP_KDF_HKDF_MODE_EXPAND_ONLY = 2"

definition pbkdf2 :: "u8 list \<Rightarrow> pbkdf2_params \<Rightarrow> nat \<Rightarrow> world \<Rightarrow> (kdf_error + list_u8) outcome" where
  "pbkdf2 password params out_len w = (case wit_digest_name (pb_hash params) of
     None \<Rightarrow> Some (Inl Kdf_unsupported_algorithm, w)
   | Some dname \<Rightarrow> derive ''PBKDF2''
       [octet_string ''pass'' password, octet_string ''salt'' (pb_salt params),
        uint_param ''iter'' (pb_iterations params), utf8_string ''digest'' dname] out_len w)"

definition hkdf :: "u8 list \<Rightarrow> hkdf_params \<Rightarrow> nat \<Rightarrow> world \<Rightarrow> (kdf_error + list_u8) outcome" where
  "hkdf ikm params out_len w = (case wit_digest_name (hk_hash params) of
     None \<Rightarrow> Some (Inl Kdf_unsupported_algorithm, w)
   | Some dname \<Rightarrow>
       (case param_array 6
           ([utf8_string ''digest'' dname, octet_string ''key'' ikm] @ opt_octets ''salt'' (hk_salt params) @
            [octet_string ''info'' (hk_info params)]) of
          None \<Rightarrow> None
        | Some p \<Rightarrow> derive ''HKDF'' p out_len w))"

definition hkdf_extract :: "u8 list \<Rightarrow> hkdf_extract_params \<Rightarrow> world \<Rightarrow> (kdf_error + list_u8) outcome" where
  "hkdf_extract ikm params w = (case wit_digest_name (hx_hash params) of
     None \<Rightarrow> Some (Inl Kdf_unsupported_algorithm, w)
   | Some dname \<Rightarrow> do {
       (hlen, w) \<leftarrow> (case wit_digest_md (cfg w) (hx_hash params) of
          None \<Rightarrow> Some (0, w)
        | Some md \<Rightarrow> do { (a, w) \<leftarrow> ccall ''EVP_MD_get_size'' [Str md] w; Some (c_u32 (rc a), w) });
       (case param_array 6
           ([int_param ''mode'' EVP_KDF_HKDF_MODE_EXTRACT_ONLY, utf8_string ''digest'' dname,
             octet_string ''key'' ikm] @ opt_octets ''salt'' (hx_salt params)) of
          None \<Rightarrow> None
        | Some p \<Rightarrow> derive ''HKDF'' p hlen w) })"

definition hkdf_expand :: "u8 list \<Rightarrow> hkdf_expand_params \<Rightarrow> nat \<Rightarrow> world \<Rightarrow> (kdf_error + list_u8) outcome" where
  "hkdf_expand prk params out_len w = (case wit_digest_name (he_hash params) of
     None \<Rightarrow> Some (Inl Kdf_unsupported_algorithm, w)
   | Some dname \<Rightarrow> derive ''HKDF''
       [int_param ''mode'' EVP_KDF_HKDF_MODE_EXPAND_ONLY, utf8_string ''digest'' dname,
        octet_string ''key'' prk, octet_string ''info'' (he_info params)] out_len w)"

definition scrypt :: "u8 list \<Rightarrow> scrypt_params \<Rightarrow> nat \<Rightarrow> world \<Rightarrow> (kdf_error + list_u8) outcome" where
  "scrypt password params out_len w =
     (case param_array 8
         ([octet_string ''pass'' password, octet_string ''salt'' (sc_salt params),
           uint64_param ''n'' (sc_n params), uint32_param ''r'' (sc_r params), uint32_param ''p'' (sc_p params)] @
          (if sc_max_mem params \<noteq> 0 then [uint64_param ''maxmem_bytes'' (sc_max_mem params)] else [])) of
        None \<Rightarrow> None
      | Some p \<Rightarrow> derive ''SCRYPT'' p out_len w)"

definition argon2_name :: "nat \<Rightarrow> string option" where
  "argon2_name k = (if k = 0 then Some ''ARGON2D'' else if k = 1 then Some ''ARGON2I''
     else if k = 2 then Some ''ARGON2ID'' else None)"

definition argon2 :: "u8 list \<Rightarrow> argon2_params \<Rightarrow> nat \<Rightarrow> world \<Rightarrow> (kdf_error + list_u8) outcome" where
  "argon2 password params out_len w = (case argon2_name (ar_kind params) of
     None \<Rightarrow> Some (Inl Kdf_unsupported_algorithm, w)
   | Some name \<Rightarrow>
       (case param_array 10
           ([octet_string ''pass'' password, octet_string ''salt'' (ar_salt params)] @
            opt_octets ''secret'' (ar_secret params) @ opt_octets ''ad'' (ar_ad params) @
            [uint32_param ''lanes'' (ar_lanes params), uint32_param ''memcost'' (ar_m_cost params),
             uint32_param ''iter'' (ar_t_cost params)]) of
          None \<Rightarrow> None
        | Some p \<Rightarrow> derive name p out_len w))"

definition kbkdf :: "u8 list \<Rightarrow> kbkdf_params \<Rightarrow> nat \<Rightarrow> world \<Rightarrow> (kdf_error + list_u8) outcome" where
  "kbkdf key params out_len w = (case wit_digest_name (kb_hash params) of
     None \<Rightarrow> Some (Inl Kdf_unsupported_algorithm, w)
   | Some dname \<Rightarrow> derive ''KBKDF''
       [utf8_string ''mac'' ''HMAC'', utf8_string ''digest'' dname, utf8_string ''mode'' ''COUNTER'',
        octet_string ''key'' key, octet_string ''salt'' (kb_label params),
        octet_string ''info'' (kb_context params)] out_len w)"

definition ss_kdf :: "u8 list \<Rightarrow> ss_kdf_params \<Rightarrow> nat \<Rightarrow> world \<Rightarrow> (kdf_error + list_u8) outcome" where
  "ss_kdf shared_secret params out_len w = (case wit_digest_name (ss_hash params) of
     None \<Rightarrow> Some (Inl Kdf_unsupported_algorithm, w)
   | Some dname \<Rightarrow>
       (case param_array 6
           ([utf8_string ''digest'' dname, octet_string ''key'' shared_secret,
             octet_string ''info'' (ss_info params)] @ opt_octets ''salt'' (ss_salt params)) of
          None \<Rightarrow> None
        | Some p \<Rightarrow> derive ''SSKDF'' p out_len w))"

definition x963_kdf :: "u8 list \<Rightarrow> x963_kdf_params \<Rightarrow> nat \<Rightarrow> world \<Rightarrow> (kdf_error + list_u8) outcome" where
  "x963_kdf shared_secret params out_len w = (case wit_digest_name (x9_hash params) of
     None \<Rightarrow> Some (Inl Kdf_unsupported_algorithm, w)
   | Some dname \<Rightarrow> derive ''X963KDF''
       [utf8_string ''digest'' dname, octet_string ''key'' shared_secret,
        octet_string ''info'' (x9_info params)] out_len w)"

section \<open>TLS 1.3 HKDF-Expand-Label\<close>

text \<open>The string literal \<open>"tls13 "\<close>.\<close>

definition tls13_prefix :: "u8 list" where
  "tls13_prefix = [0x74, 0x6c, 0x73, 0x31, 0x33, 0x20]"

text \<open>The bytes the code writes to \<open>info\<close>, in order.\<close>

definition hkdf_label_bytes :: "nat \<Rightarrow> u8 list \<Rightarrow> u8 list \<Rightarrow> u8 list" where
  "hkdf_label_bytes out_len label context =
     [ucast (drop_bit 8 (word_of_nat out_len :: u32) AND 0xff), ucast ((word_of_nat out_len :: u32) AND 0xff),
      word_of_nat (6 + length label)] @ tls13_prefix @ label @ [word_of_nat (length context)] @ context"

definition tls13_expand_label ::
    "tls13_expand_label_params \<Rightarrow> nat \<Rightarrow> world \<Rightarrow> (kdf_error + list_u8) outcome" where
  "tls13_expand_label params out_len w = (case wit_digest_name (tl_hash params) of
     None \<Rightarrow> Some (Inl Kdf_unsupported_algorithm, w)
   | Some dname \<Rightarrow>
       if (length (tl_label params) + 6) mod 2 ^ 32 > 255 \<or> length (tl_context params) > 255 \<or> out_len > 65535
       then Some (Inl Kdf_invalid_parameter, w)
       else (let info_len = (2 + 1 + 6 + length (tl_label params) + 1 + length (tl_context params)) mod 2 ^ 32;
                 content = hkdf_label_bytes out_len (tl_label params) (tl_context params)
             in do {
               (info, w) \<leftarrow> xmalloc info_len w;
               if info_len < length content then None
               else do {
                 (_, w) \<leftarrow> deref info w;
                 (r, w) \<leftarrow> derive ''HKDF''
                   [int_param ''mode'' EVP_KDF_HKDF_MODE_EXPAND_ONLY, utf8_string ''digest'' dname,
                    octet_string ''key'' (tl_secret params), octet_string ''info'' (take info_len content)] out_len w;
                 (_, w) \<leftarrow> cfree info w;
                 Some (r, w) } }))"

section \<open>Resource safety\<close>

lemma derive_triple: "ledger_triple [''malloc''] [] (derive name ps n) held"
  unfolding derive_def
  by ((rule wp_known, assumption | assumption | erule wp_elims_first | rule wp_first | erule wp_elims | rule wp_rules
    | (simp (asm_lr) add: ledger_simps; fail))+)

lemma refused_triple: "ledger_triple fns [] (\<lambda>w. Some (Inl e, w)) held"
  using triple_ret [of fns held "Inl e"] by simp

lemmas kdf_defs = pbkdf2_def [abs_def] hkdf_def [abs_def] hkdf_expand_def [abs_def] scrypt_def [abs_def]
  argon2_def [abs_def] kbkdf_def [abs_def] ss_kdf_def [abs_def] x963_kdf_def [abs_def]

lemma kdf_triples:
  "ledger_triple [''malloc''] [] (pbkdf2 pw p1 n) held"
  "ledger_triple [''malloc''] [] (hkdf pw p2 n) held"
  "ledger_triple [''malloc''] [] (hkdf_expand pw p4 n) held"
  "ledger_triple [''malloc''] [] (scrypt pw p5 n) held"
  "ledger_triple [''malloc''] [] (argon2 pw p6 n) held"
  "ledger_triple [''malloc''] [] (kbkdf pw p7 n) held"
  "ledger_triple [''malloc''] [] (ss_kdf pw p8 n) held"
  "ledger_triple [''malloc''] [] (x963_kdf pw p9 n) held"
  unfolding kdf_defs
  by ((intro triple_option triple_if derive_triple refused_triple;
    simp add: param_array_def opt_octets_def split: option.splits if_splits)+)

lemma hkdf_extract_triple: "ledger_triple [''malloc''] [] (hkdf_extract pw p3) held"
proof -
  have size: "ledger_triple [''malloc''] []
      (\<lambda>w. case wit_digest_md (cfg w) a of None \<Rightarrow> Some (0, w)
        | Some md \<Rightarrow> do { (a, w) \<leftarrow> ccall ''EVP_MD_get_size'' [Str md] w; Some (c_u32 (rc a), w) }) (\<lambda>_. [])" for a
    by ((rule wp_known, assumption | assumption | erule wp_elims_first | rule wp_first | erule wp_elims | rule wp_rules
      | (simp (asm_lr) add: ledger_simps; fail))+)
  show ?thesis
    unfolding hkdf_extract_def [abs_def]
    by (intro triple_option refused_triple triple_bind [OF size] derive_triple)
      (simp add: param_array_def opt_octets_def split: option.splits)
qed

lemma length_hkdf_label_bytes:
  "length (hkdf_label_bytes n l c) = 10 + length l + length c"
  by (simp add: hkdf_label_bytes_def tls13_prefix_def)

lemma tls13_expand_label_triple:
  assumes "length (tl_label params) < 2 ^ 31"
  shows "ledger_triple [''malloc''] [] (tls13_expand_label params n) held"
proof (cases "wit_digest_name (tl_hash params) = None \<or>
    length (tl_label params) + 6 > 255 \<or> length (tl_context params) > 255 \<or> n > 65535")
  case True
  with assms show ?thesis
    unfolding tls13_expand_label_def [abs_def]
    by (intro triple_option) (auto simp: refused_triple)
next
  case False
  then obtain dname where d: "wit_digest_name (tl_hash params) = Some dname" by auto
  have len: "length (hkdf_label_bytes n (tl_label params) (tl_context params)) =
      (2 + 1 + 6 + length (tl_label params) + 1 + length (tl_context params)) mod 2 ^ 32"
    using False by (simp add: length_hkdf_label_bytes)
  define m where "m = 10 + length (tl_label params) + length (tl_context params)"
  have m: "m \<noteq> 0" using False by (simp add: m_def)
  have *: "m \<noteq> 0 \<Longrightarrow> ledger_triple [''malloc''] [] (\<lambda>w. do {
               (info, w) \<leftarrow> xmalloc m w;
               (_, w) \<leftarrow> deref info w;
               (r, w) \<leftarrow> derive nm ps n w;
               (_, w) \<leftarrow> cfree info w;
               Some (r, w) }) held" for nm ps
    unfolding derive_def
    by ((rule wp_known, assumption | assumption | erule wp_elims_first | rule wp_first | erule wp_elims | rule wp_rules
      | (simp (asm_lr) add: ledger_simps; fail))+)
  show ?thesis
    using False d len * [OF m] by (simp add: tls13_expand_label_def [abs_def] Let_def m_def)
qed

section \<open>What the derivations compute\<close>

text \<open>Which algorithm an \<open>EVP_KDF\<close> or \<open>EVP_KDF_CTX\<close> stands for, read off the call log.\<close>

fun kdf_step :: "(ptr \<rightharpoonup> string) \<Rightarrow> event \<Rightarrow> (ptr \<rightharpoonup> string)" where
  "kdf_step st (Ev fn args p) =
     (if fn = ''EVP_KDF_fetch'' then (case args of [Str n] \<Rightarrow> st(p \<mapsto> n) | _ \<Rightarrow> st)
      else if fn = ''EVP_KDF_CTX_new'' then (case args of [Ptr k] \<Rightarrow> st(p := st k) | _ \<Rightarrow> st)
      else st)"

definition kdf_state :: "event list \<Rightarrow> ptr \<rightharpoonup> string" where
  "kdf_state h = foldl kdf_step Map.empty h"

lemma kdf_state_append [simp]: "kdf_state (h @ es) = foldl kdf_step (kdf_state h) es"
  by (simp add: kdf_state_def)

text \<open>The documented behaviour of \<open>EVP_KDF_derive\<close>: a function \<open>K\<close> of the algorithm, the
  parameters and the output length.\<close>

definition kdf_library ::
    "(event list \<Rightarrow> string \<Rightarrow> arg list \<Rightarrow> answer) \<Rightarrow> (string \<Rightarrow> ossl_param list \<Rightarrow> nat \<Rightarrow> u8 list) \<Rightarrow> bool" where
  "kdf_library L K \<longleftrightarrow>
     grants L ''malloc'' \<and> grants L ''EVP_KDF_fetch'' \<and> grants L ''EVP_KDF_CTX_new'' \<and>
     (\<forall>h c p n ps name. kdf_state h c = Some name \<longrightarrow>
        rc (L h ''EVP_KDF_derive'' [Ptr c, Ptr p, Val (int n), Pars ps]) = 1 \<and>
        written (L h ''EVP_KDF_derive'' [Ptr c, Ptr p, Val (int n), Pars ps]) = K name ps n)"

lemma derive_computes:
  assumes "kdf_library (lib w) K" and "0 < nxt w"
  shows "\<exists>p w'. derive name ps n w = Some (Inr \<lparr> at = p, len = n, bytes = K name ps n \<rparr>, w') \<and>
    lib w' = lib w \<and> cfg w' = cfg w \<and> 0 < nxt w'"
  using assms by (simp add: derive_def run_eqs kdf_library_def)

text \<open>RFC 8446, 7.1: \<open>HkdfLabel\<close> is a 16-bit length, a vector of up to 255 bytes for the label
  and one for the context, each with a one-byte length.\<close>

definition parse_vector :: "u8 list \<Rightarrow> (u8 list \<times> u8 list) option" where
  "parse_vector bs = (case bs of [] \<Rightarrow> None
     | n # r \<Rightarrow> if length r < unat n then None else Some (take (unat n) r, drop (unat n) r))"

definition parse_hkdf_label :: "u8 list \<Rightarrow> (nat \<times> u8 list \<times> u8 list) option" where
  "parse_hkdf_label bs = (case bs of
     h # l # r \<Rightarrow>
       (case parse_vector r of None \<Rightarrow> None
        | Some (label, r') \<Rightarrow>
            (case parse_vector r' of None \<Rightarrow> None
             | Some (context, r'') \<Rightarrow>
                 if r'' = [] then Some (256 * unat h + unat l, label, context) else None))
   | _ \<Rightarrow> None)"

lemma parse_vector_cons:
  "length v < 256 \<Longrightarrow> parse_vector (word_of_nat (length v) # v @ r) = Some (v, r)"
  by (simp add: parse_vector_def unsigned_of_nat take_bit_nat_eq_self)

lemma two_bytes:
  assumes "n < 65536"
  shows "256 * unat (ucast (drop_bit 8 (word_of_nat n :: u32) AND 0xff) :: u8) +
    unat (ucast ((word_of_nat n :: u32) AND 0xff) :: u8) = n"
proof -
  have n: "unat (word_of_nat n :: u32) = n" using assms by (simp add: unsigned_of_nat take_bit_nat_eq_self)
  have m: "(0xff :: u32) = mask 8" by (simp add: mask_eq_exp_minus_1)
  have a: "unat (ucast (drop_bit 8 (word_of_nat n :: u32) AND 0xff) :: u8) = n div 256"
    using assms n by (simp add: m unsigned_ucast_eq unsigned_take_bit_eq [symmetric] take_bit_eq_mask [symmetric] unsigned_drop_bit_eq drop_bit_eq_div take_bit_eq_mod
      unat_div_distrib unat_mod_distrib)
  have b: "unat (ucast ((word_of_nat n :: u32) AND 0xff) :: u8) = n mod 256"
    using n by (simp add: m unsigned_ucast_eq take_bit_eq_mask [symmetric] unsigned_take_bit_eq)
      (simp add: take_bit_eq_mod)
  show ?thesis unfolding a b by simp
qed

lemma parse_hkdf_label_bytes:
  assumes "length l \<le> 249" and "length c \<le> 255" and "n \<le> 65535"
  shows "parse_hkdf_label (hkdf_label_bytes n l c) = Some (n, tls13_prefix @ l, c)"
proof -
  have "length (tls13_prefix @ l) = 6 + length l" by (simp add: tls13_prefix_def)
  then have 1: "parse_vector (word_of_nat (6 + length l) # tls13_prefix @ l @ r) = Some (tls13_prefix @ l, r)" for r
    using parse_vector_cons [of "tls13_prefix @ l" r] assms by simp
  have 2: "parse_vector (word_of_nat (length c) # c) = Some (c, [])"
    using parse_vector_cons [of c "[]"] assms by simp
  show ?thesis
    using assms two_bytes [of n] by (simp add: parse_hkdf_label_def hkdf_label_bytes_def 1 2 del: of_nat_add)
qed

text \<open>
  The documented HKDF of OpenSSL: it reads its parameters by key from the array, the mode is
  extract-and-expand unless the \<open>mode\<close> parameter says otherwise, and \<open>X\<close> and \<open>E\<close> are
  HKDF-Extract and HKDF-Expand of RFC 5869 for a digest name.
\<close>

fun octets_param :: "string \<Rightarrow> ossl_param list \<Rightarrow> u8 list" where
  "octets_param k [] = []"
| "octets_param k (octet_string k' b # ps) = (if k' = k then b else octets_param k ps)"
| "octets_param k (p # ps) = octets_param k ps"

fun text_param :: "string \<Rightarrow> ossl_param list \<Rightarrow> string" where
  "text_param k [] = []"
| "text_param k (utf8_string k' s # ps) = (if k' = k then s else text_param k ps)"
| "text_param k (p # ps) = text_param k ps"

fun mode_param :: "ossl_param list \<Rightarrow> int" where
  "mode_param [] = 0"
| "mode_param (int_param k i # ps) = (if k = ''mode'' then i else mode_param ps)"
| "mode_param (p # ps) = mode_param ps"

definition hkdf_documented ::
    "(string \<Rightarrow> u8 list \<Rightarrow> u8 list \<Rightarrow> u8 list) \<Rightarrow> (string \<Rightarrow> u8 list \<Rightarrow> u8 list \<Rightarrow> nat \<Rightarrow> u8 list) \<Rightarrow>
     ossl_param list \<Rightarrow> nat \<Rightarrow> u8 list" where
  "hkdf_documented X E ps n =
     (let d = text_param ''digest'' ps; key = octets_param ''key'' ps;
          salt = octets_param ''salt'' ps; info = octets_param ''info'' ps
      in if mode_param ps = 1 then X d salt key
         else if mode_param ps = 2 then E d key info n
         else E d (X d salt key) info n)"

lemmas hkdf_param_simps = hkdf_documented_def EVP_KDF_HKDF_MODE_EXTRACT_ONLY_def
  EVP_KDF_HKDF_MODE_EXPAND_ONLY_def param_array_def opt_octets_def Let_def

lemma tls13_expand_label_derives:
  assumes "wit_digest_name (tl_hash params) = Some d"
    and "length (tl_label params) \<le> 249" and "length (tl_context params) \<le> 255" and "n \<le> 65535"
    and "kdf_library (lib w) K" and "0 < nxt w"
  shows "\<exists>p w'. tls13_expand_label params n w = Some (Inr \<lparr> at = p, len = n, bytes = K ''HKDF''
       [int_param ''mode'' EVP_KDF_HKDF_MODE_EXPAND_ONLY, utf8_string ''digest'' d,
        octet_string ''key'' (tl_secret params),
        octet_string ''info'' (hkdf_label_bytes n (tl_label params) (tl_context params))] n \<rparr>, w')"
proof -
  let ?m = "10 + length (tl_label params) + length (tl_context params)"
  let ?w = "touched (nxt w) (acquired Mem ''malloc'' [Val (int ?m)] w)"
  have x: "xmalloc ?m w = Some (nxt w, acquired Mem ''malloc'' [Val (int ?m)] w)"
    using assms(5,6) by (simp add: xmalloc_eq kdf_library_def)
  have k: "kdf_library (lib ?w) K" "0 < nxt ?w" using assms(5,6) by simp_all
  have m: "(2 + 1 + 6 + length (tl_label params) + 1 + length (tl_context params)) mod 2 ^ 32 = ?m"
    using assms(2,3) by simp
  show ?thesis
    using derive_computes [OF k, of "''HKDF''" "[int_param ''mode'' EVP_KDF_HKDF_MODE_EXPAND_ONLY,
        utf8_string ''digest'' d, octet_string ''key'' (tl_secret params),
        octet_string ''info'' (hkdf_label_bytes n (tl_label params) (tl_context params))]" n] assms(1-4)
    by (auto simp: tls13_expand_label_def m x deref_eq cfree_eq length_hkdf_label_bytes Let_def)
qed

section \<open>Properties\<close>

text \<open>C9: Every derivation function leaves, on every path and whatever the library answers,
  exactly the buffer it returns live: the fetched algorithm, the context, and the label buffer
  of the TLS 1.3 expansion are freed; the parameter arrays are never overrun, and the
  component stops only if malloc fails.\<close>

theorem kdf_balanced:
  assumes "length (tl_label p10) < 2 ^ 31"
  shows "ledger_triple [''malloc''] [] (pbkdf2 pw p1 n) held \<and>
    ledger_triple [''malloc''] [] (hkdf pw p2 n) held \<and>
    ledger_triple [''malloc''] [] (hkdf_extract pw p3) held \<and>
    ledger_triple [''malloc''] [] (hkdf_expand pw p4 n) held \<and>
    ledger_triple [''malloc''] [] (scrypt pw p5 n) held \<and>
    ledger_triple [''malloc''] [] (argon2 pw p6 n) held \<and>
    ledger_triple [''malloc''] [] (kbkdf pw p7 n) held \<and>
    ledger_triple [''malloc''] [] (ss_kdf pw p8 n) held \<and>
    ledger_triple [''malloc''] [] (x963_kdf pw p9 n) held \<and>
    ledger_triple [''malloc''] [] (tls13_expand_label p10 n) held"
  using tls13_expand_label_triple [OF assms] by (simp add: kdf_triples hkdf_extract_triple)

definition sample_tls13 :: tls13_expand_label_params where
  "sample_tls13 = \<lparr> tl_hash = 3, tl_label = [0x6b, 0x65, 0x79], tl_context = [], tl_secret = [1, 2] \<rparr>"

theorem kdf_balanced_witness:
  "ledger_triple [''malloc''] [] (tls13_expand_label sample_tls13 16) held"
  using kdf_balanced [of sample_tls13] by (simp add: sample_tls13_def)


definition sample_hkdf :: "string \<Rightarrow> ossl_param list \<Rightarrow> nat \<Rightarrow> u8 list" where
  "sample_hkdf name = hkdf_documented (\<lambda>d salt key. salt @ key) (\<lambda>d key info n. key @ info)"

definition sample_kdf_lib :: "event list \<Rightarrow> string \<Rightarrow> arg list \<Rightarrow> answer" where
  "sample_kdf_lib h fn args =
     (case args of [Ptr c, Ptr p, Val n, Pars ps] \<Rightarrow> ok_answer\<lparr> written := sample_hkdf [] ps (nat n) \<rparr>
      | _ \<Rightarrow> ok_answer)"

lemma sample_kdf_lib_ok: "kdf_library sample_kdf_lib sample_hkdf"
  by (auto simp: kdf_library_def grants_def sample_kdf_lib_def sample_hkdf_def ok_answer_def
      split: list.split arg.split)


text \<open>Asked for a known digest, TLS 1.3 expand-label refuses, before any call, exactly the
  inputs an HkdfLabel cannot represent: a label over 249 bytes, a context over 255, or an
  output over 65535.\<close>

theorem tls13_limits:
  assumes "length (tl_label params) < 2 ^ 31" and "wit_digest_name (tl_hash params) \<noteq> None"
    and "kdf_library (lib w) K" and "0 < nxt w"
  shows "(tls13_expand_label params n w = Some (Inl Kdf_invalid_parameter, w)) =
    (length (tl_label params) > 249 \<or> length (tl_context params) > 255 \<or> n > 65535)"
proof -
  obtain d where d: "wit_digest_name (tl_hash params) = Some d" using assms(2) by auto
  show ?thesis
  proof (cases "length (tl_label params) > 249 \<or> length (tl_context params) > 255 \<or> n > 65535")
    case True
    with d assms(1) show ?thesis by (auto simp: tls13_expand_label_def)
  next
    case False
    then show ?thesis using tls13_expand_label_derives [OF d _ _ _ assms(3,4), of n] by force
  qed
qed

theorem tls13_limits_witness:
  "tls13_expand_label sample_tls13 65536 (first_world sample_kdf_lib) =
     Some (Inl Kdf_invalid_parameter, first_world sample_kdf_lib) \<and>
   tls13_expand_label sample_tls13 65535 (first_world sample_kdf_lib) \<noteq>
     Some (Inl Kdf_invalid_parameter, first_world sample_kdf_lib)"
  using tls13_limits [of sample_tls13 "first_world sample_kdf_lib" sample_hkdf] sample_kdf_lib_ok
  by (simp add: sample_tls13_def wit_digest_name_def)

text \<open>C7: Within these limits it calls HKDF-Expand with the secret and an info string that
  parses, by the presentation rules of RFC 8446, into the output length, the label with the
  "tls13 " prefix, and the context.\<close>

theorem tls13_expand_label_encodes:
  assumes "length (tl_label params) \<le> 249" and "length (tl_context params) \<le> 255" and "n \<le> 65535"
    and "wit_digest_name (tl_hash params) = Some d"
    and "kdf_library (lib w) K" and "\<forall>ps k. K ''HKDF'' ps k = hkdf_documented X E ps k" and "0 < nxt w"
  shows "\<exists>p info w'. tls13_expand_label params n w =
      Some (Inr \<lparr> at = p, len = n, bytes = E d (tl_secret params) info n \<rparr>, w') \<and>
    parse_hkdf_label info = Some (n, tls13_prefix @ tl_label params, tl_context params)"
proof -
  obtain p w' where "tls13_expand_label params n w = Some (Inr \<lparr> at = p, len = n, bytes = K ''HKDF''
       [int_param ''mode'' EVP_KDF_HKDF_MODE_EXPAND_ONLY, utf8_string ''digest'' d,
        octet_string ''key'' (tl_secret params),
        octet_string ''info'' (hkdf_label_bytes n (tl_label params) (tl_context params))] n \<rparr>, w')"
    using tls13_expand_label_derives [OF assms(4,1,2,3,5,7)] by blast
  then show ?thesis
    using parse_hkdf_label_bytes [OF assms(1,2,3)] assms(6)
    by (fastforce simp: hkdf_param_simps)
qed

theorem tls13_expand_label_encodes_witness:
  "\<exists>p info w'. tls13_expand_label sample_tls13 16 (first_world sample_kdf_lib) =
      Some (Inr \<lparr> at = p, len = 16, bytes = [1, 2] @ info \<rparr>, w') \<and>
    parse_hkdf_label info = Some (16, tls13_prefix @ [0x6b, 0x65, 0x79], [])"
  using tls13_expand_label_encodes [of sample_tls13 16 "''SHA2-256''" "first_world sample_kdf_lib" sample_hkdf
      "\<lambda>d salt key. salt @ key" "\<lambda>d key info n. key @ info"] sample_kdf_lib_ok
  by (simp add: sample_tls13_def sample_hkdf_def wit_digest_name_def digest_names_def)

end
