(* ===== verification/Mac.thy ===== *)
theory Mac
  imports Runs
begin

text \<open>
  Model of \<open>src/mac.c\<close>: the parameter array for each MAC, the one-shot function, and the
  streaming context with its clone.
\<close>

section \<open>Data\<close>

datatype mac_error =
    Mac_unsupported_algorithm
  | Mac_missing_parameter
  | Mac_internal nat

text \<open>The WIT variant \<open>params\<close>: the KMAC case carries customization and output length, the GMAC
  case cipher and nonce.\<close>

datatype mac_params =
    Params_hmac nat
  | Params_cmac nat
  | Params_kmac "u8 list option" nat
  | Params_poly1305
  | Params_siphash
  | Params_gmac nat "u8 list"

definition mac_name :: "nat \<Rightarrow> string option" where
  "mac_name a =
     (if a = 0 then Some ''HMAC'' else if a = 1 then Some ''CMAC'' else if a = 2 then Some ''KMAC-128''
      else if a = 3 then Some ''KMAC-256'' else if a = 4 then Some ''Poly1305''
      else if a = 5 then Some ''SIPHASH'' else if a = 6 then Some ''GMAC'' else None)"

definition block_cipher_name :: "nat \<Rightarrow> string option" where
  "block_cipher_name c =
     (if c = 0 then Some ''AES-128-CBC'' else if c = 1 then Some ''AES-192-CBC''
      else if c = 2 then Some ''AES-256-CBC'' else None)"

definition gmac_cipher_name :: "nat \<Rightarrow> string option" where
  "gmac_cipher_name c =
     (if c = 0 then Some ''AES-128-GCM'' else if c = 1 then Some ''AES-192-GCM''
      else if c = 2 then Some ''AES-256-GCM'' else None)"

text \<open>The array is a local \<open>OSSL_PARAM[6]\<close>; no case writes more than two entries and the end
  marker.\<close>

definition build_mac_params :: "nat \<Rightarrow> mac_params \<Rightarrow> mac_error + ossl_param list" where
  "build_mac_params alg p =
     (if alg = 0 then
        (case p of
           Params_hmac h \<Rightarrow>
             (case wit_digest_name h of
                None \<Rightarrow> Inl Mac_unsupported_algorithm
              | Some dname \<Rightarrow> Inr [utf8_string ''digest'' dname])
         | _ \<Rightarrow> Inl Mac_missing_parameter)
      else if alg = 1 then
        (case p of
           Params_cmac c \<Rightarrow>
             (case block_cipher_name c of
                None \<Rightarrow> Inl Mac_unsupported_algorithm
              | Some cname \<Rightarrow> Inr [utf8_string ''cipher'' cname])
         | _ \<Rightarrow> Inl Mac_missing_parameter)
      else if alg = 2 \<or> alg = 3 then
        (case p of
           Params_kmac custom out_len \<Rightarrow>
             Inr ((case custom of None \<Rightarrow> [] | Some v \<Rightarrow> [octet_string ''custom'' v]) @
                  [size_t_param ''size'' out_len])
         | _ \<Rightarrow> Inl Mac_missing_parameter)
      else if alg = 4 \<or> alg = 5 then Inr []
      else if alg = 6 then
        (case p of
           Params_gmac c nonce \<Rightarrow>
             (case gmac_cipher_name c of
                None \<Rightarrow> Inl Mac_unsupported_algorithm
              | Some cname \<Rightarrow> Inr [utf8_string ''cipher'' cname, octet_string ''iv'' nonce])
         | _ \<Rightarrow> Inl Mac_missing_parameter)
      else Inl Mac_unsupported_algorithm)"

section \<open>Contexts\<close>

definition new_mac_ctx :: "nat \<Rightarrow> u8 list \<Rightarrow> mac_params \<Rightarrow> world \<Rightarrow> (mac_error + ptr) outcome" where
  "new_mac_ctx alg key p w = (case mac_name alg of
     None \<Rightarrow> Some (Inl Mac_unsupported_algorithm, w)
   | Some name \<Rightarrow> do {
       (mac, w) \<leftarrow> create (Obj ''EVP_MAC'') ''EVP_MAC_fetch'' [Str name] w;
       if mac = 0 then Some (Inl Mac_unsupported_algorithm, w)
       else do {
         (ctx, w) \<leftarrow> create (Obj ''EVP_MAC_CTX'') ''EVP_MAC_CTX_new'' [Ptr mac] w;
         (_, w) \<leftarrow> release (Obj ''EVP_MAC'') ''EVP_MAC_free'' mac w;
         if ctx = 0 then Some (Inl (Mac_internal 0), w)
         else (case build_mac_params alg p of
             Inl e \<Rightarrow> do {
               (_, w) \<leftarrow> release (Obj ''EVP_MAC_CTX'') ''EVP_MAC_CTX_free'' ctx w;
               Some (Inl e, w) }
           | Inr params \<Rightarrow> do {
               (a, w) \<leftarrow> ccall ''EVP_MAC_init'' [Ptr ctx, Buf key, Pars params] w;
               if rc a \<noteq> 1
               then do {
                 (e, w) \<leftarrow> ERR_peek_last_error w;
                 (_, w) \<leftarrow> release (Obj ''EVP_MAC_CTX'') ''EVP_MAC_CTX_free'' ctx w;
                 Some (Inl (Mac_internal e), w) }
               else Some (Inr ctx, w) }) } })"

definition mac_internal :: "world \<Rightarrow> (mac_error + 'a) outcome" where
  "mac_internal w = do { (e, w) \<leftarrow> ERR_peek_last_error w; Some (Inl (Mac_internal e), w) }"

definition mac_one_shot ::
    "nat \<Rightarrow> u8 list \<Rightarrow> u8 list \<Rightarrow> mac_params \<Rightarrow> world \<Rightarrow> (mac_error + list_u8) outcome" where
  "mac_one_shot alg key data params w = do {
     (r, w) \<leftarrow> new_mac_ctx alg key params w;
     (case r of
        Inl e \<Rightarrow> Some (Inl e, w)
      | Inr ctx \<Rightarrow> do {
          (a, w) \<leftarrow> ccall ''EVP_MAC_update'' [Ptr ctx, Buf data] w;
          if rc a \<noteq> 1
          then do {
            (_, w) \<leftarrow> release (Obj ''EVP_MAC_CTX'') ''EVP_MAC_CTX_free'' ctx w;
            mac_internal w }
          else do {
            (sz, w) \<leftarrow> ccall ''EVP_MAC_final'' [Ptr ctx, Ptr 0, Val 0] w;
            if rc sz \<noteq> 1
            then do {
              (_, w) \<leftarrow> release (Obj ''EVP_MAC_CTX'') ''EVP_MAC_CTX_free'' ctx w;
              mac_internal w }
            else do {
              (p, w) \<leftarrow> xmalloc (if c_u32 (outl sz) \<noteq> 0 then c_u32 (outl sz) else 1) w;
              (a, w) \<leftarrow> ccall ''EVP_MAC_final'' [Ptr ctx, Ptr p, Val (int (c_u32 (outl sz)))] w;
              if rc a \<noteq> 1
              then do {
                (_, w) \<leftarrow> cfree p w;
                (_, w) \<leftarrow> release (Obj ''EVP_MAC_CTX'') ''EVP_MAC_CTX_free'' ctx w;
                mac_internal w }
              else do {
                (_, w) \<leftarrow> release (Obj ''EVP_MAC_CTX'') ''EVP_MAC_CTX_free'' ctx w;
                Some (Inr \<lparr> at = p, len = c_u32 (outl a), bytes = written a \<rparr>, w) } } } }) }"

record mac_rep =
  mself :: ptr
  mctx :: ptr

definition mac_constructor :: "nat \<Rightarrow> u8 list \<Rightarrow> mac_params \<Rightarrow> world \<Rightarrow> mac_rep outcome" where
  "mac_constructor alg key params w = do {
     (r, w) \<leftarrow> xmalloc 4 w;
     (c, w) \<leftarrow> new_mac_ctx alg key params w;
     (_, w) \<leftarrow> deref r w;
     (case c of
        Inl _ \<Rightarrow> do {
          (_, w) \<leftarrow> ccall ''ERR_clear_error'' [] w;
          Some (\<lparr> mself = r, mctx = 0 \<rparr>, w) }
      | Inr ctx \<Rightarrow> Some (\<lparr> mself = r, mctx = ctx \<rparr>, w)) }"

definition mac_update :: "mac_rep \<Rightarrow> u8 list \<Rightarrow> world \<Rightarrow> (mac_error + unit) outcome" where
  "mac_update r data w = do {
     (_, w) \<leftarrow> deref (mself r) w;
     if mctx r = 0 then mac_internal w
     else do {
       (a, w) \<leftarrow> ccall ''EVP_MAC_update'' [Ptr (mctx r), Buf data] w;
       if rc a \<noteq> 1 then mac_internal w else Some (Inr (), w) } }"

definition mac_destructor :: "mac_rep \<Rightarrow> world \<Rightarrow> unit outcome" where
  "mac_destructor r w =
     (if mself r = 0 then Some ((), w)
      else do {
        (_, w) \<leftarrow> deref (mself r) w;
        (_, w) \<leftarrow> (if mctx r \<noteq> 0 then release (Obj ''EVP_MAC_CTX'') ''EVP_MAC_CTX_free'' (mctx r) w
                  else Some ((), w));
        cfree (mself r) w })"

text \<open>The buffer and its length while \<open>finish\<close> runs: \<open>None\<close> until \<open>ok\<close>.\<close>

definition mac_finish :: "mac_rep \<Rightarrow> world \<Rightarrow> (mac_error + list_u8) outcome" where
  "mac_finish r w = do {
     (_, w) \<leftarrow> deref (mself r) w;
     (ret, w) \<leftarrow> (if mctx r = 0 then Some (None, w)
       else do {
         (sz, w) \<leftarrow> ccall ''EVP_MAC_final'' [Ptr (mctx r), Ptr 0, Val 0] w;
         if rc sz \<noteq> 1 then Some (None, w)
         else do {
           (p, w) \<leftarrow> xmalloc (if c_u32 (outl sz) \<noteq> 0 then c_u32 (outl sz) else 1) w;
           (a, w) \<leftarrow> ccall ''EVP_MAC_final'' [Ptr (mctx r), Ptr p, Val (int (c_u32 (outl sz)))] w;
           if rc a = 1 then Some (Some \<lparr> at = p, len = c_u32 (outl a), bytes = written a \<rparr>, w)
           else do { (_, w) \<leftarrow> cfree p w; Some (None, w) } } });
     (_, w) \<leftarrow> mac_destructor r w;
     (case ret of None \<Rightarrow> mac_internal w | Some l \<Rightarrow> Some (Inr l, w)) }"

definition mac_clone :: "mac_rep \<Rightarrow> world \<Rightarrow> mac_rep outcome" where
  "mac_clone src w = do {
     (dst, w) \<leftarrow> xmalloc 4 w;
     (_, w) \<leftarrow> deref (mself src) w;
     (_, w) \<leftarrow> deref dst w;
     (ctx, w) \<leftarrow> (if mctx src \<noteq> 0
       then create (Obj ''EVP_MAC_CTX'') ''EVP_MAC_CTX_dup'' [Ptr (mctx src)] w
       else Some (0, w));
     Some (\<lparr> mself = dst, mctx = ctx \<rparr>, w) }"

section \<open>Resource safety\<close>

definition mac_owns :: "mac_rep \<Rightarrow> footprint" where
  "mac_owns r = (mself r, Mem) # own (mctx r) (Obj ''EVP_MAC_CTX'')"

lemma mac_owns_cases:
  "mctx r = 0 \<Longrightarrow> mac_owns r = [(mself r, Mem)]"
  "mctx r \<noteq> 0 \<Longrightarrow> mac_owns r = [(mself r, Mem), (mctx r, Obj ''EVP_MAC_CTX'')]"
  by (simp_all add: mac_owns_def)

lemma mac_owns_nonnull:
  "(mself r \<noteq> 0 \<Longrightarrow> ledger_triple fns (mac_owns r) m B) \<Longrightarrow> ledger_triple fns (mac_owns r) m B"
  unfolding mac_owns_def by (rule triple_nonnull)

lemma mac_one_shot_triple: "ledger_triple [''malloc''] [] (mac_one_shot alg key data params) held"
  unfolding mac_one_shot_def new_mac_ctx_def mac_internal_def
  by ((rule wp_known, assumption | assumption | erule wp_elims_first | rule wp_first | erule wp_elims | rule wp_rules
    | (simp (asm_lr) add: ledger_simps; fail))+)

lemma mac_constructor_triple: "ledger_triple [''malloc''] [] (mac_constructor alg key params) mac_owns"
  unfolding mac_constructor_def new_mac_ctx_def
  by ((rule wp_known, assumption | assumption | erule wp_elims_first | rule wp_first | erule wp_elims | rule wp_rules
    | (simp (asm_lr) add: ledger_simps mac_owns_def; fail))+)

lemma mac_update_triple:
  "ledger_triple [''malloc''] (mac_owns r) (mac_update r data) (\<lambda>x. mac_owns r @ [])"
  unfolding mac_update_def mac_internal_def
  by (rule mac_owns_nonnull, cases "mctx r = 0"; simp only: mac_owns_cases simp_thms if_True if_False;
    (rule wp_known, assumption | assumption | erule wp_elims_first | rule wp_first | erule wp_elims | rule wp_rules | (simp (asm_lr) add: ledger_simps; fail))+)

lemma mac_destructor_triple:
  "ledger_triple [''malloc''] (mac_owns r) (mac_destructor r) (\<lambda>_. [])"
  unfolding mac_destructor_def
  by (rule mac_owns_nonnull, cases "mctx r = 0"; simp only: mac_owns_cases simp_thms if_True if_False;
    (rule wp_known, assumption | assumption | erule wp_elims_first | rule wp_first | erule wp_elims | rule wp_rules | (simp (asm_lr) add: ledger_simps; fail))+)

lemma mac_finish_triple: "ledger_triple [''malloc''] (mac_owns r) (mac_finish r) held"
  unfolding mac_finish_def mac_destructor_def mac_internal_def
  by (rule mac_owns_nonnull, cases "mctx r = 0"; simp only: mac_owns_cases simp_thms if_True if_False;
    (rule wp_known, assumption | assumption | erule wp_elims_first | rule wp_first | erule wp_elims | rule wp_rules | (simp (asm_lr) add: ledger_simps; fail))+)

lemma mac_clone_triple:
  "ledger_triple [''malloc''] (mac_owns r) (mac_clone r) (\<lambda>d. mac_owns d @ mac_owns r)"
  unfolding mac_clone_def
  by (rule mac_owns_nonnull, cases "mctx r = 0"; simp only: mac_owns_cases simp_thms if_True if_False;
    (rule wp_known, assumption | assumption | erule wp_elims_first | rule wp_first | erule wp_elims | rule wp_rules | (simp (asm_lr) add: ledger_simps mac_owns_def; fail))+)

interpretation mac: owned_resource "[''malloc'']" mac_owns "mac_constructor alg key params"
  "range (\<lambda>data r. mac_update r data)" "\<lambda>_. []" mac_destructor for alg key params
  by unfold_locales
    (use mac_constructor_triple mac_update_triple mac_destructor_triple in auto)

section \<open>What the MACs compute\<close>

text \<open>
  The library's MAC state, read off the call log: the algorithm an \<open>EVP_MAC\<close> stands for, and
  for a context its algorithm, key, parameters and the bytes absorbed.
\<close>

datatype mac_obj =
    Mac_alg string
  | Mac_new string
  | Mac_run string "u8 list" "ossl_param list" "u8 list"

fun mac_absorb :: "u8 list \<Rightarrow> mac_obj \<Rightarrow> mac_obj" where
  "mac_absorb d (Mac_run name key ps x) = Mac_run name key ps (x @ d)"
| "mac_absorb d m = m"

fun mac_keyed :: "u8 list \<Rightarrow> ossl_param list \<Rightarrow> mac_obj \<Rightarrow> mac_obj" where
  "mac_keyed key ps (Mac_new name) = Mac_run name key ps []"
| "mac_keyed key ps (Mac_run name _ _ _) = Mac_run name key ps []"
| "mac_keyed key ps m = m"

fun mac_step :: "(ptr \<rightharpoonup> mac_obj) \<Rightarrow> event \<Rightarrow> (ptr \<rightharpoonup> mac_obj)" where
  "mac_step st (Ev fn args p) =
     (if fn = ''EVP_MAC_fetch'' then (case args of [Str n] \<Rightarrow> st(p \<mapsto> Mac_alg n) | _ \<Rightarrow> st)
      else if fn = ''EVP_MAC_CTX_new'' then
        (case args of [Ptr m] \<Rightarrow> (case st m of Some (Mac_alg n) \<Rightarrow> st(p \<mapsto> Mac_new n) | _ \<Rightarrow> st) | _ \<Rightarrow> st)
      else if fn = ''EVP_MAC_init'' then
        (case args of [Ptr c, Buf key, Pars ps] \<Rightarrow> st(c := map_option (mac_keyed key ps) (st c)) | _ \<Rightarrow> st)
      else if fn = ''EVP_MAC_update'' then
        (case args of [Ptr c, Buf d] \<Rightarrow> st(c := map_option (mac_absorb d) (st c)) | _ \<Rightarrow> st)
      else if fn = ''EVP_MAC_CTX_dup'' then (case args of [Ptr c] \<Rightarrow> st(p := st c) | _ \<Rightarrow> st)
      else st)"

definition mac_state :: "event list \<Rightarrow> ptr \<rightharpoonup> mac_obj" where
  "mac_state h = foldl mac_step Map.empty h"

lemma mac_state_append [simp]: "mac_state (h @ es) = foldl mac_step (mac_state h) es"
  by (simp add: mac_state_def)

text \<open>
  The documented behaviour of \<open>EVP_MAC\<close> for a function \<open>F\<close> of algorithm, key, parameters and
  data, with \<open>sz\<close> bytes of output for an algorithm and parameters: finalisation with a \<open>NULL\<close>
  buffer only reports the size.
\<close>

definition mac_library ::
    "(event list \<Rightarrow> string \<Rightarrow> arg list \<Rightarrow> answer) \<Rightarrow> (string \<Rightarrow> ossl_param list \<Rightarrow> nat) \<Rightarrow>
     (string \<Rightarrow> u8 list \<Rightarrow> ossl_param list \<Rightarrow> u8 list \<Rightarrow> u8 list) \<Rightarrow> bool" where
  "mac_library L sz F \<longleftrightarrow>
     grants L ''malloc'' \<and> grants L ''EVP_MAC_fetch'' \<and> grants L ''EVP_MAC_CTX_new'' \<and>
     grants L ''EVP_MAC_CTX_dup'' \<and> (\<forall>name ps. sz name ps < 2 ^ 31) \<and>
     (\<forall>h c name key ps x d p n. mac_state h c = Some (Mac_run name key ps x) \<longrightarrow>
        rc (L h ''EVP_MAC_update'' [Ptr c, Buf d]) = 1 \<and>
        rc (L h ''EVP_MAC_final'' [Ptr c, Ptr p, Val n]) = 1 \<and>
        outl (L h ''EVP_MAC_final'' [Ptr c, Ptr p, Val n]) = int (sz name ps) \<and>
        (p \<noteq> 0 \<longrightarrow> int (sz name ps) \<le> n \<longrightarrow>
           written (L h ''EVP_MAC_final'' [Ptr c, Ptr p, Val n]) = F name key ps x))"

definition mac_accepts ::
    "(event list \<Rightarrow> string \<Rightarrow> arg list \<Rightarrow> answer) \<Rightarrow> u8 list \<Rightarrow> ossl_param list \<Rightarrow> bool" where
  "mac_accepts L key ps \<longleftrightarrow> (\<forall>h c. rc (L h ''EVP_MAC_init'' [Ptr c, Buf key, Pars ps]) = 1)"

lemma mac_libraryD:
  assumes "mac_library L sz F"
  shows "grants L ''malloc''" "grants L ''EVP_MAC_fetch''" "grants L ''EVP_MAC_CTX_new''"
    "grants L ''EVP_MAC_CTX_dup''" "sz name ps < 2 ^ 31" "c_u32 (int (sz name ps)) = sz name ps"
    "mac_state h c = Some (Mac_run name key ps x) \<Longrightarrow> rc (L h ''EVP_MAC_update'' [Ptr c, Buf d]) = 1"
    "mac_state h c = Some (Mac_run name key ps x) \<Longrightarrow> rc (L h ''EVP_MAC_final'' [Ptr c, Ptr p, Val n]) = 1"
    "mac_state h c = Some (Mac_run name key ps x) \<Longrightarrow>
       outl (L h ''EVP_MAC_final'' [Ptr c, Ptr p, Val n]) = int (sz name ps)"
    "mac_state h c = Some (Mac_run name key ps x) \<Longrightarrow> p \<noteq> 0 \<Longrightarrow> int (sz name ps) \<le> n \<Longrightarrow>
       written (L h ''EVP_MAC_final'' [Ptr c, Ptr p, Val n]) = F name key ps x"
proof -
  show "sz name ps < 2 ^ 31" using assms unfolding mac_library_def by blast
  then show "c_u32 (int (sz name ps)) = sz name ps" by simp
qed (use assms in \<open>unfold mac_library_def, blast\<close>)+

lemma new_mac_ctx_runs:
  assumes "mac_library (lib w) sz F" and "mac_accepts (lib w) key ps" and "0 < nxt w"
    and "mac_name alg = Some name" and "build_mac_params alg params = Inr ps"
  shows "\<exists>c w'. new_mac_ctx alg key params w = Some (Inr c, w') \<and> 0 < c \<and> c < nxt w' \<and> lib w' = lib w \<and>
    mac_state (log w') c = Some (Mac_run name key ps [])"
  using assms by (simp add: new_mac_ctx_def run_eqs mac_libraryD mac_accepts_def)

text \<open>A context in use.\<close>

definition mac_running ::
    "(string \<Rightarrow> ossl_param list \<Rightarrow> nat) \<Rightarrow> (string \<Rightarrow> u8 list \<Rightarrow> ossl_param list \<Rightarrow> u8 list \<Rightarrow> u8 list) \<Rightarrow>
     string \<Rightarrow> u8 list \<Rightarrow> ossl_param list \<Rightarrow> world \<Rightarrow> mac_rep \<Rightarrow> u8 list \<Rightarrow> bool" where
  "mac_running sz F name key ps w r x \<longleftrightarrow> mac_library (lib w) sz F \<and> mself r \<noteq> 0 \<and> mctx r \<noteq> 0 \<and>
     mctx r < nxt w \<and> mac_state (log w) (mctx r) = Some (Mac_run name key ps x)"

lemma mac_constructor_runs:
  assumes "mac_library (lib w) sz F" and "mac_accepts (lib w) key ps" and "0 < nxt w"
    and "mac_name alg = Some name" and "build_mac_params alg params = Inr ps"
  shows "\<exists>r w'. mac_constructor alg key params w = Some (r, w') \<and> mac_running sz F name key ps w' r []"
proof -
  let ?w = "acquired Mem ''malloc'' [Val (int 4)] w"
  obtain c w' where "new_mac_ctx alg key params ?w = Some (Inr c, w')" "0 < c" "c < nxt w'" "lib w' = lib w"
      "mac_state (log w') c = Some (Mac_run name key ps [])"
    using new_mac_ctx_runs [of ?w sz F key ps alg name params] assms by auto
  then show ?thesis
    using assms by (simp add: mac_constructor_def run_eqs mac_libraryD mac_running_def)
qed

lemma mac_running_library: "mac_running sz F name key ps w r x \<Longrightarrow> mac_library (lib w) sz F"
  by (simp add: mac_running_def)

lemma mac_update_runs:
  assumes "mac_running sz F name key ps w r x"
  shows "\<exists>w'. mac_update r d w = Some (Inr (), w') \<and> mac_running sz F name key ps w' r (x @ d)"
  using assms mac_running_library [OF assms]
  by (simp add: mac_update_def run_eqs mac_running_def mac_libraryD [OF mac_running_library [OF assms]])

lemma mac_finish_runs:
  assumes "mac_running sz F name key ps w r x"
  shows "\<exists>p w'. mac_finish r w = Some (Inr \<lparr> at = p, len = sz name ps, bytes = F name key ps x \<rparr>, w')"
  using assms by (simp add: mac_finish_def mac_destructor_def run_eqs mac_running_def
      mac_libraryD [OF mac_running_library [OF assms(1)]])

lemma mac_one_shot_runs:
  assumes "mac_library (lib w) sz F" and "mac_accepts (lib w) key ps" and "0 < nxt w"
    and "mac_name alg = Some name" and "build_mac_params alg params = Inr ps"
  shows "\<exists>p w'. mac_one_shot alg key d params w =
    Some (Inr \<lparr> at = p, len = sz name ps, bytes = F name key ps d \<rparr>, w')"
  using new_mac_ctx_runs [OF assms] assms(1)
  by (auto simp: mac_one_shot_def run_eqs mac_libraryD)

interpretation mac_stream: streaming
  "\<lambda>w. mac_library (lib w) sz F \<and> mac_accepts (lib w) key ps \<and> 0 < nxt w \<and> mac_name alg = Some name \<and>
     build_mac_params alg params = Inr ps"
  "mac_constructor alg key params" mac_update mac_finish "mac_running sz F name key ps"
  "F name key ps" "sz name ps" for sz F name key ps alg params
  by unfold_locales (use mac_constructor_runs mac_update_runs mac_finish_runs in fastforce)+

text \<open>Absorbing into one context leaves another alone.\<close>

lemma mac_run_others:
  assumes "mac_running sz F name key ps w r x" and "mac_running sz F name' key' ps' w r' y"
    and "mctx r \<noteq> mctx r'"
  shows "\<exists>xs w'. run_methods (map (\<lambda>d r. mac_update r d) ds) r w = Some (xs, w') \<and>
    mac_running sz F name key ps w' r (x @ concat ds) \<and> mac_running sz F name' key' ps' w' r' y"
  using assms
proof (induction ds arbitrary: w x)
  case (Cons d ds)
  obtain w1 where w1: "mac_update r d w = Some (Inr (), w1)" "mac_running sz F name key ps w1 r (x @ d)"
      "mac_running sz F name' key' ps' w1 r' y"
    using Cons.prems by (auto simp: mac_update_def run_eqs mac_running_def mac_libraryD)
  obtain xs w2 where "run_methods (map (\<lambda>d r. mac_update r d) ds) r w1 = Some (xs, w2)"
      "mac_running sz F name key ps w2 r ((x @ d) @ concat ds)" "mac_running sz F name' key' ps' w2 r' y"
    using Cons.IH [OF w1(2,3)] Cons.prems(3) by blast
  with w1 show ?case by simp
qed simp

lemma mac_finish_others:
  assumes "mac_running sz F name key ps w r x" and "mac_running sz F name' key' ps' w r' y"
  shows "\<exists>p w'. mac_finish r w = Some (Inr \<lparr> at = p, len = sz name ps, bytes = F name key ps x \<rparr>, w') \<and>
    mac_running sz F name' key' ps' w' r' y"
  using assms by (simp add: mac_finish_def mac_destructor_def run_eqs mac_running_def
      mac_libraryD [OF mac_running_library [OF assms(1)]])

lemma mac_clone_runs:
  assumes "mac_running sz F name key ps w r x"
  shows "\<exists>r' w'. mac_clone r w = Some (r', w') \<and> mac_running sz F name key ps w' r x \<and>
    mac_running sz F name key ps w' r' x \<and> mctx r \<noteq> mctx r'"
  using assms by (auto simp: mac_clone_def run_eqs mac_running_def mac_libraryD)

section \<open>Properties\<close>

text \<open>C10: With a library that behaves as documented for a MAC function, and a key and parameters
  it accepts, the streaming context fed any list of chunks and the one-shot function given
  their concatenation return the same bytes with the exact length.\<close>

theorem mac_streaming_equals_one_shot:
  assumes "mac_library (lib w) sz F" and "mac_accepts (lib w) key ps" and "0 < nxt w"
    and "mac_name alg = Some name" and "build_mac_params alg params = Inr ps"
  shows "\<exists>p q xs w1 w2.
    mac_one_shot alg key (concat chunks) params w =
      Some (Inr \<lparr> at = p, len = sz name ps, bytes = F name key ps (concat chunks) \<rparr>, w1) \<and>
    session (mac_constructor alg key params) (map (\<lambda>d r. mac_update r d) chunks) mac_finish w =
      Some ((xs, Inr \<lparr> at = q, len = sz name ps, bytes = F name key ps (concat chunks) \<rparr>), w2)"
  using mac_stream.session_computes [of w sz F key ps alg name params chunks] mac_one_shot_runs [OF assms] assms
  by fastforce

definition sample_mac_lib :: "event list \<Rightarrow> string \<Rightarrow> arg list \<Rightarrow> answer" where
  "sample_mac_lib h fn args =
     (if fn = ''EVP_MAC_final''
      then (case args of [Ptr c, Ptr p, Val n] \<Rightarrow>
              (case mac_state h c of Some (Mac_run name key ps x) \<Rightarrow>
                   ok_answer\<lparr> written := key @ x, outl := 1 \<rparr>
               | _ \<Rightarrow> ok_answer) | _ \<Rightarrow> ok_answer)
      else ok_answer)"

lemma sample_mac_lib_ok:
  "mac_library sample_mac_lib (\<lambda>_ _. 1) (\<lambda>_ key _ x. key @ x)" "mac_accepts sample_mac_lib key ps"
  by (auto simp: mac_library_def mac_accepts_def grants_def sample_mac_lib_def ok_answer_def
      split: arg.split list.split option.split mac_obj.split)

theorem mac_streaming_equals_one_shot_witness:
  "\<exists>p q xs w1 w2.
    mac_one_shot 0 [9] (concat [[1], [2]]) (Params_hmac 3) (first_world sample_mac_lib) =
      Some (Inr \<lparr> at = p, len = 1, bytes = [9, 1, 2] \<rparr>, w1) \<and>
    session (mac_constructor 0 [9] (Params_hmac 3)) (map (\<lambda>d r. mac_update r d) [[1], [2]]) mac_finish
        (first_world sample_mac_lib) =
      Some ((xs, Inr \<lparr> at = q, len = 1, bytes = [9, 1, 2] \<rparr>), w2)"
  using mac_streaming_equals_one_shot [of "first_world sample_mac_lib" "\<lambda>_ _. 1" "\<lambda>_ key _ x. key @ x" "[9]"
      "[utf8_string ''digest'' ''SHA2-256'']" 0 "''HMAC''" "Params_hmac 3" "[[1], [2]]"] sample_mac_lib_ok
  by (simp add: mac_name_def build_mac_params_def wit_digest_name_def digest_names_def)

text \<open>C11: A clone forks the computation: after absorbing a common prefix, clone and original
  absorb different chunks in turn, and each finishes with the MAC of its own input.\<close>

theorem mac_clone_forks:
  assumes "mac_running sz F name key ps w r x"
  shows "\<exists>r' w1 xs w2 ys w3 p w4 q w5.
    mac_clone r w = Some (r', w1) \<and>
    run_methods (map (\<lambda>d r. mac_update r d) ds) r w1 = Some (xs, w2) \<and>
    run_methods (map (\<lambda>d r. mac_update r d) es) r' w2 = Some (ys, w3) \<and>
    mac_finish r w3 = Some (Inr \<lparr> at = p, len = sz name ps, bytes = F name key ps (x @ concat ds) \<rparr>, w4) \<and>
    mac_finish r' w4 = Some (Inr \<lparr> at = q, len = sz name ps, bytes = F name key ps (x @ concat es) \<rparr>, w5)"
proof -
  obtain r' w1 where 1: "mac_clone r w = Some (r', w1)" "mac_running sz F name key ps w1 r x"
      "mac_running sz F name key ps w1 r' x" "mctx r \<noteq> mctx r'"
    using mac_clone_runs [OF assms] by blast
  obtain xs w2 where 2: "run_methods (map (\<lambda>d r. mac_update r d) ds) r w1 = Some (xs, w2)"
      "mac_running sz F name key ps w2 r (x @ concat ds)" "mac_running sz F name key ps w2 r' x"
    using mac_run_others [OF 1(2,3,4)] by blast
  obtain ys w3 where 3: "run_methods (map (\<lambda>d r. mac_update r d) es) r' w2 = Some (ys, w3)"
      "mac_running sz F name key ps w3 r' (x @ concat es)" "mac_running sz F name key ps w3 r (x @ concat ds)"
    using mac_run_others [OF 2(3,2)] 1(4) by metis
  obtain p w4 where 4: "mac_finish r w3 =
        Some (Inr \<lparr> at = p, len = sz name ps, bytes = F name key ps (x @ concat ds) \<rparr>, w4)"
      "mac_running sz F name key ps w4 r' (x @ concat es)"
    using mac_finish_others [OF 3(3,2)] by blast
  then show ?thesis using 1 2 3 mac_finish_runs [OF 4(2)] by blast
qed

theorem mac_clone_forks_witness:
  "\<exists>r w r' w1 xs w2 ys w3 p w4 q w5.
    mac_constructor 0 [9] (Params_hmac 3) (first_world sample_mac_lib) = Some (r, w) \<and>
    mac_clone r w = Some (r', w1) \<and>
    run_methods (map (\<lambda>d r. mac_update r d) [[1]]) r w1 = Some (xs, w2) \<and>
    run_methods (map (\<lambda>d r. mac_update r d) [[2], [3]]) r' w2 = Some (ys, w3) \<and>
    mac_finish r w3 = Some (Inr \<lparr> at = p, len = 1, bytes = [9, 1] \<rparr>, w4) \<and>
    mac_finish r' w4 = Some (Inr \<lparr> at = q, len = 1, bytes = [9, 2, 3] \<rparr>, w5)"
proof -
  let ?ps = "[utf8_string ''digest'' ''SHA2-256'']"
  obtain r w where r: "mac_constructor 0 [9] (Params_hmac 3) (first_world sample_mac_lib) = Some (r, w)"
      "mac_running (\<lambda>_ _. 1) (\<lambda>_ key _ x. key @ x) ''HMAC'' [9] ?ps w r []"
    using mac_constructor_runs [of "first_world sample_mac_lib" "\<lambda>_ _. 1" "\<lambda>_ key _ x. key @ x" "[9]" ?ps 0
        "''HMAC''" "Params_hmac 3"] sample_mac_lib_ok
    by (auto simp: mac_name_def build_mac_params_def wit_digest_name_def digest_names_def)
  show ?thesis using mac_clone_forks [OF r(2), of "[[1]]" "[[2], [3]]"] r(1) by fastforce
qed

text \<open>C12: Whatever the library answers, MAC sessions (with finish or drop), clones and the
  one-shot leave live exactly what they return, use no freed object, and stop only if malloc
  fails.\<close>

theorem mac_sessions_balanced:
  "ledger_triple [''malloc''] [] (session (mac_constructor alg key params)
      (map (\<lambda>d r. mac_update r d) chunks) mac_finish) (\<lambda>(xs, y). held y) \<and>
   ledger_triple [''malloc''] [] (session (mac_constructor alg key params)
      (map (\<lambda>d r. mac_update r d) chunks) mac_destructor) (\<lambda>(xs, y). []) \<and>
   ledger_triple [''malloc''] (mac_owns r) (mac_clone r) (\<lambda>d. mac_owns d @ mac_owns r) \<and>
   ledger_triple [''malloc''] [] (mac_one_shot alg key data params) held"
proof -
  have ms: "set (map (\<lambda>d r. mac_update r d) chunks) \<subseteq> range (\<lambda>data r. mac_update r data)" by auto
  have c: "concat (map (\<lambda>_. []) (rev xs)) = ([] :: footprint)" for xs :: "(mac_error + unit) list"
    by (induction xs) simp_all
  show ?thesis
    using mac.session_balanced [OF ms mac_finish_triple] mac.session_dropped [OF ms]
      mac_one_shot_triple mac_clone_triple
    by (simp only: c append_Nil2)
qed

fun params_fit :: "nat \<Rightarrow> mac_params \<Rightarrow> bool" where
  "params_fit alg (Params_hmac _) = (alg \<in> {0, 4, 5})"
| "params_fit alg (Params_cmac _) = (alg \<in> {1, 4, 5})"
| "params_fit alg (Params_kmac _ _) = (alg \<in> {2, 3, 4, 5})"
| "params_fit alg (Params_gmac _ _) = (alg \<in> {4, 5, 6})"
| "params_fit alg _ = (alg \<in> {4, 5})"

lemma name_tables_None:
  "(wit_digest_name h = None) = (18 \<le> h)" "(block_cipher_name c = None) = (3 \<le> c)"
  "(gmac_cipher_name c = None) = (3 \<le> c)"
  by (auto simp: wit_digest_name_def block_cipher_name_def gmac_cipher_name_def)

text \<open>The parameter array is refused as missing exactly when the WIT variant does not fit the
  algorithm, as unsupported exactly when it fits but names an unknown algorithm, digest or
  cipher, and otherwise has at most the 5 entries that leave room for the end marker.\<close>

theorem mac_params_checked:
  "(build_mac_params alg p = Inl Mac_missing_parameter) = (alg \<le> 6 \<and> \<not> params_fit alg p) \<and>
   (build_mac_params alg p = Inl Mac_unsupported_algorithm) =
     (6 < alg \<or> (\<exists>h. alg = 0 \<and> p = Params_hmac h \<and> 18 \<le> h) \<or> (\<exists>c. alg = 1 \<and> p = Params_cmac c \<and> 3 \<le> c) \<or>
      (\<exists>c nonce. alg = 6 \<and> p = Params_gmac c nonce \<and> 3 \<le> c)) \<and>
   (case build_mac_params alg p of Inr ps \<Rightarrow> length ps < 6 | Inl _ \<Rightarrow> True)"
  by (cases p) (auto simp: build_mac_params_def name_tables_None name_tables_None [THEN iffD2] split: option.splits sum.splits if_splits)

end
