(* ===== verification/Bignum.thy ===== *)
theory Bignum
  imports Runs "HOL-Library.Signed_Division"
begin

text \<open>
  Model of \<open>src/bignum.c\<close>. A \<open>bn\<close> handle is the \<open>BIGNUM\<close> pointer itself, so the model's
  representation is a pointer; the arithmetic is OpenSSL's.
\<close>

section \<open>Data\<close>

datatype bn_error =
    Bn_parse_failed
  | Bn_div_by_zero
  | Bn_not_invertible
  | Bn_out_of_range
  | Bn_internal nat

definition BN_new :: "world \<Rightarrow> ptr outcome" where
  "BN_new = create (Obj ''BIGNUM'') ''BN_new'' []"

definition BN_free :: "ptr \<Rightarrow> world \<Rightarrow> unit outcome" where
  "BN_free = release (Obj ''BIGNUM'') ''BN_free''"

definition BN_CTX_new :: "world \<Rightarrow> ptr outcome" where
  "BN_CTX_new = create (Obj ''BN_CTX'') ''BN_CTX_new'' []"

definition BN_CTX_free :: "ptr \<Rightarrow> world \<Rightarrow> unit outcome" where
  "BN_CTX_free = release (Obj ''BN_CTX'') ''BN_CTX_free''"

definition BN_is_zero :: "ptr \<Rightarrow> world \<Rightarrow> bool outcome" where
  "BN_is_zero p w = do { (a, w) \<leftarrow> ccall ''BN_is_zero'' [Ptr p] w; Some (rc a \<noteq> 0, w) }"

definition bn_internal :: "world \<Rightarrow> (bn_error + 'a) outcome" where
  "bn_internal w = do { (e, w) \<leftarrow> ERR_peek_last_error w; Some (Inl (Bn_internal e), w) }"

section \<open>Constructors\<close>


text \<open>\<open>BN_ULONG\<close> has 32 bits on wasm32. \<open>BN_set_word\<close> writes through its argument.\<close>

definition bn_from_u64 :: "u64 \<Rightarrow> world \<Rightarrow> ptr outcome" where
  "bn_from_u64 v w = do {
     (bn, w) \<leftarrow> BN_new w;
     if bn = 0 then None
     else do {
       (_, w) \<leftarrow> ccall ''BN_set_word'' [Ptr bn, Val (uint (ucast v :: u32))] w;
       if drop_bit 32 v \<noteq> 0
       then do {
         (hi, w) \<leftarrow> BN_new w;
         (_, w) \<leftarrow> deref hi w;
         (_, w) \<leftarrow> ccall ''BN_set_word'' [Ptr hi, Val (uint (ucast (drop_bit 32 v) :: u32))] w;
         (_, w) \<leftarrow> ccall ''BN_lshift'' [Ptr hi, Ptr hi, Val 32] w;
         (_, w) \<leftarrow> ccall ''BN_add'' [Ptr bn, Ptr bn, Ptr hi] w;
         (_, w) \<leftarrow> BN_free hi w;
         Some (bn, w) }
       else Some (bn, w) } }"

text \<open>\<open>BN_dec2bn\<close> and \<open>BN_hex2bn\<close> allocate the number through their first argument and return
  how many characters they used.\<close>

definition bn_parse :: "string \<Rightarrow> u8 list \<Rightarrow> world \<Rightarrow> (bn_error + ptr) outcome" where
  "bn_parse fn s w = do {
     (nul, w) \<leftarrow> xmalloc (Suc (length s)) w;
     (_, w) \<leftarrow> deref nul w;
     ((a, bn), w) \<leftarrow> acquire (Obj ''BIGNUM'') fn [Buf (s @ [0])] w;
     (_, w) \<leftarrow> cfree nul w;
     if rc a = 0 \<or> bn = 0
     then do {
       (_, w) \<leftarrow> (if bn \<noteq> 0 then BN_free bn w else Some ((), w));
       Some (Inl Bn_parse_failed, w) }
     else Some (Inr bn, w) }"

definition bn_from_dec :: "u8 list \<Rightarrow> world \<Rightarrow> (bn_error + ptr) outcome" where
  "bn_from_dec = bn_parse ''BN_dec2bn''"


definition bn_from_be_bytes :: "u8 list \<Rightarrow> world \<Rightarrow> ptr outcome" where
  "bn_from_be_bytes bs w = do {
     (bn, w) \<leftarrow> create (Obj ''BIGNUM'') ''BN_bin2bn'' [Buf bs, Val (c_int (length bs))] w;
     if bn = 0 then None else Some (bn, w) }"


section \<open>Output\<close>

definition bn_to_text :: "string \<Rightarrow> ptr \<Rightarrow> world \<Rightarrow> list_u8 outcome" where
  "bn_to_text fn self w = do {
     ((a, s), w) \<leftarrow> acquire (Obj ''OPENSSL'') fn [Ptr self] w;
     (l, w) \<leftarrow> string_take (if s \<noteq> 0 then text_of (text1 a) else []) w;
     (_, w) \<leftarrow> (if s \<noteq> 0 then release (Obj ''OPENSSL'') ''OPENSSL_free'' s w else Some ((), w));
     Some (l, w) }"

definition bn_to_dec :: "ptr \<Rightarrow> world \<Rightarrow> list_u8 outcome" where
  "bn_to_dec = bn_to_text ''BN_bn2dec''"

definition bn_to_hex :: "ptr \<Rightarrow> world \<Rightarrow> list_u8 outcome" where
  "bn_to_hex = bn_to_text ''BN_bn2hex''"

text \<open>\<open>BN_num_bytes\<close> is the macro \<open>(BN_num_bits(a) + 7) / 8\<close>.\<close>

definition bn_to_be_bytes :: "ptr \<Rightarrow> nat option \<Rightarrow> world \<Rightarrow> list_u8 outcome" where
  "bn_to_be_bytes self pad w = do {
     (a, w) \<leftarrow> ccall ''BN_num_bits'' [Ptr self] w;
     let n = (rc a + 7) div 8;
     let out_len = (case pad of None \<Rightarrow> n | Some k \<Rightarrow> if k > c_u32 n then c_int k else n);
     (p, w) \<leftarrow> xmalloc (if c_u32 out_len \<noteq> 0 then c_u32 out_len else 1) w;
     (a, w) \<leftarrow> ccall ''BN_bn2binpad'' [Ptr self, Ptr p, Val out_len] w;
     Some (\<lparr> at = p, len = c_u32 out_len, bytes = written a \<rparr>, w) }"

section \<open>Predicates\<close>

definition bn_bits :: "ptr \<Rightarrow> world \<Rightarrow> nat outcome" where
  "bn_bits self w = do { (a, w) \<leftarrow> ccall ''BN_num_bits'' [Ptr self] w; Some (c_u32 (rc a), w) }"

definition bn_is_zero :: "ptr \<Rightarrow> world \<Rightarrow> bool outcome" where
  "bn_is_zero = BN_is_zero"

definition bn_is_one :: "ptr \<Rightarrow> world \<Rightarrow> bool outcome" where
  "bn_is_one self w = do { (a, w) \<leftarrow> ccall ''BN_is_one'' [Ptr self] w; Some (rc a \<noteq> 0, w) }"

definition bn_is_odd :: "ptr \<Rightarrow> world \<Rightarrow> bool outcome" where
  "bn_is_odd self w = do { (a, w) \<leftarrow> ccall ''BN_is_odd'' [Ptr self] w; Some (rc a \<noteq> 0, w) }"

definition bn_is_negative :: "ptr \<Rightarrow> world \<Rightarrow> bool outcome" where
  "bn_is_negative self w = do { (a, w) \<leftarrow> ccall ''BN_is_negative'' [Ptr self] w; Some (rc a \<noteq> 0, w) }"

definition bn_equals :: "ptr \<Rightarrow> ptr \<Rightarrow> world \<Rightarrow> bool outcome" where
  "bn_equals self other w = do { (a, w) \<leftarrow> ccall ''BN_cmp'' [Ptr self, Ptr other] w; Some (rc a = 0, w) }"

definition bn_compare :: "ptr \<Rightarrow> ptr \<Rightarrow> world \<Rightarrow> int outcome" where
  "bn_compare self other w = do {
     (a, w) \<leftarrow> ccall ''BN_cmp'' [Ptr self, Ptr other] w;
     Some (if rc a > 0 then 1 else if rc a < 0 then - 1 else 0, w) }"

section \<open>Arithmetic\<close>




definition bn_div :: "ptr \<Rightarrow> ptr \<Rightarrow> world \<Rightarrow> (bn_error + ptr \<times> ptr) outcome" where
  "bn_div self other w = do {
     (z, w) \<leftarrow> BN_is_zero other w;
     if z then Some (Inl Bn_div_by_zero, w)
     else do {
       (c, w) \<leftarrow> BN_CTX_new w;
       (q, w) \<leftarrow> BN_new w;
       (r, w) \<leftarrow> BN_new w;
       if c = 0 \<or> q = 0 \<or> r = 0 then None
       else do {
         (a, w) \<leftarrow> ccall ''BN_div'' [Ptr q, Ptr r, Ptr self, Ptr other, Ptr c] w;
         (_, w) \<leftarrow> BN_CTX_free c w;
         if rc a \<noteq> 1
         then do { (_, w) \<leftarrow> BN_free q w; (_, w) \<leftarrow> BN_free r w; bn_internal w }
         else Some (Inr (q, r), w) } } }"

definition bn_modulo :: "ptr \<Rightarrow> ptr \<Rightarrow> world \<Rightarrow> (bn_error + ptr) outcome" where
  "bn_modulo self m w = do {
     (z, w) \<leftarrow> BN_is_zero m w;
     if z then Some (Inl Bn_div_by_zero, w)
     else do {
       (c, w) \<leftarrow> BN_CTX_new w;
       (r, w) \<leftarrow> BN_new w;
       if c = 0 \<or> r = 0 then None
       else do {
         (a, w) \<leftarrow> ccall ''BN_mod'' [Ptr r, Ptr self, Ptr m, Ptr c] w;
         (_, w) \<leftarrow> BN_CTX_free c w;
         if rc a \<noteq> 1 then do { (_, w) \<leftarrow> BN_free r w; bn_internal w }
         else Some (Inr r, w) } } }"








section \<open>Resource safety\<close>



definition bn_held :: "bn_error + ptr \<Rightarrow> footprint" where
  "bn_held r = (case r of Inl e \<Rightarrow> [] | Inr p \<Rightarrow> [(p, Obj ''BIGNUM'')])"

definition bn_held2 :: "bn_error + ptr \<times> ptr \<Rightarrow> footprint" where
  "bn_held2 r = (case r of Inl e \<Rightarrow> [] | Inr (p, q) \<Rightarrow> [(p, Obj ''BIGNUM''), (q, Obj ''BIGNUM'')])"

lemma bn_held_simps [simp]:
  "bn_held (Inl e) = []" "bn_held (Inr p) = [(p, Obj ''BIGNUM'')]"
  "bn_held2 (Inl e) = []" "bn_held2 (Inr (p, q)) = [(p, Obj ''BIGNUM''), (q, Obj ''BIGNUM'')]"
  by (simp_all add: bn_held_def bn_held2_def)

lemmas bn_prims = BN_new_def BN_free_def BN_CTX_new_def BN_CTX_free_def BN_is_zero_def bn_internal_def






section \<open>What the numbers are\<close>

text \<open>Big-endian byte strings and the numbers they stand for.\<close>

definition be_val :: "u8 list \<Rightarrow> nat" where
  "be_val bs = foldl (\<lambda>v b. 256 * v + unat b) 0 bs"

fun be_bytes :: "nat \<Rightarrow> nat \<Rightarrow> u8 list" where
  "be_bytes 0 v = []"
| "be_bytes (Suc n) v = be_bytes n (v div 256) @ [word_of_nat v]"

lemma length_be_bytes [simp]: "length (be_bytes n v) = n"
  by (induction n arbitrary: v) simp_all

lemma unat_u8_lt [simp]: "unat (b :: u8) < 256"
  using unsigned_less [of b] by simp

lemma be_bytes_val: "be_bytes (length bs) (be_val bs) = bs"
proof (induction bs rule: rev_induct)
  case (snoc b bs)
  have "(256 * be_val bs + unat b) div 256 = be_val bs" by simp
  moreover have "(word_of_nat (256 * be_val bs + unat b) :: u8) = b"
    by (subst word_unat_eq_iff) (simp add: unsigned_of_nat take_bit_eq_mod del: of_nat_add of_nat_mult)
  ultimately show ?case using snoc by (simp add: be_val_def)
qed (simp add: be_val_def)

lemma be_val_lt: "be_val bs < 256 ^ length bs"
proof (induction bs rule: rev_induct)
  case (snoc b bs)
  then have "256 * be_val bs + unat b < 256 * 256 ^ length bs"
    using unat_u8_lt [of b] by linarith
  then show ?case by (simp add: be_val_def)
qed (simp add: be_val_def)

fun num_bits :: "nat \<Rightarrow> nat" where
  "num_bits v = (if v = 0 then 0 else Suc (num_bits (v div 2)))"

declare num_bits.simps [simp del]

lemma num_bits_le: "v < 2 ^ k \<Longrightarrow> num_bits v \<le> k"
proof (induction k arbitrary: v)
  case (Suc k)
  then have "v div 2 < 2 ^ k" by auto
  with Suc.IH [of "v div 2"] show ?case by (simp add: num_bits.simps [of v])
qed (simp add: num_bits.simps)

text \<open>
  The values OpenSSL's numbers have, read off the call log; \<open>BN_div\<close> truncates towards zero
  and its remainder has the sign of the dividend.
\<close>

fun bn_step :: "(ptr \<rightharpoonup> int) \<Rightarrow> event \<Rightarrow> (ptr \<rightharpoonup> int)" where
  "bn_step st (Ev fn args p) = (case args of
       [] \<Rightarrow> if fn = ''BN_new'' then st(p \<mapsto> 0) else st
     | [Ptr a] \<Rightarrow> if fn = ''BN_dup'' then st(p := st a) else st
     | [Buf bs, Val n] \<Rightarrow> if fn = ''BN_bin2bn'' then st(p \<mapsto> int (be_val (take (nat n) bs))) else st
     | [Ptr r, Val v] \<Rightarrow> if fn = ''BN_set_word'' then st(r \<mapsto> v) else st
     | [Ptr r, Ptr a, Val n] \<Rightarrow>
         if fn = ''BN_lshift'' then st(r := map_option (\<lambda>x. x * 2 ^ nat n) (st a)) else st
     | [Ptr r, Ptr a, Ptr b] \<Rightarrow>
         (case (st a, st b) of
            (Some x, Some y) \<Rightarrow>
              if fn = ''BN_add'' then st(r \<mapsto> x + y)
              else if fn = ''BN_sub'' then st(r \<mapsto> x - y) else st
          | _ \<Rightarrow> st)
     | [Ptr r, Ptr a, Ptr b, Ptr c] \<Rightarrow>
         (case (st a, st b) of
            (Some x, Some y) \<Rightarrow>
              if fn = ''BN_mul'' then st(r \<mapsto> x * y)
              else if fn = ''BN_gcd'' then st(r \<mapsto> gcd x y)
              else if fn = ''BN_mod'' then st(r \<mapsto> x smod y) else st
          | _ \<Rightarrow> st)
     | [Ptr q, Ptr r, Ptr a, Ptr b, Ptr c] \<Rightarrow>
         (case (st a, st b) of
            (Some x, Some y) \<Rightarrow>
              if fn = ''BN_div'' then st(q \<mapsto> x sdiv y, r \<mapsto> x smod y) else st
          | _ \<Rightarrow> st)
     | _ \<Rightarrow> st)"

definition bn_val :: "event list \<Rightarrow> ptr \<rightharpoonup> int" where
  "bn_val h = foldl bn_step Map.empty h"

lemma bn_val_append [simp]: "bn_val (h @ es) = foldl bn_step (bn_val h) es"
  by (simp add: bn_val_def)

text \<open>The documented answers of the \<open>BN_\<close> functions about these values.\<close>

definition bn_library :: "(event list \<Rightarrow> string \<Rightarrow> arg list \<Rightarrow> answer) \<Rightarrow> bool" where
  "bn_library L \<longleftrightarrow>
     grants L ''BN_new'' \<and> grants L ''BN_CTX_new'' \<and> grants L ''BN_bin2bn'' \<and> grants L ''malloc'' \<and>
     (\<forall>h a x. bn_val h a = Some x \<longrightarrow>
        (rc (L h ''BN_is_zero'' [Ptr a]) \<noteq> 0) = (x = 0) \<and>
        rc (L h ''BN_num_bits'' [Ptr a]) = int (num_bits (nat \<bar>x\<bar>)) \<and>
        (\<forall>p n. 0 \<le> n \<and> \<bar>x\<bar> < 256 ^ nat n \<longrightarrow>
           written (L h ''BN_bn2binpad'' [Ptr a, Ptr p, Val n]) = be_bytes (nat n) (nat \<bar>x\<bar>)) \<and>
        (\<forall>b y. bn_val h b = Some y \<longrightarrow>
           sgn (rc (L h ''BN_cmp'' [Ptr a, Ptr b])) = sgn (x - y) \<and>
           (\<forall>q r c. y \<noteq> 0 \<longrightarrow> rc (L h ''BN_div'' [Ptr q, Ptr r, Ptr a, Ptr b, Ptr c]) = 1) \<and>
           (\<forall>r c. y \<noteq> 0 \<longrightarrow> rc (L h ''BN_mod'' [Ptr r, Ptr a, Ptr b, Ptr c]) = 1)))"

lemma bn_library_grants:
  assumes "bn_library L"
  shows "grants L ''BN_new''" "grants L ''BN_CTX_new''" "grants L ''BN_bin2bn''" "grants L ''malloc''"
  using assms by (simp_all add: bn_library_def)

lemma bn_library_unary:
  assumes "bn_library L" and "bn_val h a = Some x"
  shows "(rc (L h ''BN_is_zero'' [Ptr a]) = 0) = (x \<noteq> 0)"
    "rc (L h ''BN_num_bits'' [Ptr a]) = int (num_bits (nat \<bar>x\<bar>))"
    "0 \<le> n \<Longrightarrow> \<bar>x\<bar> < 256 ^ nat n \<Longrightarrow>
       written (L h ''BN_bn2binpad'' [Ptr a, Ptr p, Val n]) = be_bytes (nat n) (nat \<bar>x\<bar>)"
proof -
  have "(rc (L h ''BN_is_zero'' [Ptr a]) \<noteq> 0) = (x = 0)" using assms unfolding bn_library_def by blast
  then show "(rc (L h ''BN_is_zero'' [Ptr a]) = 0) = (x \<noteq> 0)" by blast
qed (use assms in \<open>unfold bn_library_def, blast\<close>)+

lemma bn_library_binary:
  assumes "bn_library L" and "bn_val h a = Some x" and "bn_val h b = Some y"
  shows "sgn (rc (L h ''BN_cmp'' [Ptr a, Ptr b])) = sgn (x - y)"
    "y \<noteq> 0 \<Longrightarrow> rc (L h ''BN_div'' [Ptr q, Ptr r, Ptr a, Ptr b, Ptr c]) = 1"
    "y \<noteq> 0 \<Longrightarrow> rc (L h ''BN_mod'' [Ptr r, Ptr a, Ptr b, Ptr c]) = 1"
  using assms unfolding bn_library_def by blast+

section \<open>Properties\<close>

definition sample_bn_lib :: "event list \<Rightarrow> string \<Rightarrow> arg list \<Rightarrow> answer" where
  "sample_bn_lib h fn args = (case args of
       [Ptr a] \<Rightarrow>
         (case bn_val h a of
            None \<Rightarrow> ok_answer
          | Some x \<Rightarrow>
              if fn = ''BN_is_zero'' then ok_answer\<lparr> rc := if x = 0 then 1 else 0 \<rparr>
              else if fn = ''BN_num_bits'' then ok_answer\<lparr> rc := int (num_bits (nat \<bar>x\<bar>)) \<rparr>
              else ok_answer)
     | [Ptr a, Ptr b] \<Rightarrow>
         (case (bn_val h a, bn_val h b) of
            (Some x, Some y) \<Rightarrow> ok_answer\<lparr> rc := sgn (x - y) \<rparr>
          | _ \<Rightarrow> ok_answer)
     | [Ptr a, Ptr p, Val n] \<Rightarrow>
         (case bn_val h a of
            None \<Rightarrow> ok_answer
          | Some x \<Rightarrow> ok_answer\<lparr> written := be_bytes (nat n) (nat \<bar>x\<bar>) \<rparr>)
     | _ \<Rightarrow> ok_answer)"

lemma sample_bn_lib_ok: "bn_library sample_bn_lib"
  by (auto simp: bn_library_def grants_def sample_bn_lib_def ok_answer_def split: list.split arg.split option.split)

text \<open>A world with the numbers 7 (object 2) and -20 (object 3).\<close>

definition sample_bn_world :: world where
  "sample_bn_world = (first_world sample_bn_lib)
     \<lparr> log := [Ev ''BN_new'' [] 2, Ev ''BN_set_word'' [Ptr 2, Val 7] 0, Ev ''BN_new'' [] 3,
               Ev ''BN_set_word'' [Ptr 3, Val (- 20)] 0], nxt := 4 \<rparr>"

lemma sample_bn_world_simps [simp]:
  "lib sample_bn_world = sample_bn_lib" "nxt sample_bn_world = 4"
  "bn_val (log sample_bn_world) 2 = Some 7" "bn_val (log sample_bn_world) 3 = Some (- 20)"
  by (simp_all add: sample_bn_world_def bn_val_def)

text \<open>C13: from-u64 builds the number it is given for every 64-bit value, although the library's
  word has 32 bits: low word, shifted high word and their sum.\<close>

theorem bn_from_u64_value:
  assumes "bn_library (lib w)" and "0 < nxt w"
  shows "\<exists>r w'. bn_from_u64 v w = Some (r, w') \<and> bn_val (log w') r = Some (uint v)"
proof -
  have "uint v div 2 ^ 32 < 2 ^ 32" using uint_bounded [of v] by simp
  then have "uint v div 2 ^ 32 mod 2 ^ 32 = uint v div 2 ^ 32"
    by (intro mod_pos_pos_trivial) (simp_all add: pos_imp_zdiv_nonneg_iff)
  then have v: "uint v = uint (ucast v :: u32) + uint (ucast (drop_bit 32 v) :: u32) * 2 ^ 32"
    by (simp add: unsigned_ucast_eq unsigned_drop_bit_eq)
      (simp add: take_bit_eq_mod drop_bit_eq_div mod_pos_pos_trivial mod_div_mult_eq)
  show ?thesis
    using assms v
    by (auto simp: bn_from_u64_def bn_prims run_eqs bn_library_grants)
qed

theorem bn_from_u64_value_witness:
  "\<exists>r w'. bn_from_u64 0x100000002 (first_world sample_bn_lib) = Some (r, w') \<and>
     bn_val (log w') r = Some 0x100000002"
  using bn_from_u64_value [of "first_world sample_bn_lib" "0x100000002"] sample_bn_lib_ok by simp

text \<open>C14: Division by a nonzero number returns quotient and remainder with
  q * divisor + r = dividend, the remainder smaller than the divisor and never of the opposite
  sign to the dividend; modulo returns the same remainder; both answer division-by-zero, with
  no allocation, for a zero divisor.\<close>

theorem bn_division:
  assumes "bn_library (lib w)" and "0 < nxt w" and "a < nxt w" and "b < nxt w"
    and "bn_val (log w) a = Some x" and "bn_val (log w) b = Some y"
  shows "(y \<noteq> 0 \<longrightarrow> (\<exists>q r w1 s w2 u v.
      bn_div a b w = Some (Inr (q, r), w1) \<and> bn_val (log w1) q = Some u \<and> bn_val (log w1) r = Some v \<and>
      u * y + v = x \<and> \<bar>v\<bar> < \<bar>y\<bar> \<and> 0 \<le> v * x \<and>
      bn_modulo a b w = Some (Inr s, w2) \<and> bn_val (log w2) s = Some v)) \<and>
    (y = 0 \<longrightarrow> (\<exists>w1 w2. bn_div a b w = Some (Inl Bn_div_by_zero, w1) \<and> live w1 = live w \<and>
      bn_modulo a b w = Some (Inl Bn_div_by_zero, w2) \<and> live w2 = live w))"
proof -
  have z: "bn_val (log w @ [Ev ''BN_is_zero'' [Ptr b] 0]) a = Some x"
     "bn_val (log w @ [Ev ''BN_is_zero'' [Ptr b] 0]) b = Some y" using assms(5,6) by simp_all
  show ?thesis
  proof (cases "y = 0")
    case True
    then show ?thesis
      using bn_library_unary(1) [OF assms(1,6)]
      by (simp add: bn_div_def bn_modulo_def BN_is_zero_def ccall_eq)
  next
    case False
    have d: "x sdiv y * y + x smod y = x" "\<bar>x smod y\<bar> < \<bar>y\<bar>" "0 \<le> x smod y * x"
    proof -
      show "x sdiv y * y + x smod y = x" by (rule sdiv_mult_smod_eq)
      show "\<bar>x smod y\<bar> < \<bar>y\<bar>" using smod_int_range [of y x] False by auto
      have "sgn x * x = \<bar>x\<bar>" by (simp add: sgn_if)
      then have "x smod y * x = \<bar>x\<bar> * (\<bar>x\<bar> mod \<bar>y\<bar>)" by (simp add: smod_int_alt_def)
      then show "0 \<le> x smod y * x" using False by simp
    qed
    show ?thesis
      using False d assms bn_library_unary(1) [OF assms(1,6)]
      by (auto simp: bn_div_def bn_modulo_def bn_prims run_eqs bn_library_grants bn_library_binary)
  qed
qed

theorem bn_division_witness:
  "\<exists>q r w1. bn_div 3 2 sample_bn_world = Some (Inr (q, r), w1) \<and>
     (\<exists>u v. bn_val (log w1) q = Some u \<and> bn_val (log w1) r = Some v \<and> u * 7 + v = - 20)"
  using bn_division [of sample_bn_world 3 2 "- 20" 7] sample_bn_lib_ok by auto

text \<open>C15: Reading a number from big-endian bytes and writing it back padded to their count gives
  the same bytes, leading zeros included.\<close>

theorem bn_bytes_round_trip:
  assumes "bn_library (lib w)" and "0 < nxt w" and "length bs < 2 ^ 26"
  shows "\<exists>r w1 l w2. bn_from_be_bytes bs w = Some (r, w1) \<and>
    bn_to_be_bytes r (Some (length bs)) w1 = Some (l, w2) \<and> bytes l = bs \<and> len l = length bs"
proof -
  let ?n = "length bs" and ?v = "be_val bs"
  let ?w1 = "acquired (Obj ''BIGNUM'') ''BN_bin2bn'' [Buf bs, Val (int ?n)] w"
  let ?w2 = "record_call ''BN_num_bits'' [Ptr (nxt w)] 0 ?w1"
  have r: "bn_val (log ?w1) (nxt w) = Some (int ?v)" "bn_val (log ?w2) (nxt w) = Some (int ?v)" by simp_all
  have "?v < 2 ^ (8 * ?n)" using be_val_lt [of bs] by (simp add: power_mult)
  then have "num_bits ?v \<le> 8 * ?n" by (rule num_bits_le)
  then have m: "0 \<le> (int (num_bits ?v) + 7) div 8" "(int (num_bits ?v) + 7) div 8 \<le> int ?n" by auto
  have c: "rc (lib ?w1 (log ?w1) ''BN_num_bits'' [Ptr (nxt w)]) = int (num_bits ?v)"
    using bn_library_unary(2) [OF assms(1) r(1)] by simp
  have out: "(if ?n > c_u32 ((int (num_bits ?v) + 7) div 8) then c_int ?n else (int (num_bits ?v) + 7) div 8) = int ?n"
  proof -
    have "c_u32 ((int (num_bits ?v) + 7) div 8) = nat ((int (num_bits ?v) + 7) div 8)"
      using m assms(3) by (intro c_u32_nat) auto
    then show ?thesis using m assms(3) by (auto simp: not_less)
  qed
  have "int ?v < 256 ^ ?n" using be_val_lt [of bs] by (metis of_nat_less_iff of_nat_numeral of_nat_power)
  let ?p = "nxt ?w1" and ?w3 = "acquired Mem ''malloc'' [Val (int (if ?n \<noteq> 0 then ?n else 1))] ?w2"
  have b: "written (lib ?w3 (log ?w3) ''BN_bn2binpad'' [Ptr (nxt w), Ptr ?p, Val (int ?n)]) = bs"
    using bn_library_unary(3) [of "lib w" "log ?w3" "nxt w" "int ?v" "int ?n" ?p] assms(1) \<open>int ?v < 256 ^ ?n\<close>
    by (simp add: be_bytes_val)
  have 1: "bn_from_be_bytes bs w = Some (nxt w, ?w1)"
    using assms by (simp add: bn_from_be_bytes_def create_eq bn_library_grants)
  have 2: "xmalloc (if ?n \<noteq> 0 then ?n else 1) ?w2 = Some (?p, ?w3)"
    using assms by (simp add: xmalloc_eq bn_library_grants del: of_nat_eq_0_iff)
  have 3: "c_u32 (int ?n) = ?n" using assms(3) by simp
  have "bn_to_be_bytes (nxt w) (Some ?n) ?w1 =
      Some (\<lparr> at = ?p, len = ?n, bytes = bs \<rparr>, record_call ''BN_bn2binpad'' [Ptr (nxt w), Ptr ?p, Val (int ?n)] 0 ?w3)"
    by (simp only: bn_to_be_bytes_def ccall_eq Option.bind.simps prod.case
      c Let_def option.case out 3 2 b)
  with 1 show ?thesis by simp
qed

theorem bn_bytes_round_trip_witness:
  "\<exists>r w1 l w2. bn_from_be_bytes [0, 0, 3] (first_world sample_bn_lib) = Some (r, w1) \<and>
    bn_to_be_bytes r (Some 3) w1 = Some (l, w2) \<and> bytes l = [0, 0, 3] \<and> len l = 3"
  using bn_bytes_round_trip [of "first_world sample_bn_lib" "[0, 0, 3]"] sample_bn_lib_ok by (simp add: numeral_3_eq_3)

text \<open>compare is the sign of the difference of the two numbers, and equals agrees with it.\<close>

theorem bn_compare_sign:
  assumes "bn_library (lib w)" and "bn_val (log w) a = Some x" and "bn_val (log w) b = Some y"
  shows "\<exists>w1 w2. bn_compare a b w = Some (sgn (x - y), w1) \<and> bn_equals a b w = Some (x = y, w2)"
  using bn_library_binary(1) [OF assms]
  by (auto simp: bn_compare_def bn_equals_def ccall_eq sgn_if split: if_splits)

theorem bn_compare_sign_witness:
  "\<exists>w1 w2. bn_compare 3 2 sample_bn_world = Some (- 1, w1) \<and>
     bn_equals 3 2 sample_bn_world = Some (False, w2)"
  using bn_compare_sign [of sample_bn_world 3 "- 20" 2 7] sample_bn_lib_ok by simp


definition digits_of :: "u8 list \<Rightarrow> nat" where
  "digits_of s = length (takeWhile (\<lambda>b. 0x30 \<le> b \<and> b \<le> 0x39) s)"

definition dec_prefix :: "u8 list \<Rightarrow> nat" where
  "dec_prefix s = (case s of
       [] \<Rightarrow> 0
     | b # r \<Rightarrow> if b = 0x2d then (if digits_of r = 0 then 0 else Suc (digits_of r)) else digits_of s)"

text \<open>With a BN_dec2bn that, as documented, reads the longest numeric prefix and answers its
  length, from-dec succeeds for every string that starts with a digit, whatever follows:
  parse-failed is not reported for trailing text.\<close>

theorem bn_from_dec_ignores_rest:
  assumes "\<forall>h s. rc (lib w h ''BN_dec2bn'' [Buf s]) = int (dec_prefix s)"
    and "\<forall>h s. granted (lib w h ''BN_dec2bn'' [Buf s]) = (0 < dec_prefix s)"
    and "grants (lib w) ''malloc''" and "0 < nxt w"
    and "0x30 \<le> d" and "d \<le> 0x39"
  shows "\<exists>r w'. bn_from_dec (d # rest) w = Some (Inr r, w')"
proof -
  have d: "0 < dec_prefix (d # rest @ [0])"
    using assms(5,6) by (auto simp: dec_prefix_def digits_of_def)
  let ?w = "touched (nxt w) (acquired Mem ''malloc'' [Val (int (Suc (Suc (length rest))))] w)"
  have "acquire (Obj ''BIGNUM'') ''BN_dec2bn'' [Buf (d # rest @ [0])] ?w =
      Some ((lib w (log ?w) ''BN_dec2bn'' [Buf (d # rest @ [0])], nxt ?w),
        acquired (Obj ''BIGNUM'') ''BN_dec2bn'' [Buf (d # rest @ [0])] ?w)"
    using assms(2) d by (simp add: acquire_def acquired_def Let_def)
  then show ?thesis
    using assms d by (simp add: bn_from_dec_def bn_parse_def xmalloc_eq deref_eq cfree_eq)
qed

definition sample_dec_lib :: "event list \<Rightarrow> string \<Rightarrow> arg list \<Rightarrow> answer" where
  "sample_dec_lib h fn args =
     (if fn = ''BN_dec2bn''
      then (case args of
              [Buf s] \<Rightarrow> ok_answer\<lparr> rc := int (dec_prefix s), granted := 0 < dec_prefix s \<rparr>
            | _ \<Rightarrow> ok_answer)
      else ok_answer)"

theorem bn_from_dec_ignores_rest_witness:
  "\<exists>r w'. bn_from_dec [0x31, 0x32, 0x78] (first_world sample_dec_lib) = Some (Inr r, w')"
  by (rule bn_from_dec_ignores_rest)
    (auto simp: sample_dec_lib_def ok_answer_def grants_def malloc_def split: list.split arg.split)

end
