(* ===== verification/Cipher.thy ===== *)
theory Cipher
  imports Runs "HOL-Library.Sublist"
begin

text \<open>
  Model of \<open>src/cipher.c\<close>: the cipher table, the one-shot functions with and without
  authentication, and the streaming encryptor and decryptor.
\<close>

section \<open>Data\<close>

datatype cipher_error =
    Cipher_unsupported_algorithm
  | Cipher_bad_key_size
  | Cipher_bad_iv_size
  | Cipher_bad_tag_size
  | Cipher_bad_padding
  | Cipher_aead_required
  | Cipher_not_aead
  | Cipher_tag_mismatch
  | Cipher_internal nat

text \<open>The \<open>EVP_\<close> accessors of the table, by algorithm number; entry 35 is fetched by name.\<close>

definition cipher_accessors :: "string list" where
  "cipher_accessors =
     [''EVP_aes_128_ecb'', ''EVP_aes_192_ecb'', ''EVP_aes_256_ecb'',
      ''EVP_aes_128_cbc'', ''EVP_aes_192_cbc'', ''EVP_aes_256_cbc'',
      ''EVP_aes_128_ctr'', ''EVP_aes_192_ctr'', ''EVP_aes_256_ctr'',
      ''EVP_aes_128_cfb'', ''EVP_aes_192_cfb'', ''EVP_aes_256_cfb'',
      ''EVP_aes_128_ofb'', ''EVP_aes_192_ofb'', ''EVP_aes_256_ofb'',
      ''EVP_aes_128_xts'', ''EVP_aes_256_xts'',
      ''EVP_aes_128_gcm'', ''EVP_aes_192_gcm'', ''EVP_aes_256_gcm'',
      ''EVP_aes_128_ccm'', ''EVP_aes_192_ccm'', ''EVP_aes_256_ccm'',
      ''EVP_aes_128_ocb'', ''EVP_aes_192_ocb'', ''EVP_aes_256_ocb'',
      ''EVP_chacha20'', ''EVP_chacha20_poly1305'',
      ''EVP_camellia_128_cbc'', ''EVP_camellia_192_cbc'', ''EVP_camellia_256_cbc'',
      ''EVP_aria_128_gcm'', ''EVP_aria_192_gcm'', ''EVP_aria_256_gcm'',
      ''EVP_sm4_cbc'', ''SM4-GCM'', ''EVP_des_ede3_cbc'', ''EVP_rc4'']"

text \<open>
  An \<open>EVP_CIPHER\<close> here lives as long as the program: a static object known by its accessor, or
  the SM4-GCM object, fetched by name on first use, that a static variable of the function
  keeps and nobody frees. \<open>statics\<close> is nonzero once it is cached.
\<close>

definition cipher_by_alg :: "nat \<Rightarrow> world \<Rightarrow> string option outcome" where
  "cipher_by_alg a w =
     (if a = 35 then
        (if no_sm4 (cfg w) then Some (None, w)
         else if statics w ''sm4_gcm_cached'' \<noteq> 0 then Some (Some ''SM4-GCM'', w)
         else do {
           (c, w) \<leftarrow> ccall ''EVP_CIPHER_fetch'' [Str ''SM4-GCM''] w;
           if granted c
           then Some (Some ''SM4-GCM'', w\<lparr> statics := (statics w)(''sm4_gcm_cached'' := 1) \<rparr>)
           else Some (None, w) })
      else if (a = 28 \<or> a = 29 \<or> a = 30) \<and> no_camellia (cfg w) then Some (None, w)
      else if (a = 31 \<or> a = 32 \<or> a = 33) \<and> no_aria (cfg w) then Some (None, w)
      else if a = 34 \<and> no_sm4 (cfg w) then Some (None, w)
      else if a < 38 then Some (Some (cipher_accessors ! a), w)
      else Some (None, w))"

definition alg_is_aead :: "nat \<Rightarrow> bool" where
  "alg_is_aead a \<longleftrightarrow> a = 17 \<or> a = 18 \<or> a = 19 \<or> a = 20 \<or> a = 21 \<or> a = 22 \<or> a = 23 \<or> a = 24 \<or> a = 25 \<or>
     a = 27 \<or> a = 31 \<or> a = 32 \<or> a = 33 \<or> a = 35"


record algorithm_info =
  key_size :: nat
  iv_size :: nat
  block_size :: nat
  is_aead :: bool

definition cipher_internal :: "world \<Rightarrow> (cipher_error + 'a) outcome" where
  "cipher_internal w = do { (e, w) \<leftarrow> ERR_peek_last_error w; Some (Inl (Cipher_internal e), w) }"

definition CTX_new :: "world \<Rightarrow> ptr outcome" where
  "CTX_new = create (Obj ''EVP_CIPHER_CTX'') ''EVP_CIPHER_CTX_new'' []"

definition CTX_free :: "ptr \<Rightarrow> world \<Rightarrow> unit outcome" where
  "CTX_free = release (Obj ''EVP_CIPHER_CTX'') ''EVP_CIPHER_CTX_free''"

text \<open>An absent IV is a \<open>NULL\<close> pointer.\<close>

definition iv_arg :: "u8 list option \<Rightarrow> arg" where
  "iv_arg iv = (case iv of None \<Rightarrow> Ptr 0 | Some b \<Rightarrow> Buf b)"

definition cipher_info :: "nat \<Rightarrow> world \<Rightarrow> (cipher_error + algorithm_info) outcome" where
  "cipher_info alg w = do {
     (c, w) \<leftarrow> cipher_by_alg alg w;
     (case c of
        None \<Rightarrow> Some (Inl Cipher_unsupported_algorithm, w)
      | Some c \<Rightarrow> do {
          (k, w) \<leftarrow> ccall ''EVP_CIPHER_get_key_length'' [Str c] w;
          (i, w) \<leftarrow> ccall ''EVP_CIPHER_get_iv_length'' [Str c] w;
          (b, w) \<leftarrow> ccall ''EVP_CIPHER_get_block_size'' [Str c] w;
          Some (Inr \<lparr> key_size = c_u32 (rc k), iv_size = c_u32 (rc i), block_size = c_u32 (rc b),
                      is_aead = alg_is_aead alg \<rparr>, w) }) }"

section \<open>One shot without authentication\<close>

text \<open>The bytes in a buffer after an update that stored \<open>l1\<close> bytes and a final call that wrote
  behind them.\<close>

definition joined :: "answer \<Rightarrow> answer \<Rightarrow> u8 list" where
  "joined a b = take (nat (outl a)) (written a) @ written b"

definition cipher_one_shot ::
    "bool \<Rightarrow> nat \<Rightarrow> u8 list \<Rightarrow> u8 list option \<Rightarrow> nat \<Rightarrow> u8 list \<Rightarrow> world \<Rightarrow> (cipher_error + list_u8) outcome" where
  "cipher_one_shot do_encrypt alg key iv padding input w = do {
     (c, w) \<leftarrow> cipher_by_alg alg w;
     (case c of
        None \<Rightarrow> Some (Inl Cipher_unsupported_algorithm, w)
      | Some c \<Rightarrow>
          if alg_is_aead alg then Some (Inl Cipher_aead_required, w)
          else do {
            (ctx, w) \<leftarrow> CTX_new w;
            if ctx = 0 then Some (Inl (Cipher_internal 0), w)
            else do {
              (a, w) \<leftarrow> ccall ''EVP_CipherInit_ex2''
                 [Ptr ctx, Str c, Buf key, iv_arg iv, Val (if do_encrypt then 1 else 0)] w;
              (bad, w) \<leftarrow> (if rc a \<noteq> 1 then Some (True, w)
                else do {
                  (k, w) \<leftarrow> ccall ''EVP_CIPHER_CTX_get_key_length'' [Ptr ctx] w;
                  Some (c_int (length key) \<noteq> rc k, w) });
              if bad then do { (_, w) \<leftarrow> CTX_free ctx w; Some (Inl Cipher_bad_key_size, w) }
              else do {
                (_, w) \<leftarrow> ccall ''EVP_CIPHER_CTX_set_padding'' [Ptr ctx, Val (if padding = 1 then 1 else 0)] w;
                (b, w) \<leftarrow> ccall ''EVP_CIPHER_get_block_size'' [Str c] w;
                let out_len = c_int (length input) + rc b;
                (out, w) \<leftarrow> xmalloc (if nat out_len \<noteq> 0 then nat out_len else 1) w;
                (u, w) \<leftarrow> ccall ''EVP_CipherUpdate'' [Ptr ctx, Ptr out, Buf input, Val (c_int (length input))] w;
                if rc u \<noteq> 1
                then do { (_, w) \<leftarrow> cfree out w; (_, w) \<leftarrow> CTX_free ctx w; cipher_internal w }
                else do {
                  (f, w) \<leftarrow> ccall ''EVP_CipherFinal_ex'' [Ptr ctx, Ptr out, Val (outl u)] w;
                  if rc f \<noteq> 1
                  then do {
                    (_, w) \<leftarrow> cfree out w;
                    (_, w) \<leftarrow> CTX_free ctx w;
                    (e, w) \<leftarrow> ERR_peek_last_error w;
                    Some (Inl (if do_encrypt then Cipher_internal e else Cipher_bad_padding), w) }
                  else do {
                    (_, w) \<leftarrow> CTX_free ctx w;
                    Some (Inr \<lparr> at = out, len = c_u32 (outl u + outl f), bytes = joined u f \<rparr>, w) } } } } }) }"

definition cipher_encrypt ::
    "nat \<Rightarrow> u8 list \<Rightarrow> u8 list option \<Rightarrow> nat \<Rightarrow> u8 list \<Rightarrow> world \<Rightarrow> (cipher_error + list_u8) outcome" where
  "cipher_encrypt = cipher_one_shot True"

definition cipher_decrypt ::
    "nat \<Rightarrow> u8 list \<Rightarrow> u8 list option \<Rightarrow> nat \<Rightarrow> u8 list \<Rightarrow> world \<Rightarrow> (cipher_error + list_u8) outcome" where
  "cipher_decrypt = cipher_one_shot False"

section \<open>One shot with authentication\<close>

definition EVP_CTRL_AEAD_SET_IVLEN :: int where "EVP_CTRL_AEAD_SET_IVLEN = 0x9"
definition EVP_CTRL_AEAD_GET_TAG :: int where "EVP_CTRL_AEAD_GET_TAG = 0x10"
definition EVP_CTRL_AEAD_SET_TAG :: int where "EVP_CTRL_AEAD_SET_TAG = 0x11"

record aead_sealed =
  ciphertext :: list_u8
  tag :: list_u8



section \<open>Streaming\<close>

record encryptor_rep =
  eself :: ptr
  ectx :: ptr
  ealg :: nat
  etag_len :: nat

record decryptor_rep =
  dself :: ptr
  dctx :: ptr
  dalg :: nat



definition encryptor_set_aad :: "encryptor_rep \<Rightarrow> u8 list \<Rightarrow> world \<Rightarrow> (cipher_error + unit) outcome" where
  "encryptor_set_aad r aad w = do {
     (_, w) \<leftarrow> deref (eself r) w;
     if \<not> alg_is_aead (ealg r) then Some (Inl Cipher_not_aead, w)
     else do {
       (a, w) \<leftarrow> ccall ''EVP_EncryptUpdate'' [Ptr (ectx r), Ptr 0, Buf aad, Val (c_int (length aad))] w;
       if rc a \<noteq> 1 then cipher_internal w else Some (Inr (), w) } }"





definition decryptor_set_aad :: "decryptor_rep \<Rightarrow> u8 list \<Rightarrow> world \<Rightarrow> (cipher_error + unit) outcome" where
  "decryptor_set_aad r aad w = do {
     (_, w) \<leftarrow> deref (dself r) w;
     if \<not> alg_is_aead (dalg r) then Some (Inl Cipher_not_aead, w)
     else do {
       (a, w) \<leftarrow> ccall ''EVP_DecryptUpdate'' [Ptr (dctx r), Ptr 0, Buf aad, Val (c_int (length aad))] w;
       if rc a \<noteq> 1 then cipher_internal w else Some (Inr (), w) } }"

definition decryptor_set_tag :: "decryptor_rep \<Rightarrow> u8 list \<Rightarrow> world \<Rightarrow> (cipher_error + unit) outcome" where
  "decryptor_set_tag r tg w = do {
     (_, w) \<leftarrow> deref (dself r) w;
     if \<not> alg_is_aead (dalg r) then Some (Inl Cipher_not_aead, w)
     else do {
       (a, w) \<leftarrow> ccall ''EVP_CIPHER_CTX_ctrl''
          [Ptr (dctx r), Val EVP_CTRL_AEAD_SET_TAG, Val (c_int (length tg)), Buf tg] w;
       if rc a \<noteq> 1 then Some (Inl Cipher_bad_tag_size, w) else Some (Inr (), w) } }"




section \<open>Resource safety\<close>

lemma wp_cipher_by_alg [wp_elims]:
  assumes "reached w0 w m n" and "\<And>w'. reached w0 w' m n \<Longrightarrow> Q None w'"
    and "\<And>s w'. reached w0 w' m n \<Longrightarrow> Q (Some s) w'"
  shows "wp S (cipher_by_alg a w) Q"
proof -
  have "reached w0 (record_call fn [Str s] p w) m n" "reached w0 (record_call fn [Str s] p w\<lparr> statics := f \<rparr>) m n" for fn s p f
    using assms(1) by (simp_all add: reached_def unchanged_def usable_def)
  then show ?thesis using assms by (auto simp: cipher_by_alg_def wp_def ccall_def)
qed

definition sealed_held :: "cipher_error + aead_sealed \<Rightarrow> footprint" where
  "sealed_held r = (case r of Inl e \<Rightarrow> [] | Inr s \<Rightarrow> own (at (ciphertext s)) Mem @ own (at (tag s)) Mem)"

definition finished_held :: "cipher_error + list_u8 \<times> list_u8 option \<Rightarrow> footprint" where
  "finished_held r = (case r of Inl e \<Rightarrow> []
     | Inr (l, t) \<Rightarrow> own (at l) Mem @ (case t of None \<Rightarrow> [] | Some t \<Rightarrow> own (at t) Mem))"

lemma sealed_held_simps [simp]:
  "sealed_held (Inl e) = []" "sealed_held (Inr s) = own (at (ciphertext s)) Mem @ own (at (tag s)) Mem"
  "finished_held (Inl e) = []" "finished_held (Inr (l, None)) = own (at l) Mem"
  "finished_held (Inr (l, Some t)) = own (at l) Mem @ own (at t) Mem"
  by (simp_all add: sealed_held_def finished_held_def)

lemmas cipher_prims = CTX_new_def CTX_free_def cipher_internal_def

lemma iv_arg_usable [simp]: "usable_in m (iv_arg iv)"
  by (simp add: iv_arg_def split: option.split)




definition encryptor_owns :: "encryptor_rep \<Rightarrow> footprint" where
  "encryptor_owns r = (eself r, Mem) # own (ectx r) (Obj ''EVP_CIPHER_CTX'')"

lemma encryptor_owns_cases:
  "ectx r = 0 \<Longrightarrow> encryptor_owns r = [(eself r, Mem)]"
  "ectx r \<noteq> 0 \<Longrightarrow> encryptor_owns r = [(eself r, Mem), (ectx r, Obj ''EVP_CIPHER_CTX'')]"
  by (simp_all add: encryptor_owns_def)

lemma encryptor_owns_nonnull:
  "(eself r \<noteq> 0 \<Longrightarrow> ledger_triple fns (encryptor_owns r) m B) \<Longrightarrow> ledger_triple fns (encryptor_owns r) m B"
  unfolding encryptor_owns_def by (rule triple_nonnull)



lemma encryptor_set_aad_triple:
  "ledger_triple [''malloc''] (encryptor_owns r) (encryptor_set_aad r d) (\<lambda>_. encryptor_owns r)"
  unfolding encryptor_set_aad_def cipher_prims
  by (rule encryptor_owns_nonnull, cases "ectx r = 0"; simp only: encryptor_owns_cases simp_thms if_True if_False;
    ((rule wp_known, assumption | assumption | erule wp_elims_first | rule wp_first | erule wp_elims | rule wp_rules
    | (simp (asm_lr) add: ledger_simps; fail))+))




definition decryptor_owns :: "decryptor_rep \<Rightarrow> footprint" where
  "decryptor_owns r = (dself r, Mem) # own (dctx r) (Obj ''EVP_CIPHER_CTX'')"

lemma decryptor_owns_cases:
  "dctx r = 0 \<Longrightarrow> decryptor_owns r = [(dself r, Mem)]"
  "dctx r \<noteq> 0 \<Longrightarrow> decryptor_owns r = [(dself r, Mem), (dctx r, Obj ''EVP_CIPHER_CTX'')]"
  by (simp_all add: decryptor_owns_def)

lemma decryptor_owns_nonnull:
  "(dself r \<noteq> 0 \<Longrightarrow> ledger_triple fns (decryptor_owns r) m B) \<Longrightarrow> ledger_triple fns (decryptor_owns r) m B"
  unfolding decryptor_owns_def by (rule triple_nonnull)



lemma decryptor_set_aad_triple:
  "ledger_triple [''malloc''] (decryptor_owns r) (decryptor_set_aad r d) (\<lambda>_. decryptor_owns r)"
  unfolding decryptor_set_aad_def cipher_prims
  by (rule decryptor_owns_nonnull, cases "dctx r = 0"; simp only: decryptor_owns_cases simp_thms if_True if_False;
    ((rule wp_known, assumption | assumption | erule wp_elims_first | rule wp_first | erule wp_elims | rule wp_rules
    | (simp (asm_lr) add: ledger_simps; fail))+))

lemma decryptor_set_tag_triple:
  "ledger_triple [''malloc''] (decryptor_owns r) (decryptor_set_tag r d) (\<lambda>_. decryptor_owns r)"
  unfolding decryptor_set_tag_def cipher_prims
  by (rule decryptor_owns_nonnull, cases "dctx r = 0"; simp only: decryptor_owns_cases simp_thms if_True if_False;
    ((rule wp_known, assumption | assumption | erule wp_elims_first | rule wp_first | erule wp_elims | rule wp_rules
    | (simp (asm_lr) add: ledger_simps; fail))+))




section \<open>What the ciphers compute\<close>

text \<open>
  The state of an \<open>EVP_CIPHER_CTX\<close>, read off the call log: direction, cipher, key, IV, padding,
  the additional data and data absorbed, and the tag set for checking.
\<close>

record cipher_run =
  enc :: bool
  cname :: string
  ckey :: "u8 list"
  civ :: "u8 list option"
  cpad :: bool
  caad :: "u8 list"
  cdata :: "u8 list"
  ctag :: "u8 list"

definition fresh_run :: "bool \<Rightarrow> string \<Rightarrow> u8 list \<Rightarrow> u8 list option \<Rightarrow> cipher_run" where
  "fresh_run e n k iv = \<lparr> enc = e, cname = n, ckey = k, civ = iv, cpad = True, caad = [], cdata = [], ctag = [] \<rparr>"

definition buf_of :: "arg \<Rightarrow> u8 list option" where
  "buf_of a = (case a of Buf b \<Rightarrow> Some b | _ \<Rightarrow> None)"

definition bytes_of :: "arg \<Rightarrow> u8 list" where
  "bytes_of a = (case a of Buf b \<Rightarrow> b | _ \<Rightarrow> [])"

lemma buf_of_simps [simp]:
  "buf_of (Buf b) = Some b" "buf_of (Ptr p) = None" "buf_of (iv_arg iv) = iv"
  "bytes_of (Buf b) = b" "bytes_of (Ptr p) = []"
  by (simp_all add: buf_of_def bytes_of_def iv_arg_def split: option.split)

definition cipher_init :: "bool \<Rightarrow> arg list \<Rightarrow> (ptr \<rightharpoonup> cipher_run) \<Rightarrow> (ptr \<rightharpoonup> cipher_run)" where
  "cipher_init e args st = (case args of
       Ptr c # Str n # k # iv # _ \<Rightarrow> st(c \<mapsto> fresh_run e n (bytes_of k) (buf_of iv))
     | [Ptr c, Ptr z, Buf k, Buf iv] \<Rightarrow>
         st(c := map_option (\<lambda>r. r\<lparr> ckey := k, civ := Some iv \<rparr>) (st c))
     | _ \<Rightarrow> st)"

definition cipher_feed :: "arg list \<Rightarrow> (ptr \<rightharpoonup> cipher_run) \<Rightarrow> (ptr \<rightharpoonup> cipher_run)" where
  "cipher_feed args st = (case args of
       [Ptr c, Ptr p, Buf d, Val n] \<Rightarrow>
         st(c := map_option (\<lambda>r. if p = 0 then r\<lparr> caad := caad r @ d \<rparr> else r\<lparr> cdata := cdata r @ d \<rparr>) (st c))
     | _ \<Rightarrow> st)"

fun cipher_step :: "(ptr \<rightharpoonup> cipher_run) \<Rightarrow> event \<Rightarrow> (ptr \<rightharpoonup> cipher_run)" where
  "cipher_step st (Ev fn args p) =
     (if fn = ''EVP_CipherInit_ex2''
      then (case args of [a, b, c, d, Val e] \<Rightarrow> cipher_init (e = 1) args st | _ \<Rightarrow> st)
      else if fn = ''EVP_EncryptInit_ex2'' then cipher_init True args st
      else if fn = ''EVP_DecryptInit_ex2'' then cipher_init False args st
      else if fn = ''EVP_CIPHER_CTX_set_padding''
      then (case args of [Ptr c, Val v] \<Rightarrow> st(c := map_option (\<lambda>r. r\<lparr> cpad := v = 1 \<rparr>) (st c)) | _ \<Rightarrow> st)
      else if fn = ''EVP_CipherUpdate'' \<or> fn = ''EVP_EncryptUpdate'' \<or> fn = ''EVP_DecryptUpdate''
      then cipher_feed args st
      else if fn = ''EVP_CIPHER_CTX_ctrl''
      then (case args of [Ptr c, Val x, Val n, Buf t] \<Rightarrow>
              (if x = EVP_CTRL_AEAD_SET_TAG then st(c := map_option (\<lambda>r. r\<lparr> ctag := t \<rparr>) (st c)) else st) | _ \<Rightarrow> st)
      else st)"

definition cipher_state :: "event list \<Rightarrow> ptr \<rightharpoonup> cipher_run" where
  "cipher_state h = foldl cipher_step Map.empty h"

lemma cipher_state_append [simp]: "cipher_state (h @ es) = foldl cipher_step (cipher_state h) es"
  by (simp add: cipher_state_def)

text \<open>
  The documented behaviour of the \<open>EVP_CIPHER\<close> calls, for a transformation \<open>T\<close> (the output of a
  run, or \<open>None\<close> when its final call fails) of which the updates release a growing prefix
  \<open>R\<close> that does not depend on the tag to check, a tag function \<open>G\<close>, and key lengths \<open>K\<close>. Updates of up to \<open>2 ^ 30\<close> bytes succeed.
\<close>

definition releases :: "(cipher_run \<Rightarrow> u8 list option) \<Rightarrow> (cipher_run \<Rightarrow> u8 list) \<Rightarrow> bool" where
  "releases T R \<longleftrightarrow> (\<forall>r d y t. (cdata r = [] \<longrightarrow> R r = []) \<and> prefix (R r) (R (r\<lparr> cdata := cdata r @ d \<rparr>)) \<and>
     (T r = Some y \<longrightarrow> prefix (R r) y) \<and> R (r\<lparr> ctag := t \<rparr>) = R r)"

definition is_update :: "string \<Rightarrow> bool" where
  "is_update fn \<longleftrightarrow> fn \<in> {''EVP_CipherUpdate'', ''EVP_EncryptUpdate'', ''EVP_DecryptUpdate''}"

definition is_final :: "string \<Rightarrow> bool" where
  "is_final fn \<longleftrightarrow> fn \<in> {''EVP_CipherFinal_ex'', ''EVP_EncryptFinal_ex'', ''EVP_DecryptFinal_ex''}"

definition is_init :: "string \<Rightarrow> bool" where
  "is_init fn \<longleftrightarrow> fn \<in> {''EVP_CipherInit_ex2'', ''EVP_EncryptInit_ex2'', ''EVP_DecryptInit_ex2''}"

lemma is_call_simps [simp]:
  "is_update ''EVP_CipherUpdate''" "is_update ''EVP_EncryptUpdate''" "is_update ''EVP_DecryptUpdate''"
  "is_final ''EVP_CipherFinal_ex''" "is_final ''EVP_EncryptFinal_ex''" "is_final ''EVP_DecryptFinal_ex''"
  "is_init ''EVP_CipherInit_ex2''" "is_init ''EVP_EncryptInit_ex2''" "is_init ''EVP_DecryptInit_ex2''"
  by (simp_all add: is_update_def is_final_def is_init_def)

definition cipher_library ::
    "(event list \<Rightarrow> string \<Rightarrow> arg list \<Rightarrow> answer) \<Rightarrow> (cipher_run \<Rightarrow> u8 list option) \<Rightarrow>
     (cipher_run \<Rightarrow> u8 list) \<Rightarrow> (cipher_run \<Rightarrow> u8 list) \<Rightarrow> (string \<Rightarrow> nat) \<Rightarrow> bool" where
  "cipher_library L T R G K \<longleftrightarrow> releases T R \<and> grants L ''malloc'' \<and> grants L ''EVP_CIPHER_CTX_new'' \<and>
     (\<forall>h fn args. is_init fn \<longrightarrow> rc (L h fn args) = 1) \<and>
     (\<forall>h c r. cipher_state h c = Some r \<longrightarrow>
        rc (L h ''EVP_CIPHER_CTX_get_key_length'' [Ptr c]) = int (K (cname r)) \<and>
        (\<forall>fn p d. is_update fn \<and> p \<noteq> 0 \<and> length d < 2 ^ 30 \<longrightarrow>
           rc (L h fn [Ptr c, Ptr p, Buf d, Val (int (length d))]) = 1 \<and>
           written (L h fn [Ptr c, Ptr p, Buf d, Val (int (length d))]) =
             drop (length (R r)) (R (r\<lparr> cdata := cdata r @ d \<rparr>)) \<and>
           outl (L h fn [Ptr c, Ptr p, Buf d, Val (int (length d))]) =
             int (length (R (r\<lparr> cdata := cdata r @ d \<rparr>)) - length (R r))) \<and>
        (\<forall>fn d. is_update fn \<and> length d < 2 ^ 30 \<longrightarrow>
           rc (L h fn [Ptr c, Ptr 0, Buf d, Val (int (length d))]) = 1) \<and>
        (\<forall>fn p n. is_final fn \<longrightarrow>
           (case T r of
              None \<Rightarrow> rc (L h fn [Ptr c, Ptr p, Val n]) = 0
            | Some y \<Rightarrow> rc (L h fn [Ptr c, Ptr p, Val n]) = 1 \<and>
                written (L h fn [Ptr c, Ptr p, Val n]) = drop (length (R r)) y \<and>
                outl (L h fn [Ptr c, Ptr p, Val n]) = int (length y - length (R r)))) \<and>
        (\<forall>n a. rc (L h ''EVP_CIPHER_CTX_ctrl'' [Ptr c, Val EVP_CTRL_AEAD_SET_IVLEN, n, a]) = 1 \<and>
           rc (L h ''EVP_CIPHER_CTX_ctrl'' [Ptr c, Val EVP_CTRL_AEAD_SET_TAG, n, a]) = 1) \<and>
        (\<forall>n p. rc (L h ''EVP_CIPHER_CTX_ctrl'' [Ptr c, Val EVP_CTRL_AEAD_GET_TAG, Val n, Ptr p]) = 1 \<and>
           written (L h ''EVP_CIPHER_CTX_ctrl'' [Ptr c, Val EVP_CTRL_AEAD_GET_TAG, Val n, Ptr p]) =
             take (nat n) (G r)))"

lemma cipher_library_basic:
  assumes "cipher_library L T R G K"
  shows "grants L ''malloc''" "grants L ''EVP_CIPHER_CTX_new''" "releases T R"
    "is_init fn \<Longrightarrow> rc (L h fn args) = 1"
  using assms by (simp_all add: cipher_library_def)

lemma cipher_library_run:
  assumes "cipher_library L T R G K" and "cipher_state h c = Some r"
  shows "rc (L h ''EVP_CIPHER_CTX_get_key_length'' [Ptr c]) = int (K (cname r))"
    "rc (L h ''EVP_CIPHER_CTX_ctrl'' [Ptr c, Val EVP_CTRL_AEAD_SET_IVLEN, x, a]) = 1"
    "rc (L h ''EVP_CIPHER_CTX_ctrl'' [Ptr c, Val EVP_CTRL_AEAD_SET_TAG, x, a]) = 1"
    "rc (L h ''EVP_CIPHER_CTX_ctrl'' [Ptr c, Val EVP_CTRL_AEAD_GET_TAG, Val n, Ptr p]) = 1"
    "written (L h ''EVP_CIPHER_CTX_ctrl'' [Ptr c, Val EVP_CTRL_AEAD_GET_TAG, Val n, Ptr p]) = take (nat n) (G r)"
  using assms unfolding cipher_library_def by blast+

lemma cipher_library_update:
  assumes "cipher_library L T R G K" and "cipher_state h c = Some r" and "is_update fn"
    and "length d < 2 ^ 30"
  shows "p \<noteq> 0 \<Longrightarrow> rc (L h fn [Ptr c, Ptr p, Buf d, Val (int (length d))]) = 1"
    "p \<noteq> 0 \<Longrightarrow> written (L h fn [Ptr c, Ptr p, Buf d, Val (int (length d))]) =
             drop (length (R r)) (R (r\<lparr> cdata := cdata r @ d \<rparr>))"
    "p \<noteq> 0 \<Longrightarrow> outl (L h fn [Ptr c, Ptr p, Buf d, Val (int (length d))]) =
             int (length (R (r\<lparr> cdata := cdata r @ d \<rparr>)) - length (R r))"
    "rc (L h fn [Ptr c, Ptr 0, Buf d, Val (int (length d))]) = 1"
  using assms unfolding cipher_library_def by blast+

lemma cipher_library_final:
  assumes "cipher_library L T R G K" and "cipher_state h c = Some r" and "is_final fn"
  shows "T r = None \<Longrightarrow> rc (L h fn [Ptr c, Ptr p, Val n]) = 0"
    "T r = Some y \<Longrightarrow> rc (L h fn [Ptr c, Ptr p, Val n]) = 1"
    "T r = Some y \<Longrightarrow> written (L h fn [Ptr c, Ptr p, Val n]) = drop (length (R r)) y"
    "T r = Some y \<Longrightarrow> outl (L h fn [Ptr c, Ptr p, Val n]) = int (length y - length (R r))"
proof -
  have *: "case T r of
              None \<Rightarrow> rc (L h fn [Ptr c, Ptr p, Val n]) = 0
            | Some y \<Rightarrow> rc (L h fn [Ptr c, Ptr p, Val n]) = 1 \<and>
                written (L h fn [Ptr c, Ptr p, Val n]) = drop (length (R r)) y \<and>
                outl (L h fn [Ptr c, Ptr p, Val n]) = int (length y - length (R r))"
    using assms unfolding cipher_library_def by blast
  show "T r = None \<Longrightarrow> rc (L h fn [Ptr c, Ptr p, Val n]) = 0"
    "T r = Some y \<Longrightarrow> rc (L h fn [Ptr c, Ptr p, Val n]) = 1"
    "T r = Some y \<Longrightarrow> written (L h fn [Ptr c, Ptr p, Val n]) = drop (length (R r)) y"
    "T r = Some y \<Longrightarrow> outl (L h fn [Ptr c, Ptr p, Val n]) = int (length y - length (R r))"
    using * by simp_all
qed

lemma releasesD:
  assumes "releases T R"
  shows "cdata r = [] \<Longrightarrow> R r = []" "prefix (R r) (R (r\<lparr> cdata := cdata r @ d \<rparr>))" "T r = Some y \<Longrightarrow> prefix (R r) y"
    "R (r\<lparr> ctag := t \<rparr>) = R r"
  using assms unfolding releases_def by blast+

lemma prefix_drop: "prefix xs ys \<Longrightarrow> xs @ drop (length xs) ys = ys"
  by (auto simp: prefix_def)

text \<open>SM4-GCM apart, the table has static objects only.\<close>

definition cipher_static :: "build \<Rightarrow> nat \<Rightarrow> string option" where
  "cipher_static B a =
     (if (a = 28 \<or> a = 29 \<or> a = 30) \<and> no_camellia B \<or> (a = 31 \<or> a = 32 \<or> a = 33) \<and> no_aria B \<or>
         a = 34 \<and> no_sm4 B \<or> a = 35 \<or> 38 \<le> a then None else Some (cipher_accessors ! a))"

lemma wp_cipher_table:
  assumes "idle w0 w" and "cipher_static (cfg w0) alg = Some n"
    and "\<And>w'. idle w0 w' \<Longrightarrow> nxt w' = nxt w \<Longrightarrow> Q (Some n) w'"
  shows "wp S (cipher_by_alg alg w) Q"
  using assms by (auto simp: cipher_by_alg_def cipher_static_def wp_def idle_def split: if_splits)

text \<open>What each call does to a context and answers.\<close>

named_theorems cipher_elims

lemma wp_cipher_init [cipher_elims]:
  assumes "idle w0 w" and "cipher_library (lib w0) T R G K" and "c \<noteq> 0" and "c < nxt w"
    and "\<And>a w'. running cipher_state w0 c (fresh_run e n key iv) w' \<Longrightarrow> rc a = 1 \<Longrightarrow> Q a w'"
  shows "wp S (ccall ''EVP_CipherInit_ex2'' [Ptr c, Str n, Buf key, iv_arg iv, Val (if e then 1 else 0)] w) Q"
  by (rule wp_idle_start [OF assms(1,3,4), where st = cipher_state and r = "fresh_run e n key iv"])
    (use assms(5) cipher_library_basic(4) [OF assms(2)] in \<open>auto simp: cipher_init_def\<close>)

lemma wp_cipher_init_dir [cipher_elims]:
  assumes "idle w0 w" and "cipher_library (lib w0) T R G K" and "c \<noteq> 0" and "c < nxt w"
    and "\<And>a w'. running cipher_state w0 c (fresh_run (fn = ''EVP_EncryptInit_ex2'') n (bytes_of k) (buf_of iv)) w' \<Longrightarrow>
      rc a = 1 \<Longrightarrow> Q a w'"
    and "fn = ''EVP_EncryptInit_ex2'' \<or> fn = ''EVP_DecryptInit_ex2''"
  shows "wp S (ccall fn [Ptr c, Str n, k, iv] w) Q"
  by (rule wp_idle_start [OF assms(1,3,4), where st = cipher_state and r = "fresh_run (fn = ''EVP_EncryptInit_ex2'') n (bytes_of k) (buf_of iv)"])
    (use assms(5,6) cipher_library_basic(4) [OF assms(2)] in \<open>auto simp: cipher_init_def\<close>)

lemma wp_cipher_rekey [cipher_elims]:
  assumes "running cipher_state w0 c r w" and "cipher_library (lib w0) T R G K"
    and "\<And>a w'. running cipher_state w0 c (r\<lparr> ckey := k, civ := Some iv \<rparr>) w' \<Longrightarrow> rc a = 1 \<Longrightarrow> Q a w'"
    and "fn = ''EVP_EncryptInit_ex2'' \<or> fn = ''EVP_DecryptInit_ex2''"
  shows "wp S (ccall fn [Ptr c, Ptr z, Buf k, Buf iv] w) Q"
  by (rule wp_run_ccall [OF assms(1), where r' = "r\<lparr> ckey := k, civ := Some iv \<rparr>"])
    (use assms(3,4) cipher_library_basic(4) [OF assms(2)] in \<open>auto simp: cipher_init_def\<close>)

lemma wp_cipher_padding [cipher_elims]:
  assumes "running cipher_state w0 c r w"
    and "\<And>a w'. running cipher_state w0 c (r\<lparr> cpad := b \<rparr>) w' \<Longrightarrow> Q a w'"
  shows "wp S (ccall ''EVP_CIPHER_CTX_set_padding'' [Ptr c, Val (if b then 1 else 0)] w) Q"
  by (rule wp_run_ccall [OF assms(1), where r' = "r\<lparr> cpad := b \<rparr>"]) (use assms(2) in auto)

lemma wp_cipher_update [cipher_elims]:
  assumes "running cipher_state w0 c r w" and "cipher_library (lib w0) T R G K" and "is_update fn" and "p \<noteq> 0"
    and "length d < 2 ^ 30"
    and "\<And>a w'. running cipher_state w0 c (r\<lparr> cdata := cdata r @ d \<rparr>) w' \<Longrightarrow> rc a = 1 \<Longrightarrow>
      written a = drop (length (R r)) (R (r\<lparr> cdata := cdata r @ d \<rparr>)) \<Longrightarrow>
      outl a = int (length (R (r\<lparr> cdata := cdata r @ d \<rparr>)) - length (R r)) \<Longrightarrow> Q a w'"
  shows "wp S (ccall fn [Ptr c, Ptr p, Buf d, Val (c_int (length d))] w) Q"
proof (rule wp_run_ccall [OF assms(1), where r' = "r\<lparr> cdata := cdata r @ d \<rparr>"])
  fix h w' assume "cipher_state h c = Some r" and r: "running cipher_state w0 c (r\<lparr> cdata := cdata r @ d \<rparr>) w'"
  then show "Q (lib w0 h fn [Ptr c, Ptr p, Buf d, Val (c_int (length d))]) w'"
    using assms(4,5) cipher_library_update [OF assms(2) _ assms(3,5)] by (intro assms(6)) simp_all
qed (use assms(3,4) in \<open>auto simp: is_update_def cipher_feed_def\<close>)

lemma wp_cipher_aad:
  assumes "running cipher_state w0 c r w" and "cipher_library (lib w0) T R G K" and "is_update fn"
    and "length d < 2 ^ 30"
    and "\<And>a w'. running cipher_state w0 c (r\<lparr> caad := caad r @ d \<rparr>) w' \<Longrightarrow> rc a = 1 \<Longrightarrow> Q a w'"
  shows "wp S (ccall fn [Ptr c, Ptr 0, Buf d, Val (c_int (length d))] w) Q"
proof (rule wp_run_ccall [OF assms(1), where r' = "r\<lparr> caad := caad r @ d \<rparr>"])
  fix h w' assume "cipher_state h c = Some r" and r: "running cipher_state w0 c (r\<lparr> caad := caad r @ d \<rparr>) w'"
  then show "Q (lib w0 h fn [Ptr c, Ptr 0, Buf d, Val (c_int (length d))]) w'"
    using assms(4) cipher_library_update [OF assms(2) _ assms(3,4)] by (intro assms(5)) simp_all
qed (use assms(3) in \<open>auto simp: is_update_def cipher_feed_def\<close>)

lemma wp_cipher_maybe_aad:
  assumes "running cipher_state w0 c r w" and "cipher_library (lib w0) T R G K" and "is_update fn"
    and "length d < 2 ^ 30" and "rc b = 1"
    and "\<And>a w'. running cipher_state w0 c (r\<lparr> caad := caad r @ d \<rparr>) w' \<Longrightarrow> rc a = 1 \<Longrightarrow> Q a w'"
  shows "wp S (if length d \<noteq> 0 then ccall fn [Ptr c, Ptr 0, Buf d, Val (c_int (length d))] w else Some (b, w)) Q"
proof (cases "d = []")
  case True
  then show ?thesis using assms(6) [of w b] assms(1,5) by (simp add: wp_ret)
next
  case False
  then show ?thesis using wp_cipher_aad [OF assms(1-4,6)] by simp
qed

lemma wp_cipher_total [cipher_elims]:
  assumes "running cipher_state w0 c r w" and "is_update fn"
    and "\<And>a w'. running cipher_state w0 c r w' \<Longrightarrow> Q a w'"
  shows "wp S (ccall fn [Ptr c, Ptr 0, Ptr 0, Val n] w) Q"
  by (rule wp_run_ccall [OF assms(1), where r' = r])
    (use assms(2,3) in \<open>auto simp: is_update_def cipher_feed_def\<close>)

lemma wp_cipher_final_ok:
  assumes "running cipher_state w0 c r w" and "cipher_library (lib w0) T R G K" and "is_final fn"
    and "T r = Some y"
    and "\<And>a w'. running cipher_state w0 c r w' \<Longrightarrow> rc a = 1 \<Longrightarrow>
      written a = drop (length (R r)) y \<Longrightarrow> outl a = int (length y - length (R r)) \<Longrightarrow> Q a w'"
  shows "wp S (ccall fn [Ptr c, Ptr p, Val n] w) Q"
proof (rule wp_run_ccall [OF assms(1), where r' = r])
  fix h w' assume "cipher_state h c = Some r" and "running cipher_state w0 c r w'"
  then show "Q (lib w0 h fn [Ptr c, Ptr p, Val n]) w'"
    using cipher_library_final [OF assms(2) _ assms(3)] assms(4,5) by auto
qed (use assms(3) in \<open>auto simp: is_final_def\<close>)


lemma wp_cipher_ivlen [cipher_elims]:
  assumes "running cipher_state w0 c r w" and "cipher_library (lib w0) T R G K"
    and "\<And>a w'. running cipher_state w0 c r w' \<Longrightarrow> rc a = 1 \<Longrightarrow> Q a w'"
  shows "wp S (ccall ''EVP_CIPHER_CTX_ctrl'' [Ptr c, Val EVP_CTRL_AEAD_SET_IVLEN, n, Ptr p] w) Q"
  by (rule wp_run_ccall [OF assms(1), where r' = r])
    (use assms(3) cipher_library_run(2) [OF assms(2)] in \<open>auto split: arg.split\<close>)

lemma wp_cipher_set_tag [cipher_elims]:
  assumes "running cipher_state w0 c r w" and "cipher_library (lib w0) T R G K"
    and "\<And>a w'. running cipher_state w0 c (r\<lparr> ctag := t \<rparr>) w' \<Longrightarrow> rc a = 1 \<Longrightarrow> Q a w'"
  shows "wp S (ccall ''EVP_CIPHER_CTX_ctrl'' [Ptr c, Val EVP_CTRL_AEAD_SET_TAG, Val n, Buf t] w) Q"
  by (rule wp_run_ccall [OF assms(1), where r' = "r\<lparr> ctag := t \<rparr>"])
    (use assms(3) cipher_library_run(3) [OF assms(2)] in auto)

lemma wp_cipher_tag_size [cipher_elims]:
  assumes "running cipher_state w0 c r w"
    and "\<And>a w'. running cipher_state w0 c r w' \<Longrightarrow> Q a w'"
  shows "wp S (ccall ''EVP_CIPHER_CTX_ctrl'' [Ptr c, Val EVP_CTRL_AEAD_SET_TAG, Val n, Ptr p] w) Q"
  by (rule wp_run_ccall [OF assms(1), where r' = r]) (use assms(2) in auto)

lemma wp_cipher_get_tag [cipher_elims]:
  assumes "running cipher_state w0 c r w" and "cipher_library (lib w0) T R G K"
    and "\<And>a w'. running cipher_state w0 c r w' \<Longrightarrow> rc a = 1 \<Longrightarrow> written a = take (nat n) (G r) \<Longrightarrow> Q a w'"
  shows "wp S (ccall ''EVP_CIPHER_CTX_ctrl'' [Ptr c, Val EVP_CTRL_AEAD_GET_TAG, Val n, Ptr p] w) Q"
  by (rule wp_run_ccall [OF assms(1), where r' = r])
    (use assms(3) cipher_library_run(4,5) [OF assms(2)] in auto)

lemma wp_cipher_key_length [cipher_elims]:
  assumes "running cipher_state w0 c r w" and "cipher_library (lib w0) T R G K"
    and "\<And>a w'. running cipher_state w0 c r w' \<Longrightarrow> rc a = int (K (cname r)) \<Longrightarrow> Q a w'"
  shows "wp S (ccall ''EVP_CIPHER_CTX_get_key_length'' [Ptr c] w) Q"
  by (rule wp_run_ccall [OF assms(1), where r' = r])
    (use assms(3) cipher_library_run(1) [OF assms(2)] in auto)

lemma wp_cipher_block_size [cipher_elims]:
  assumes "running cipher_state w0 c r w" and "\<And>a w'. running cipher_state w0 c r w' \<Longrightarrow> Q a w'"
  shows "wp S (ccall ''EVP_CIPHER_get_block_size'' [Str n] w) Q"
    "wp S (ccall ''EVP_CIPHER_CTX_get_block_size'' [Ptr c] w) Q"
  by (rule wp_run_ccall [OF assms(1), where r' = r]; use assms(2) in auto)+

lemma wp_cipher_new [cipher_elims]:
  assumes "idle w0 w" and "cipher_library (lib w0) T R G K"
    and "\<And>p w'. idle w0 w' \<Longrightarrow> p \<noteq> 0 \<Longrightarrow> p < nxt w' \<Longrightarrow> Q p w'"
  shows "wp S (CTX_new w) Q"
  unfolding CTX_new_def
  by (rule wp_idle_create [OF assms(1)]) (use assms cipher_library_basic in auto)

lemma wp_cipher_free [cipher_elims]:
  assumes "running cipher_state w0 c r w" and "\<And>w'. running cipher_state w0 c r w' \<Longrightarrow> Q () w'"
  shows "wp S (CTX_free p w) Q"
  unfolding CTX_free_def by (rule wp_run_release [OF assms(1)]) (use assms in auto)

definition plain_run :: "bool \<Rightarrow> string \<Rightarrow> u8 list \<Rightarrow> u8 list option \<Rightarrow> nat \<Rightarrow> u8 list \<Rightarrow> cipher_run" where
  "plain_run e n key iv padding d = (fresh_run e n key iv)\<lparr> cpad := padding = 1, cdata := d \<rparr>"

lemma fresh_run_simps [simp]:
  "cname (fresh_run e n k iv) = n" "cdata (fresh_run e n k iv) = []" "caad (fresh_run e n k iv) = []"
  by (simp_all add: fresh_run_def)

lemma joined_released:
  assumes "prefix (R r) y" and "written a = R r" and "outl a = int (length (R r))"
    and "written b = drop (length (R r)) y"
  shows "joined a b = y"
  using assms prefix_drop by (simp add: joined_def)

lemma c_int_length [simp]: "length (xs :: u8 list) < 2 ^ 30 \<Longrightarrow> c_int (length xs) = int (length xs)"
  by simp

lemma cipher_one_shot_transforms:
  assumes L: "cipher_library (lib w0) T R G K" and c: "cipher_static (cfg w0) alg = Some n"
    and a: "\<not> alg_is_aead alg" and k: "K n = length key" "length key < 2 ^ 30" and d: "length input < 2 ^ 30"
    and y: "T (plain_run e n key iv padding input) = Some y" "length y < 2 ^ 31"
  shows "idle w0 w \<Longrightarrow> wp False (cipher_one_shot e alg key iv padding input w)
    (\<lambda>x w'. (\<exists>p. x = Inr \<lparr> at = p, len = length y, bytes = y \<rparr>) \<and> idle w0 w')"
proof -
  let ?r = "plain_run e n key iv padding"
  note [simp] = L k(1) k(2) [simplified] d [simplified] a cipher_library_basic(1,2) [OF L] c_int_length [OF k(2)]
  have R: "R ((fresh_run e n key iv)\<lparr> cpad := b \<rparr>) = []" for b
    using releasesD(1) [OF cipher_library_basic(3) [OF L]] by simp
  have r [simp]: "(fresh_run e n key iv)\<lparr> cpad := (padding = Suc 0), cdata := input \<rparr> = ?r input"
    by (simp add: plain_run_def)
  have p: "prefix (R (?r input)) y" by (rule releasesD(3) [OF cipher_library_basic(3) [OF L] y(1)])
  have j: "joined u f = y"
    if "written u = R (?r input)" "outl u = int (length (R (?r input)))"
      "written f = drop (length (R (?r input))) y" for u f
    by (rule joined_released [of R "?r input"]) (use that p in simp_all)
  have l: "c_u32 (int (length (R (?r input))) + int (length y - length (R (?r input)))) = length y"
    using y(2) prefix_length_le [OF p] by (simp flip: of_nat_add)
  show "idle w0 w \<Longrightarrow> wp False (cipher_one_shot e alg key iv padding input w)
    (\<lambda>x w'. (\<exists>p. x = Inr \<lparr> at = p, len = length y, bytes = y \<rparr>) \<and> idle w0 w')"
  unfolding cipher_one_shot_def
  by (rule wp_bind, erule wp_cipher_table [OF _ c],
    (rule wp_known, assumption | assumption | rule L | erule wp_cipher_maybe_aad | rule wp_first
      | erule cipher_elims wp_cipher_final_ok run_elims | rule wp_rules
    | (simp add: R j l y running_idle; fail))+)
qed









section \<open>Properties\<close>

text \<open>A library for examples: the identity cipher with 16-byte keys and a one-byte tag, the
  length of the data; all output comes with the final call.\<close>

definition sample_tag :: "cipher_run \<Rightarrow> u8 list" where
  "sample_tag r = [word_of_nat (length (cdata r))]"

definition sample_transform :: "cipher_run \<Rightarrow> u8 list option" where
  "sample_transform r = (if enc r \<or> ctag r = [] \<or> ctag r = sample_tag r then Some (cdata r) else None)"

definition sample_cipher_lib :: "event list \<Rightarrow> string \<Rightarrow> arg list \<Rightarrow> answer" where
  "sample_cipher_lib h fn args =
     (if fn = ''EVP_CIPHER_CTX_get_key_length'' then ok_answer\<lparr> rc := 16 \<rparr>
      else if is_final fn
      then (case args of
              [Ptr c, p, n] \<Rightarrow>
                (case cipher_state h c of
                   None \<Rightarrow> ok_answer
                 | Some r \<Rightarrow>
                     (case sample_transform r of
                        None \<Rightarrow> ok_answer\<lparr> rc := 0 \<rparr>
                      | Some y \<Rightarrow> ok_answer\<lparr> written := y, outl := int (length y) \<rparr>))
            | _ \<Rightarrow> ok_answer)
      else if fn = ''EVP_CIPHER_CTX_ctrl''
      then (case args of
              [Ptr c, Val x, Val n, Ptr p] \<Rightarrow>
                (case cipher_state h c of
                   None \<Rightarrow> ok_answer
                 | Some r \<Rightarrow> ok_answer\<lparr> written := take (nat n) (sample_tag r) \<rparr>)
            | _ \<Rightarrow> ok_answer)
      else ok_answer)"

lemma sample_cipher_lib_ok:
  "cipher_library sample_cipher_lib sample_transform (\<lambda>_. []) sample_tag (\<lambda>_. 16)"
proof -
  have "grants sample_cipher_lib ''malloc''" "grants sample_cipher_lib ''EVP_CIPHER_CTX_new''"
    by (simp_all add: grants_def sample_cipher_lib_def is_final_def ok_answer_def)
  moreover have "releases sample_transform (\<lambda>_. [])" by (simp add: releases_def)
  moreover have "rc (sample_cipher_lib h fn args) = 1" if "is_init fn" for h fn args
    using that by (auto simp: is_init_def sample_cipher_lib_def is_final_def ok_answer_def)
  ultimately show ?thesis
    unfolding cipher_library_def
    by (auto simp: sample_cipher_lib_def is_update_def ok_answer_def split: arg.split option.split)
      (auto simp: is_final_def)
qed

text \<open>C17: With a library that behaves as documented, decrypting what encrypt returned, under the
  same key, IV and padding, gives the plaintext with its exact length, whenever the cipher
  itself is invertible on it.\<close>

theorem cipher_round_trip:
  assumes "cipher_library (lib w) T R G K" and "cipher_static (cfg w) alg = Some n" and "\<not> alg_is_aead alg"
    and "K n = length key" and "length key < 2 ^ 30" and "length x < 2 ^ 30" and "length y < 2 ^ 30"
    and "T (plain_run True n key iv padding x) = Some y" and "T (plain_run False n key iv padding y) = Some x"
    and "0 < nxt w"
  shows "\<exists>l w1 m w2. cipher_encrypt alg key iv padding x w = Some (Inr l, w1) \<and> len l = length y \<and>
    cipher_decrypt alg key iv padding (bytes l) w1 = Some (Inr m, w2) \<and> bytes m = x \<and> len m = length x"
proof -
  obtain p w1 where 1: "cipher_encrypt alg key iv padding x w = Some (Inr \<lparr> at = p, len = length y, bytes = y \<rparr>, w1)"
      "idle w w1"
    using wp_runs [OF cipher_one_shot_transforms [OF assms(1-6,8) _ idle_refl [OF assms(10)]]] assms(7)
    by (auto simp: cipher_encrypt_def)
  obtain q w2 where 2: "cipher_decrypt alg key iv padding y w1 = Some (Inr \<lparr> at = q, len = length x, bytes = x \<rparr>, w2)"
    using wp_runs [OF cipher_one_shot_transforms [OF assms(1-5,7,9) _ 1(2)]] assms(6)
    by (auto simp: cipher_decrypt_def)
  show ?thesis using 1 2 by simp
qed

theorem cipher_round_trip_witness:
  "\<exists>l w1 m w2. cipher_encrypt 3 (replicate 16 7) None 1 [1, 2] (first_world sample_cipher_lib) = Some (Inr l, w1) \<and>
    cipher_decrypt 3 (replicate 16 7) None 1 (bytes l) w1 = Some (Inr m, w2) \<and> bytes m = [1, 2]"
  using cipher_round_trip [of "first_world sample_cipher_lib" sample_transform "\<lambda>_. []" sample_tag "\<lambda>_. 16" 3
      "''EVP_aes_128_cbc''" "replicate 16 7" "[1, 2]" "[1, 2]" None 1] sample_cipher_lib_ok
  by (fastforce simp: cipher_static_def cipher_accessors_def alg_is_aead_def sample_transform_def
      plain_run_def fresh_run_def)





text \<open>The key length is compared only after the library has been given the key: with a key
  of another length than the cipher's, encrypt answers bad-key-size, but the call log shows
  the init call, which reads the cipher's key length from the caller's buffer.\<close>

theorem cipher_key_checked_late:
  assumes "cipher_library (lib w) T R G K" and "cipher_static (cfg w) alg = Some n" and "\<not> alg_is_aead alg"
    and "K n \<noteq> length key" and "length key < 2 ^ 30" and "0 < nxt w"
  shows "\<exists>w' c. cipher_encrypt alg key iv padding x w = Some (Inl Cipher_bad_key_size, w') \<and>
    Ev ''EVP_CipherInit_ex2'' [Ptr c, Str n, Buf key, iv_arg iv, Val 1] 0 \<in> set (log w')"
proof -
  have t: "cipher_by_alg alg w = Some (Some n, w)"
    using assms(2) by (auto simp: cipher_by_alg_def cipher_static_def split: if_splits)
  let ?h = "log w @ [Ev ''EVP_CIPHER_CTX_new'' [] (nxt w),
      Ev ''EVP_CipherInit_ex2'' [Ptr (nxt w), Str n, Buf key, iv_arg iv, Val 1] 0]"
  have "cipher_state ?h (nxt w) = Some (fresh_run True n key iv)" by (simp add: cipher_init_def)
  then have "rc (lib w ?h ''EVP_CIPHER_CTX_get_key_length'' [Ptr (nxt w)]) = int (K n)"
    using cipher_library_run(1) [OF assms(1)] by fastforce
  then show ?thesis
    using assms(3-6) cipher_library_basic(1,2,4) [OF assms(1)]
    by (auto simp: cipher_encrypt_def cipher_one_shot_def t CTX_new_def CTX_free_def run_eqs)
qed

theorem cipher_key_checked_late_witness:
  "\<exists>w' c. cipher_encrypt 3 [7] None 1 [1, 2] (first_world sample_cipher_lib) = Some (Inl Cipher_bad_key_size, w') \<and>
    Ev ''EVP_CipherInit_ex2'' [Ptr c, Str ''EVP_aes_128_cbc'', Buf [7], iv_arg None, Val 1] 0 \<in> set (log w')"
  by (rule cipher_key_checked_late [where T = sample_transform and R = "\<lambda>_. []" and G = sample_tag and K = "\<lambda>_. 16"])
    (simp_all add: sample_cipher_lib_ok cipher_static_def cipher_accessors_def alg_is_aead_def)


end
