(* ===== verification/Steps.thy ===== *)
theory Steps
  imports Ledger
begin

text \<open>
  Ledger triples run forward, one step of the program at a time. Where the calculus of \<open>Ledger\<close>
  follows every path to its end, here each step leaves one footprint, so that a function that
  calls others, or that loops, is followed with the triples of its callees. \<open>steps\<close> holds the
  rule of each primitive and of the control structures, \<open>step_calls\<close> the callees' triples in
  the form of a step, \<open>fp_rules\<close> (to be tried in this order) finds a callee's footprint in the caller's.
\<close>

named_theorems steps
named_theorems steps_first
named_theorems step_calls

section \<open>Splitting a footprint\<close>

text \<open>The footprint \<open>A\<close> consists of \<open>B\<close> and \<open>R\<close>.\<close>

definition fp :: "footprint \<Rightarrow> footprint \<Rightarrow> footprint \<Rightarrow> bool" where
  "fp A B R \<longleftrightarrow> mset A = mset (B @ R)"

lemma fp_nil: "fp A [] A"
  by (simp add: fp_def)

lemma fp_cons_here: "fp A B R \<Longrightarrow> fp (x # A) (x # B) R"
  by (simp add: fp_def)

lemma fp_block_here: "fp (A @ R) A R" "fp A A []"
  by (simp_all add: fp_def)

lemma fp_app_here: "fp A B R \<Longrightarrow> fp (X @ A) (X @ B) R"
  by (simp add: fp_def)

lemma fp_own_here:
  "p \<noteq> 0 \<Longrightarrow> fp A B R \<Longrightarrow> fp (own p k @ A) ((p, k) # B) R" "p \<noteq> 0 \<Longrightarrow> fp (own p k) [(p, k)] []"
  "p \<noteq> 0 \<Longrightarrow> fp A B R \<Longrightarrow> fp ((p, k) # A) (own p k @ B) R" "p \<noteq> 0 \<Longrightarrow> fp ((p, k) # A) (own p k) A"
  by (simp_all add: fp_def own_def)

lemma fp_cons_skip: "fp A B R \<Longrightarrow> fp (x # A) B (x # R)"
  by (simp add: fp_def)

lemma fp_app_skip: "fp A B R \<Longrightarrow> fp (X @ A) B (X @ R)"
  by (simp add: fp_def)

lemma fp_normal:
  "fp A B R \<Longrightarrow> fp A (B @ []) R" "fp A B R \<Longrightarrow> fp (A @ []) B R"
  "fp A B R \<Longrightarrow> fp ([] @ A) B R" "fp (x # X @ A) B R \<Longrightarrow> fp ((x # X) @ A) B R"
  "fp (X @ Y @ A) B R \<Longrightarrow> fp ((X @ Y) @ A) B R" "fp A B R \<Longrightarrow> fp A ([] @ B) R"
  "fp A (x # X @ B) R \<Longrightarrow> fp A ((x # X) @ B) R" "fp A (X @ Y @ B) R \<Longrightarrow> fp A ((X @ Y) @ B) R"
  by (simp_all add: fp_def)

lemmas fp_rules = fp_normal fp_nil fp_cons_here fp_block_here fp_app_here fp_own_here fp_cons_skip fp_app_skip

definition usable_fp :: "footprint \<Rightarrow> arg \<Rightarrow> bool" where
  "usable_fp A a = (case a of Ptr p \<Rightarrow> p = 0 \<or> p \<in> fst ` set A | _ \<Rightarrow> True)"

lemma usable_fp_simps [simp]:
  "usable_fp A (Val i)" "usable_fp A (Buf b)" "usable_fp A (Str s)" "usable_fp A (Pars ps)"
  "usable_fp A (Ptr p) \<longleftrightarrow> p = 0 \<or> p \<in> fst ` set A"
  by (simp_all add: usable_fp_def)

lemma fst_union [simp]: "fst ` (X \<union> Y) = fst ` X \<union> fst ` (Y :: (ptr \<times> kind) set)"
  by (rule image_Un)

lemma own_member [simp]: "p \<in> fst ` set (own p k) \<longleftrightarrow> p \<noteq> 0"
  by (simp add: own_def)

lemma holds_live: "holds w L A \<Longrightarrow> (p, k) \<in> set A \<Longrightarrow> live w p = Some k"
  by (auto simp: holds_def map_add_def split: option.split)

lemma holds_usable: "holds w L A \<Longrightarrow> usable_fp A a \<Longrightarrow> usable w a"
  by (auto simp: usable_def usable_fp_def dest: holds_live split: arg.splits)

lemma holds_wf: "holds w L A \<Longrightarrow> live w 0 = None \<and> nxt w \<noteq> 0 \<and> live w (nxt w) = None"
  unfolding holds_def wf_world_def by fastforce

lemma holds_nonnull: "holds w L A \<Longrightarrow> (p, k) \<in> set A \<Longrightarrow> p \<noteq> 0"
  using holds_live [of w L A p k] holds_wf [of w L A] by (cases "p = 0") simp_all

lemma holds_add:
  assumes "holds w L A" and "live w' = (live w)(nxt w \<mapsto> k)" and "nxt w' = Suc (nxt w)"
  shows "holds w' L ((nxt w, k) # A)"
proof -
  have n: "live w (nxt w) = None" using holds_wf [OF assms(1)] by simp
  then have "L (nxt w) = None" "nxt w \<notin> fst ` set A"
    using assms(1) holds_live [OF assms(1)] by (auto simp: holds_def split: option.splits)
  then show ?thesis using assms by (auto simp: holds_def wf_world_def fun_eq_iff map_add_def)
qed

lemma holds_drop:
  assumes "holds w L ((p, k) # A)" and "live w' = (live w)(p := None)" and "nxt w' = nxt w"
  shows "holds w' L A"
  using assms
  by (auto simp: holds_def wf_world_def fun_eq_iff map_add_def map_of_eq_None_iff [THEN iffD2])

lemma holds_same: "holds w L A \<Longrightarrow> live w' = live w \<Longrightarrow> nxt w' = nxt w \<Longrightarrow> holds w' L A"
  by (auto simp: holds_def wf_world_def)

lemma triple_nonnull_in: "(p, k) \<in> set A \<Longrightarrow> (p \<noteq> 0 \<Longrightarrow> ledger_triple fns A m B) \<Longrightarrow> ledger_triple fns A m B"
  unfolding ledger_triple_def by (blast dest: holds_nonnull)

lemma triple_all_nonnull:
  "(list_all (\<lambda>(p, k). p \<noteq> 0) A \<Longrightarrow> ledger_triple fns A m B) \<Longrightarrow> ledger_triple fns A m B"
  unfolding ledger_triple_def list_all_iff by (fastforce dest: holds_nonnull)

section \<open>The primitives\<close>

lemma step_ccall [steps]:
  assumes "list_all (usable_fp A) args" and "\<And>a. ledger_triple fns A (f a) C"
  shows "ledger_triple fns A (\<lambda>w. Option.bind (ccall fn args w) (\<lambda>(a, w). f a w)) C"
proof (rule triple_bind [where B = "\<lambda>_. A"])
  have "list_all (usable w) args" if "holds w L A" for w L
    using assms(1) holds_usable [OF that] by (auto simp: list_all_iff)
  then show "ledger_triple fns A (ccall fn args) (\<lambda>_. A)"
    by (auto simp: ledger_triple_def wp_def ccall_def unchanged_def intro: holds_same)
qed (rule assms(2))

lemma triple_create:
  assumes "list_all (usable_fp A) args"
  shows "ledger_triple fns A (create k fn args) (\<lambda>p. own p k @ A)"
proof -
  have "list_all (usable w) args" if "holds w L A" for w L
    using assms(1) holds_usable [OF that] by (auto simp: list_all_iff)
  moreover have "nxt w \<noteq> 0" if "holds w L A" for w L
    using holds_wf [OF that] by simp
  ultimately show ?thesis
    by (auto simp: ledger_triple_def wp_def create_def acquire_def Let_def unchanged_def
        intro: holds_same holds_add)
qed

lemma step_create [steps]:
  assumes "list_all (usable_fp A) args" and "\<And>p. p \<noteq> 0 \<Longrightarrow> ledger_triple fns ((p, k) # A) (f p) C"
    and "ledger_triple fns A (f 0) C"
  shows "ledger_triple fns A (\<lambda>w. Option.bind (create k fn args w) (\<lambda>(p, w). f p w)) C"
proof (rule triple_bind [OF triple_create [OF assms(1)]])
  show "ledger_triple fns (own p k @ A) (f p) C" for p
    using assms(2,3) by (cases "p = 0") simp_all
qed

lemma step_xmalloc [steps]:
  assumes "''malloc'' \<in> set fns" and "n \<noteq> 0" and "\<And>p. p \<noteq> 0 \<Longrightarrow> ledger_triple fns ((p, Mem) # A) (f p) C"
  shows "ledger_triple fns A (\<lambda>w. Option.bind (xmalloc n w) (\<lambda>(p, w). f p w)) C"
proof (rule triple_bind [where B = "\<lambda>p. (p, Mem) # A"])
  have "wp (may_stop fns w) (xmalloc n w) (\<lambda>p w'. holds w' L ((p, Mem) # A) \<and> unchanged w w')"
    if h: "holds w L A" for w L
  proof (cases "granted (lib w (log w) ''malloc'' [Val (int n)])")
    case True
    with holds_wf [OF h] show ?thesis using holds_add [OF h, of _ Mem]
      by (auto simp: wp_def xmalloc_def malloc_def create_def acquire_def unchanged_def Let_def usable_def)
  next
    case False
    then have "\<not> grants (lib w) ''malloc''" unfolding grants_def by blast
    then have "may_stop fns w" by (rule may_stopI) (simp add: assms(1))
    with False assms(2) show ?thesis
      by (simp add: wp_def xmalloc_def malloc_def create_def acquire_def Let_def)
  qed
  then show "ledger_triple fns A (xmalloc n) (\<lambda>p. (p, Mem) # A)" by (simp add: ledger_triple_def)
  show "ledger_triple fns ((p, Mem) # A) (f p) C" for p
    by (rule triple_nonnull) (rule assms(3))
qed

lemma step_take [steps]:
  assumes "''malloc'' \<in> set fns"
    and "\<And>p. p \<noteq> 0 \<Longrightarrow> ledger_triple fns ((p, Mem) # A) (f \<lparr> at = p, len = length src, bytes = src \<rparr>) C"
  shows "ledger_triple fns A (\<lambda>w. Option.bind (string_take src w) (\<lambda>(l, w). f l w)) C"
    "ledger_triple fns A (\<lambda>w. Option.bind (list_u8_take src w) (\<lambda>(l, w). f l w)) C"
proof -
  have "ledger_triple fns A (\<lambda>w. Option.bind (string_take src w) (\<lambda>(l, w). f l w)) C \<and>
      ledger_triple fns A (\<lambda>w. Option.bind (list_u8_take src w) (\<lambda>(l, w). f l w)) C"
    using step_xmalloc [where f = "\<lambda>p. f \<lparr> at = p, len = length src, bytes = src \<rparr>", OF assms(1) _ assms(2),
        of "if length src \<noteq> 0 then length src else 1"]
    by (simp only: string_take_def list_u8_take_def Option.bind_assoc case_prod_unfold Option.bind.simps
        fst_conv snd_conv) (cases "src = []"; simp)
  then show "ledger_triple fns A (\<lambda>w. Option.bind (string_take src w) (\<lambda>(l, w). f l w)) C"
    "ledger_triple fns A (\<lambda>w. Option.bind (list_u8_take src w) (\<lambda>(l, w). f l w)) C" by simp_all
qed

lemma step_release [steps]:
  assumes "fp A [(p, k)] R" and "ledger_triple fns R (f ()) C"
  shows "ledger_triple fns A (\<lambda>w. Option.bind (release k fn p w) (\<lambda>(u, w). f u w)) C"
    "k = Mem \<Longrightarrow> ledger_triple fns A (\<lambda>w. Option.bind (cfree p w) (\<lambda>(u, w). f u w)) C"
    "ledger_triple fns A (\<lambda>w. Option.bind (perish p k w) (\<lambda>(u, w). f u w)) C"
proof -
  have r: "wp S (release k fn p w) (\<lambda>_ w'. holds w' L R \<and> unchanged w w')"
      "wp S (perish p k w) (\<lambda>_ w'. holds w' L R \<and> unchanged w w')"
    if "holds w L A" for w L S fn
  proof -
    have h: "holds w L ((p, k) # R)"
      using that assms(1) holds_perm [of A "(p, k) # R"] by (simp add: fp_def)
    have "live w p = Some k" "p \<noteq> 0" by (rule holds_live [OF h], simp) (rule holds_nonnull [OF h, of p k], simp)
    then show "wp S (release k fn p w) (\<lambda>_ w'. holds w' L R \<and> unchanged w w')"
      "wp S (perish p k w) (\<lambda>_ w'. holds w' L R \<and> unchanged w w')"
      by (simp_all add: wp_def release_def perish_def unchanged_def usable_def holds_drop [OF h])
  qed
  then have t: "ledger_triple fns A (release k fn p) (\<lambda>_. R)" "ledger_triple fns A (perish p k) (\<lambda>_. R)" for fn
    by (simp_all add: ledger_triple_def)
  have f: "ledger_triple fns R (f u) C" for u using assms(2) by (cases u) simp
  show "ledger_triple fns A (\<lambda>w. Option.bind (release k fn p w) (\<lambda>(u, w). f u w)) C"
    "k = Mem \<Longrightarrow> ledger_triple fns A (\<lambda>w. Option.bind (cfree p w) (\<lambda>(u, w). f u w)) C"
    "ledger_triple fns A (\<lambda>w. Option.bind (perish p k w) (\<lambda>(u, w). f u w)) C"
    using triple_bind [OF t(1) f, of fn] triple_bind [OF t(1) f, of "''free''"] triple_bind [OF t(2) f]
    by (simp_all only: cfree_def)
qed

text \<open>The pointer may be \<open>NULL\<close>.\<close>

lemma step_release_own:
  assumes "fp A (own p k) R" and "ledger_triple fns R (f ()) C"
  shows "ledger_triple fns A (\<lambda>w. Option.bind (release k fn p w) (\<lambda>(u, w). f u w)) C"
    "k = Mem \<Longrightarrow> ledger_triple fns A (\<lambda>w. Option.bind (cfree p w) (\<lambda>(u, w). f u w)) C"
    "ledger_triple fns A (\<lambda>w. Option.bind (perish p k w) (\<lambda>(u, w). f u w)) C"
proof -
  have z: "ledger_triple fns A (release k fn 0) (\<lambda>_. A)" "ledger_triple fns A (perish 0 k) (\<lambda>_. A)" for fn
    by (auto simp: ledger_triple_def wp_def release_def perish_def unchanged_def usable_def Let_def
        intro: holds_same)
  have f: "ledger_triple fns R (f u) C" for u using assms(2) by (cases u) simp
  have r: "p = 0 \<Longrightarrow> ledger_triple fns A (f u) C" for u
    by (rule triple_perm [OF f, of A]) (use assms(1) in \<open>simp_all add: fp_def\<close>)
  show "ledger_triple fns A (\<lambda>w. Option.bind (release k fn p w) (\<lambda>(u, w). f u w)) C"
    "k = Mem \<Longrightarrow> ledger_triple fns A (\<lambda>w. Option.bind (cfree p w) (\<lambda>(u, w). f u w)) C"
    "ledger_triple fns A (\<lambda>w. Option.bind (perish p k w) (\<lambda>(u, w). f u w)) C"
    using step_release(1) [of A p k R fns f C fn] step_release(2,3) [of A p k R fns f C] triple_bind [OF z(1) r, of fn]
      triple_bind [OF z(1) r, of "''free''"] triple_bind [OF z(2) r] assms
    by (cases "p = 0"; simp add: cfree_def)+
qed

lemma step_deref [steps]:
  assumes "p \<in> fst ` set A" and "ledger_triple fns A (f ()) C"
  shows "ledger_triple fns A (\<lambda>w. Option.bind (deref p w) (\<lambda>(u, w). f u w)) C"
proof (rule triple_bind [where B = "\<lambda>_. A"])
  have "live w p \<noteq> None" if "holds w L A" for w L
    using assms(1) holds_live [OF that] by force
  then show "ledger_triple fns A (deref p) (\<lambda>_. A)"
    by (auto simp del: not_None_eq simp: ledger_triple_def wp_def deref_def unchanged_def intro: holds_same)
qed (use assms(2) in simp)

lemma step_retain [steps]:
  assumes "list_all (usable_fp A) args" and "\<And>p. p \<noteq> 0 \<Longrightarrow> ledger_triple fns ((p, k) # A) (f p) C"
  shows "ledger_triple fns A (\<lambda>w. Option.bind (retain k fn args w) (\<lambda>(p, w). f p w)) C"
proof (rule triple_bind [where B = "\<lambda>p. (p, k) # A"])
  have "list_all (usable w) args" if "holds w L A" for w L
    using assms(1) holds_usable [OF that] by (auto simp: list_all_iff)
  then show "ledger_triple fns A (retain k fn args) (\<lambda>p. (p, k) # A)"
    by (auto simp: ledger_triple_def wp_def retain_def unchanged_def intro: holds_add)
  show "ledger_triple fns ((p, k) # A) (f p) C" for p
    by (rule triple_nonnull) (rule assms(2))
qed

lemma triple_realloc:
  assumes "fp A (own p Mem) R"
  shows "ledger_triple fns A (realloc p n) (\<lambda>q. if q = 0 then A else (q, Mem) # R)"
  unfolding ledger_triple_def
proof (intro allI impI)
  fix w L assume hA: "holds w L A"
  let ?w = "\<lambda>q. record_call ''realloc'' [Ptr p, Val (int n)] q w"
  let ?w1 = "?w (nxt w) \<lparr> live := (live w)(nxt w \<mapsto> Mem), nxt := Suc (nxt w) \<rparr>"
  have h: "holds w L (own p Mem @ R)"
    using hA assms(1) holds_perm [of A "own p Mem @ R"] by (simp add: fp_def)
  have l: "p = 0 \<or> live w p = Some Mem"
    using holds_live [OF h, of p Mem] by (cases "p = 0") simp_all
  then have u: "usable w (Ptr p)" "usable w (Val (int n))" by (auto simp: usable_def)
  have p: "p \<noteq> nxt w" using l holds_wf [OF h] by auto
  have none: "holds (?w 0) L A" by (rule holds_same [OF hA]) simp_all
  have new: "holds ?w1 L ((nxt w, Mem) # own p Mem @ R)" by (rule holds_add [OF h]) simp_all
  have moved: "holds (?w1\<lparr> live := (live ?w1)(p := None) \<rparr>) L ((nxt w, Mem) # R)" if "p \<noteq> 0"
  proof (rule holds_drop)
    show "holds ?w1 L ((p, Mem) # (nxt w, Mem) # R)"
      using new that holds_perm [of "(p, Mem) # (nxt w, Mem) # R" "(nxt w, Mem) # (p, Mem) # R"]
      by (simp add: add_mset_commute)
  qed simp_all
  show "wp (may_stop fns w) (realloc p n w)
      (\<lambda>q w'. holds w' L (if q = 0 then A else (q, Mem) # R) \<and> unchanged w w')"
    using l p none new moved holds_wf [OF h] u
    by (cases "p = 0") (simp_all add: wp_def realloc_def create_def acquire_def unchanged_def Let_def)
qed

lemma step_realloc [steps]:
  assumes "fp A (own p Mem) R" and "\<And>q. q \<noteq> 0 \<Longrightarrow> ledger_triple fns ((q, Mem) # R) (f q) C"
    and "ledger_triple fns A (f 0) C"
  shows "ledger_triple fns A (\<lambda>w. Option.bind (realloc p n w) (\<lambda>(q, w). f q w)) C"
proof (rule triple_bind [OF triple_realloc [OF assms(1)]])
  show "ledger_triple fns (if q = 0 then A else (q, Mem) # R) (f q) C" for q
    using assms(2,3) by simp
qed

section \<open>Control\<close>

lemma step_ret [steps]:
  "mset A = mset (B a) \<Longrightarrow> ledger_triple fns A (\<lambda>w. Some (a, w)) B"
  by (rule triple_done)

lemma step_stop [steps]: "False \<Longrightarrow> ledger_triple fns A (\<lambda>w. None) B"
  by simp

lemma step_if [steps]:
  "(c \<Longrightarrow> ledger_triple fns A a B) \<Longrightarrow> (\<not> c \<Longrightarrow> ledger_triple fns A b B) \<Longrightarrow>
   ledger_triple fns A (\<lambda>w. if c then a w else b w) B"
  by (cases c) simp_all

lemma step_if_not [steps_first]:
  "(\<not> c \<Longrightarrow> ledger_triple fns A a B) \<Longrightarrow> (c \<Longrightarrow> ledger_triple fns A b B) \<Longrightarrow>
   ledger_triple fns A (\<lambda>w. if \<not> c then a w else b w) B"
  by (cases c) simp_all

lemma step_if_known:
  "c \<Longrightarrow> ledger_triple fns A a B \<Longrightarrow> ledger_triple fns A (\<lambda>w. if c then a w else b w) B"
  "\<not> c \<Longrightarrow> ledger_triple fns A b B \<Longrightarrow> ledger_triple fns A (\<lambda>w. if c then a w else b w) B"
  "c \<Longrightarrow> ledger_triple fns A b B \<Longrightarrow> ledger_triple fns A (\<lambda>w. if \<not> c then a w else b w) B"
  by simp_all

lemma step_if_const [steps_first]:
  "ledger_triple fns A a B \<Longrightarrow> ledger_triple fns A (\<lambda>w. if x = x then a w else b w) B"
  "ledger_triple fns A b B \<Longrightarrow> ledger_triple fns A (\<lambda>w. if x \<noteq> x then a w else b w) B"
  "ledger_triple fns A a B \<Longrightarrow> ledger_triple fns A (\<lambda>w. if True then a w else b w) B"
  "ledger_triple fns A b B \<Longrightarrow> ledger_triple fns A (\<lambda>w. if False then a w else b w) B"
  by simp_all

lemma step_if_or [steps_first]:
  "ledger_triple fns A (\<lambda>w. if c then a w else if d then a w else b w) B \<Longrightarrow>
   ledger_triple fns A (\<lambda>w. if c \<or> d then a w else b w) B"
  by (cases c) simp_all

lemma step_let [steps]:
  "ledger_triple fns A (f v) B \<Longrightarrow> ledger_triple fns A (\<lambda>w. Let v (\<lambda>x. f x w)) B"
  by simp

lemma step_option [steps]:
  "(x = None \<Longrightarrow> ledger_triple fns A a B) \<Longrightarrow> (\<And>y. x = Some y \<Longrightarrow> ledger_triple fns A (b y) B) \<Longrightarrow>
   ledger_triple fns A (\<lambda>w. case x of None \<Rightarrow> a w | Some y \<Rightarrow> b y w) B"
  by (cases x) simp_all

lemma step_sum [steps]:
  "(\<And>e. x = Inl e \<Longrightarrow> ledger_triple fns A (a e) B) \<Longrightarrow> (\<And>y. x = Inr y \<Longrightarrow> ledger_triple fns A (b y) B) \<Longrightarrow>
   ledger_triple fns A (\<lambda>w. case x of Inl e \<Rightarrow> a e w | Inr y \<Rightarrow> b y w) B"
  by (cases x) simp_all

lemma step_pair [step_calls]:
  "ledger_triple fns A (f x y) B \<Longrightarrow> ledger_triple fns A (\<lambda>w. case (x, y) of (x, y) \<Rightarrow> f x y w) B"
  by simp

text \<open>A block inside a step is followed on each of its paths.\<close>

lemma step_bind_ret [steps]:
  "ledger_triple fns A (f a) C \<Longrightarrow> ledger_triple fns A (\<lambda>w. Option.bind (Some (a, w)) (\<lambda>(a, w). f a w)) C"
  by simp

lemma step_bind_ret2 [steps_first]:
  "ledger_triple fns A (f a b) C \<Longrightarrow>
   ledger_triple fns A (\<lambda>w. Option.bind (Some ((a, b), w)) (\<lambda>((a, b), w). f a b w)) C"
  by simp

lemma step_bind_if [steps]:
  "(c \<Longrightarrow> ledger_triple fns A (\<lambda>w. Option.bind (a w) f) C) \<Longrightarrow>
   (\<not> c \<Longrightarrow> ledger_triple fns A (\<lambda>w. Option.bind (b w) f) C) \<Longrightarrow>
   ledger_triple fns A (\<lambda>w. Option.bind (if c then a w else b w) f) C"
  by (cases c) simp_all

lemma step_bind_if_known:
  "c \<Longrightarrow> ledger_triple fns A (\<lambda>w. Option.bind (a w) f) C \<Longrightarrow>
   ledger_triple fns A (\<lambda>w. Option.bind (if c then a w else b w) f) C"
  "\<not> c \<Longrightarrow> ledger_triple fns A (\<lambda>w. Option.bind (b w) f) C \<Longrightarrow>
   ledger_triple fns A (\<lambda>w. Option.bind (if c then a w else b w) f) C"
  "c \<Longrightarrow> ledger_triple fns A (\<lambda>w. Option.bind (b w) f) C \<Longrightarrow>
   ledger_triple fns A (\<lambda>w. Option.bind (if \<not> c then a w else b w) f) C"
  by simp_all

lemma step_bind_if_const [steps_first]:
  "ledger_triple fns A (\<lambda>w. Option.bind (a w) f) C \<Longrightarrow>
   ledger_triple fns A (\<lambda>w. Option.bind (if x = x then a w else b w) f) C"
  "ledger_triple fns A (\<lambda>w. Option.bind (b w) f) C \<Longrightarrow>
   ledger_triple fns A (\<lambda>w. Option.bind (if x \<noteq> x then a w else b w) f) C"
  "ledger_triple fns A (\<lambda>w. Option.bind (a w) f) C \<Longrightarrow>
   ledger_triple fns A (\<lambda>w. Option.bind (if True then a w else b w) f) C"
  "ledger_triple fns A (\<lambda>w. Option.bind (b w) f) C \<Longrightarrow>
   ledger_triple fns A (\<lambda>w. Option.bind (if False then a w else b w) f) C"
  by simp_all

lemma step_bind_if_not [steps_first]:
  "(\<not> c \<Longrightarrow> ledger_triple fns A (\<lambda>w. Option.bind (a w) f) C) \<Longrightarrow>
   (c \<Longrightarrow> ledger_triple fns A (\<lambda>w. Option.bind (b w) f) C) \<Longrightarrow>
   ledger_triple fns A (\<lambda>w. Option.bind (if \<not> c then a w else b w) f) C"
  by (cases c) simp_all

lemmas step_known = step_if_known step_bind_if_known

lemma step_bind_option [steps]:
  "(x = None \<Longrightarrow> ledger_triple fns A (\<lambda>w. Option.bind (a w) f) C) \<Longrightarrow>
   (\<And>y. x = Some y \<Longrightarrow> ledger_triple fns A (\<lambda>w. Option.bind (b y w) f) C) \<Longrightarrow>
   ledger_triple fns A (\<lambda>w. Option.bind (case x of None \<Rightarrow> a w | Some y \<Rightarrow> b y w) f) C"
  by (cases x) simp_all

lemma step_bind_let [steps]:
  "ledger_triple fns A (\<lambda>w. Option.bind (g v w) f) C \<Longrightarrow>
   ledger_triple fns A (\<lambda>w. Option.bind (Let v (\<lambda>x. g x w)) f) C"
  by simp

lemma step_bind_assoc [steps]:
  "ledger_triple fns A (\<lambda>w. Option.bind (m w) (\<lambda>(a, w). Option.bind (g a w) f)) C \<Longrightarrow>
   ledger_triple fns A (\<lambda>w. Option.bind (Option.bind (m w) (\<lambda>(a, w). g a w)) f) C"
  by (simp add: case_prod_unfold)

lemma step_bind_assoc2 [steps_first]:
  "ledger_triple fns A (\<lambda>w. Option.bind (m w) (\<lambda>((a, b), w). Option.bind (g a b w) f)) C \<Longrightarrow>
   ledger_triple fns A (\<lambda>w. Option.bind (Option.bind (m w) (\<lambda>((a, b), w). g a b w)) f) C"
  by (simp add: case_prod_unfold)

lemma triple_step2:
  assumes "ledger_triple fns A' m (\<lambda>(x, y). B' x y)" and "fp A A' F"
    and "\<And>x y. ledger_triple fns (B' x y @ F) (f x y) C"
  shows "ledger_triple fns A (\<lambda>w. Option.bind (m w) (\<lambda>((x, y), w). f x y w)) C"
proof (rule triple_bind2)
  show "ledger_triple fns A m (\<lambda>(x, y). B' x y @ F)"
    using triple_perm [OF triple_frame [OF assms(1), of F]] assms(2)
    by (simp add: fp_def case_prod_unfold)
qed (rule assms(3))

lemma triple_step1:
  assumes "ledger_triple fns A' m B'" and "fp A A' F" and "\<And>r. ledger_triple fns (B' r @ F) (f r) C"
  shows "ledger_triple fns A (\<lambda>w. Option.bind (m w) (\<lambda>(r, w). f r w)) C"
  using triple_step [OF assms(1) _ assms(3)] assms(2) by (simp add: fp_def)

text \<open>A primitive at the end of a function.\<close>

lemma pair_tail: "Option.bind m (\<lambda>(a, w). Some (a, w)) = m"
  "Option.bind v (\<lambda>(a, w). Some ((), w)) = v"
  by (cases m, auto, cases v, auto)

lemma step_tail [steps]:
  "ledger_triple fns A (\<lambda>w. Option.bind (cfree p w) (\<lambda>(a, w). Some (a, w))) C \<Longrightarrow> ledger_triple fns A (cfree p) C"
  "ledger_triple fns A (\<lambda>w. Option.bind (release k fn p w) (\<lambda>(a, w). Some (a, w))) B \<Longrightarrow>
     ledger_triple fns A (release k fn p) B"
  "ledger_triple fns A (\<lambda>w. Option.bind (string_take s w) (\<lambda>(a, w). Some (a, w))) D \<Longrightarrow>
     ledger_triple fns A (string_take s) D"
  "ledger_triple fns A (\<lambda>w. Option.bind (list_u8_take s w) (\<lambda>(a, w). Some (a, w))) D \<Longrightarrow>
     ledger_triple fns A (list_u8_take s) D"
  by (simp_all add: pair_tail)

lemma triple_tail:
  "ledger_triple fns A (\<lambda>w. Option.bind (m w) (\<lambda>(a, w). Some (a, w))) C \<Longrightarrow> ledger_triple fns A m C"
  by (simp add: pair_tail)

section \<open>Facts about values\<close>

text \<open>The footprint of a value that satisfies \<open>P\<close>: nothing is claimed of another value.\<close>

definition guarded :: "bool \<Rightarrow> footprint \<Rightarrow> footprint" where
  "guarded P A = (if P then A else [(0, Mem)])"

lemma guarded_simps [simp]: "guarded True A = A" "P \<Longrightarrow> guarded P A = A"
  by (simp_all add: guarded_def)

lemma triple_guarded:
  assumes "fp A (guarded P G) R" and "P \<Longrightarrow> ledger_triple fns (G @ R) m C"
  shows "ledger_triple fns A m C"
proof (cases P)
  case True
  show ?thesis by (rule triple_perm [OF assms(2) [OF True]]) (use assms(1) True in \<open>simp_all add: fp_def\<close>)
next
  case False
  then have "(0, Mem) \<in> set A"
    using assms(1) by (metis fp_def guarded_def append_Cons in_multiset_in_set list.set_intros(1))
  then show ?thesis by (rule triple_nonnull_in) simp
qed

lemma triple_guarded_post:
  assumes "ledger_triple fns A m (\<lambda>r. guarded (P r) (B r) @ F r)"
    and "\<And>r. P r \<Longrightarrow> mset (B r @ F r) = mset (C r)"
  shows "ledger_triple fns A m C"
proof -
  have "holds w L (C r)" if h: "holds w L (guarded (P r) (B r) @ F r)" for w L r
  proof (cases "P r")
    case True
    with h holds_perm [OF assms(2)] show ?thesis by simp
  next
    case False
    then have "(0, Mem) \<in> set (guarded (P r) (B r) @ F r)" by (simp add: guarded_def)
    from holds_nonnull [OF h this] show ?thesis by simp
  qed
  with assms(1) show ?thesis unfolding ledger_triple_def by (blast intro: wp_conseq)
qed

end
