(* ===== verification/Objects.thy ===== *)
theory Objects
  imports Steps Component
begin

text \<open>
  What the key, certificate and TLS code share in its dealings with OpenSSL objects: calls that
  return an object beside a result code, encoders that allocate their output, memory BIOs,
  outputs that are sized by a first call and filled by a second, stacks of certificates, and
  loops that read objects from a source until it is exhausted; with the steps of the ledger
  calculus for each.
\<close>

section \<open>Results beside a pointer\<close>

text \<open>
  \<open>acquire\<close> makes no connection between the result code and the pointer a call stores. The
  calls below store one whenever their result is positive; otherwise they may or may not.
\<close>

definition produce :: "kind \<Rightarrow> string \<Rightarrow> arg list \<Rightarrow> world \<Rightarrow> (answer \<times> ptr) outcome" where
  "produce k fn args w =
     (let a = lib w (log w) fn args in
      if 0 < rc a \<or> granted a
      then Some ((a, nxt w), (record_call fn args (nxt w) w)
             \<lparr> live := (live w)(nxt w \<mapsto> k), nxt := Suc (nxt w) \<rparr>)
      else Some ((a, 0), record_call fn args 0 w))"

text \<open>
  The \<open>i2d\<close> functions encode an object into a buffer that they allocate: a positive result is
  its length, and then the buffer is there; otherwise there may be one or not.
\<close>

definition i2d :: "string \<Rightarrow> arg list \<Rightarrow> world \<Rightarrow> (answer \<times> ptr) outcome" where
  "i2d = produce (Obj ''OPENSSL'')"

definition OPENSSL_free :: "ptr \<Rightarrow> world \<Rightarrow> unit outcome" where
  "OPENSSL_free = release (Obj ''OPENSSL'') ''OPENSSL_free''"

definition encoded :: "answer \<Rightarrow> u8 list" where
  "encoded a = take (nat (rc a)) (written a)"

lemma step_acquire [steps]:
  assumes "list_all (usable_fp A) args"
    and "\<And>a p. p \<noteq> 0 \<Longrightarrow> ledger_triple fns ((p, k) # A) (f a p) C" and "\<And>a. ledger_triple fns A (f a 0) C"
  shows "ledger_triple fns A (\<lambda>w. Option.bind (acquire k fn args w) (\<lambda>((a, p), w). f a p w)) C"
proof (rule triple_bind2 [where B = "\<lambda>a p. own p k @ A"])
  have "list_all (usable w) args" if "holds w L A" for w L
    using assms(1) holds_usable [OF that] by (auto simp: list_all_iff)
  moreover have "nxt w \<noteq> 0" if "holds w L A" for w L
    using holds_wf [OF that] by simp
  ultimately show "ledger_triple fns A (acquire k fn args) (\<lambda>(a, p). own p k @ A)"
    by (auto simp: ledger_triple_def wp_def acquire_def Let_def unchanged_def intro: holds_same holds_add)
  show "ledger_triple fns (own p k @ A) (f a p) C" for a p
    using assms(2,3) by (cases "p = 0") simp_all
qed

lemma step_produce [steps]:
  assumes "list_all (usable_fp A) args"
    and "\<And>a p. p \<noteq> 0 \<Longrightarrow> ledger_triple fns ((p, k) # A) (f a p) C"
    and "\<And>a. rc a \<le> 0 \<Longrightarrow> ledger_triple fns A (f a 0) C"
  shows "ledger_triple fns A (\<lambda>w. Option.bind (produce k fn args w) (\<lambda>((a, p), w). f a p w)) C"
proof (rule triple_bind2 [where B = "\<lambda>a p. if p \<noteq> 0 then (p, k) # A else guarded (rc a \<le> 0) A"])
  have "list_all (usable w) args" if "holds w L A" for w L
    using assms(1) holds_usable [OF that] by (auto simp: list_all_iff)
  moreover have "nxt w \<noteq> 0" if "holds w L A" for w L
    using holds_wf [OF that] by simp
  ultimately show "ledger_triple fns A (produce k fn args)
      (\<lambda>(a, p). if p \<noteq> 0 then (p, k) # A else guarded (rc a \<le> 0) A)"
    by (auto simp: ledger_triple_def wp_def produce_def Let_def unchanged_def intro: holds_same holds_add)
  show "ledger_triple fns (if p \<noteq> 0 then (p, k) # A else guarded (rc a \<le> 0) A) (f a p) C" for a p
  proof (cases "p = 0")
    case True
    then show ?thesis
      using triple_guarded [of "guarded (rc a \<le> 0) A" "rc a \<le> 0" A "[]" fns "f a 0" C] assms(3) [of a]
      by (simp add: fp_def)
  qed (use assms(2) in simp)
qed

lemmas step_i2d [steps] = step_produce [where k = "Obj ''OPENSSL''", folded i2d_def]

text \<open>Tests and cases whose outcome is a constant.\<close>

lemma step_if_not_const [steps_first]:
  "ledger_triple fns A b B \<Longrightarrow> ledger_triple fns A (\<lambda>w. if \<not> True then a w else b w) B"
  "ledger_triple fns A a B \<Longrightarrow> ledger_triple fns A (\<lambda>w. if \<not> False then a w else b w) B"
  "ledger_triple fns A (\<lambda>w. Option.bind (b w) f) C \<Longrightarrow>
   ledger_triple fns A (\<lambda>w. Option.bind (if \<not> True then a w else b w) f) C"
  "ledger_triple fns A (\<lambda>w. Option.bind (a w) f) C \<Longrightarrow>
   ledger_triple fns A (\<lambda>w. Option.bind (if \<not> False then a w else b w) f) C"
  by simp_all

lemma step_case_const [steps_first]:
  "ledger_triple fns A (l e) B \<Longrightarrow> ledger_triple fns A (\<lambda>w. case Inl e of Inl e \<Rightarrow> l e w | Inr y \<Rightarrow> r y w) B"
  "ledger_triple fns A (r y) B \<Longrightarrow> ledger_triple fns A (\<lambda>w. case Inr y of Inl e \<Rightarrow> l e w | Inr y \<Rightarrow> r y w) B"
  "ledger_triple fns A n B \<Longrightarrow> ledger_triple fns A (\<lambda>w. case None of None \<Rightarrow> n w | Some y \<Rightarrow> r y w) B"
  "ledger_triple fns A (r y) B \<Longrightarrow> ledger_triple fns A (\<lambda>w. case Some y of None \<Rightarrow> n w | Some y \<Rightarrow> r y w) B"
  by simp_all

lemma step_release_null [steps_first]:
  assumes "ledger_triple fns A (f ()) C"
  shows "ledger_triple fns A (\<lambda>w. Option.bind (release k fn 0 w) (\<lambda>(u, w). f u w)) C"
    "ledger_triple fns A (\<lambda>w. Option.bind (perish 0 k w) (\<lambda>(u, w). f u w)) C"
  by (rule step_release_own [of A 0 k A fns f]; simp add: fp_def assms)+

text \<open>A pointer without which the program stops.\<close>

lemma triple_or_stop:
  assumes "ledger_triple fns A m B" and "\<And>w w'. wf_world w \<Longrightarrow> m w = Some (0, w') \<Longrightarrow> may_stop fns w"
    and "\<And>p. p \<noteq> 0 \<Longrightarrow> ledger_triple fns (B p) (f p) C"
  shows "ledger_triple fns A (\<lambda>w. Option.bind (m w) (\<lambda>(p :: ptr, w). if p = 0 then None else f p w)) C"
  unfolding ledger_triple_def
proof (intro allI impI)
  fix w L assume h: "holds w L A"
  note m = assms(1) [unfolded ledger_triple_def, rule_format, OF h]
  show "wp (may_stop fns w) (Option.bind (m w) (\<lambda>(p, w). if p = 0 then None else f p w))
      (\<lambda>r w'. holds w' L (C r) \<and> unchanged w w')"
  proof (cases "m w")
    case None
    then show ?thesis using m by (simp add: wp_def)
  next
    case (Some x)
    then obtain p w' where x: "m w = Some (p, w')" by (cases x) simp
    then have w': "holds w' L (B p)" "unchanged w w'" using m by (simp_all add: wp_def)
    show ?thesis
    proof (cases "p = 0")
      case True
      then show ?thesis using assms(2) [of w w'] h x by (simp add: wp_def holds_def)
    next
      case False
      have "wp (may_stop fns w) (f p w') (\<lambda>r w''. holds w'' L (C r) \<and> unchanged w w'')"
        by (rule triple_call [OF assms(3) [OF False] w'(1)])
          (use w'(2) unchanged_trans [OF w'(2)] in \<open>simp_all add: may_stop_def unchanged_def\<close>)
      then show ?thesis using x False by simp
    qed
  qed
qed

lemma step_create_or_stop [step_calls]:
  assumes "fn \<in> set fns \<and> plain_service fn" and "list_all (usable_fp A) args"
    and "\<And>p. p \<noteq> 0 \<Longrightarrow> ledger_triple fns ((p, k) # A) (f p) C"
  shows "ledger_triple fns A (\<lambda>w. Option.bind (create k fn args w) (\<lambda>(p, w). if p = 0 then None else f p w)) C"
proof (rule triple_or_stop [OF triple_create [OF assms(2)]])
  show "may_stop fns w" if "wf_world w" and "create k fn args w = Some (0, w')" for w w'
    using that assms(1) by (auto simp: create_def acquire_def Let_def grants_def wf_world_def intro!: may_stopI split: if_splits)
qed (use assms(3) in simp)

section \<open>Errors\<close>

text \<open>An error variant of the WIT interface. The code stores the last OpenSSL error beside every
  tag; the caller sees it only with \<open>internal\<close>.\<close>

definition fail_with :: "'e \<Rightarrow> world \<Rightarrow> ('e + 'a) outcome" where
  "fail_with e w = do { (_, w) \<leftarrow> ERR_peek_last_error w; Some (Inl e, w) }"

definition fail_code :: "(nat \<Rightarrow> 'e) \<Rightarrow> world \<Rightarrow> ('e + 'a) outcome" where
  "fail_code e w = do { (c, w) \<leftarrow> ERR_peek_last_error w; Some (Inl (e c), w) }"

lemma step_peek [steps]:
  assumes "\<And>c. ledger_triple fns A (f c) C"
  shows "ledger_triple fns A (\<lambda>w. Option.bind (ERR_peek_last_error w) (\<lambda>(c, w). f c w)) C"
  unfolding ERR_peek_last_error_def
  by (rule step_bind_assoc, rule step_ccall, simp, rule step_bind_ret, rule assms)

lemma step_fail [steps]:
  "mset A = mset (C (Inl e)) \<Longrightarrow> ledger_triple fns A (fail_with e) C"
  "(\<And>c. mset A = mset (C (Inl (g c)))) \<Longrightarrow> ledger_triple fns A (fail_code g) C"
  unfolding fail_with_def fail_code_def by (auto intro!: step_peek step_ret)

text \<open>The digest a WIT enum names, in the build at hand.\<close>

definition fetch_md :: "nat \<Rightarrow> world \<Rightarrow> string option outcome" where
  "fetch_md hash w = Some (wit_digest_md (cfg w) hash, w)"

lemma step_fetch_md [steps]:
  assumes "\<And>m. ledger_triple fns A (f m) C"
  shows "ledger_triple fns A (\<lambda>w. Option.bind (fetch_md hash w) (\<lambda>(m, w). f m w)) C"
  using assms unfolding fetch_md_def ledger_triple_def by simp

section \<open>Memory BIOs\<close>

definition mem_buf :: "u8 list \<Rightarrow> world \<Rightarrow> ptr outcome" where
  "mem_buf data = create (Obj ''BIO'') ''BIO_new_mem_buf'' [Buf data, Val (c_int (length data))]"

definition new_mem :: "world \<Rightarrow> ptr outcome" where
  "new_mem = create (Obj ''BIO'') ''BIO_new'' [Str ''BIO_s_mem'']"

definition BIO_free :: "ptr \<Rightarrow> world \<Rightarrow> unit outcome" where
  "BIO_free = release (Obj ''BIO'') ''BIO_free''"

text \<open>Copying out what was written to a memory BIO. A negative length would make \<open>memcpy\<close> run
  over all of memory.\<close>

definition mem_contents :: "ptr \<Rightarrow> world \<Rightarrow> list_u8 outcome" where
  "mem_contents bio w = do {
     (a, w) \<leftarrow> ccall ''BIO_get_mem_data'' [Ptr bio] w;
     (p, w) \<leftarrow> xmalloc (if 0 < rc a then nat (rc a) else 1) w;
     if rc a < 0 then None
     else Some (\<lparr> at = p, len = nat (rc a), bytes = encoded a \<rparr>, w) }"

definition out_services :: "string list" where
  "out_services = [''malloc'', ''BIO_get_mem_data'']"

lemma step_mem_contents [steps]:
  assumes "set out_services \<subseteq> set fns" and "bio = 0 \<or> bio \<in> fst ` set A"
    and "\<And>l. ledger_triple fns (own (at l) Mem @ A) (f l) C"
  shows "ledger_triple fns A (\<lambda>w. Option.bind (mem_contents bio w) (\<lambda>(l, w). f l w)) C"
proof (rule triple_bind [OF _ assms(3)])
  have t: "ledger_triple [''malloc''] A (\<lambda>w. do {
      (a, w) \<leftarrow> ccall ''BIO_get_mem_data'' [Ptr bio] w;
      (p, w) \<leftarrow> xmalloc (if 0 < rc a then nat (rc a) else 1) w;
      Some (\<lparr> at = p, len = nat (rc a), bytes = encoded a \<rparr>, w) }) (\<lambda>l. own (at l) Mem @ A)"
    by (rule step_ccall, use assms(2) in simp, rule step_xmalloc) (simp_all add: triple_done)
  show "ledger_triple fns A (mem_contents bio) (\<lambda>l. own (at l) Mem @ A)"
    unfolding ledger_triple_def
  proof (intro allI impI)
    fix w L assume h: "holds w L A"
    let ?a = "lib w (log w) ''BIO_get_mem_data'' [Ptr bio]"
    have neg: "may_stop fns w" if "rc ?a < 0"
      unfolding may_stop_def list_ex_iff
    proof (rule bexI [where x = "''BIO_get_mem_data''"])
      show "fails (lib w) ''BIO_get_mem_data''" unfolding fails_exceptional using that by blast
    qed (use assms(1) in \<open>simp add: out_services_def\<close>)
    have m: "may_stop [''malloc''] w \<Longrightarrow> may_stop fns w"
      using may_stop_mono [of "[''malloc'']" fns w] assms(1) by (simp add: out_services_def)
    show "wp (may_stop fns w) (mem_contents bio w) (\<lambda>l w'. holds w' L (own (at l) Mem @ A) \<and> unchanged w w')"
    proof (cases "rc ?a < 0")
      case True
      then have "mem_contents bio w = None"
        by (simp add: mem_contents_def ccall_def split: Option.bind_split)
      with neg [OF True] show ?thesis by (simp add: wp_def)
    next
      case False
      then show ?thesis
        using t [unfolded ledger_triple_def, rule_format, OF h] m
        by (simp add: mem_contents_def ccall_def wp_weaken)
    qed
  qed
qed

section \<open>Sized outputs\<close>

text \<open>
  The two calls by which OpenSSL returns data of a size the caller does not know: with a \<open>NULL\<close>
  buffer for the size, then with a buffer of that size. \<open>Inl False\<close>: the first call failed,
  \<open>Inl True\<close>: the second did.
\<close>

definition sized :: "(int \<Rightarrow> bool) \<Rightarrow> string \<Rightarrow> ptr \<Rightarrow> arg list \<Rightarrow> world \<Rightarrow> (bool + list_u8) outcome" where
  "sized ok fn ctx args w = do {
     (a, w) \<leftarrow> ccall fn (Ptr ctx # Ptr 0 # args) w;
     if \<not> ok (rc a) then Some (Inl False, w)
     else do {
       (p, w) \<leftarrow> xmalloc (if c_u32 (outl a) \<noteq> 0 then c_u32 (outl a) else 1) w;
       (b, w) \<leftarrow> ccall fn (Ptr ctx # Ptr p # args) w;
       if \<not> ok (rc b)
       then do { (_, w) \<leftarrow> cfree p w; Some (Inl True, w) }
       else Some (Inr \<lparr> at = p, len = c_u32 (outl b), bytes = written b \<rparr>, w) } }"

lemma step_sized [steps]:
  assumes "''malloc'' \<in> set fns" and "list_all (usable_fp A) (Ptr ctx # args)"
    and "\<And>e. ledger_triple fns A (f (Inl e)) C" and "\<And>l. ledger_triple fns (own (at l) Mem @ A) (f (Inr l)) C"
  shows "ledger_triple fns A (\<lambda>w. Option.bind (sized ok fn ctx args w) (\<lambda>(r, w). f r w)) C"
proof (rule triple_bind)
  have u: "list_all (usable_fp ((p, Mem) # A)) args" for p
    using assms(2) by (auto simp: usable_fp_def list_all_iff split: arg.splits)
  show "ledger_triple fns A (sized ok fn ctx args) (\<lambda>r. held r @ A)"
    unfolding sized_def
    by (assumption | rule assms(1) | rule steps_first | rule steps | rule fp_rules | (use assms(2) u in \<open>auto; fail\<close>))+
  show "ledger_triple fns (held r @ A) (f r) C" for r
    using assms(3,4) by (cases r) simp_all
qed

section \<open>Lists of objects\<close>

definition objs_fp :: "kind \<Rightarrow> ptr list \<Rightarrow> footprint" where
  "objs_fp k ps = map (\<lambda>p. (p, k)) ps"

lemma objs_fp_simps [simp]:
  "objs_fp k [] = []" "objs_fp k (p # ps) = (p, k) # objs_fp k ps"
  "objs_fp k (ps @ qs) = objs_fp k ps @ objs_fp k qs"
  by (simp_all add: objs_fp_def)

fun release_all :: "kind \<Rightarrow> string \<Rightarrow> ptr list \<Rightarrow> world \<Rightarrow> unit outcome" where
  "release_all k fn [] w = Some ((), w)"
| "release_all k fn (p # ps) w = do {
     (_, w) \<leftarrow> release k fn p w;
     release_all k fn ps w }"

lemma release_all_triple: "ledger_triple fns (objs_fp k ps) (release_all k fn ps) (\<lambda>_. [])"
proof (induction ps)
  case Nil
  have "release_all k fn [] = (\<lambda>w. Some ((), w))" by (rule ext) simp
  then show ?case by (simp add: triple_done)
next
  case (Cons p ps)
  have e: "release_all k fn (p # ps) = (\<lambda>w. do { (_, w) \<leftarrow> release k fn p w; release_all k fn ps w })"
    by (rule ext) simp
  show ?case unfolding e objs_fp_simps
    by (rule step_release [OF fp_cons_here [OF fp_nil]], rule Cons.IH)
qed

text \<open>Calls on each element of a list, such as pushing it onto a stack.\<close>

fun call_each :: "string \<Rightarrow> ptr \<Rightarrow> ptr list \<Rightarrow> world \<Rightarrow> unit outcome" where
  "call_each fn s [] w = Some ((), w)"
| "call_each fn s (p # ps) w = do {
     (_, w) \<leftarrow> ccall fn [Ptr s, Ptr p] w;
     call_each fn s ps w }"

lemma call_each_triple:
  "s = 0 \<or> s \<in> fst ` set A \<Longrightarrow> list_all (\<lambda>p. p = 0 \<or> p \<in> fst ` set A) ps \<Longrightarrow>
   ledger_triple fns A (call_each fn s ps) (\<lambda>_. A)"
proof (induction ps)
  case Nil
  have "call_each fn s [] = (\<lambda>w. Some ((), w))" by (rule ext) simp
  then show ?case by (simp add: triple_done)
next
  case (Cons p ps)
  have e: "call_each fn s (p # ps) = (\<lambda>w. do { (_, w) \<leftarrow> ccall fn [Ptr s, Ptr p] w; call_each fn s ps w })"
    by (rule ext) simp
  show ?case unfolding e
    by (rule step_ccall) (use Cons in simp_all)
qed

section \<open>Arrays\<close>

text \<open>The block for an array of \<open>n\<close> elements of \<open>sz\<close> bytes; an empty array has room for one. (A
  number of objects that are in memory, times their size, is far below \<open>2 ^ 32\<close>.)\<close>

definition array_of :: "nat \<Rightarrow> int \<Rightarrow> world \<Rightarrow> ptr outcome" where
  "array_of sz n = xmalloc (if 0 < n then nat n * sz else sz)"

text \<open>A loop that fills \<open>k\<close> elements of an array, from the one at \<open>i\<close> on.\<close>

fun collect :: "(nat \<Rightarrow> world \<Rightarrow> 'a outcome) \<Rightarrow> nat \<Rightarrow> nat \<Rightarrow> world \<Rightarrow> 'a list outcome" where
  "collect f i 0 w = Some ([], w)"
| "collect f i (Suc k) w = do {
     (x, w) \<leftarrow> f i w;
     (xs, w) \<leftarrow> collect f (Suc i) k w;
     Some (x # xs, w) }"

lemma step_array_of [steps]:
  assumes "''malloc'' \<in> set fns" and "0 < sz"
    and "\<And>p. p \<noteq> 0 \<Longrightarrow> ledger_triple fns ((p, Mem) # A) (f p) C"
  shows "ledger_triple fns A (\<lambda>w. Option.bind (array_of sz n w) (\<lambda>(p, w). f p w)) C"
  unfolding array_of_def by (rule step_xmalloc [OF assms(1)]) (use assms(2,3) in auto)

lemma collect_triple:
  assumes "\<And>i. ledger_triple fns A (f i) (\<lambda>x. owns x @ A)"
  shows "ledger_triple fns A (collect f i k) (\<lambda>xs. concat (map owns xs) @ A)"
proof (induction k arbitrary: i)
  case 0
  have "collect f i 0 = (\<lambda>w. Some ([], w))" by (rule ext) simp
  then show ?case by (simp add: triple_done)
next
  case (Suc k)
  have e: "collect f i (Suc k) = (\<lambda>w. do {
      (x, w) \<leftarrow> f i w;
      (xs, w) \<leftarrow> collect f (Suc i) k w;
      Some (x # xs, w) })"
    by (rule ext) simp
  show ?case unfolding e
    by (rule triple_bind [OF assms], rule triple_step [OF Suc], simp, rule triple_done, simp)
qed

section \<open>Reading until a source is exhausted\<close>

text \<open>The body returns the new state and whether to go on; a loop that does not end is \<open>None\<close>.\<close>

partial_function (option) repeat :: "('s \<Rightarrow> world \<Rightarrow> ('s \<times> bool) outcome) \<Rightarrow> 's \<Rightarrow> world \<Rightarrow> 's outcome" where
  "repeat body s w =
     Option.bind (body s w) (\<lambda>((s, go), w). if go then repeat body s w else Some (s, w))"

lemma reads_append [simp]: "reads fn p (es @ fs) = reads fn p es + reads fn p fs"
  by (induction fn p es rule: reads.induct) simp_all

lemma repeat_ends:
  assumes body: "\<And>s. ledger_triple fns (I s) (body s) (\<lambda>(s, go). I s)"
    and progress: "\<And>s w s' w'. body s w = Some ((s', True), w') \<Longrightarrow>
        (\<exists>t. log w' = log w @ t \<and> 1 \<le> reads fn p t) \<and> \<not> stop (lib w) (log w) p"
    and "holds w L (I s)" and "\<forall>t. n \<le> reads fn p t \<longrightarrow> stop (lib w) (log w @ t) p"
    and "repeat body s w = None"
  shows "may_stop fns w"
  using assms(3,4,5)
proof (induction n arbitrary: s w)
  case 0
  then have "stop (lib w) (log w) p" by (metis append_Nil2 le0)
  then have "\<not> (\<exists>s' w'. body s w = Some ((s', True), w'))" using progress by blast
  then have "body s w = None" using 0(3) by (subst (asm) repeat.simps) (auto split: option.splits if_splits bind_splits)
  then show ?case using body [unfolded ledger_triple_def, rule_format, OF 0(1)] by (simp add: wp_def)
next
  case (Suc n)
  have b: "wp (may_stop fns w) (body s w) (\<lambda>(s, go) w'. holds w' L (I s) \<and> unchanged w w')"
    using body [unfolded ledger_triple_def, rule_format, OF Suc.prems(1)] by (simp add: case_prod_unfold)
  show ?case
  proof (cases "\<exists>s' w'. body s w = Some ((s', True), w')")
    case True
    then obtain s' w' where e: "body s w = Some ((s', True), w')" by blast
    then obtain t where t: "log w' = log w @ t" "1 \<le> reads fn p t" using progress by blast
    have h: "holds w' L (I s')" and u: "unchanged w w'" using b e by (simp_all add: wp_def)
    have "\<forall>t'. n \<le> reads fn p t' \<longrightarrow> stop (lib w') (log w' @ t') p"
      using Suc.prems(2) t u by (auto simp: unchanged_def)
    moreover have "repeat body s' w' = None" using Suc.prems(3) e by (subst (asm) repeat.simps) simp
    ultimately have "may_stop fns w'" using Suc.IH [OF h] by blast
    with u show ?thesis by (simp add: may_stop_def unchanged_def)
  next
    case False
    then have "body s w = None"
      using Suc.prems(3) by (subst (asm) repeat.simps) (auto split: option.splits if_splits bind_splits)
    then show ?thesis using b by (simp add: wp_def)
  qed
qed

lemma repeat_keeps:
  assumes "\<And>s. ledger_triple fns (I s) (body s) (\<lambda>(s, go). I s)"
    and "repeat body s w = Some (r, w')" and "holds w L (I s)"
  shows "holds w' L (I r) \<and> unchanged w w'"
proof -
  let ?P = "\<lambda>body s w y. (\<forall>s. ledger_triple fns (I s) (body s) (\<lambda>(s, go). I s)) \<longrightarrow> holds w L (I s) \<longrightarrow>
      holds (snd y) L (I (fst y)) \<and> unchanged w (snd y)"
  have "?P body s w (r, w')"
  proof (rule repeat.raw_induct [where P = ?P, OF _ assms(2)], intro impI)
    fix rep :: "('a \<Rightarrow> world \<Rightarrow> ('a \<times> bool) outcome) \<Rightarrow> 'a \<Rightarrow> world \<Rightarrow> 'a outcome" and body s w y
    assume IH: "\<And>body s w y. rep body s w = Some y \<Longrightarrow> ?P body s w y"
      and y: "Option.bind (body s w) (\<lambda>((s, go), w). if go then rep body s w else Some (s, w)) = Some y"
      and b: "\<forall>s. ledger_triple fns (I s) (body s) (\<lambda>(s, go). I s)" and h: "holds w L (I s)"
    obtain s1 go w1 where e: "body s w = Some ((s1, go), w1)" using y by (auto split: bind_splits)
    then have 1: "holds w1 L (I s1)" "unchanged w w1"
      using b [rule_format, of s, unfolded ledger_triple_def, rule_format, OF h] by (simp_all add: wp_def)
    show "holds (snd y) L (I (fst y)) \<and> unchanged w (snd y)"
      using IH [of body s1 w1 y] b 1 e y unchanged_trans [OF 1(2)] by (auto split: if_splits)
  qed
  then show ?thesis using assms(1,3) by simp
qed

lemma repeat_triple:
  assumes "\<And>s. ledger_triple fns (I s) (body s) (\<lambda>(s, go). I s)"
    and "\<And>s w s' w'. body s w = Some ((s', True), w') \<Longrightarrow>
        (\<exists>t. log w' = log w @ t \<and> 1 \<le> reads fn p t) \<and> \<not> stop (lib w) (log w) p"
    and "fn \<in> set fns" and "\<And>L. fails L fn = (\<not> runs_out fn (stop L))"
  shows "ledger_triple fns (I s) (repeat body s) I"
  unfolding ledger_triple_def
proof (intro allI impI)
  fix w L assume h: "holds w L (I s)"
  have "may_stop fns w" if none: "repeat body s w = None"
  proof (cases "runs_out fn (stop (lib w))")
    case True
    then obtain n where "\<forall>t. n \<le> reads fn p t \<longrightarrow> stop (lib w) (log w @ t) p" unfolding runs_out_def by blast
    from repeat_ends [where stop = stop and fn = fn and p = p, OF assms(1,2) h this none] show ?thesis by simp
  next
    case False
    then show ?thesis using assms(3,4) by (auto simp: may_stop_def list_ex_iff)
  qed
  then show "wp (may_stop fns w) (repeat body s w) (\<lambda>s w'. holds w' L (I s) \<and> unchanged w w')"
    using repeat_keeps [OF assms(1) _ h] by (auto simp: wp_def split: option.split)
qed

end
