(* ===== verification/Tls_Common.thy ===== *)
theory Tls_Common
  imports Objects
begin

text \<open>
  The part of \<open>src/tls.c\<close> that its socket and its memory-BIO endpoints share: protocol versions,
  the key-log buffer, the settings applied to an \<open>SSL_CTX\<close>, the ALPN wire format, and the
  description of the peer.
\<close>

section \<open>Data\<close>

text \<open>Only \<open>internal\<close> carries a value to the caller. It is \<open>None\<close> where the code sets the tag
  and leaves the value of the (uninitialised) result record as it was.\<close>

datatype tls_error =
    Tls_bad_config
  | Tls_handshake_failed
  | Tls_protocol_version
  | Tls_io_closed
  | Tls_would_block
  | Tls_internal "nat option"

text \<open>The conversion \<open>(uint64_t)x\<close> of an \<open>int\<close>.\<close>

definition c_u64 :: "int \<Rightarrow> nat" where
  [c_casts]: "c_u64 i = unat (word_of_int i :: u64)"

text \<open>Results of \<open>SSL_get_error\<close>.\<close>

definition SSL_ERROR_WANT_READ :: int where "SSL_ERROR_WANT_READ = 2"
definition SSL_ERROR_WANT_WRITE :: int where "SSL_ERROR_WANT_WRITE = 3"
definition SSL_ERROR_ZERO_RETURN :: int where "SSL_ERROR_ZERO_RETURN = 6"

definition proto_version :: "nat \<Rightarrow> int" where
  "proto_version p = (if p = 0 then 0x303 else if p = 1 then 0x304 else if p = 2 then 0xfefd else 0)"

section \<open>The key-log buffer\<close>

text \<open>
  The array \<open>lines\<close>, its entries (the copied blocks and the lines in them), its capacity.
  \<open>hooked\<close> says that the ex-data of the connection's \<open>SSL\<close> points to the buffer and that the
  key-log callback is installed, which the code does together, when the configuration asks for
  it.
\<close>

record keylog_buf =
  kl_lines :: ptr
  kl_items :: "(ptr \<times> u8 list) list"
  kl_cap :: nat
  kl_hooked :: bool

definition keylog_buf_init :: "keylog_buf \<Rightarrow> keylog_buf" where
  "keylog_buf_init b = b\<lparr> kl_lines := 0, kl_items := [], kl_cap := 0 \<rparr>"

definition new_keylog :: "bool \<Rightarrow> keylog_buf" where
  "new_keylog h = \<lparr> kl_lines = 0, kl_items = [], kl_cap = 0, kl_hooked = h \<rparr>"

text \<open>The \<open>static int idx\<close>; \<open>statics\<close> holds \<open>idx + 1\<close>, so that it starts at -1.\<close>

definition keylog_ssl_ex_idx :: "world \<Rightarrow> int outcome" where
  "keylog_ssl_ex_idx w =
     (if statics w ''keylog_ssl_ex_idx'' = 0
      then do {
        (a, w) \<leftarrow> ccall ''SSL_get_ex_new_index'' [Val 0, Str ''keylog''] w;
        Some (rc a, w\<lparr> statics := (statics w)(''keylog_ssl_ex_idx'' := nat (rc a + 1)) \<rparr>) }
      else Some (int (statics w ''keylog_ssl_ex_idx'') - 1, w))"

fun keylog_free_items :: "ptr \<Rightarrow> (ptr \<times> u8 list) list \<Rightarrow> world \<Rightarrow> unit outcome" where
  "keylog_free_items arr [] w = Some ((), w)"
| "keylog_free_items arr (x # xs) w = do {
     (_, w) \<leftarrow> deref arr w;
     (_, w) \<leftarrow> cfree (fst x) w;
     keylog_free_items arr xs w }"

definition keylog_buf_clear :: "keylog_buf \<Rightarrow> world \<Rightarrow> keylog_buf outcome" where
  "keylog_buf_clear b w = do {
     (_, w) \<leftarrow> keylog_free_items (kl_lines b) (kl_items b) w;
     (_, w) \<leftarrow> cfree (kl_lines b) w;
     Some (keylog_buf_init b, w) }"

text \<open>\<open>sizeof (char *)\<close> is 4. The sizes computed in this file count objects each of which takes
  more memory than its share of the array, so they stay below the 2^32 at which \<open>szt\<close> wraps.
  The store at \<open>lines[len]\<close> must be inside the array of \<open>cap\<close> pointers.\<close>

definition keylog_buf_append :: "u8 list \<Rightarrow> keylog_buf \<Rightarrow> world \<Rightarrow> keylog_buf outcome" where
  "keylog_buf_append line b w = do {
     ((full, b), w) \<leftarrow>
       (if length (kl_items b) = kl_cap b
        then do {
          let nc = (if kl_cap b \<noteq> 0 then kl_cap b * 2 else 16);
          (grown, w) \<leftarrow> realloc (kl_lines b) (nc * 4) w;
          if grown = 0 then Some ((True, b), w)
          else Some ((False, b\<lparr> kl_lines := grown, kl_cap := nc \<rparr>), w) }
        else Some ((False, b), w));
     if full then Some (b, w)
     else do {
       (copy, w) \<leftarrow> xmalloc (Suc (length line)) w;
       (_, w) \<leftarrow> deref copy w;
       (_, w) \<leftarrow> deref (kl_lines b) w;
       if kl_cap b \<le> length (kl_items b) then None
       else Some (b\<lparr> kl_items := kl_items b @ [(copy, line)] \<rparr>, w) } }"

text \<open>The callback finds its buffer in the ex-data of the \<open>SSL\<close>; without one nothing is
  appended.\<close>

definition keylog_cb :: "u8 list \<Rightarrow> keylog_buf \<Rightarrow> world \<Rightarrow> keylog_buf outcome" where
  "keylog_cb line b w = (if kl_hooked b then keylog_buf_append line b w else Some (b, w))"

fun keylog_cbs :: "u8 list list \<Rightarrow> keylog_buf \<Rightarrow> world \<Rightarrow> keylog_buf outcome" where
  "keylog_cbs [] b w = Some (b, w)"
| "keylog_cbs (l # ls) b w = do {
     (b, w) \<leftarrow> keylog_cb l b w;
     keylog_cbs ls b w }"

text \<open>A call of the TLS engine, which logs keys through the callback before it returns.\<close>

definition ssl_call :: "string \<Rightarrow> arg list \<Rightarrow> keylog_buf \<Rightarrow> world \<Rightarrow> (answer \<times> keylog_buf) outcome" where
  "ssl_call fn args b w = do {
     (a, w) \<leftarrow> ccall fn args w;
     (b, w) \<leftarrow> keylog_cbs (lines a) b w;
     Some ((a, b), w) }"

text \<open>A WIT \<open>list<string>\<close> or \<open>list<list<u8>>\<close>: the array and its elements.\<close>

record list_string =
  ls_at :: ptr
  ls_items :: "list_u8 list"

fun keylog_drain_items :: "ptr \<Rightarrow> ptr \<Rightarrow> (ptr \<times> u8 list) list \<Rightarrow> world \<Rightarrow> list_u8 list outcome" where
  "keylog_drain_items out arr [] w = Some ([], w)"
| "keylog_drain_items out arr (x # xs) w = do {
     (_, w) \<leftarrow> deref arr w;
     (_, w) \<leftarrow> deref (fst x) w;
     (l, w) \<leftarrow> string_take (snd x) w;
     (_, w) \<leftarrow> deref out w;
     (_, w) \<leftarrow> cfree (fst x) w;
     (ls, w) \<leftarrow> keylog_drain_items out arr xs w;
     Some (l # ls, w) }"

definition keylog_buf_drain_to :: "keylog_buf \<Rightarrow> world \<Rightarrow> (list_string \<times> keylog_buf) outcome" where
  "keylog_buf_drain_to b w = do {
     (out, w) \<leftarrow> xmalloc (if 0 < length (kl_items b) then length (kl_items b) * 8 else 8) w;
     (ls, w) \<leftarrow> keylog_drain_items out (kl_lines b) (kl_items b) w;
     (_, w) \<leftarrow> cfree (kl_lines b) w;
     Some ((\<lparr> ls_at = out, ls_items = ls \<rparr>, keylog_buf_init b), w) }"

section \<open>Settings of a context\<close>

definition set_call :: "string \<Rightarrow> ptr \<Rightarrow> arg \<Rightarrow> world \<Rightarrow> unit outcome" where
  "set_call fn p a w = do { (_, w) \<leftarrow> ccall fn [Ptr p, a] w; Some ((), w) }"

definition apply_protocols :: "ptr \<Rightarrow> nat \<times> nat \<Rightarrow> world \<Rightarrow> unit outcome" where
  "apply_protocols ctx r w = do {
     let mn = proto_version (fst r);
     let mx = proto_version (snd r);
     (_, w) \<leftarrow> (if mn \<noteq> 0 then set_call ''SSL_CTX_set_min_proto_version'' ctx (Val mn) w else Some ((), w));
     (if mx \<noteq> 0 then set_call ''SSL_CTX_set_max_proto_version'' ctx (Val mx) w else Some ((), w)) }"

text \<open>A call with a NUL-terminated copy of a WIT string.\<close>

definition with_cstring :: "u8 list \<Rightarrow> (arg \<Rightarrow> world \<Rightarrow> unit outcome) \<Rightarrow> world \<Rightarrow> unit outcome" where
  "with_cstring v f w = do {
     (s, w) \<leftarrow> xmalloc (Suc (length v)) w;
     (_, w) \<leftarrow> deref s w;
     (_, w) \<leftarrow> f (Buf (v @ [0])) w;
     cfree s w }"

record cipher_preferences =
  tls13 :: "u8 list option"
  tls12 :: "u8 list option"

definition apply_ciphers :: "ptr \<Rightarrow> cipher_preferences option \<Rightarrow> world \<Rightarrow> unit outcome" where
  "apply_ciphers ctx cp w = (case cp of
     None \<Rightarrow> Some ((), w)
   | Some c \<Rightarrow> do {
       (_, w) \<leftarrow> (case tls12 c of None \<Rightarrow> Some ((), w)
                | Some v \<Rightarrow> with_cstring v (set_call ''SSL_CTX_set_cipher_list'' ctx) w);
       (case tls13 c of None \<Rightarrow> Some ((), w)
                | Some v \<Rightarrow> with_cstring v (set_call ''SSL_CTX_set_ciphersuites'' ctx) w) })"

definition apply_groups :: "ptr \<Rightarrow> u8 list option \<Rightarrow> world \<Rightarrow> unit outcome" where
  "apply_groups ctx g w = (case g of
     None \<Rightarrow> Some ((), w)
   | Some v \<Rightarrow> with_cstring v (set_call ''SSL_CTX_set1_groups_list'' ctx) w)"

section \<open>ALPN\<close>

text \<open>The second loop of \<open>alpn_wire\<close>: \<open>acc\<close> is what is in the block \<open>buf\<close> of \<open>sz\<close> bytes (\<open>total\<close> in the code); the
  result is \<open>None\<close> when a name is too long. A store beyond the block stops the model.\<close>

fun alpn_fill :: "nat \<Rightarrow> ptr \<Rightarrow> u8 list list \<Rightarrow> u8 list \<Rightarrow> world \<Rightarrow> u8 list option outcome" where
  "alpn_fill sz buf [] acc w = Some (Some acc, w)"
| "alpn_fill sz buf (p # ps) acc w =
     (if 255 < length p then Some (None, w)
      else do {
        (_, w) \<leftarrow> deref buf w;
        if sz < length acc + 1 + length p then None
        else alpn_fill sz buf ps (acc @ word_of_nat (length p) # p) w })"

definition alpn_total :: "u8 list list \<Rightarrow> nat" where
  "alpn_total ps = sum_list (map (\<lambda>p. 1 + length p) ps)"

definition no_list :: list_u8 where "no_list = \<lparr> at = 0, len = 0, bytes = [] \<rparr>"

definition alpn_wire :: "u8 list list option \<Rightarrow> world \<Rightarrow> list_u8 outcome" where
  "alpn_wire a w = (case a of
     None \<Rightarrow> Some (no_list, w)
   | Some ps \<Rightarrow> do {
       let sz = alpn_total ps;
       (buf, w) \<leftarrow> xmalloc (if sz \<noteq> 0 then sz else 1) w;
       (r, w) \<leftarrow> alpn_fill sz buf ps [] w;
       (case r of
          None \<Rightarrow> do { (_, w) \<leftarrow> cfree buf w; Some (no_list, w) }
        | Some bs \<Rightarrow> Some (\<lparr> at = buf, len = sz, bytes = bs \<rparr>, w)) })"

text \<open>
  The selection callback. The list it is given is the wire format followed by a NUL; its length
  is found by a scan over the length bytes. Reading outside the array is \<open>None\<close>.
  \<open>SSL_select_next_proto\<close> is the parameter \<open>select\<close>: the protocol on which the two wire-format
  lists agree, if any.
\<close>

function alpn_scan :: "u8 list \<Rightarrow> nat \<Rightarrow> nat option" where
  "alpn_scan list slen =
     (if length list \<le> slen then None
      else if list ! slen = 0 then Some slen
      else alpn_scan list (slen + 1 + unat (list ! slen)))"
  by pat_completeness auto
termination by (relation "measure (\<lambda>(list, slen). length list - slen)") auto

declare alpn_scan.simps [simp del]

datatype alpn_result = Tlsext_ok "u8 list" | Tlsext_noack

definition alpn_select_cb ::
    "(u8 list \<Rightarrow> u8 list \<Rightarrow> u8 list option) \<Rightarrow> u8 list option \<Rightarrow> u8 list \<Rightarrow> alpn_result option" where
  "alpn_select_cb select server_list inp = (case server_list of
     None \<Rightarrow> Some Tlsext_noack
   | Some l \<Rightarrow> do {
       slen \<leftarrow> alpn_scan l 0;
       (case select (take slen l) inp of
          Some p \<Rightarrow> Some (Tlsext_ok p)
        | None \<Rightarrow> Some Tlsext_noack) })"

section \<open>The peer\<close>

record peer_info =
  pi_protocol :: nat
  pi_cipher_suite :: list_u8
  pi_alpn :: "list_u8 option"
  pi_sni :: "list_u8 option"
  pi_chain_at :: ptr
  pi_chain :: "ptr list"
  pi_resumed :: bool
  pi_group :: "list_u8 option"

text \<open>The certificates of the chain belong to the \<open>SSL\<close>; the caller gets references of its
  own.\<close>

fun chain_certs :: "ptr \<Rightarrow> nat list \<Rightarrow> world \<Rightarrow> ptr list outcome" where
  "chain_certs ssl [] w = Some ([], w)"
| "chain_certs ssl (i # is) w = do {
     (c, w) \<leftarrow> retain (Obj ''X509'') ''X509_up_ref'' [Ptr ssl, Val (int i)] w;
     (cs, w) \<leftarrow> chain_certs ssl is w;
     Some (c # cs, w) }"

definition peer_chain_length :: "ptr \<Rightarrow> world \<Rightarrow> int outcome" where
  "peer_chain_length ssl w = do {
     (a, w) \<leftarrow> ccall ''SSL_get_peer_cert_chain'' [Ptr ssl] w;
     if granted a
     then do { (a, w) \<leftarrow> ccall ''sk_X509_num'' [Ptr ssl] w; Some (rc a, w) }
     else Some (0, w) }"

definition non_empty :: "u8 list option \<Rightarrow> u8 list option" where
  "non_empty t = (if t = Some [] then None else t)"

definition fill_peer_info :: "ptr \<Rightarrow> world \<Rightarrow> peer_info outcome" where
  "fill_peer_info ssl w = do {
     (ver, w) \<leftarrow> ccall ''SSL_version'' [Ptr ssl] w;
     let pr = (if rc ver = 0x304 then 1 else if rc ver = 0xfefd then 2 else 0);
     (cs, w) \<leftarrow> ccall ''SSL_get_cipher_name'' [Ptr ssl] w;
     (suite, w) \<leftarrow> string_take (text_of (text1 cs)) w;
     (al, w) \<leftarrow> ccall ''SSL_get0_alpn_selected'' [Ptr ssl] w;
     (alpn, w) \<leftarrow> take_option (non_empty (text1 al)) w;
     (sn, w) \<leftarrow> ccall ''SSL_get_servername'' [Ptr ssl, Val 0] w;
     (sni, w) \<leftarrow> take_option (non_empty (text1 sn)) w;
     (n, w) \<leftarrow> peer_chain_length ssl w;
     (pc, w) \<leftarrow> xmalloc (if 0 < n then nat n * 4 else 4) w;
     (chain, w) \<leftarrow> chain_certs ssl [0..<nat n] w;
     (rs, w) \<leftarrow> ccall ''SSL_session_reused'' [Ptr ssl] w;
     (gr, w) \<leftarrow> ccall ''SSL_get0_group_name'' [Ptr ssl] w;
     (grp, w) \<leftarrow> take_option (text1 gr) w;
     Some (\<lparr> pi_protocol = pr, pi_cipher_suite = suite, pi_alpn = alpn, pi_sni = sni,
             pi_chain_at = pc, pi_chain = chain, pi_resumed = (rc rs \<noteq> 0), pi_group = grp \<rparr>, w) }"

fun chain_ders :: "ptr \<Rightarrow> ptr \<Rightarrow> nat list \<Rightarrow> world \<Rightarrow> list_u8 list outcome" where
  "chain_ders ssl out [] w = Some ([], w)"
| "chain_ders ssl out (i # is) w = do {
     ((a, buf), w) \<leftarrow> i2d ''i2d_X509'' [Ptr ssl, Val (int i)] w;
     if rc a \<le> 0
     then do {
       (_, w) \<leftarrow> (if buf \<noteq> 0 then OPENSSL_free buf w else Some ((), w));
       chain_ders ssl out is w }
     else do {
       (dup, w) \<leftarrow> xmalloc (nat (rc a)) w;
       (_, w) \<leftarrow> deref dup w;
       (_, w) \<leftarrow> deref buf w;
       (_, w) \<leftarrow> OPENSSL_free buf w;
       (_, w) \<leftarrow> deref out w;
       (ls, w) \<leftarrow> chain_ders ssl out is w;
       Some (\<lparr> at = dup, len = nat (rc a), bytes = encoded a \<rparr> # ls, w) } }"

definition fill_peer_chain_der :: "ptr \<Rightarrow> world \<Rightarrow> list_string outcome" where
  "fill_peer_chain_der ssl w = do {
     (n, w) \<leftarrow> (if ssl \<noteq> 0 then peer_chain_length ssl w else Some (0, w));
     if n \<le> 0 then Some (\<lparr> ls_at = 0, ls_items = [] \<rparr>, w)
     else do {
       (out, w) \<leftarrow> xmalloc (nat n * 8) w;
       (ls, w) \<leftarrow> chain_ders ssl out [0..<nat n] w;
       Some (\<lparr> ls_at = out, ls_items = ls \<rparr>, w) } }"

text \<open>The loops that print OpenSSL's error queue to \<open>stderr\<close>.\<close>

fun print_errors :: "nat \<Rightarrow> world \<Rightarrow> unit outcome" where
  "print_errors 0 w = None"
| "print_errors (Suc n) w = do {
     (a, w) \<leftarrow> ccall ''ERR_get_error'' [] w;
     if c_u32 (rc a) = 0 then Some ((), w)
     else do {
       (_, w) \<leftarrow> ccall ''ERR_error_string_n'' [Val (int (c_u32 (rc a))), Val 256] w;
       print_errors n w } }"

section \<open>Configurations\<close>

text \<open>The fields of the WIT records that the code reads; it never looks at \<open>verify-options\<close>,
  \<open>enable-early-data\<close>, \<open>resume-session\<close>, \<open>sni-hosts\<close> and \<open>session-tickets\<close>.\<close>

record client_config =
  cc_protocols :: "nat \<times> nat"
  cc_verify :: nat
  cc_trust :: "ptr option"
  cc_server_name :: "u8 list option"
  cc_client_cert :: "ptr option"
  cc_client_key :: "ptr option"
  cc_alpn :: "u8 list list option"
  cc_ciphers :: "cipher_preferences option"
  cc_groups :: "u8 list option"
  cc_keylog :: bool

record server_config =
  sc_protocols :: "nat \<times> nat"
  sc_verify :: nat
  sc_client_trust :: "ptr option"
  sc_cert_chain :: "ptr list"
  sc_key :: ptr
  sc_alpn :: "u8 list list option"
  sc_ciphers :: "cipher_preferences option"
  sc_groups :: "u8 list option"
  sc_keylog :: bool

definition wants_dtls :: "nat \<times> nat \<Rightarrow> bool" where
  "wants_dtls r \<longleftrightarrow> fst r = 2 \<or> snd r = 2"

text \<open>\<open>SSL_CTX_set_cert_store\<close> takes over the reference it is given.\<close>

definition set_store :: "ptr \<Rightarrow> ptr option \<Rightarrow> world \<Rightarrow> unit outcome" where
  "set_store ctx trust w = (case trust of
     None \<Rightarrow> Some ((), w)
   | Some s \<Rightarrow> do {
       (r, w) \<leftarrow> retain (Obj ''X509_STORE'') ''X509_STORE_up_ref'' [Ptr s] w;
       (_, w) \<leftarrow> set_call ''SSL_CTX_set_cert_store'' ctx (Ptr r) w;
       (_, w) \<leftarrow> perish r (Obj ''X509_STORE'') w;
       Some ((), w) })"

definition set_opt_call :: "string \<Rightarrow> ptr \<Rightarrow> ptr option \<Rightarrow> world \<Rightarrow> unit outcome" where
  "set_opt_call fn ctx x w = (case x of None \<Rightarrow> Some ((), w) | Some p \<Rightarrow> set_call fn ctx (Ptr p) w)"

definition set_keylog_callback :: "ptr \<Rightarrow> bool \<Rightarrow> world \<Rightarrow> unit outcome" where
  "set_keylog_callback ctx k w =
     (if k then set_call ''SSL_CTX_set_keylog_callback'' ctx (Str ''keylog_cb'') w else Some ((), w))"

text \<open>The settings of a client's context, up to the ALPN offer.\<close>

definition client_settings :: "ptr \<Rightarrow> client_config \<Rightarrow> world \<Rightarrow> unit outcome" where
  "client_settings ctx c w = do {
     (_, w) \<leftarrow> apply_protocols ctx (cc_protocols c) w;
     (_, w) \<leftarrow> apply_ciphers ctx (cc_ciphers c) w;
     (_, w) \<leftarrow> apply_groups ctx (cc_groups c) w;
     (_, w) \<leftarrow> set_call ''SSL_CTX_set_verify'' ctx (Val (if cc_verify c = 0 then 0 else 1)) w;
     (_, w) \<leftarrow> set_store ctx (cc_trust c) w;
     (_, w) \<leftarrow> set_opt_call ''SSL_CTX_use_certificate'' ctx (cc_client_cert c) w;
     (_, w) \<leftarrow> set_opt_call ''SSL_CTX_use_PrivateKey'' ctx (cc_client_key c) w;
     (_, w) \<leftarrow> set_keylog_callback ctx (cc_keylog c) w;
     (alpn, w) \<leftarrow> alpn_wire (cc_alpn c) w;
     if at alpn \<noteq> 0
     then do {
       (_, w) \<leftarrow> ccall ''SSL_CTX_set_alpn_protos'' [Ptr ctx, Buf (bytes alpn), Val (int (len alpn))] w;
       cfree (at alpn) w }
     else Some ((), w) }"

text \<open>\<open>SSL_VERIFY_PEER\<close> is 1, \<open>SSL_VERIFY_FAIL_IF_NO_PEER_CERT\<close> 2.\<close>

definition server_verify_mode :: "nat \<Rightarrow> int" where
  "server_verify_mode v = (if v = 0 then 0 else if v = 1 then 3 else 1)"

fun add_chain :: "ptr \<Rightarrow> ptr list \<Rightarrow> world \<Rightarrow> unit outcome" where
  "add_chain ctx [] w = Some ((), w)"
| "add_chain ctx (c # cs) w = do {
     (_, w) \<leftarrow> set_call ''SSL_CTX_add1_chain_cert'' ctx (Ptr c) w;
     add_chain ctx cs w }"

definition set_chain :: "ptr \<Rightarrow> ptr list \<Rightarrow> world \<Rightarrow> unit outcome" where
  "set_chain ctx cs w = (case cs of
     [] \<Rightarrow> Some ((), w)
   | c # cs \<Rightarrow> do {
       (_, w) \<leftarrow> set_call ''SSL_CTX_use_certificate'' ctx (Ptr c) w;
       add_chain ctx cs w })"

definition server_settings :: "ptr \<Rightarrow> server_config \<Rightarrow> world \<Rightarrow> unit outcome" where
  "server_settings ctx c w = do {
     (_, w) \<leftarrow> apply_protocols ctx (sc_protocols c) w;
     (_, w) \<leftarrow> apply_ciphers ctx (sc_ciphers c) w;
     (_, w) \<leftarrow> apply_groups ctx (sc_groups c) w;
     (_, w) \<leftarrow> set_call ''SSL_CTX_set_verify'' ctx (Val (server_verify_mode (sc_verify c))) w;
     (_, w) \<leftarrow> set_store ctx (sc_client_trust c) w;
     (_, w) \<leftarrow> set_chain ctx (sc_cert_chain c) w;
     (_, w) \<leftarrow> set_call ''SSL_CTX_use_PrivateKey'' ctx (Ptr (sc_key c)) w;
     set_keylog_callback ctx (sc_keylog c) w }"

text \<open>The server's ALPN list, copied with a NUL behind it for the callback's scan.\<close>

definition server_alpn :: "u8 list list option \<Rightarrow> world \<Rightarrow> list_u8 outcome" where
  "server_alpn a w = (case a of
     None \<Rightarrow> Some (no_list, w)
   | Some ps \<Rightarrow> do {
       (wire, w) \<leftarrow> alpn_wire (Some ps) w;
       if at wire = 0 then Some (no_list, w)
       else do {
         (nul, w) \<leftarrow> xmalloc (Suc (len wire)) w;
         (_, w) \<leftarrow> deref nul w;
         (_, w) \<leftarrow> deref (at wire) w;
         (_, w) \<leftarrow> cfree (at wire) w;
         Some (\<lparr> at = nul, len = len wire, bytes = bytes wire @ [0] \<rparr>, w) } })"

definition set_names :: "ptr \<Rightarrow> arg \<Rightarrow> world \<Rightarrow> unit outcome" where
  "set_names ssl a w = do {
     (_, w) \<leftarrow> set_call ''SSL_set_tlsext_host_name'' ssl a w;
     set_call ''SSL_set1_host'' ssl a w }"

text \<open>
  The buffer used while the connection is set up is a block of its own (\<open>pre_keylog\<close>, 12
  bytes); it moves into the representation, and the ex-data with it, once there is one.
\<close>

definition attach_keylog :: "ptr \<Rightarrow> bool \<Rightarrow> world \<Rightarrow> (ptr \<times> keylog_buf) outcome" where
  "attach_keylog ssl k w =
     (if k
      then do {
        (pre, w) \<leftarrow> xmalloc 12 w;
        (_, w) \<leftarrow> deref pre w;
        (idx, w) \<leftarrow> keylog_ssl_ex_idx w;
        (_, w) \<leftarrow> ccall ''SSL_set_ex_data'' [Ptr ssl, Val idx, Ptr pre] w;
        Some ((pre, new_keylog True), w) }
      else Some ((0, new_keylog False), w))"

definition drop_pre_keylog :: "ptr \<Rightarrow> keylog_buf \<Rightarrow> world \<Rightarrow> unit outcome" where
  "drop_pre_keylog pre b w =
     (if pre \<noteq> 0
      then do { (_, w) \<leftarrow> keylog_buf_clear b w; cfree pre w }
      else Some ((), w))"

definition move_keylog :: "ptr \<Rightarrow> ptr \<Rightarrow> ptr \<Rightarrow> keylog_buf \<Rightarrow> world \<Rightarrow> keylog_buf outcome" where
  "move_keylog ssl self pre b w =
     (if pre \<noteq> 0
      then do {
        (_, w) \<leftarrow> deref pre w;
        (_, w) \<leftarrow> cfree pre w;
        (idx, w) \<leftarrow> keylog_ssl_ex_idx w;
        (_, w) \<leftarrow> ccall ''SSL_set_ex_data'' [Ptr ssl, Val idx, Ptr self] w;
        Some (b, w) }
      else Some (new_keylog False, w))"

section \<open>Resource safety\<close>

definition keylog_ok :: "keylog_buf \<Rightarrow> bool" where
  "keylog_ok b \<longleftrightarrow> length (kl_items b) \<le> kl_cap b \<and> (kl_lines b = 0 \<longrightarrow> kl_cap b = 0)"

definition lines_fp :: "(ptr \<times> u8 list) list \<Rightarrow> footprint" where
  "lines_fp xs = map (\<lambda>x. (fst x, Mem)) xs"

definition keylog_owns :: "keylog_buf \<Rightarrow> footprint" where
  "keylog_owns b = guarded (keylog_ok b) (own (kl_lines b) Mem @ lines_fp (kl_items b))"

definition lists_fp :: "list_u8 list \<Rightarrow> footprint" where
  "lists_fp ls = concat (map (\<lambda>l. own (at l) Mem) ls)"

definition strings_fp :: "list_string \<Rightarrow> footprint" where
  "strings_fp l = own (ls_at l) Mem @ lists_fp (ls_items l)"

lemma fp_lists_simps [simp]:
  "lines_fp [] = []" "lines_fp (x # xs) = (fst x, Mem) # lines_fp xs"
  "lines_fp (xs @ ys) = lines_fp xs @ lines_fp ys"
  "lists_fp [] = []" "lists_fp (l # ls) = own (at l) Mem @ lists_fp ls"
  by (simp_all add: lines_fp_def lists_fp_def)

lemma keylog_free_items_triple:
  "(arr = 0 \<Longrightarrow> xs = []) \<Longrightarrow>
   ledger_triple fns (own arr Mem @ lines_fp xs) (keylog_free_items arr xs) (\<lambda>_. own arr Mem)"
proof (induction xs)
  case Nil
  have "keylog_free_items arr [] = (\<lambda>w. Some ((), w))" by (rule ext) simp
  then show ?case by (simp only:) (rule step_ret, simp)
next
  case (Cons x xs)
  then have a: "arr \<noteq> 0" by auto
  have e: "keylog_free_items arr (x # xs) = (\<lambda>w. do {
     (_, w) \<leftarrow> deref arr w; (_, w) \<leftarrow> cfree (fst x) w; keylog_free_items arr xs w })"
    by (rule ext) simp
  show ?case unfolding e using Cons a
    by (simp only: own_simps fp_lists_simps append.simps)
      (rule step_deref, simp, rule step_release(2) [where k = Mem], (rule fp_rules)+, simp_all)
qed

lemma keylog_init_owns [simp]: "keylog_owns (keylog_buf_init b) = []" "keylog_owns (new_keylog h) = []"
  by (simp_all add: keylog_owns_def keylog_ok_def keylog_buf_init_def new_keylog_def)

lemma keylog_guard:
  assumes "keylog_ok b \<Longrightarrow> ledger_triple fns (own (kl_lines b) Mem @ lines_fp (kl_items b) @ F) m B"
  shows "ledger_triple fns (keylog_owns b @ F) m B"
proof (rule triple_guarded)
  show "fp (keylog_owns b @ F) (guarded (keylog_ok b) (own (kl_lines b) Mem @ lines_fp (kl_items b))) F"
    by (simp add: keylog_owns_def fp_def)
  show "ledger_triple fns ((own (kl_lines b) Mem @ lines_fp (kl_items b)) @ F) m B" if "keylog_ok b"
    unfolding append_assoc by (rule assms [OF that])
qed

lemma keylog_buf_clear_triple:
  "ledger_triple fns (keylog_owns b @ []) (keylog_buf_clear b) (\<lambda>_. [])"
  unfolding keylog_buf_clear_def
  by (rule keylog_guard, rule keylog_free_items_triple [THEN triple_step1])
    (auto simp: keylog_ok_def intro!: step_release_own fp_rules step_ret)

lemma keylog_okD:
  "keylog_ok b \<Longrightarrow> kl_lines b = 0 \<Longrightarrow> kl_items b = []"
  "keylog_ok b \<Longrightarrow> length (kl_items b) \<noteq> kl_cap b \<Longrightarrow> kl_lines b \<noteq> 0"
  by (auto simp: keylog_ok_def)

lemma keylog_buf_append_triple:
  "ledger_triple [''malloc''] (keylog_owns b @ []) (keylog_buf_append line b) keylog_owns"
  unfolding keylog_buf_append_def
  by (rule keylog_guard)
    ((assumption | rule step_if_known, assumption | rule steps_first | rule step_calls | rule steps | rule fp_rules
     | (simp add: keylog_okD(2); fail) | (simp add: keylog_owns_def keylog_ok_def split: if_splits; fail))+)

lemma keylog_cbs_triple:
  "ledger_triple [''malloc''] (keylog_owns b) (keylog_cbs ls b) keylog_owns"
proof (induction ls arbitrary: b)
  case Nil
  have "keylog_cbs [] b = (\<lambda>w. Some (b, w))" by (rule ext) simp
  then show ?case by (simp add: triple_ret)
next
  case (Cons l ls)
  have e: "keylog_cbs (l # ls) b = (\<lambda>w. do { (b, w) \<leftarrow> keylog_cb l b w; keylog_cbs ls b w })"
    by (rule ext) simp
  have "ledger_triple [''malloc''] (keylog_owns b) (keylog_cb l b) keylog_owns"
  proof (cases "kl_hooked b")
    case True
    then have "keylog_cb l b = keylog_buf_append l b" by (simp add: keylog_cb_def fun_eq_iff)
    then show ?thesis using keylog_buf_append_triple [of b l] by simp
  next
    case False
    then have "keylog_cb l b = (\<lambda>w. Some (b, w))" by (simp add: keylog_cb_def fun_eq_iff)
    then show ?thesis by (simp add: triple_ret)
  qed
  then show ?case unfolding e by (rule triple_bind) (rule Cons.IH)
qed

text \<open>A call of the engine keeps the buffer well formed and may let it grow.\<close>

lemma step_ssl_call [step_calls]:
  assumes "fp A (keylog_owns b) F" and "list_all (usable_fp A) args"
    and "\<And>a b. ledger_triple fns (keylog_owns b @ F) (f a b) C" and "''malloc'' \<in> set fns"
  shows "ledger_triple fns A (\<lambda>w. Option.bind (ssl_call fn args b w) (\<lambda>((a, b), w). f a b w)) C"
  unfolding ssl_call_def
  apply (rule step_bind_assoc, rule step_ccall)
   apply (simp add: assms(2))
  apply (rule step_bind_assoc)
  apply (rule triple_step1 [OF triple_weaken [OF keylog_cbs_triple] assms(1)])
  using assms by (auto intro: step_bind_ret2)

lemma keylog_drain_items_triple:
  "(arr = 0 \<Longrightarrow> xs = []) \<Longrightarrow> out \<noteq> 0 \<Longrightarrow>
   ledger_triple [''malloc''] ((out, Mem) # own arr Mem @ lines_fp xs) (keylog_drain_items out arr xs)
     (\<lambda>ls. (out, Mem) # own arr Mem @ lists_fp ls)"
proof (induction xs)
  case Nil
  have e: "keylog_drain_items out arr [] = (\<lambda>w. Some ([], w))" by (rule ext) simp
  show ?case unfolding e by (rule step_ret) simp
next
  case (Cons x xs)
  then have a: "arr \<noteq> 0" by auto
  have e: "keylog_drain_items out arr (x # xs) = (\<lambda>w. do {
     (_, w) \<leftarrow> deref arr w;
     (_, w) \<leftarrow> deref (fst x) w;
     (l, w) \<leftarrow> string_take (snd x) w;
     (_, w) \<leftarrow> deref out w;
     (_, w) \<leftarrow> cfree (fst x) w;
     (ls, w) \<leftarrow> keylog_drain_items out arr xs w;
     Some (l # ls, w) })"
    by (rule ext) simp
  have IH: "ledger_triple [''malloc''] ((out, Mem) # (arr, Mem) # lines_fp xs) (keylog_drain_items out arr xs)
     (\<lambda>ls. (out, Mem) # (arr, Mem) # lists_fp ls)" using Cons a by simp
  show ?case unfolding e using Cons.prems a
    apply (simp only: own_simps fp_lists_simps append.simps simp_thms)
  apply    ((assumption | rule step_if_known, assumption | rule steps_first | rule IH [THEN triple_step1] | rule steps | rule fp_rules
     | (simp add: ac_simps; fail))+)
    done
qed

lemma keylog_buf_drain_to_triple:
  "ledger_triple [''malloc''] (keylog_owns b @ []) (keylog_buf_drain_to b) (\<lambda>(l, b). strings_fp l @ keylog_owns b)"
  unfolding keylog_buf_drain_to_def
    apply (rule keylog_guard)
  apply    ((assumption | rule step_if_known, assumption | rule steps_first | rule keylog_drain_items_triple [THEN triple_step1] | rule step_release_own | rule steps | rule fp_rules
     | (simp add: keylog_okD(1) strings_fp_def; fail))+)
  done

text \<open>Calls that leave the footprint as it is.\<close>

lemma set_call_triple: "list_all (usable_fp A) [Ptr p, a] \<Longrightarrow> ledger_triple fns A (set_call fn p a) (\<lambda>_. A)"
  unfolding set_call_def by (rule step_ccall, assumption, rule step_ret, simp)

lemma with_cstring_triple:
  "''malloc'' \<in> set fns \<Longrightarrow> p \<in> fst ` set A \<Longrightarrow>
   ledger_triple fns A (with_cstring v (set_call fn p)) (\<lambda>_. A)"
  unfolding with_cstring_def
  by (rule step_tail(1) | rule set_call_triple [THEN triple_bind] | rule steps | rule fp_rules | (simp; fail))+

lemma apply_protocols_triple:
  "''malloc'' \<in> set fns \<Longrightarrow> p \<in> fst ` set A \<Longrightarrow> ledger_triple fns A (apply_protocols p r) (\<lambda>_. A)"
  unfolding apply_protocols_def
  by (rule step_bind_ret | rule set_call_triple [THEN triple_bind] | rule set_call_triple | rule steps | (simp; fail))+

lemma apply_ciphers_triple:
  "''malloc'' \<in> set fns \<Longrightarrow> p \<in> fst ` set A \<Longrightarrow> ledger_triple fns A (apply_ciphers p c) (\<lambda>_. A)"
  unfolding apply_ciphers_def
  by (assumption | rule step_bind_ret | rule with_cstring_triple [THEN triple_bind] | rule with_cstring_triple
    | rule steps | (simp; fail))+

lemma apply_groups_triple:
  "''malloc'' \<in> set fns \<Longrightarrow> p \<in> fst ` set A \<Longrightarrow> ledger_triple fns A (apply_groups p g) (\<lambda>_. A)"
  unfolding apply_groups_def
  by (assumption | rule with_cstring_triple | rule steps | (simp; fail))+

lemmas step_apply [step_calls] =
  set_call_triple [THEN triple_bind] apply_protocols_triple [THEN triple_bind]
  apply_ciphers_triple [THEN triple_bind] apply_groups_triple [THEN triple_bind]
  with_cstring_triple [THEN triple_bind]

lemma alpn_fill_triple:
  "sz = length acc + alpn_total ps \<Longrightarrow> ledger_triple fns [(buf, Mem)] (alpn_fill sz buf ps acc) (\<lambda>_. [(buf, Mem)])"
proof (induction ps arbitrary: acc)
  case Nil
  have "alpn_fill sz buf [] acc = (\<lambda>w. Some (Some acc, w))" by (rule ext) simp
  then show ?case by (simp add: triple_done)
next
  case (Cons p ps)
  have e: "alpn_fill sz buf (p # ps) acc = (\<lambda>w.
     if 255 < length p then Some (None, w)
     else do {
        (_, w) \<leftarrow> deref buf w;
        if sz < length acc + 1 + length p then None
        else alpn_fill sz buf ps (acc @ word_of_nat (length p) # p) w })"
    by (rule ext) simp
  show ?case unfolding e
  proof (intro step_if step_deref)
    show "ledger_triple fns [(buf, Mem)] (alpn_fill sz buf ps (acc @ word_of_nat (length p) # p)) (\<lambda>_. [(buf, Mem)])"
      by (rule Cons.IH) (use Cons.prems in \<open>simp add: alpn_total_def\<close>)
  qed (use Cons.prems in \<open>auto simp: alpn_total_def triple_done\<close>)
qed

lemma alpn_wire_triple: "''malloc'' \<in> set fns \<Longrightarrow> ledger_triple fns [] (alpn_wire a) (\<lambda>l. own (at l) Mem)"
  unfolding alpn_wire_def
  by (assumption | rule alpn_fill_triple [THEN triple_step1] | rule steps | rule fp_rules | (simp add: no_list_def; fail))+

lemma chain_certs_triple:
  "ssl \<in> fst ` set F \<Longrightarrow>
   ledger_triple fns F (chain_certs ssl is) (\<lambda>cs. map (\<lambda>c. (c, Obj ''X509'')) cs @ F)"
proof (induction "is" arbitrary: F)
  case Nil
  have "chain_certs ssl [] = (\<lambda>w. Some ([], w))" by (rule ext) simp
  then show ?case by (simp add: triple_done)
next
  case (Cons i "is")
  have e: "chain_certs ssl (i # is) = (\<lambda>w. do {
     (c, w) \<leftarrow> retain (Obj ''X509'') ''X509_up_ref'' [Ptr ssl, Val (int i)] w;
     (cs, w) \<leftarrow> chain_certs ssl is w;
     Some (c # cs, w) })"
    by (rule ext) simp
  show ?case unfolding e
    by (rule step_retain, use Cons.prems in simp, rule triple_bind [OF Cons.IH], use Cons.prems in simp)
      (simp add: triple_done)
qed

definition opt_fp :: "list_u8 option \<Rightarrow> footprint" where
  "opt_fp t = (case t of None \<Rightarrow> [] | Some l \<Rightarrow> own (at l) Mem)"

lemma opt_fp_simps [simp]: "opt_fp None = []" "opt_fp (Some l) = own (at l) Mem"
  by (simp_all add: opt_fp_def)

lemma step_take_option [step_calls]:
  assumes "''malloc'' \<in> set fns" and "\<And>l. ledger_triple fns (opt_fp l @ A) (f l) C"
  shows "ledger_triple fns A (\<lambda>w. Option.bind (take_option t w) (\<lambda>(l, w). f l w)) C"
proof (rule triple_bind [OF _ assms(2)])
  show "ledger_triple fns A (take_option t) (\<lambda>l. opt_fp l @ A)"
    unfolding take_option_def
    by (assumption | rule assms(1) | rule steps | (simp; fail))+
qed

lemma step_peer_chain_length [step_calls]:
  assumes "ssl \<in> fst ` set A" and "\<And>n. ledger_triple fns A (f n) C"
  shows "ledger_triple fns A (\<lambda>w. Option.bind (peer_chain_length ssl w) (\<lambda>(n, w). f n w)) C"
proof (rule triple_bind [OF _ assms(2)])
  show "ledger_triple fns A (peer_chain_length ssl) (\<lambda>l. A)"
    unfolding peer_chain_length_def using assms(1)
    by (intro steps) simp_all
qed

definition peer_owns :: "peer_info \<Rightarrow> footprint" where
  "peer_owns p = own (at (pi_cipher_suite p)) Mem @ opt_fp (pi_alpn p) @ opt_fp (pi_sni p) @
     own (pi_chain_at p) Mem @ map (\<lambda>c. (c, Obj ''X509'')) (pi_chain p) @ opt_fp (pi_group p)"

lemma fill_peer_info_triple:
  "''malloc'' \<in> set fns \<Longrightarrow> ssl \<in> fst ` set A \<Longrightarrow> ledger_triple fns A (fill_peer_info ssl) (\<lambda>p. peer_owns p @ A)"
  unfolding fill_peer_info_def
  by (assumption | rule step_calls | rule chain_certs_triple [THEN triple_bind] | rule steps | (simp add: peer_owns_def; fail))+

lemma chain_ders_triple:
  "''malloc'' \<in> set fns \<Longrightarrow> ssl \<in> fst ` set F \<Longrightarrow> out \<in> fst ` set F \<Longrightarrow>
   ledger_triple fns F (chain_ders ssl out is) (\<lambda>ls. lists_fp ls @ F)"
proof (induction "is" arbitrary: F)
  case Nil
  have "chain_ders ssl out [] = (\<lambda>w. Some ([], w))" by (rule ext) simp
  then show ?case by (simp add: triple_done)
next
  case (Cons i "is")
  have e: "chain_ders ssl out (i # is) = (\<lambda>w. do {
     ((a, buf), w) \<leftarrow> i2d ''i2d_X509'' [Ptr ssl, Val (int i)] w;
     if rc a \<le> 0
     then do {
       (_, w) \<leftarrow> (if buf \<noteq> 0 then OPENSSL_free buf w else Some ((), w));
       chain_ders ssl out is w }
     else do {
       (dup, w) \<leftarrow> xmalloc (nat (rc a)) w;
       (_, w) \<leftarrow> deref dup w;
       (_, w) \<leftarrow> deref buf w;
       (_, w) \<leftarrow> OPENSSL_free buf w;
       (_, w) \<leftarrow> deref out w;
       (ls, w) \<leftarrow> chain_ders ssl out is w;
       Some (\<lparr> at = dup, len = nat (rc a), bytes = encoded a \<rparr> # ls, w) } })"
    by (rule ext) simp
  show ?case unfolding e OPENSSL_free_def
    by (rule Cons.prems | rule step_if_known, assumption | rule steps_first | rule Cons.IH [THEN triple_bind] | rule Cons.IH
      | rule steps | rule fp_rules | (simp add: Cons.prems; fail))+
qed

lemma fill_peer_chain_der_triple:
  "''malloc'' \<in> set fns \<Longrightarrow> ssl \<in> fst ` set A \<Longrightarrow> ledger_triple fns A (fill_peer_chain_der ssl) (\<lambda>l. strings_fp l @ A)"
  unfolding fill_peer_chain_der_def
  by (assumption | rule step_calls | rule chain_ders_triple [THEN triple_bind] | rule steps | (simp add: strings_fp_def; fail))+

lemma print_errors_runs:
  "holds w L A \<Longrightarrow> S \<or> queue_ends n (lib w) (log w) \<Longrightarrow>
   wp S (print_errors n w) (\<lambda>_ w'. holds w' L A \<and> unchanged w w')"
proof (induction n arbitrary: w)
  case 0
  then show ?case by (simp add: wp_stop)
next
  case (Suc n)
  let ?a = "lib w (log w) ''ERR_get_error'' []"
  let ?w1 = "record_call ''ERR_get_error'' [] 0 w"
  let ?args = "[Val (int (c_u32 (rc ?a))), Val 256]"
  let ?w2 = "record_call ''ERR_error_string_n'' ?args 0 ?w1"
  have h: "holds ?w1 L A" "holds ?w2 L A" by (rule holds_same [OF Suc.prems(1)]; simp)+
  have u: "unchanged w ?w1" "unchanged w ?w2" by (simp_all add: unchanged_def usable_def)
  show ?case
  proof (cases "c_u32 (rc ?a) = 0")
    case True
    then show ?thesis using h u by (simp add: wp_def ccall_def)
  next
    case False
    then have "S \<or> queue_ends n (lib ?w2) (log ?w2)" using Suc.prems(2) by (simp add: Let_def)
    from Suc.IH [OF h(2) this] have "wp S (print_errors n ?w2) (\<lambda>_ w'. holds w' L A \<and> unchanged w w')"
      by (rule wp_conseq) (use unchanged_trans [OF u(2)] in blast)
    with False show ?thesis by (simp add: ccall_def)
  qed
qed

lemma print_errors_triple: "''ERR_get_error'' \<in> set fns \<Longrightarrow> ledger_triple fns A (print_errors 17) (\<lambda>_. A)"
  unfolding ledger_triple_def
proof (intro allI impI)
  fix w L assume q: "''ERR_get_error'' \<in> set fns" and h: "holds w L A"
  have "may_stop fns w \<or> drains (lib w)"
    using q fails_exceptional(1) [of "lib w"] unfolding may_stop_def list_ex_iff by metis
  then have "may_stop fns w \<or> queue_ends 17 (lib w) (log w)"
    unfolding drains_def by blast
  then show "wp (may_stop fns w) (print_errors 17 w) (\<lambda>_ w'. holds w' L A \<and> unchanged w w')"
    by (rule print_errors_runs [OF h])
qed

section \<open>Resource safety of the set-up\<close>

lemma keylog_ssl_ex_idx_triple: "ledger_triple fns A keylog_ssl_ex_idx (\<lambda>_. A)"
  unfolding ledger_triple_def
  by (auto simp: keylog_ssl_ex_idx_def wp_def ccall_def unchanged_def usable_def intro: holds_same)

lemma set_store_triple:
  "ctx \<in> fst ` set A \<Longrightarrow> (\<And>s. t = Some s \<Longrightarrow> s \<in> fst ` set A) \<Longrightarrow> ledger_triple fns A (set_store ctx t) (\<lambda>_. A)"
  unfolding set_store_def
  by (rule step_calls | rule steps | rule fp_rules | (simp; fail))+

lemma set_opt_call_triple:
  "ctx \<in> fst ` set A \<Longrightarrow> (\<And>s. t = Some s \<Longrightarrow> s \<in> fst ` set A) \<Longrightarrow> ledger_triple fns A (set_opt_call fn ctx t) (\<lambda>_. A)"
  unfolding set_opt_call_def
  by (rule set_call_triple | rule steps | (simp; fail))+

lemma set_keylog_callback_triple:
  "ctx \<in> fst ` set A \<Longrightarrow> ledger_triple fns A (set_keylog_callback ctx k) (\<lambda>_. A)"
  unfolding set_keylog_callback_def
  by (rule set_call_triple | rule steps | (simp; fail))+

lemma add_chain_triple:
  "ctx \<in> fst ` set A \<Longrightarrow> set cs \<subseteq> fst ` set A \<Longrightarrow> ledger_triple fns A (add_chain ctx cs) (\<lambda>_. A)"
proof (induction cs)
  case Nil
  have "add_chain ctx [] = (\<lambda>w. Some ((), w))" by (rule ext) simp
  then show ?case by (simp only:) (rule step_ret, simp)
next
  case (Cons c cs)
  have "add_chain ctx (c # cs) = (\<lambda>w. do {
     (_, w) \<leftarrow> set_call ''SSL_CTX_add1_chain_cert'' ctx (Ptr c) w; add_chain ctx cs w })"
    by (rule ext) simp
  then show ?case using Cons by (simp add: set_call_triple [THEN triple_bind])
qed

lemma set_chain_triple:
  "ctx \<in> fst ` set A \<Longrightarrow> set cs \<subseteq> fst ` set A \<Longrightarrow> ledger_triple fns A (set_chain ctx cs) (\<lambda>_. A)"
  by (cases cs) (simp_all add: set_chain_def [abs_def] step_ret set_call_triple [THEN triple_bind] add_chain_triple)

lemmas step_set [step_calls] =
  keylog_ssl_ex_idx_triple [THEN triple_bind] set_store_triple [THEN triple_bind] set_opt_call_triple [THEN triple_bind]
  set_keylog_callback_triple [THEN triple_bind] set_chain_triple [THEN triple_bind]
  alpn_wire_triple [THEN triple_step1]

text \<open>The caller's objects that a configuration refers to.\<close>

definition client_refs :: "client_config \<Rightarrow> ptr set" where
  "client_refs c = set_option (cc_trust c) \<union> set_option (cc_client_cert c) \<union> set_option (cc_client_key c)"

definition server_refs :: "server_config \<Rightarrow> ptr set" where
  "server_refs c = set_option (sc_client_trust c) \<union> set (sc_cert_chain c) \<union> {sc_key c}"

lemma client_settings_triple:
  "''malloc'' \<in> set fns \<Longrightarrow> ctx \<in> fst ` set A \<Longrightarrow> client_refs c \<subseteq> fst ` set A \<Longrightarrow>
   ledger_triple fns A (client_settings ctx c) (\<lambda>_. A)"
  unfolding client_settings_def client_refs_def
  by (assumption | rule step_calls | rule steps | rule fp_rules | (simp; fail) | (auto; fail))+

lemma server_settings_triple:
  "''malloc'' \<in> set fns \<Longrightarrow> ctx \<in> fst ` set A \<Longrightarrow> server_refs c \<subseteq> fst ` set A \<Longrightarrow>
   ledger_triple fns A (server_settings ctx c) (\<lambda>_. A)"
  unfolding server_settings_def server_refs_def
  by (assumption | rule step_calls | rule set_keylog_callback_triple | (simp; fail) | (auto; fail))+

lemma server_alpn_triple:
  "''malloc'' \<in> set fns \<Longrightarrow> ledger_triple fns A (server_alpn a) (\<lambda>l. own (at l) Mem @ A)"
  unfolding server_alpn_def
  by (assumption | rule step_if_known, assumption | rule steps_first | rule step_calls | rule steps | rule fp_rules | (simp add: no_list_def; fail)
    | (simp only: own_simps append.simps))+

lemma set_names_triple:
  "list_all (usable_fp A) [Ptr ssl, a] \<Longrightarrow> ledger_triple fns A (set_names ssl a) (\<lambda>_. A)"
  unfolding set_names_def by (assumption | rule step_calls | rule set_call_triple)+

lemma with_cstring_names_triple:
  "''malloc'' \<in> set fns \<Longrightarrow> ssl \<in> fst ` set A \<Longrightarrow> ledger_triple fns A (with_cstring v (set_names ssl)) (\<lambda>_. A)"
  unfolding with_cstring_def
  by (rule step_tail(1) | rule set_names_triple [THEN triple_bind] | rule steps | rule fp_rules | (simp; fail))+

text \<open>While a connection is set up its key-log buffer is a block of its own.\<close>

definition pre_owns :: "ptr \<Rightarrow> keylog_buf \<Rightarrow> footprint" where
  "pre_owns pre b = guarded (pre = 0 \<longrightarrow> b = new_keylog False) (own pre Mem) @ keylog_owns b"

lemma attach_keylog_triple:
  "''malloc'' \<in> set fns \<Longrightarrow> ssl \<in> fst ` set A \<Longrightarrow>
   ledger_triple fns A (attach_keylog ssl k) (\<lambda>(pre, b). pre_owns pre b @ A)"
  unfolding attach_keylog_def
  by (assumption | rule step_calls | rule steps | (simp add: pre_owns_def; fail))+

lemma drop_pre_keylog_triple:
  "ledger_triple fns (pre_owns pre b) (drop_pre_keylog pre b) (\<lambda>_. [])"
  unfolding drop_pre_keylog_def pre_owns_def
  by (rule triple_guarded, rule fp_rules)
    (assumption | rule steps_first | rule keylog_buf_clear_triple [THEN triple_step1] | rule step_tail(1) | rule steps | rule fp_rules
    | (simp only: own_simps append.simps append_Nil2 simp_thms keylog_init_owns) | (simp; fail))+

lemma move_keylog_triple:
  "ssl \<in> fst ` set A \<Longrightarrow> self \<in> fst ` set A \<Longrightarrow>
   ledger_triple fns (pre_owns pre b @ A) (move_keylog ssl self pre b) (\<lambda>b. keylog_owns b @ A)"
  unfolding move_keylog_def pre_owns_def
  by (rule triple_guarded, (rule fp_rules)+)
    (assumption | rule steps_first | rule step_calls | rule steps | rule fp_rules
    | (simp only: own_simps append.simps append_Nil2 simp_thms keylog_init_owns) | (simp; fail))+

section \<open>The key log is complete\<close>

definition logging :: "world \<Rightarrow> bool" where
  "logging w \<longleftrightarrow> grants (lib w) ''malloc'' \<and> grants (lib w) ''realloc'' \<and> 0 < nxt w"

lemma keylog_buf_append_runs:
  assumes "logging w" and "keylog_ok b"
  shows "\<exists>b' w'. keylog_buf_append l b w = Some (b', w') \<and> logging w' \<and> keylog_ok b' \<and>
    map snd (kl_items b') = map snd (kl_items b) @ [l] \<and> kl_hooked b' = kl_hooked b"
proof (cases "length (kl_items b) = kl_cap b")
  case True
  then show ?thesis using assms
    by (auto simp: keylog_buf_append_def run_eqs logging_def reallocated_simps keylog_ok_def Let_def)
next
  case False
  then have "length (kl_items b) < kl_cap b" using assms(2) by (simp add: keylog_ok_def)
  then show ?thesis using assms
    by (auto simp: keylog_buf_append_def run_eqs logging_def keylog_ok_def)
qed

lemma keylog_cbs_runs:
  assumes "logging w" and "keylog_ok b" and "kl_hooked b"
  shows "\<exists>b' w'. keylog_cbs ls b w = Some (b', w') \<and> logging w' \<and> keylog_ok b' \<and>
    map snd (kl_items b') = map snd (kl_items b) @ ls \<and> kl_hooked b'"
  using assms
proof (induction ls arbitrary: b w)
  case (Cons l ls)
  obtain b1 w1 where 1: "keylog_buf_append l b w = Some (b1, w1)" "logging w1" "keylog_ok b1"
      "map snd (kl_items b1) = map snd (kl_items b) @ [l]" "kl_hooked b1"
    using keylog_buf_append_runs [OF Cons.prems(1,2), of l] Cons.prems(3) by auto
  obtain b2 w2 where "keylog_cbs ls b1 w1 = Some (b2, w2)" "logging w2" "keylog_ok b2"
      "map snd (kl_items b2) = map snd (kl_items b1) @ ls" "kl_hooked b2"
    using Cons.IH [OF 1(2,3,5)] by auto
  with 1 Cons.prems(3) show ?case by (simp add: keylog_cb_def)
qed simp

lemma keylog_drain_items_runs:
  "logging w \<Longrightarrow> \<exists>ls w'. keylog_drain_items out arr xs w = Some (ls, w') \<and> logging w' \<and>
     map bytes ls = map snd xs \<and> map len ls = map (length \<circ> snd) xs"
proof (induction xs arbitrary: w)
  case (Cons x xs)
  let ?n = "if length (snd x) \<noteq> 0 then length (snd x) else 1"
  let ?w = "released Mem ''free'' (fst x) (touched out
      (acquired Mem ''malloc'' [Val (int ?n)] (touched (fst x) (touched arr w))))"
  have "logging ?w" using Cons.prems by (simp add: logging_def)
  from Cons.IH [OF this] show ?case using Cons.prems
    by (auto simp: run_eqs logging_def)
qed simp

lemma keylog_buf_drain_to_runs:
  assumes "logging w"
  shows "\<exists>l w'. keylog_buf_drain_to b w = Some ((l, keylog_buf_init b), w') \<and> logging w' \<and>
    map bytes (ls_items l) = map snd (kl_items b) \<and> map len (ls_items l) = map (length \<circ> snd) (kl_items b)"
proof -
  let ?w = "acquired Mem ''malloc'' [Val (int (if 0 < length (kl_items b) then length (kl_items b) * 8 else 8))] w"
  have "logging ?w" using assms by (simp add: logging_def)
  from keylog_drain_items_runs [OF this, of "nxt w" "kl_lines b" "kl_items b"] show ?thesis using assms
    by (auto simp: keylog_buf_drain_to_def run_eqs logging_def)
qed

section \<open>The ALPN wire format\<close>

text \<open>RFC 7301: each protocol name is preceded by its length, a byte.\<close>

definition alpn_encode :: "u8 list list \<Rightarrow> u8 list" where
  "alpn_encode ps = concat (map (\<lambda>p. word_of_nat (length p) # p) ps)"

lemma alpn_encode_simps [simp]:
  "alpn_encode [] = []" "alpn_encode (p # ps) = word_of_nat (length p) # p @ alpn_encode ps"
  by (simp_all add: alpn_encode_def)




lemma unat_length [simp]: "length p \<le> 255 \<Longrightarrow> unat (word_of_nat (length p) :: u8) = length p"
  by (simp add: unsigned_of_nat take_bit_nat_eq_self)



text \<open>The scan stops at the NUL after the list or at an empty name, whichever comes first.\<close>

lemma alpn_scan_encode:
  "list_all (\<lambda>p. length p \<le> 255) ps \<Longrightarrow>
   alpn_scan (pre @ alpn_encode ps @ [0]) (length pre) =
     Some (length pre + length (alpn_encode (takeWhile (\<lambda>p. p \<noteq> []) ps)))"
proof (induction ps arbitrary: pre)
  case Nil
  then show ?case by (simp add: alpn_scan.simps [of _ "length pre"])
next
  case (Cons p ps)
  let ?n = "word_of_nat (length p) :: u8"
  show ?case
  proof (cases "p = []")
    case True
    then show ?thesis by (simp add: alpn_scan.simps [of _ "length pre"])
  next
    case False
    with Cons.prems have "unat ?n \<noteq> 0" using unat_length [of p] by simp
    then have "?n \<noteq> 0" by (metis unsigned_0)
    then have "alpn_scan (pre @ alpn_encode (p # ps) @ [0]) (length pre) =
        alpn_scan ((pre @ ?n # p) @ alpn_encode ps @ [0]) (length (pre @ ?n # p))"
      using Cons.prems by (simp add: alpn_scan.simps [of _ "length pre"])
    also have "\<dots> = Some (length (pre @ ?n # p) + length (alpn_encode (takeWhile (\<lambda>p. p \<noteq> []) ps)))"
      using Cons by (intro Cons.IH) simp
    finally show ?thesis using False by simp
  qed
qed

lemma take_alpn_encode:
  "take (length (alpn_encode (takeWhile P ps))) (alpn_encode ps @ r) = alpn_encode (takeWhile P ps)"
  by (induction ps) auto

section \<open>Properties\<close>

text \<open>C27: Whatever key-log lines the TLS engine logs on a connection whose buffer is hooked up,
  draining returns exactly these lines, in order, with their lengths, and empties the buffer:
  appending grows the array past its capacity without losing or overwriting a line.\<close>

theorem keylog_drains_every_line:
  assumes "grants (lib w) ''malloc''" and "grants (lib w) ''realloc''" and "0 < nxt w"
  shows "\<exists>b w1 l w2. keylog_cbs ls (new_keylog True) w = Some (b, w1) \<and>
    keylog_buf_drain_to b w1 = Some ((l, new_keylog True), w2) \<and>
    map bytes (ls_items l) = ls \<and> map len (ls_items l) = map length ls"
proof -
  obtain b w1 where 1: "keylog_cbs ls (new_keylog True) w = Some (b, w1)" "logging w1" "keylog_ok b"
      "map snd (kl_items b) = ls" "kl_hooked b"
    using keylog_cbs_runs [of w "new_keylog True" ls] assms
    by (auto simp: logging_def new_keylog_def keylog_ok_def)
  have "keylog_buf_init b = new_keylog True" using 1(5) by (simp add: keylog_buf_init_def new_keylog_def)
  with 1 keylog_buf_drain_to_runs [OF 1(2), of b] show ?thesis by auto
qed

theorem keylog_drains_every_line_witness:
  "\<exists>b w1 l w2. keylog_cbs (replicate 17 [65]) (new_keylog True) (first_world (\<lambda>_ _ _. ok_answer)) = Some (b, w1) \<and>
    keylog_buf_drain_to b w1 = Some ((l, new_keylog True), w2) \<and>
    map bytes (ls_items l) = replicate 17 [65] \<and> map len (ls_items l) = map length (replicate 17 [65 :: u8])"
  using keylog_drains_every_line [of "first_world (\<lambda>_ _ _. ok_answer)" "replicate 17 [65]"]
  by (simp add: grants_def ok_answer_def)



text \<open>C25: The server's ALPN callback never reads outside the NUL-terminated list it is given and
  selects from the configured names up to the first empty one; when no name is empty that is
  the whole list.\<close>

theorem alpn_select_offers:
  assumes "list_all (\<lambda>p. length p \<le> 255) ps"
  shows "alpn_select_cb select (Some (alpn_encode ps @ [0])) inp =
    Some (case select (alpn_encode (takeWhile (\<lambda>p. p \<noteq> []) ps)) inp of
            Some p \<Rightarrow> Tlsext_ok p | None \<Rightarrow> Tlsext_noack)"
  using alpn_scan_encode [OF assms, of "[]"]
  by (simp add: alpn_select_cb_def take_alpn_encode del: take_append split: option.split)

theorem alpn_select_offers_witness:
  "alpn_select_cb (\<lambda>s c. if s = c then Some [7] else None) (Some (alpn_encode [[104, 50], [], [7]] @ [0])) [2, 104, 50] =
    Some (Tlsext_ok [7])"
  using alpn_select_offers [of "[[104, 50], [], [7]]" "\<lambda>s c. if s = c then Some [7] else None" "[2, 104, 50]"]
  by simp

end
