(* ===== verification/Tls_Mem.thy ===== *)
theory Tls_Mem
  imports Tls_Common
begin

text \<open>
  The memory-BIO endpoints of \<open>src/tls.c\<close>: a TLS client and a TLS server that never touch a
  socket; the caller moves the ciphertext. The code of the two is the same line by line except
  for construction and destruction, so each of their methods has one definition, on a record
  that the server's extends.
\<close>

section \<open>Representations\<close>

record mem_bio_client_rep =
  mb_self :: ptr
  mb_ctx :: ptr
  mb_ssl :: ptr
  mb_in :: ptr
  mb_out :: ptr
  mb_done :: bool
  mb_keylog :: keylog_buf

record mem_bio_server_rep = mem_bio_client_rep +
  mb_alpn :: ptr
  mb_alpn_len :: nat

section \<open>Construction\<close>

definition free_bio :: "ptr \<Rightarrow> world \<Rightarrow> unit outcome" where
  "free_bio p w = (if p \<noteq> 0 then release (Obj ''BIO'') ''BIO_free'' p w else Some ((), w))"

definition SSL_CTX_free :: "ptr \<Rightarrow> world \<Rightarrow> unit outcome" where
  "SSL_CTX_free = release (Obj ''SSL_CTX'') ''SSL_CTX_free''"

definition set_server_name :: "ptr \<Rightarrow> u8 list option \<Rightarrow> world \<Rightarrow> unit outcome" where
  "set_server_name ssl n w = (case n of
     None \<Rightarrow> Some ((), w)
   | Some v \<Rightarrow> with_cstring v (set_names ssl) w)"

definition mem_bio_client_new ::
    "client_config \<Rightarrow> world \<Rightarrow> (tls_error + mem_bio_client_rep) outcome" where
  "mem_bio_client_new cf w =
     (if wants_dtls (cc_protocols cf) then Some (Inl Tls_protocol_version, w)
      else do {
        (ctx, w) \<leftarrow> create (Obj ''SSL_CTX'') ''SSL_CTX_new'' [Str ''TLS_client_method''] w;
        if ctx = 0 then Some (Inl Tls_bad_config, w)
        else do {
          (_, w) \<leftarrow> client_settings ctx cf w;
          (ssl, w) \<leftarrow> create (Obj ''SSL'') ''SSL_new'' [Ptr ctx] w;
          if ssl = 0
          then do {
            (_, w) \<leftarrow> SSL_CTX_free ctx w;
            Some (Inl Tls_bad_config, w) }
          else do {
            ((pre, kl), w) \<leftarrow> attach_keylog ssl (cc_keylog cf) w;
            (_, w) \<leftarrow> set_server_name ssl (cc_server_name cf) w;
            (inb, w) \<leftarrow> create (Obj ''BIO'') ''BIO_new'' [Str ''BIO_s_mem''] w;
            (outb, w) \<leftarrow> create (Obj ''BIO'') ''BIO_new'' [Str ''BIO_s_mem''] w;
            if inb = 0 \<or> outb = 0
            then do {
              (_, w) \<leftarrow> free_bio inb w;
              (_, w) \<leftarrow> free_bio outb w;
              (_, w) \<leftarrow> drop_pre_keylog pre kl w;
              (_, w) \<leftarrow> release (Obj ''SSL'') ''SSL_free'' ssl w;
              (_, w) \<leftarrow> SSL_CTX_free ctx w;
              Some (Inl Tls_bad_config, w) }
            else do {
              (_, w) \<leftarrow> ccall ''SSL_set_bio'' [Ptr ssl, Ptr inb, Ptr outb] w;
              (_, w) \<leftarrow> ccall ''SSL_set_connect_state'' [Ptr ssl] w;
              (r, w) \<leftarrow> xmalloc 36 w;
              (_, w) \<leftarrow> deref r w;
              (kl, w) \<leftarrow> move_keylog ssl r pre kl w;
              Some (Inr \<lparr> mb_self = r, mb_ctx = ctx, mb_ssl = ssl, mb_in = inb, mb_out = outb,
                          mb_done = False, mb_keylog = kl \<rparr>, w) } } } })"

definition mem_bio_server_new ::
    "server_config \<Rightarrow> world \<Rightarrow> (tls_error + mem_bio_server_rep) outcome" where
  "mem_bio_server_new cf w =
     (if wants_dtls (sc_protocols cf) then Some (Inl Tls_protocol_version, w)
      else do {
        (ctx, w) \<leftarrow> create (Obj ''SSL_CTX'') ''SSL_CTX_new'' [Str ''TLS_server_method''] w;
        if ctx = 0 then Some (Inl Tls_bad_config, w)
        else do {
          (_, w) \<leftarrow> server_settings ctx cf w;
          (alpn, w) \<leftarrow> server_alpn (sc_alpn cf) w;
          (ssl, w) \<leftarrow> create (Obj ''SSL'') ''SSL_new'' [Ptr ctx] w;
          if ssl = 0
          then do {
            (_, w) \<leftarrow> (if at alpn \<noteq> 0 then cfree (at alpn) w else Some ((), w));
            (_, w) \<leftarrow> SSL_CTX_free ctx w;
            Some (Inl Tls_bad_config, w) }
          else do {
            ((pre, kl), w) \<leftarrow> attach_keylog ssl (sc_keylog cf) w;
            (inb, w) \<leftarrow> create (Obj ''BIO'') ''BIO_new'' [Str ''BIO_s_mem''] w;
            (outb, w) \<leftarrow> create (Obj ''BIO'') ''BIO_new'' [Str ''BIO_s_mem''] w;
            if inb = 0 \<or> outb = 0
            then do {
              (_, w) \<leftarrow> free_bio inb w;
              (_, w) \<leftarrow> free_bio outb w;
              (_, w) \<leftarrow> drop_pre_keylog pre kl w;
              (_, w) \<leftarrow> (if at alpn \<noteq> 0 then cfree (at alpn) w else Some ((), w));
              (_, w) \<leftarrow> release (Obj ''SSL'') ''SSL_free'' ssl w;
              (_, w) \<leftarrow> SSL_CTX_free ctx w;
              Some (Inl Tls_bad_config, w) }
            else do {
              (_, w) \<leftarrow> ccall ''SSL_set_bio'' [Ptr ssl, Ptr inb, Ptr outb] w;
              (_, w) \<leftarrow> ccall ''SSL_set_accept_state'' [Ptr ssl] w;
              (r, w) \<leftarrow> xmalloc 44 w;
              (_, w) \<leftarrow> deref r w;
              (kl, w) \<leftarrow> move_keylog ssl r pre kl w;
              (_, w) \<leftarrow> (if at alpn \<noteq> 0
                then do {
                  (_, w) \<leftarrow> ccall ''SSL_CTX_set_alpn_select_cb'' [Ptr ctx, Str ''alpn_select_cb'', Ptr (at alpn)] w;
                  Some ((), w) }
                else Some ((), w));
              Some (Inr \<lparr> mb_self = r, mb_ctx = ctx, mb_ssl = ssl, mb_in = inb, mb_out = outb,
                          mb_done = False, mb_keylog = kl, mb_alpn = at alpn, mb_alpn_len = len alpn \<rparr>, w) } } } })"

section \<open>Methods\<close>

definition SSL_get_error :: "ptr \<Rightarrow> int \<Rightarrow> world \<Rightarrow> int outcome" where
  "SSL_get_error ssl r w = do { (a, w) \<leftarrow> ccall ''SSL_get_error'' [Ptr ssl, Val r] w; Some (rc a, w) }"

definition wants_io :: "int \<Rightarrow> bool" where
  "wants_io e \<longleftrightarrow> e = SSL_ERROR_WANT_READ \<or> e = SSL_ERROR_WANT_WRITE"

definition mb_do_handshake ::
    "'r mem_bio_client_rep_scheme \<Rightarrow> world \<Rightarrow> ((tls_error + unit) \<times> 'r mem_bio_client_rep_scheme) outcome" where
  "mb_do_handshake r w = do {
     (_, w) \<leftarrow> deref (mb_self r) w;
     ((a, kl), w) \<leftarrow> ssl_call ''SSL_do_handshake'' [Ptr (mb_ssl r)] (mb_keylog r) w;
     let r = r\<lparr> mb_keylog := kl \<rparr>;
     if rc a = 1 then Some ((Inr (), r\<lparr> mb_done := True \<rparr>), w)
     else do {
       (e, w) \<leftarrow> SSL_get_error (mb_ssl r) (rc a) w;
       if wants_io e then Some ((Inl Tls_would_block, r), w)
       else do {
         (_, w) \<leftarrow> print_errors 17 w;
         Some ((Inl Tls_handshake_failed, r), w) } } }"

definition mb_handshake_done ::
    "'r mem_bio_client_rep_scheme \<Rightarrow> world \<Rightarrow> (bool \<times> 'r mem_bio_client_rep_scheme) outcome" where
  "mb_handshake_done r w = do { (_, w) \<leftarrow> deref (mb_self r) w; Some ((mb_done r, r), w) }"

definition mb_bio_write ::
    "u8 list \<Rightarrow> 'r mem_bio_client_rep_scheme \<Rightarrow> world \<Rightarrow> (nat \<times> 'r mem_bio_client_rep_scheme) outcome" where
  "mb_bio_write data r w =
     (if length data = 0 then Some ((0, r), w)
      else do {
        (_, w) \<leftarrow> deref (mb_self r) w;
        (a, w) \<leftarrow> ccall ''BIO_write'' [Ptr (mb_in r), Buf data, Val (c_int (length data))] w;
        Some ((if rc a < 0 then 0 else c_u32 (rc a), r), w) })"

definition mb_bio_read ::
    "nat \<Rightarrow> 'r mem_bio_client_rep_scheme \<Rightarrow> world \<Rightarrow> (list_u8 \<times> 'r mem_bio_client_rep_scheme) outcome" where
  "mb_bio_read mx r w = do {
     (_, w) \<leftarrow> deref (mb_self r) w;
     (pend, w) \<leftarrow> ccall ''BIO_ctrl_pending'' [Ptr (mb_out r)] w;
     let tk = (if c_u32 (rc pend) < mx then c_u32 (rc pend) else mx);
     if tk = 0 then Some ((no_list, r), w)
     else do {
       (p, w) \<leftarrow> xmalloc tk w;
       (a, w) \<leftarrow> ccall ''BIO_read'' [Ptr (mb_out r), Ptr p, Val (c_int tk)] w;
       let n = (if rc a < 0 then 0 else rc a);
       Some ((\<lparr> at = p, len = c_u32 n, bytes = take (nat n) (written a) \<rparr>, r), w) } }"

definition mb_bio_pending ::
    "'r mem_bio_client_rep_scheme \<Rightarrow> world \<Rightarrow> (nat \<times> 'r mem_bio_client_rep_scheme) outcome" where
  "mb_bio_pending r w = do {
     (_, w) \<leftarrow> deref (mb_self r) w;
     (a, w) \<leftarrow> ccall ''BIO_ctrl_pending'' [Ptr (mb_out r)] w;
     Some ((c_u32 (rc a), r), w) }"

definition mb_read ::
    "nat \<Rightarrow> 'r mem_bio_client_rep_scheme \<Rightarrow> world \<Rightarrow> ((tls_error + list_u8) \<times> 'r mem_bio_client_rep_scheme) outcome" where
  "mb_read mx r w = do {
     (p, w) \<leftarrow> xmalloc (if mx \<noteq> 0 then mx else 1) w;
     (_, w) \<leftarrow> deref (mb_self r) w;
     ((a, kl), w) \<leftarrow> ssl_call ''SSL_read'' [Ptr (mb_ssl r), Ptr p, Val (c_int mx)] (mb_keylog r) w;
     let r = r\<lparr> mb_keylog := kl \<rparr>;
     if rc a < 0
     then do {
       (e, w) \<leftarrow> SSL_get_error (mb_ssl r) (rc a) w;
       (_, w) \<leftarrow> cfree p w;
       if wants_io e then Some ((Inl Tls_would_block, r), w)
       else if e = SSL_ERROR_ZERO_RETURN then Some ((Inl Tls_io_closed, r), w)
       else Some ((Inl (Tls_internal (Some (c_u64 e))), r), w) }
     else Some ((Inr \<lparr> at = p, len = c_u32 (rc a), bytes = take (nat (rc a)) (written a) \<rparr>, r), w) }"

definition mb_write ::
    "u8 list \<Rightarrow> 'r mem_bio_client_rep_scheme \<Rightarrow> world \<Rightarrow> ((tls_error + nat) \<times> 'r mem_bio_client_rep_scheme) outcome" where
  "mb_write data r w =
     (if length data = 0 then Some ((Inr 0, r), w)
      else do {
        (_, w) \<leftarrow> deref (mb_self r) w;
        ((a, kl), w) \<leftarrow> ssl_call ''SSL_write'' [Ptr (mb_ssl r), Buf data, Val (c_int (length data))] (mb_keylog r) w;
        let r = r\<lparr> mb_keylog := kl \<rparr>;
        if rc a \<le> 0
        then do {
          (e, w) \<leftarrow> SSL_get_error (mb_ssl r) (rc a) w;
          if wants_io e then Some ((Inl Tls_would_block, r), w)
          else Some ((Inl (Tls_internal (Some (c_u64 e))), r), w) }
        else Some ((Inr (c_u32 (rc a)), r), w) })"

definition mb_peer_cert_der ::
    "'r mem_bio_client_rep_scheme \<Rightarrow> world \<Rightarrow> (list_u8 option \<times> 'r mem_bio_client_rep_scheme) outcome" where
  "mb_peer_cert_der r w = do {
     (_, w) \<leftarrow> deref (mb_self r) w;
     (cert, w) \<leftarrow> create (Obj ''X509'') ''SSL_get1_peer_certificate'' [Ptr (mb_ssl r)] w;
     if cert = 0 then Some ((None, r), w)
     else do {
       ((a, buf), w) \<leftarrow> i2d ''i2d_X509'' [Ptr cert] w;
       (_, w) \<leftarrow> release (Obj ''X509'') ''X509_free'' cert w;
       if rc a \<le> 0
       then do {
         (_, w) \<leftarrow> (if buf \<noteq> 0 then OPENSSL_free buf w else Some ((), w));
         Some ((None, r), w) }
       else do {
         (l, w) \<leftarrow> list_u8_take (encoded a) w;
         (_, w) \<leftarrow> OPENSSL_free buf w;
         Some ((Some l, r), w) } } }"

definition mb_version ::
    "'r mem_bio_client_rep_scheme \<Rightarrow> world \<Rightarrow> (list_u8 \<times> 'r mem_bio_client_rep_scheme) outcome" where
  "mb_version r w = do {
     (_, w) \<leftarrow> deref (mb_self r) w;
     (v, w) \<leftarrow> ccall ''SSL_get_version'' [Ptr (mb_ssl r)] w;
     (l, w) \<leftarrow> string_take (text_of (text1 v)) w;
     Some ((l, r), w) }"

definition mb_selected_alpn_protocol ::
    "'r mem_bio_client_rep_scheme \<Rightarrow> world \<Rightarrow> (list_u8 option \<times> 'r mem_bio_client_rep_scheme) outcome" where
  "mb_selected_alpn_protocol r w = do {
     (_, w) \<leftarrow> deref (mb_self r) w;
     (al, w) \<leftarrow> ccall ''SSL_get0_alpn_selected'' [Ptr (mb_ssl r)] w;
     (l, w) \<leftarrow> take_option (non_empty (text1 al)) w;
     Some ((l, r), w) }"

definition mb_peer ::
    "'r mem_bio_client_rep_scheme \<Rightarrow> world \<Rightarrow> (peer_info \<times> 'r mem_bio_client_rep_scheme) outcome" where
  "mb_peer r w = do {
     (_, w) \<leftarrow> deref (mb_self r) w;
     (p, w) \<leftarrow> fill_peer_info (mb_ssl r) w;
     Some ((p, r), w) }"

definition mb_peer_chain_der ::
    "'r mem_bio_client_rep_scheme \<Rightarrow> world \<Rightarrow> (list_string \<times> 'r mem_bio_client_rep_scheme) outcome" where
  "mb_peer_chain_der r w = do {
     (_, w) \<leftarrow> deref (mb_self r) w;
     (l, w) \<leftarrow> fill_peer_chain_der (mb_ssl r) w;
     Some ((l, r), w) }"

definition mb_shutdown ::
    "'r mem_bio_client_rep_scheme \<Rightarrow> world \<Rightarrow> ((tls_error + unit) \<times> 'r mem_bio_client_rep_scheme) outcome" where
  "mb_shutdown r w = do {
     (_, w) \<leftarrow> deref (mb_self r) w;
     ((a, kl), w) \<leftarrow> ssl_call ''SSL_shutdown'' [Ptr (mb_ssl r)] (mb_keylog r) w;
     let r = r\<lparr> mb_keylog := kl \<rparr>;
     if rc a < 0
     then do {
       (e, w) \<leftarrow> SSL_get_error (mb_ssl r) (rc a) w;
       if wants_io e then Some ((Inl Tls_would_block, r), w)
       else Some ((Inl (Tls_internal (Some (c_u64 e))), r), w) }
     else Some ((Inr (), r), w) }"

section \<open>Destruction\<close>

text \<open>\<open>SSL_free\<close> frees the attached BIOs.\<close>

definition free_ssl_bios :: "'r mem_bio_client_rep_scheme \<Rightarrow> world \<Rightarrow> unit outcome" where
  "free_ssl_bios r w =
     (if mb_ssl r \<noteq> 0
      then do {
        (_, w) \<leftarrow> release (Obj ''SSL'') ''SSL_free'' (mb_ssl r) w;
        (_, w) \<leftarrow> perish (mb_in r) (Obj ''BIO'') w;
        (_, w) \<leftarrow> perish (mb_out r) (Obj ''BIO'') w;
        Some ((), w) }
      else Some ((), w))"

definition free_ctx :: "ptr \<Rightarrow> world \<Rightarrow> unit outcome" where
  "free_ctx ctx w = (if ctx \<noteq> 0 then SSL_CTX_free ctx w else Some ((), w))"

definition mem_bio_client_destructor :: "mem_bio_client_rep \<Rightarrow> world \<Rightarrow> unit outcome" where
  "mem_bio_client_destructor r w =
     (if mb_self r = 0 then Some ((), w)
      else do {
        (_, w) \<leftarrow> deref (mb_self r) w;
        (_, w) \<leftarrow> free_ssl_bios r w;
        (_, w) \<leftarrow> free_ctx (mb_ctx r) w;
        (_, w) \<leftarrow> keylog_buf_clear (mb_keylog r) w;
        cfree (mb_self r) w })"

definition mem_bio_server_destructor :: "mem_bio_server_rep \<Rightarrow> world \<Rightarrow> unit outcome" where
  "mem_bio_server_destructor r w =
     (if mb_self r = 0 then Some ((), w)
      else do {
        (_, w) \<leftarrow> deref (mb_self r) w;
        (_, w) \<leftarrow> free_ssl_bios r w;
        (_, w) \<leftarrow> free_ctx (mb_ctx r) w;
        (_, w) \<leftarrow> (if mb_alpn r \<noteq> 0 then cfree (mb_alpn r) w else Some ((), w));
        (_, w) \<leftarrow> keylog_buf_clear (mb_keylog r) w;
        cfree (mb_self r) w })"

text \<open>Dropping the handle at the end of \<open>close\<close> runs the destructor on what is left.\<close>

definition mem_bio_client_close :: "mem_bio_client_rep \<Rightarrow> world \<Rightarrow> unit outcome" where
  "mem_bio_client_close r w = do {
     (_, w) \<leftarrow> deref (mb_self r) w;
     (_, w) \<leftarrow> free_ssl_bios r w;
     (_, w) \<leftarrow> free_ctx (mb_ctx r) w;
     mem_bio_client_destructor (r\<lparr> mb_ssl := 0, mb_ctx := 0, mb_in := 0, mb_out := 0 \<rparr>) w }"

definition mem_bio_server_close :: "mem_bio_server_rep \<Rightarrow> world \<Rightarrow> unit outcome" where
  "mem_bio_server_close r w = do {
     (_, w) \<leftarrow> deref (mb_self r) w;
     (_, w) \<leftarrow> free_ssl_bios r w;
     (_, w) \<leftarrow> free_ctx (mb_ctx r) w;
     (_, w) \<leftarrow> (if mb_alpn r \<noteq> 0 then cfree (mb_alpn r) w else Some ((), w));
     mem_bio_server_destructor (r\<lparr> mb_ssl := 0, mb_ctx := 0, mb_in := 0, mb_out := 0, mb_alpn := 0 \<rparr>) w }"

section \<open>Resource safety\<close>

definition mb_owns :: "'r mem_bio_client_rep_scheme \<Rightarrow> footprint" where
  "mb_owns r = [(mb_self r, Mem), (mb_ctx r, Obj ''SSL_CTX''), (mb_ssl r, Obj ''SSL''), (mb_in r, Obj ''BIO''),
     (mb_out r, Obj ''BIO'')] @ keylog_owns (mb_keylog r)"

definition mb_server_owns :: "mem_bio_server_rep \<Rightarrow> footprint" where
  "mb_server_owns r = mb_owns r @ own (mb_alpn r) Mem"

lemmas mb_frees = free_ssl_bios_def free_ctx_def SSL_CTX_free_def free_bio_def OPENSSL_free_def

lemma set_server_name_triple:
  "''malloc'' \<in> set fns \<Longrightarrow> ssl \<in> fst ` set A \<Longrightarrow> ledger_triple fns A (set_server_name ssl n) (\<lambda>_. A)"
  unfolding set_server_name_def
  by (assumption | rule with_cstring_names_triple | rule steps | (simp; fail))+

lemma step_move_keylog:
  assumes "fp A (pre_owns pre b) F" and "ssl \<in> fst ` set F" and "self \<in> fst ` set F"
    and "\<And>b. ledger_triple fns (keylog_owns b @ F) (f b) C"
  shows "ledger_triple fns A (\<lambda>w. Option.bind (move_keylog ssl self pre b w) (\<lambda>(b, w). f b w)) C"
  by (rule triple_bind [OF triple_perm [OF move_keylog_triple [OF assms(2,3)]] assms(4)])
    (use assms(1) in \<open>simp_all add: fp_def\<close>)

lemmas step_new = client_settings_triple [THEN triple_bind] server_settings_triple [THEN triple_bind]
  server_alpn_triple [THEN triple_bind] attach_keylog_triple [THEN triple_bind2]
  set_server_name_triple [THEN triple_bind] drop_pre_keylog_triple [THEN triple_step1] step_move_keylog

lemma mem_bio_client_new_triple:
  assumes "client_refs cf \<subseteq> fst ` set B"
  shows "ledger_triple [''malloc''] B (mem_bio_client_new cf) (\<lambda>x. result_fp mb_owns x @ B)"
  unfolding mem_bio_client_new_def mb_frees
  by (insert assms, (assumption | rule step_known, assumption | rule steps_first | rule step_new | rule step_calls
    | rule steps | rule fp_rules | (simp add: mb_owns_def subset_insertI2; fail))+)

lemma mem_bio_server_new_triple:
  assumes "server_refs cf \<subseteq> fst ` set B"
  shows "ledger_triple [''malloc''] B (mem_bio_server_new cf) (\<lambda>x. result_fp mb_server_owns x @ B)"
  unfolding mem_bio_server_new_def mb_frees
  by (insert assms, (assumption | rule step_known, assumption | rule steps_first | rule step_new | rule step_calls
    | rule steps | rule fp_rules | (simp add: mb_owns_def mb_server_owns_def subset_insertI2; fail))+)

text \<open>A method leaves the endpoint's pointers and the fields of the server alone, keeps what the
  endpoint owns, and adds what it returns.\<close>

definition mb_same :: "'r mem_bio_client_rep_scheme \<Rightarrow> 'r mem_bio_client_rep_scheme \<Rightarrow> bool" where
  "mb_same r r' \<longleftrightarrow> mb_self r' = mb_self r \<and> mb_ctx r' = mb_ctx r \<and> mb_ssl r' = mb_ssl r \<and> mb_in r' = mb_in r \<and>
     mb_out r' = mb_out r \<and> mem_bio_client_rep.more r' = mem_bio_client_rep.more r"

definition mb_keeps :: "'r mem_bio_client_rep_scheme \<Rightarrow> 'r mem_bio_client_rep_scheme \<Rightarrow> footprint" where
  "mb_keeps r r' = guarded (mb_same r r') (mb_owns r')"

section \<open>Calls\<close>

datatype mb_call =
    Do_handshake
  | Handshake_done
  | Bio_write "u8 list"
  | Bio_read nat
  | Bio_pending
  | Read nat
  | Write "u8 list"
  | Peer_cert_der
  | Version
  | Selected_alpn_protocol
  | Peer
  | Peer_chain_der
  | Shutdown

datatype mb_reply =
    Status "tls_error + unit"
  | Flag bool
  | Count nat
  | Sent "tls_error + nat"
  | Received "tls_error + list_u8"
  | Data list_u8
  | Maybe "list_u8 option"
  | Info peer_info
  | Ders list_string

definition replying :: "('x \<Rightarrow> mb_reply) \<Rightarrow> ('x \<times> 'r) outcome \<Rightarrow> (mb_reply \<times> 'r) outcome" where
  "replying f m = do { ((x, r), w) \<leftarrow> m; Some ((f x, r), w) }"

fun mb_method ::
    "mb_call \<Rightarrow> 'r mem_bio_client_rep_scheme \<Rightarrow> world \<Rightarrow> (mb_reply \<times> 'r mem_bio_client_rep_scheme) outcome" where
  "mb_method Do_handshake r w = replying Status (mb_do_handshake r w)"
| "mb_method Handshake_done r w = replying Flag (mb_handshake_done r w)"
| "mb_method (Bio_write d) r w = replying Count (mb_bio_write d r w)"
| "mb_method (Bio_read n) r w = replying Data (mb_bio_read n r w)"
| "mb_method Bio_pending r w = replying Count (mb_bio_pending r w)"
| "mb_method (Read n) r w = replying Received (mb_read n r w)"
| "mb_method (Write d) r w = replying Sent (mb_write d r w)"
| "mb_method Peer_cert_der r w = replying Maybe (mb_peer_cert_der r w)"
| "mb_method Version r w = replying Data (mb_version r w)"
| "mb_method Selected_alpn_protocol r w = replying Maybe (mb_selected_alpn_protocol r w)"
| "mb_method Peer r w = replying Info (mb_peer r w)"
| "mb_method Peer_chain_der r w = replying Ders (mb_peer_chain_der r w)"
| "mb_method Shutdown r w = replying Status (mb_shutdown r w)"

text \<open>The methods of the server repeat those of the client, function by function.\<close>

definition mem_bio_server_do_handshake :: "mem_bio_server_rep \<Rightarrow> world \<Rightarrow> ((tls_error + unit) \<times> mem_bio_server_rep) outcome" where
  "mem_bio_server_do_handshake = mb_do_handshake"

definition mem_bio_server_handshake_done :: "mem_bio_server_rep \<Rightarrow> world \<Rightarrow> (bool \<times> mem_bio_server_rep) outcome" where
  "mem_bio_server_handshake_done = mb_handshake_done"

definition mem_bio_server_bio_write :: "u8 list \<Rightarrow> mem_bio_server_rep \<Rightarrow> world \<Rightarrow> (nat \<times> mem_bio_server_rep) outcome" where
  "mem_bio_server_bio_write = mb_bio_write"

definition mem_bio_server_bio_read :: "nat \<Rightarrow> mem_bio_server_rep \<Rightarrow> world \<Rightarrow> (list_u8 \<times> mem_bio_server_rep) outcome" where
  "mem_bio_server_bio_read = mb_bio_read"

definition mem_bio_server_bio_pending :: "mem_bio_server_rep \<Rightarrow> world \<Rightarrow> (nat \<times> mem_bio_server_rep) outcome" where
  "mem_bio_server_bio_pending = mb_bio_pending"

definition mem_bio_server_read :: "nat \<Rightarrow> mem_bio_server_rep \<Rightarrow> world \<Rightarrow> ((tls_error + list_u8) \<times> mem_bio_server_rep) outcome" where
  "mem_bio_server_read = mb_read"

definition mem_bio_server_write :: "u8 list \<Rightarrow> mem_bio_server_rep \<Rightarrow> world \<Rightarrow> ((tls_error + nat) \<times> mem_bio_server_rep) outcome" where
  "mem_bio_server_write = mb_write"

definition mem_bio_server_peer_cert_der :: "mem_bio_server_rep \<Rightarrow> world \<Rightarrow> (list_u8 option \<times> mem_bio_server_rep) outcome" where
  "mem_bio_server_peer_cert_der = mb_peer_cert_der"

definition mem_bio_server_version :: "mem_bio_server_rep \<Rightarrow> world \<Rightarrow> (list_u8 \<times> mem_bio_server_rep) outcome" where
  "mem_bio_server_version = mb_version"

definition mem_bio_server_selected_alpn_protocol :: "mem_bio_server_rep \<Rightarrow> world \<Rightarrow> (list_u8 option \<times> mem_bio_server_rep) outcome" where
  "mem_bio_server_selected_alpn_protocol = mb_selected_alpn_protocol"

definition mem_bio_server_peer :: "mem_bio_server_rep \<Rightarrow> world \<Rightarrow> (peer_info \<times> mem_bio_server_rep) outcome" where
  "mem_bio_server_peer = mb_peer"

definition mem_bio_server_peer_chain_der :: "mem_bio_server_rep \<Rightarrow> world \<Rightarrow> (list_string \<times> mem_bio_server_rep) outcome" where
  "mem_bio_server_peer_chain_der = mb_peer_chain_der"

definition mem_bio_server_shutdown :: "mem_bio_server_rep \<Rightarrow> world \<Rightarrow> ((tls_error + unit) \<times> mem_bio_server_rep) outcome" where
  "mem_bio_server_shutdown = mb_shutdown"

fun mem_bio_server_method :: "mb_call \<Rightarrow> mem_bio_server_rep \<Rightarrow> world \<Rightarrow> (mb_reply \<times> mem_bio_server_rep) outcome" where
  "mem_bio_server_method Do_handshake r w = replying Status (mem_bio_server_do_handshake r w)"
| "mem_bio_server_method Handshake_done r w = replying Flag (mem_bio_server_handshake_done r w)"
| "mem_bio_server_method (Bio_write d) r w = replying Count (mem_bio_server_bio_write d r w)"
| "mem_bio_server_method (Bio_read n) r w = replying Data (mem_bio_server_bio_read n r w)"
| "mem_bio_server_method Bio_pending r w = replying Count (mem_bio_server_bio_pending r w)"
| "mem_bio_server_method (Read n) r w = replying Received (mem_bio_server_read n r w)"
| "mem_bio_server_method (Write d) r w = replying Sent (mem_bio_server_write d r w)"
| "mem_bio_server_method Peer_cert_der r w = replying Maybe (mem_bio_server_peer_cert_der r w)"
| "mem_bio_server_method Version r w = replying Data (mem_bio_server_version r w)"
| "mem_bio_server_method Selected_alpn_protocol r w = replying Maybe (mem_bio_server_selected_alpn_protocol r w)"
| "mem_bio_server_method Peer r w = replying Info (mem_bio_server_peer r w)"
| "mem_bio_server_method Peer_chain_der r w = replying Ders (mem_bio_server_peer_chain_der r w)"
| "mem_bio_server_method Shutdown r w = replying Status (mem_bio_server_shutdown r w)"

lemmas mem_bio_server_defs = mem_bio_server_do_handshake_def mem_bio_server_handshake_done_def
  mem_bio_server_bio_write_def mem_bio_server_bio_read_def mem_bio_server_bio_pending_def mem_bio_server_read_def
  mem_bio_server_write_def mem_bio_server_peer_cert_der_def mem_bio_server_version_def
  mem_bio_server_selected_alpn_protocol_def mem_bio_server_peer_def mem_bio_server_peer_chain_der_def
  mem_bio_server_shutdown_def

lemma mem_bio_server_method_eq: "mem_bio_server_method = mb_method"
proof (intro ext)
  show "mem_bio_server_method c r w = mb_method c r w" for c r w
    by (cases c) (simp_all add: mem_bio_server_defs)
qed

fun mb_reply_fp :: "mb_reply \<Rightarrow> footprint" where
  "mb_reply_fp (Received x) = held x"
| "mb_reply_fp (Data l) = own (at l) Mem"
| "mb_reply_fp (Maybe l) = opt_fp l"
| "mb_reply_fp (Info p) = peer_owns p"
| "mb_reply_fp (Ders l) = strings_fp l"
| "mb_reply_fp _ = []"

lemma step_ssl_get_error [step_calls]:
  "ssl \<in> fst ` set A \<Longrightarrow> (\<And>e. ledger_triple fns A (f e) C) \<Longrightarrow>
   ledger_triple fns A (\<lambda>w. Option.bind (SSL_get_error ssl v w) (\<lambda>(e, w). f e w)) C"
  unfolding SSL_get_error_def by (rule step_bind_assoc, rule step_ccall) (simp_all add: step_bind_ret)

lemma step_replying:
  "ledger_triple fns A (\<lambda>w. do { ((x, r), w) \<leftarrow> m w; Some ((f x, r), w) }) B \<Longrightarrow>
   ledger_triple fns A (\<lambda>w. replying f (m w)) B"
  by (simp add: replying_def)

abbreviation mb_services :: "string list" where
  "mb_services \<equiv> [''malloc'', ''ERR_get_error'']"

lemma step_fill_peer [step_calls]:
  "''malloc'' \<in> set fns \<Longrightarrow> ssl \<in> fst ` set A \<Longrightarrow> (\<And>p. ledger_triple fns (peer_owns p @ A) (f p) C) \<Longrightarrow>
     ledger_triple fns A (\<lambda>w. Option.bind (fill_peer_info ssl w) (\<lambda>(p, w). f p w)) C"
  "''malloc'' \<in> set fns \<Longrightarrow> ssl \<in> fst ` set A \<Longrightarrow> (\<And>l. ledger_triple fns (strings_fp l @ A) (g l) C) \<Longrightarrow>
     ledger_triple fns A (\<lambda>w. Option.bind (fill_peer_chain_der ssl w) (\<lambda>(l, w). g l w)) C"
  using fill_peer_info_triple [THEN triple_bind] fill_peer_chain_der_triple [THEN triple_bind] by blast+

lemma mb_method_triple:
  "ledger_triple mb_services (mb_owns r @ []) (mb_method c r) (\<lambda>(x, r'). mb_keeps r r' @ mb_reply_fp x)"
  by (cases c; simp only: mb_method.simps [abs_def];
      unfold mb_owns_def mb_do_handshake_def mb_handshake_done_def mb_bio_write_def mb_bio_read_def mb_bio_pending_def
        mb_read_def mb_write_def mb_peer_cert_der_def mb_version_def mb_selected_alpn_protocol_def
        mb_peer_def mb_peer_chain_der_def mb_shutdown_def OPENSSL_free_def;
      rule step_replying;
      (rule step_known, assumption | rule steps_first | rule print_errors_triple [THEN triple_bind] | rule step_calls
        | rule steps | rule fp_rules | (simp add: mb_keeps_def mb_same_def mb_owns_def no_list_def; fail))+)

lemma mb_client_method_triple:
  "ledger_triple mb_services (mb_owns r) (mb_method c r) (\<lambda>(x, r'). mb_owns r' @ mb_reply_fp x)"
  by (rule triple_guarded_post [where P = "\<lambda>p. mb_same r (snd p)"])
    (use mb_method_triple [of r c] in \<open>simp_all add: mb_keeps_def case_prod_unfold\<close>)

lemma mb_server_method_triple:
  "ledger_triple mb_services (mb_server_owns r) (mem_bio_server_method c r) (\<lambda>(x, r'). mb_server_owns r' @ mb_reply_fp x)"
  unfolding mem_bio_server_method_eq
proof (rule triple_guarded_post [where P = "\<lambda>p. mb_same r (snd p)"])
  show "ledger_triple mb_services (mb_server_owns r) (mb_method c r)
      (\<lambda>p. guarded (mb_same r (snd p)) (mb_owns (snd p)) @ mb_reply_fp (fst p) @ own (mb_alpn r) Mem)"
    using triple_frame [OF mb_method_triple [of r c], of "own (mb_alpn r) Mem"]
    by (simp add: mb_keeps_def mb_server_owns_def case_prod_unfold)
  fix p :: "mb_reply \<times> mem_bio_server_rep"
  assume "mb_same r (snd p)"
  then have "mb_alpn (snd p) = mb_alpn r" by (cases r; cases "snd p"; simp add: mb_same_def)
  then show "mset (mb_owns (snd p) @ mb_reply_fp (fst p) @ own (mb_alpn r) Mem) =
      mset (case p of (x, r') \<Rightarrow> mb_server_owns r' @ mb_reply_fp x)"
    by (simp add: mb_server_owns_def case_prod_unfold)
qed

lemma mem_bio_client_destructor_triple:
  "ledger_triple fns (mb_owns r) (mem_bio_client_destructor r) (\<lambda>_. [])"
  unfolding mem_bio_client_destructor_def mb_frees mb_owns_def
  by (rule triple_all_nonnull, simp only: append.simps list.pred_inject prod.case simp_thms, (erule conjE)+,
    (rule step_known, assumption | rule steps_first | rule keylog_buf_clear_triple [THEN triple_step1] | rule step_calls
        | rule steps | rule fp_rules | (simp; fail))+)

lemma mem_bio_server_destructor_triple:
  "ledger_triple fns (mb_server_owns r) (mem_bio_server_destructor r) (\<lambda>_. [])"
  unfolding mem_bio_server_destructor_def mb_frees mb_owns_def mb_server_owns_def
  by (rule triple_all_nonnull, simp only: append.simps append_assoc list.pred_inject prod.case simp_thms, (erule conjE)+,
    (rule step_known, assumption | rule steps_first | rule keylog_buf_clear_triple [THEN triple_step1] | rule step_calls
        | rule steps | rule fp_rules | (simp only: own_simps append_Nil2 append.simps append_assoc) | (simp; fail))+)

text \<open>What \<open>close\<close> leaves for the destructor.\<close>

lemma closed_client_triple:
  "mb_ssl r = 0 \<Longrightarrow> mb_ctx r = 0 \<Longrightarrow>
   ledger_triple fns ((mb_self r, Mem) # keylog_owns (mb_keylog r)) (mem_bio_client_destructor r) (\<lambda>_. [])"
  unfolding mem_bio_client_destructor_def mb_frees
  by (rule triple_nonnull,
    (rule step_known, assumption | rule steps_first | rule keylog_buf_clear_triple [THEN triple_step1] | rule step_calls
        | rule steps | rule fp_rules | (simp; fail))+)

lemma closed_server_triple:
  "mb_ssl r = 0 \<Longrightarrow> mb_ctx r = 0 \<Longrightarrow> mb_alpn r = 0 \<Longrightarrow>
   ledger_triple fns ((mb_self r, Mem) # keylog_owns (mb_keylog r)) (mem_bio_server_destructor r) (\<lambda>_. [])"
  unfolding mem_bio_server_destructor_def mb_frees
  by (rule triple_nonnull,
    (rule step_known, assumption | rule steps_first | rule keylog_buf_clear_triple [THEN triple_step1] | rule step_calls
        | rule steps | rule fp_rules | (simp; fail))+)

lemma mem_bio_client_close_triple:
  "ledger_triple fns (mb_owns r) (mem_bio_client_close r) (\<lambda>_. [])"
  unfolding mem_bio_client_close_def mb_frees mb_owns_def
  by (rule triple_all_nonnull, simp only: append.simps list.pred_inject prod.case simp_thms, (erule conjE)+,
    (rule step_known, assumption | rule steps_first | rule triple_perm [OF closed_client_triple] | rule step_calls
        | rule steps | rule fp_rules | (simp; fail))+)

lemma mem_bio_server_close_triple:
  "ledger_triple fns (mb_server_owns r) (mem_bio_server_close r) (\<lambda>_. [])"
  unfolding mem_bio_server_close_def mb_frees mb_owns_def mb_server_owns_def
  by (rule triple_all_nonnull, simp only: append.simps append_assoc list.pred_inject prod.case simp_thms, (erule conjE)+,
    (rule step_known, assumption | rule steps_first | rule triple_perm [OF closed_server_triple] | rule step_calls
        | rule steps | rule fp_rules | (simp only: own_simps append_Nil2 append.simps append_assoc) | (simp; fail))+)

interpretation mb_client: stateful_resource mb_services mb_owns "range mb_method" mb_reply_fp mem_bio_client_destructor
  by unfold_locales (use mb_client_method_triple mem_bio_client_destructor_triple in auto)

interpretation mb_server: stateful_resource mb_services mb_server_owns "range mem_bio_server_method" mb_reply_fp mem_bio_server_destructor
  by unfold_locales (use mb_server_method_triple mem_bio_server_destructor_triple in auto)

section \<open>The handshake flag\<close>

lemma ssl_call_cases:
  assumes "ssl_call fn args b w = Some ((a, b'), w')"
  shows "a = lib w (log w) fn args"
  using assms by (auto simp: ssl_call_def ccall_def split: Option.bind_splits)

text \<open>Only a handshake call that succeeds touches the flag.\<close>

definition finishes :: "mb_call \<Rightarrow> mb_reply \<Rightarrow> bool" where
  "finishes c x \<longleftrightarrow> c = Do_handshake \<and> x = Status (Inr ())"

lemma mb_method_done:
  assumes "mb_method c r w = Some ((x, r'), w')"
  shows "mb_done r' \<longleftrightarrow> mb_done r \<or> finishes c x" and "c = Handshake_done \<Longrightarrow> x = Flag (mb_done r)"
  using assms
  by (cases c; auto simp: replying_def finishes_def mb_do_handshake_def mb_handshake_done_def mb_bio_write_def mb_bio_read_def
      mb_bio_pending_def mb_read_def mb_write_def mb_peer_cert_der_def mb_version_def
      mb_selected_alpn_protocol_def mb_peer_def mb_peer_chain_der_def mb_shutdown_def Let_def
      split: Option.bind_splits if_splits)+

lemma run_steps_done:
  assumes "run_steps (map mb_method cs) r w = Some ((xs, r'), w')"
  shows "mb_done r' \<longleftrightarrow> mb_done r \<or> (\<exists>(c, x) \<in> set (zip cs xs). finishes c x)" and "length xs = length cs"
  using assms
proof (induction cs arbitrary: r w xs)
  case Nil
  case 1
  then show ?case by simp
  case 2
  then show ?case by simp
next
  case (Cons c cs)
  have split: "\<exists>x w1 r1 ys. mb_method c r w = Some ((x, r1), w1) \<and>
      run_steps (map mb_method cs) r1 w1 = Some ((ys, r'), w') \<and> xs = x # ys"
    if "run_steps (map mb_method (c # cs)) r w = Some ((xs, r'), w')" for r w xs
    using that by (auto split: Option.bind_splits)
  case 1
  then show ?case using split [OF 1] mb_method_done(1) Cons.IH(1) by fastforce
  case 2
  then show ?case using split [OF 2] Cons.IH(2) by fastforce
qed

section \<open>Moving the ciphertext\<close>

text \<open>
  The documented behaviour of memory BIOs, queues of bytes: \<open>pending\<close> reads their contents off
  the call log, with \<open>step\<close> for what one call does to them. Only the calls made by the pump are
  described; the TLS engine's own calls may do anything.
\<close>

definition pending ::
    "((ptr \<Rightarrow> u8 list) \<Rightarrow> event \<Rightarrow> ptr \<Rightarrow> u8 list) \<Rightarrow> event list \<Rightarrow> ptr \<Rightarrow> u8 list" where
  "pending step h = foldl step (\<lambda>_. []) h"

lemma pending_append [simp]: "pending step (h @ es) = foldl step (pending step h) es"
  by (simp add: pending_def)

definition mem_bio ::
    "(event list \<Rightarrow> string \<Rightarrow> arg list \<Rightarrow> answer) \<Rightarrow> ((ptr \<Rightarrow> u8 list) \<Rightarrow> event \<Rightarrow> ptr \<Rightarrow> u8 list) \<Rightarrow> bool" where
  "mem_bio L step \<longleftrightarrow> grants L ''malloc'' \<and>
     (\<forall>h c. length (pending step h c) < 2 ^ 31) \<and>
     (\<forall>h c. rc (L h ''BIO_ctrl_pending'' [Ptr c]) = int (length (pending step h c))) \<and>
     (\<forall>h c p n. 0 < n \<longrightarrow> n \<le> length (pending step h c) \<longrightarrow>
        rc (L h ''BIO_read'' [Ptr c, Ptr p, Val (int n)]) = int n \<and>
        written (L h ''BIO_read'' [Ptr c, Ptr p, Val (int n)]) = take n (pending step h c)) \<and>
     (\<forall>q c p n. 0 < n \<longrightarrow> n \<le> length (q c) \<longrightarrow>
        step q (Ev ''BIO_read'' [Ptr c, Ptr p, Val (int n)] 0) c = drop n (q c)) \<and>
     (\<forall>q c. step q (Ev ''BIO_ctrl_pending'' [Ptr c] 0) = q) \<and>
     (\<forall>q a p. step q (Ev ''malloc'' a p) = q)"

lemma mem_bioD:
  assumes "mem_bio L step"
  shows "grants L ''malloc''" "length (pending step h c) < 2 ^ 31"
    "rc (L h ''BIO_ctrl_pending'' [Ptr c]) = int (length (pending step h c))"
    "0 < n \<Longrightarrow> n \<le> length (pending step h c) \<Longrightarrow> rc (L h ''BIO_read'' [Ptr c, Ptr p, Val (int n)]) = int n"
    "0 < n \<Longrightarrow> n \<le> length (pending step h c) \<Longrightarrow>
       written (L h ''BIO_read'' [Ptr c, Ptr p, Val (int n)]) = take n (pending step h c)"
    "0 < n \<Longrightarrow> n \<le> length (q c) \<Longrightarrow> step q (Ev ''BIO_read'' [Ptr c, Ptr p, Val (int n)] 0) c = drop n (q c)"
    "step q (Ev ''BIO_ctrl_pending'' [Ptr c] 0) = q"
    "step q (Ev ''malloc'' a p) = q"
  using assms unfolding mem_bio_def by blast+

text \<open>A read of at most \<open>n\<close> bytes from a queue \<open>q\<close>.\<close>

lemma mb_bio_read_runs:
  assumes "mem_bio (lib w) step" and "0 < nxt w" and q: "q = pending step (log w) (mb_out r)"
  shows "\<exists>p w'. mb_bio_read n r w =
      Some ((\<lparr> at = p, len = length (take n q), bytes = take n q \<rparr>, r), w') \<and>
    lib w' = lib w \<and> 0 < nxt w' \<and> pending step (log w') (mb_out r) = drop n q"
proof -
  note D = mem_bioD [OF assms(1)]
  have b: "length q < 2147483648" using D(2) by (simp add: q)
  consider "n = 0 \<or> q = []" | "q \<noteq> []" "length q < n" | "0 < n" "n \<le> length q" by fastforce
  then show ?thesis
  proof cases
    case 1
    then show ?thesis using assms(2) b
      by (auto simp: mb_bio_read_def run_eqs D(3,7) no_list_def simp flip: q)
  next
    case 2
    then show ?thesis using assms(2) b D(4-6) [of "length q"]
      by (simp add: mb_bio_read_def run_eqs Let_def D(1,3,7,8) flip: q)
  next
    case 3
    then have "\<not> length q < n" "q \<noteq> []" "min (length q) n = n" by auto
    with 3 show ?thesis using assms(2) b D(4-6) [of n]
      by (simp add: mb_bio_read_def run_eqs Let_def D(1,3,7,8) flip: q)
  qed
qed

lemma mb_bio_reads_run:
  assumes "mem_bio (lib w) step" and "0 < nxt w" and q: "q = pending step (log w) (mb_out r)"
  shows "\<exists>ls w'. run_steps (map (\<lambda>n. mb_method (Bio_read n)) ns) r w = Some ((map Data ls, r), w') \<and>
    lib w' = lib w \<and> 0 < nxt w' \<and> pending step (log w') (mb_out r) = drop (sum_list ns) q \<and>
    concat (map bytes ls) = take (sum_list ns) q \<and> list_all2 (\<lambda>l n. len l = length (bytes l) \<and> len l \<le> n) ls ns"
  using assms
proof (induction ns arbitrary: w q)
  case Nil
  then show ?case by simp
next
  case (Cons n ns)
  obtain p w1 where 1: "mb_bio_read n r w = Some ((\<lparr> at = p, len = length (take n q), bytes = take n q \<rparr>, r), w1)"
      "lib w1 = lib w" "0 < nxt w1" "pending step (log w1) (mb_out r) = drop n q"
    using mb_bio_read_runs [OF Cons.prems] by blast
  obtain ls w2 where 2: "run_steps (map (\<lambda>n. mb_method (Bio_read n)) ns) r w1 = Some ((map Data ls, r), w2)"
      "lib w2 = lib w" "0 < nxt w2" "pending step (log w2) (mb_out r) = drop (sum_list ns) (drop n q)"
      "concat (map bytes ls) = take (sum_list ns) (drop n q)"
      "list_all2 (\<lambda>l n. len l = length (bytes l) \<and> len l \<le> n) ls ns"
  proof -
    have "mem_bio (lib w1) step" using 1(2) Cons.prems(1) by simp
    from Cons.IH [OF this 1(3) 1(4) [symmetric]] show ?thesis using that 1(2) by force
  qed
  let ?l = "\<lparr> at = p, len = length (take n q), bytes = take n q \<rparr>"
  have "run_steps (map (\<lambda>n. mb_method (Bio_read n)) (n # ns)) r w = Some ((map Data (?l # ls), r), w2)"
    using 1 2 by (simp add: replying_def)
  moreover have "concat (map bytes (?l # ls)) = take (sum_list (n # ns)) q"
    using 2 by (simp add: take_add)
  moreover have "drop (sum_list ns) (drop n q) = drop (sum_list (n # ns)) q" by (simp add: add.commute)
  ultimately show ?case using 2 by (intro exI [of _ "?l # ls"] exI [of _ w2]) (simp del: mb_method.simps)
qed

lemma run_steps_append:
  "run_steps (ms @ ns) r w = do {
     ((xs, r), w) \<leftarrow> run_steps ms r w; ((ys, r), w) \<leftarrow> run_steps ns r w; Some ((xs @ ys, r), w) }"
  by (induction ms arbitrary: r w) (auto split: Option.bind_splits prod.splits)

section \<open>Properties\<close>

text \<open>C23: Whatever the library answers, the whole life of a memory-BIO client or server (made
  from any configuration, any sequence of method calls, then closed or dropped) leaves live
  exactly what the calls returned: no leak, no use of a freed object, no write outside the
  key-log array; it stops only if malloc fails or the error queue never runs empty.\<close>

theorem mem_bio_lives_balanced:
  assumes "client_refs cf \<subseteq> fst ` set A" and "server_refs sf \<subseteq> fst ` set A"
    and "cfin \<in> {mem_bio_client_close, mem_bio_client_destructor}"
    and "sfin \<in> {mem_bio_server_close, mem_bio_server_destructor}"
  shows "ledger_triple mb_services A (lifetime (mem_bio_client_new cf) (map mb_method cs) cfin)
      (\<lambda>x. result_fp (\<lambda>xs. concat (map mb_reply_fp xs)) x @ A) \<and>
    ledger_triple mb_services A (lifetime (mem_bio_server_new sf) (map mem_bio_server_method cs) sfin)
      (\<lambda>x. result_fp (\<lambda>xs. concat (map mb_reply_fp xs)) x @ A)"
proof (intro conjI)
  have ms: "set (map mb_method cs) \<subseteq> range mb_method"
    "set (map mem_bio_server_method cs) \<subseteq> range mem_bio_server_method" by auto
  show "ledger_triple mb_services A (lifetime (mem_bio_client_new cf) (map mb_method cs) cfin)
      (\<lambda>x. result_fp (\<lambda>xs. concat (map mb_reply_fp xs)) x @ A)"
    by (rule mb_client.life_balanced [OF ms(1) triple_weaken [OF mem_bio_client_new_triple [OF assms(1)]]])
      (use assms(3) mem_bio_client_close_triple mem_bio_client_destructor_triple in auto)
  show "ledger_triple mb_services A (lifetime (mem_bio_server_new sf) (map mem_bio_server_method cs) sfin)
      (\<lambda>x. result_fp (\<lambda>xs. concat (map mb_reply_fp xs)) x @ A)"
    by (rule mb_server.life_balanced [OF ms(2) triple_weaken [OF mem_bio_server_new_triple [OF assms(2)]]])
      (use assms(4) mem_bio_server_close_triple mem_bio_server_destructor_triple in auto)
qed

definition sample_client :: client_config where
  "sample_client = \<lparr> cc_protocols = (0, 1), cc_verify = 1, cc_trust = Some 1, cc_server_name = Some [104],
     cc_client_cert = None, cc_client_key = None, cc_alpn = Some [[104, 50]], cc_ciphers = None,
     cc_groups = None, cc_keylog = True \<rparr>"

definition sample_server :: server_config where
  "sample_server = \<lparr> sc_protocols = (0, 1), sc_verify = 0, sc_client_trust = None, sc_cert_chain = [2, 2],
     sc_key = 3, sc_alpn = Some [[104, 50]], sc_ciphers = None, sc_groups = None, sc_keylog = False \<rparr>"

theorem mem_bio_lives_balanced_witness:
  "ledger_triple mb_services [(1, Obj ''X509_STORE''), (2, Obj ''X509''), (3, Obj ''EVP_PKEY'')]
     (lifetime (mem_bio_client_new sample_client) (map mb_method [Do_handshake, Bio_read 9]) mem_bio_client_close)
      (\<lambda>x. result_fp (\<lambda>xs. concat (map mb_reply_fp xs)) x @ [(1, Obj ''X509_STORE''), (2, Obj ''X509''), (3, Obj ''EVP_PKEY'')])"
  using mem_bio_lives_balanced [of sample_client "[(1, Obj ''X509_STORE''), (2, Obj ''X509''), (3, Obj ''EVP_PKEY'')]"
      sample_server mem_bio_client_close mem_bio_server_close "[Do_handshake, Bio_read 9]"]
  by (simp add: client_refs_def server_refs_def sample_client_def sample_server_def)

text \<open>C22: The handshake flag of a fresh endpoint answers true exactly when some earlier
  do-handshake call succeeded, whatever other calls were made in between and however often the
  handshake was retried.\<close>

theorem mem_bio_handshake_flag:
  assumes "mem_bio_client_new cf w0 = Some (Inr r, w)"
    and "run_steps (map mb_method (cs @ [Handshake_done])) r w = Some ((xs, r'), w')"
  shows "last xs = Flag (\<exists>(c, x) \<in> set (zip cs xs). finishes c x)"
proof -
  have f: "\<not> mb_done r"
    using assms(1) by (auto simp: mem_bio_client_new_def Let_def split: Option.bind_splits if_splits)
  obtain ys r1 w1 x r2 w2 where s: "run_steps (map mb_method cs) r w = Some ((ys, r1), w1)"
      "mb_method Handshake_done r1 w1 = Some ((x, r2), w2)" "xs = ys @ [x]"
    using assms(2) by (auto simp: run_steps_append split: Option.bind_splits)
  have "x = Flag (mb_done r1)" using mb_method_done(2) [OF s(2)] by simp
  with run_steps_done [OF s(1)] f s(3) show ?thesis by (simp add: zip_append2)
qed

definition retry_lib :: "event list \<Rightarrow> string \<Rightarrow> arg list \<Rightarrow> answer" where
  "retry_lib h fn args =
     (if fn = ''SSL_do_handshake''
      then ok_answer\<lparr> rc := if list_ex (\<lambda>e. case e of Ev g _ _ \<Rightarrow> g = ''SSL_do_handshake'') h then 1 else -1 \<rparr>
      else if fn = ''SSL_get_error'' then ok_answer\<lparr> rc := 2 \<rparr> else ok_answer)"

definition plain_client :: client_config where
  "plain_client = sample_client\<lparr> cc_trust := None, cc_server_name := None, cc_alpn := None, cc_keylog := False \<rparr>"

theorem mem_bio_handshake_flag_witness:
  "\<exists>r w xs r' w'. mem_bio_client_new plain_client (first_world retry_lib) = Some (Inr r, w) \<and>
    run_steps (map mb_method ([Do_handshake, Do_handshake] @ [Handshake_done])) r w = Some ((xs, r'), w') \<and>
    last xs = Flag True"
proof -
  let ?w = "first_world retry_lib"
  have L: "grants retry_lib fn" for fn by (simp add: grants_def retry_lib_def ok_answer_def)
  obtain r w where 1: "mem_bio_client_new plain_client ?w = Some (Inr r, w)" "lib w = retry_lib"
      "mb_keylog r = new_keylog False" "\<not> list_ex (\<lambda>e. case e of Ev g _ _ \<Rightarrow> g = ''SSL_do_handshake'') (log w)"
    by (simp add: mem_bio_client_new_def plain_client_def sample_client_def wants_dtls_def run_eqs L
        client_settings_def apply_protocols_def proto_version_def set_call_def apply_ciphers_def apply_groups_def
        set_store_def set_opt_call_def set_keylog_callback_def alpn_wire_def no_list_def attach_keylog_def
        set_server_name_def move_keylog_def Let_def)
  have "\<exists>r' w'. run_steps (map mb_method ([Do_handshake, Do_handshake] @ [Handshake_done])) r w =
      Some (([Status (Inl Tls_would_block), Status (Inr ()), Flag True], r'), w')"
    using 1 by (simp add: replying_def mb_do_handshake_def mb_handshake_done_def ssl_call_def run_eqs SSL_get_error_def
        wants_io_def SSL_ERROR_WANT_READ_def Let_def retry_lib_def ok_answer_def)
  then obtain r' w' where 2: "run_steps (map mb_method ([Do_handshake, Do_handshake] @ [Handshake_done])) r w =
      Some (([Status (Inl Tls_would_block), Status (Inr ()), Flag True], r'), w')" by blast
  from mem_bio_handshake_flag [OF 1(1) 2] show ?thesis using 1(1) 2 by fastforce
qed

text \<open>C21: With memory BIOs that are queues, any sequence of bio-read calls hands out exactly the
  bytes that were pending, in order and each once, no call more than it was asked for;
  bio-pending then answers how many are left.\<close>

theorem mem_bio_pump_exact:
  assumes "mem_bio (lib w) step" and "0 < nxt w" and q: "q = pending step (log w) (mb_out r)"
  shows "\<exists>ls w'. run_steps (map mb_method (map Bio_read ns @ [Bio_pending])) r w =
      Some ((map Data ls @ [Count (length q - sum_list ns)], r), w') \<and>
    concat (map bytes ls) = take (sum_list ns) q \<and> list_all2 (\<lambda>l n. len l = length (bytes l) \<and> len l \<le> n) ls ns"
proof -
  obtain ls w1 where 1: "run_steps (map (\<lambda>n. mb_method (Bio_read n)) ns) r w = Some ((map Data ls, r), w1)"
      "lib w1 = lib w" "pending step (log w1) (mb_out r) = drop (sum_list ns) q"
      "concat (map bytes ls) = take (sum_list ns) q" "list_all2 (\<lambda>l n. len l = length (bytes l) \<and> len l \<le> n) ls ns"
    using mb_bio_reads_run [OF assms] by blast
  have "length q < 2147483648" using mem_bioD(2) [OF assms(1)] by (simp add: q)
  then have "\<exists>w'. mb_method Bio_pending r w1 = Some ((Count (length q - sum_list ns), r), w')"
    using 1(2,3) mem_bioD(3) [of "lib w1" step] assms(1)
    by (simp add: replying_def mb_bio_pending_def run_eqs)
  then obtain w2 where "mb_method Bio_pending r w1 = Some ((Count (length q - sum_list ns), r), w2)" ..
  with 1 have "run_steps (map mb_method (map Bio_read ns @ [Bio_pending])) r w =
      Some ((map Data ls @ [Count (length q - sum_list ns)], r), w2)"
    by (simp add: run_steps_append comp_def del: mb_method.simps)
  with 1(4,5) show ?thesis by blast
qed

fun sample_bio_step :: "(ptr \<Rightarrow> u8 list) \<Rightarrow> event \<Rightarrow> ptr \<Rightarrow> u8 list" where
  "sample_bio_step q (Ev fn args p) =
     (if fn = ''BIO_read'' then (case args of [Ptr c, Ptr b, Val n] \<Rightarrow> q(c := drop (nat n) (q c)) | _ \<Rightarrow> q)
      else if fn = ''fill'' then (\<lambda>_. [22, 3, 1]) else q)"

definition sample_bio_lib :: "event list \<Rightarrow> string \<Rightarrow> arg list \<Rightarrow> answer" where
  "sample_bio_lib h fn args =
     (if fn = ''BIO_ctrl_pending''
      then (case args of [Ptr c] \<Rightarrow> ok_answer\<lparr> rc := int (length (pending sample_bio_step h c)) \<rparr> | _ \<Rightarrow> ok_answer)
      else if fn = ''BIO_read''
      then (case args of [Ptr c, Ptr b, Val n] \<Rightarrow>
              ok_answer\<lparr> rc := n, written := take (nat n) (pending sample_bio_step h c) \<rparr> | _ \<Rightarrow> ok_answer)
      else ok_answer)"

lemma sample_bio_short: "length (pending sample_bio_step h c) \<le> 3"
proof -
  have "\<forall>c. length (foldl sample_bio_step q h c) \<le> 3" if "\<forall>c. length (q c) \<le> 3" for q
    using that
  proof (induction h arbitrary: q)
    case (Cons e h)
    have "\<forall>c. length (sample_bio_step q e c) \<le> 3"
      using Cons.prems by (cases e) (auto split: list.split arg.split simp: le_diff_conv trans_le_add1)
    then show ?case using Cons.IH by simp
  qed simp
  then show ?thesis by (simp add: pending_def)
qed

lemma sample_bio_lib_ok: "mem_bio sample_bio_lib sample_bio_step"
  using le_less_trans [OF sample_bio_short]
  by (auto simp: mem_bio_def grants_def sample_bio_lib_def ok_answer_def split: list.split arg.split)

theorem mem_bio_pump_exact_witness:
  "let w = (first_world sample_bio_lib)\<lparr> log := [Ev ''fill'' [] 0] \<rparr>;
       r = \<lparr> mb_self = 1, mb_ctx = 2, mb_ssl = 3, mb_in = 4, mb_out = 5, mb_done = False, mb_keylog = new_keylog False \<rparr>
   in \<exists>ls w'. run_steps (map mb_method (map Bio_read [2, 0, 5] @ [Bio_pending])) r w =
      Some ((map Data ls @ [Count 0], r), w') \<and> concat (map bytes ls) = [22, 3, 1]"
  using mem_bio_pump_exact [of "(first_world sample_bio_lib)\<lparr> log := [Ev ''fill'' [] 0] \<rparr>" sample_bio_step "[22, 3, 1]"
      "\<lparr> mb_self = 1, mb_ctx = 2, mb_ssl = 3, mb_in = 4, mb_out = 5, mb_done = False, mb_keylog = new_keylog False \<rparr>"
      "[2, 0, 5]"] sample_bio_lib_ok
  by (simp add: pending_def Let_def first_world_def del: mb_method.simps) blast

end
