(* ===== verification/Decimal.thy ===== *)
theory Decimal
  imports Objects
begin

text \<open>
  Numbers as text, the way C's \<open>printf\<close> writes and \<open>scanf\<close> reads them, for the port numbers of
  \<open>tls.c\<close> and the times of \<open>x509.c\<close> and \<open>x509_build.c\<close>.
\<close>

section \<open>Printing\<close>

text \<open>\<open>%u\<close> of \<open>printf\<close>, and the number that a string of digits denotes.\<close>

function decimal :: "nat \<Rightarrow> u8 list" where
  "decimal n = (if n < 10 then [word_of_nat (48 + n)] else decimal (n div 10) @ [word_of_nat (48 + n mod 10)])"
  by pat_completeness auto
termination by (relation "measure id") auto

declare decimal.simps [simp del]

definition decimal_value :: "u8 list \<Rightarrow> nat" where
  "decimal_value ds = foldl (\<lambda>a d. 10 * a + (unat d - 48)) 0 ds"

lemma unat_digit: "m < 10 \<Longrightarrow> unat (48 + word_of_nat m :: u8) = 48 + m"
proof -
  assume "m < 10"
  then have "unat (word_of_nat (48 + m) :: u8) = 48 + m"
    by (simp only: unsigned_of_nat) (simp add: take_bit_nat_eq_self)
  then show ?thesis by simp
qed

lemma decimal_value_decimal: "decimal_value (decimal n) = n"
proof (induction n rule: decimal.induct)
  case (1 n)
  show ?case
  proof (cases "n < 10")
    case True
    then show ?thesis by (subst decimal.simps) (simp add: decimal_value_def unat_digit)
  next
    case False
    then show ?thesis using 1 by (subst decimal.simps) (simp add: decimal_value_def unat_digit)
  qed
qed

lemma length_decimal: "0 < k \<Longrightarrow> n < 10 ^ k \<Longrightarrow> length (decimal n) \<le> k"
proof (induction n arbitrary: k rule: decimal.induct)
  case (1 n)
  show ?case
  proof (cases "n < 10")
    case True
    then show ?thesis using 1 by (subst decimal.simps) simp
  next
    case False
    then obtain j where j: "k = Suc j" "0 < j" using 1(2,3) by (cases k; cases "k = 1") auto
    then have "n div 10 < 10 ^ j" using 1(3) by (simp add: less_mult_imp_div_less mult.commute)
    with False 1(1) j show ?thesis by (subst decimal.simps) simp
  qed
qed

text \<open>\<open>%0wd\<close>: padded with zeros to \<open>w\<close> characters, the sign included.\<close>

definition padded :: "nat \<Rightarrow> nat \<Rightarrow> u8 list" where
  "padded k n = replicate (k - length (decimal n)) 48 @ decimal n"

definition print_int :: "nat \<Rightarrow> int \<Rightarrow> u8 list" where
  "print_int k i = (if i < 0 then 45 # padded (k - 1) (nat (- i)) else padded k (nat i))"

section \<open>Scanning\<close>

text \<open>\<open>%d\<close>: white space, a sign, digits. The C library reads the digits as an unsigned 64-bit
  number, which it does not let grow past the largest one, and stores 32 bits of it.\<close>

definition is_digit :: "u8 \<Rightarrow> bool" where
  "is_digit c \<longleftrightarrow> 48 \<le> c \<and> c \<le> 57"

definition is_space :: "u8 \<Rightarrow> bool" where
  "is_space c \<longleftrightarrow> c = 32 \<or> (9 \<le> c \<and> c \<le> 13)"

definition c_wrap :: "int \<Rightarrow> int" where
  "c_wrap i = sint (word_of_int i :: u32)"

definition scan_int :: "u8 list \<Rightarrow> (int \<times> u8 list) option" where
  "scan_int s =
     (let s = dropWhile is_space s;
          signed = (s \<noteq> [] \<and> (hd s = 43 \<or> hd s = 45));
          neg = (s \<noteq> [] \<and> hd s = 45);
          s = (if signed then tl s else s);
          n = int (min (decimal_value (takeWhile is_digit s)) (2 ^ 64 - 1))
      in if takeWhile is_digit s = [] then None
         else Some (c_wrap (if neg then - n else n), dropWhile is_digit s))"

definition scan_char :: "u8 \<Rightarrow> u8 list \<Rightarrow> u8 list option" where
  "scan_char c s = (case s of [] \<Rightarrow> None | d # s \<Rightarrow> if d = c then Some s else None)"

lemma digit_chars: "n < 10 \<Longrightarrow> is_digit (48 + word_of_nat n)"
  by (simp add: is_digit_def word_le_nat_alt unat_digit)

lemma decimal_digits: "list_all is_digit (decimal n)"
proof (induction n rule: decimal.induct)
  case (1 n)
  then show ?case using digit_chars [of n] digit_chars [of "n mod 10"] by (subst decimal.simps) simp
qed

lemma decimal_nonempty [simp]: "decimal n \<noteq> []"
  by (subst decimal.simps) simp

lemma decimal_value_zeros: "decimal_value (replicate k 48 @ ds) = decimal_value ds"
  by (induction k) (simp_all add: decimal_value_def)

lemma padded_digits: "list_all is_digit (padded k n)" "padded k n \<noteq> []" "decimal_value (padded k n) = n"
  using decimal_digits [of n]
  by (auto simp: padded_def decimal_value_zeros decimal_value_decimal list_all_iff is_digit_def)

lemma length_padded: "n < 10 ^ k \<Longrightarrow> 0 < k \<Longrightarrow> length (padded k n) = k"
  using length_decimal [of k n] by (simp add: padded_def)

text \<open>A printed number is read back, up to the first character behind it that is no digit.\<close>

lemma scan_padded:
  assumes "\<not> is_digit c" and "n < 2 ^ 31"
  shows "scan_int (padded k n @ c # s) = Some (int n, c # s)"
proof -
  obtain d ds where p: "padded k n = d # ds" using padded_digits(2) [of k n] by (cases "padded k n") auto
  then have d: "is_digit d" using padded_digits(1) [of k n] by simp
  then have "\<not> is_space d" "d \<noteq> 43" "d \<noteq> 45"
    by (auto simp: is_digit_def is_space_def word_le_nat_alt)
  moreover have "takeWhile is_digit (padded k n @ c # s) = padded k n" "dropWhile is_digit (padded k n @ c # s) = c # s"
    using padded_digits(1) [of k n] assms(1) by (simp_all add: list_all_iff)
  moreover have "c_wrap (int (min n (2 ^ 64 - 1))) = int n"
    using assms(2) c_int_small [of n] by (simp add: c_wrap_def c_int_def)
  ultimately show ?thesis
    using p padded_digits(3) [of k n] by (simp add: scan_int_def Let_def)
qed

end
