(* ===== verification/Tls_Socket.thy ===== *)
theory Tls_Socket
  imports Tls_Mem Decimal
begin

text \<open>
  The socket endpoints of \<open>src/tls.c\<close>: a client that connects, a listener that accepts, and the
  connections it hands out. A file descriptor is an object of the ledger, and -1 is \<open>NULL\<close>.
\<close>

section \<open>Sockets\<close>

abbreviation fd_kind :: kind where "fd_kind \<equiv> Obj ''fd''"

text \<open>The port goes by its decimal text, \<open>snprintf (portstr, 8, "%u", port)\<close>. \<open>getaddrinfo\<close> answers the list of addresses in \<open>lines\<close>; there is a list only when its
  result is 0, and it may be \<open>NULL\<close> even then.\<close>

definition getaddrinfo :: "u8 list \<Rightarrow> nat \<Rightarrow> bool \<Rightarrow> world \<Rightarrow> (u8 list list \<times> ptr) outcome" where
  "getaddrinfo host port passive w = do {
     (a, w) \<leftarrow> ccall ''getaddrinfo'' [Buf (host @ [0]), Buf (decimal port @ [0]), Val (if passive then 1 else 0)] w;
     if rc a \<noteq> 0 then Some (([], 0), w)
     else do {
       (res, w) \<leftarrow> create (Obj ''addrinfo'') ''addrinfo'' [] w;
       Some ((lines a, res), w) } }"

definition close_fd :: "ptr \<Rightarrow> world \<Rightarrow> unit outcome" where
  "close_fd = release fd_kind ''close''"

fun connect_loop :: "u8 list list \<Rightarrow> world \<Rightarrow> ptr outcome" where
  "connect_loop [] w = Some (0, w)"
| "connect_loop (p # ps) w = do {
     (fd, w) \<leftarrow> create fd_kind ''socket'' [Buf p] w;
     if fd = 0 then connect_loop ps w
     else do {
       (a, w) \<leftarrow> ccall ''connect'' [Ptr fd, Buf p] w;
       if rc a = 0 then Some (fd, w)
       else do {
         (_, w) \<leftarrow> close_fd fd w;
         connect_loop ps w } } }"

definition connect_tcp :: "u8 list \<Rightarrow> nat \<Rightarrow> world \<Rightarrow> ptr outcome" where
  "connect_tcp host port w = do {
     ((addrs, res), w) \<leftarrow> getaddrinfo host port False w;
     if res = 0 then Some (0, w)
     else do {
       (fd, w) \<leftarrow> connect_loop addrs w;
       (_, w) \<leftarrow> release (Obj ''addrinfo'') ''freeaddrinfo'' res w;
       Some (fd, w) } }"

fun bind_loop :: "u8 list list \<Rightarrow> world \<Rightarrow> ptr outcome" where
  "bind_loop [] w = Some (0, w)"
| "bind_loop (p # ps) w = do {
     (fd, w) \<leftarrow> create fd_kind ''socket'' [Buf p] w;
     if fd = 0 then bind_loop ps w
     else do {
       (_, w) \<leftarrow> ccall ''setsockopt'' [Ptr fd, Str ''SO_REUSEADDR'', Val 1] w;
       (a, w) \<leftarrow> ccall ''bind'' [Ptr fd, Buf p] w;
       (ok, w) \<leftarrow> (if rc a = 0
         then do { (l, w) \<leftarrow> ccall ''listen'' [Ptr fd, Val 16] w; Some (rc l = 0, w) }
         else Some (False, w));
       if ok then Some (fd, w)
       else do {
         (_, w) \<leftarrow> close_fd fd w;
         bind_loop ps w } } }"

definition bind_tcp :: "u8 list \<Rightarrow> nat \<Rightarrow> world \<Rightarrow> ptr outcome" where
  "bind_tcp host port w = do {
     ((addrs, res), w) \<leftarrow> getaddrinfo host port True w;
     if res = 0 then Some (0, w)
     else do {
       (fd, w) \<leftarrow> bind_loop addrs w;
       (_, w) \<leftarrow> release (Obj ''addrinfo'') ''freeaddrinfo'' res w;
       Some (fd, w) } }"

section \<open>Representations\<close>

text \<open>The client's representation has a context besides the fields of a connection.\<close>

record server_rep =
  ep_self :: ptr
  ep_ssl :: ptr
  ep_fd :: ptr
  ep_keylog :: keylog_buf

record client_rep = server_rep +
  ep_ctx :: ptr

record listener_rep =
  ln_self :: ptr
  ln_ctx :: ptr
  ln_fd :: ptr
  ln_alpn :: ptr
  ln_alpn_len :: nat
  ln_keylog :: bool

section \<open>Construction\<close>

definition name_host :: "ptr \<Rightarrow> u8 list option \<Rightarrow> u8 list \<Rightarrow> world \<Rightarrow> unit outcome" where
  "name_host ssl name host w = (case name of
     Some v \<Rightarrow> with_cstring v (set_names ssl) w
   | None \<Rightarrow> set_names ssl (Buf (host @ [0])) w)"

definition SSL_free :: "ptr \<Rightarrow> world \<Rightarrow> unit outcome" where
  "SSL_free = release (Obj ''SSL'') ''SSL_free''"

definition client_connect ::
    "u8 list \<Rightarrow> nat \<Rightarrow> client_config \<Rightarrow> world \<Rightarrow> (tls_error + client_rep) outcome" where
  "client_connect host port cf w =
     (if wants_dtls (cc_protocols cf) then Some (Inl Tls_protocol_version, w)
      else do {
        (ctx, w) \<leftarrow> create (Obj ''SSL_CTX'') ''SSL_CTX_new'' [Str ''TLS_client_method''] w;
        if ctx = 0 then Some (Inl Tls_bad_config, w)
        else do {
          (_, w) \<leftarrow> client_settings ctx cf w;
          (hostnul, w) \<leftarrow> xmalloc (Suc (length host)) w;
          (_, w) \<leftarrow> deref hostnul w;
          (fd, w) \<leftarrow> connect_tcp host port w;
          if fd = 0
          then do {
            (_, w) \<leftarrow> SSL_CTX_free ctx w;
            (_, w) \<leftarrow> cfree hostnul w;
            Some (Inl Tls_io_closed, w) }
          else do {
            (ssl, w) \<leftarrow> create (Obj ''SSL'') ''SSL_new'' [Ptr ctx] w;
            if ssl = 0
            then do {
              (_, w) \<leftarrow> close_fd fd w;
              (_, w) \<leftarrow> SSL_CTX_free ctx w;
              (_, w) \<leftarrow> cfree hostnul w;
              Some (Inl Tls_bad_config, w) }
            else do {
              ((pre, kl), w) \<leftarrow> attach_keylog ssl (cc_keylog cf) w;
              (_, w) \<leftarrow> name_host ssl (cc_server_name cf) host w;
              (_, w) \<leftarrow> ccall ''SSL_set_fd'' [Ptr ssl, Ptr fd] w;
              ((a, kl), w) \<leftarrow> ssl_call ''SSL_connect'' [Ptr ssl] kl w;
              if rc a \<noteq> 1
              then do {
                (_, w) \<leftarrow> SSL_get_error ssl (- 1) w;
                (_, w) \<leftarrow> drop_pre_keylog pre kl w;
                (_, w) \<leftarrow> SSL_free ssl w;
                (_, w) \<leftarrow> close_fd fd w;
                (_, w) \<leftarrow> SSL_CTX_free ctx w;
                (_, w) \<leftarrow> cfree hostnul w;
                Some (Inl Tls_handshake_failed, w) }
              else do {
                (_, w) \<leftarrow> cfree hostnul w;
                (r, w) \<leftarrow> xmalloc 24 w;
                (_, w) \<leftarrow> deref r w;
                (kl, w) \<leftarrow> move_keylog ssl r pre kl w;
                Some (Inr \<lparr> ep_self = r, ep_ssl = ssl, ep_fd = fd, ep_keylog = kl, ep_ctx = ctx \<rparr>, w) } } } } })"

definition server_listener_bind ::
    "u8 list \<Rightarrow> nat \<Rightarrow> server_config \<Rightarrow> world \<Rightarrow> (tls_error + listener_rep) outcome" where
  "server_listener_bind host port cf w =
     (if wants_dtls (sc_protocols cf) then Some (Inl Tls_protocol_version, w)
      else do {
        (ctx, w) \<leftarrow> create (Obj ''SSL_CTX'') ''SSL_CTX_new'' [Str ''TLS_server_method''] w;
        if ctx = 0 then Some (Inl Tls_bad_config, w)
        else do {
          (_, w) \<leftarrow> server_settings ctx cf w;
          (hostnul, w) \<leftarrow> xmalloc (Suc (length host)) w;
          (_, w) \<leftarrow> deref hostnul w;
          (fd, w) \<leftarrow> bind_tcp host port w;
          (_, w) \<leftarrow> cfree hostnul w;
          if fd = 0
          then do {
            (_, w) \<leftarrow> SSL_CTX_free ctx w;
            Some (Inl Tls_io_closed, w) }
          else do {
            (r, w) \<leftarrow> xmalloc 20 w;
            (_, w) \<leftarrow> deref r w;
            (alpn, w) \<leftarrow> server_alpn (sc_alpn cf) w;
            (_, w) \<leftarrow> (if at alpn \<noteq> 0
              then do {
                (_, w) \<leftarrow> ccall ''SSL_CTX_set_alpn_select_cb'' [Ptr ctx, Str ''alpn_select_cb'', Ptr (at alpn)] w;
                Some ((), w) }
              else Some ((), w));
            Some (Inr \<lparr> ln_self = r, ln_ctx = ctx, ln_fd = fd, ln_alpn = at alpn, ln_alpn_len = len alpn,
                        ln_keylog = sc_keylog cf \<rparr>, w) } } })"

definition server_listener_accept :: "listener_rep \<Rightarrow> world \<Rightarrow> ((tls_error + server_rep) \<times> listener_rep) outcome" where
  "server_listener_accept l w = do {
     (_, w) \<leftarrow> deref (ln_self l) w;
     (cfd, w) \<leftarrow> create fd_kind ''accept'' [Ptr (ln_fd l)] w;
     if cfd = 0 then Some ((Inl Tls_io_closed, l), w)
     else do {
       (ssl, w) \<leftarrow> create (Obj ''SSL'') ''SSL_new'' [Ptr (ln_ctx l)] w;
       if ssl = 0
       then do {
         (_, w) \<leftarrow> close_fd cfd w;
         Some ((Inl (Tls_internal None), l), w) }
       else do {
         (_, w) \<leftarrow> ccall ''SSL_set_fd'' [Ptr ssl, Ptr cfd] w;
         ((pre, kl), w) \<leftarrow> attach_keylog ssl (ln_keylog l) w;
         ((a, kl), w) \<leftarrow> ssl_call ''SSL_accept'' [Ptr ssl] kl w;
         if rc a \<noteq> 1
         then do {
           (_, w) \<leftarrow> SSL_get_error ssl (- 1) w;
           (_, w) \<leftarrow> print_errors 17 w;
           (_, w) \<leftarrow> drop_pre_keylog pre kl w;
           (_, w) \<leftarrow> SSL_free ssl w;
           (_, w) \<leftarrow> close_fd cfd w;
           Some ((Inl Tls_handshake_failed, l), w) }
         else do {
           (r, w) \<leftarrow> xmalloc 20 w;
           (_, w) \<leftarrow> deref r w;
           (kl, w) \<leftarrow> move_keylog ssl r pre kl w;
           Some ((Inr \<lparr> ep_self = r, ep_ssl = ssl, ep_fd = cfd, ep_keylog = kl \<rparr>, l), w) } } } }"

text \<open>\<open>getsockname\<close> fills in a socket address: its family (\<open>AF_INET\<close> is 1, \<open>AF_INET6\<close> 2) and
  the two bytes of the port, which the little-endian target loads before \<open>ntohs\<close> swaps them.\<close>

definition load_u16 :: "u8 list \<Rightarrow> u16" where
  "load_u16 bs = (case bs of lo # hi # _ \<Rightarrow> ucast lo OR push_bit 8 (ucast hi) | _ \<Rightarrow> 0)"

definition ntohs :: "u16 \<Rightarrow> u16" where
  "ntohs x = push_bit 8 x OR drop_bit 8 x"

definition server_listener_local_port :: "listener_rep \<Rightarrow> world \<Rightarrow> u16 outcome" where
  "server_listener_local_port l w = do {
     (_, w) \<leftarrow> deref (ln_self l) w;
     (a, w) \<leftarrow> ccall ''getsockname'' [Ptr (ln_fd l)] w;
     Some (if rc a < 0 then 0
           else if flg a = 1 then ntohs (load_u16 (written a))
           else if flg a = 2 then ntohs (load_u16 (written a))
           else 0, w) }"

section \<open>Methods of a connection\<close>

definition ep_write ::
    "u8 list \<Rightarrow> 'r server_rep_scheme \<Rightarrow> world \<Rightarrow> ((tls_error + nat) \<times> 'r server_rep_scheme) outcome" where
  "ep_write data r w = do {
     (_, w) \<leftarrow> deref (ep_self r) w;
     ((a, kl), w) \<leftarrow> ssl_call ''SSL_write'' [Ptr (ep_ssl r), Buf data, Val (c_int (length data))] (ep_keylog r) w;
     let r = r\<lparr> ep_keylog := kl \<rparr>;
     if rc a \<le> 0
     then do {
       (e, w) \<leftarrow> SSL_get_error (ep_ssl r) (rc a) w;
       Some ((Inl (if e = SSL_ERROR_ZERO_RETURN then Tls_io_closed else Tls_internal (Some (c_u64 e))), r), w) }
     else Some ((Inr (c_u32 (rc a)), r), w) }"

definition ep_read ::
    "nat \<Rightarrow> 'r server_rep_scheme \<Rightarrow> world \<Rightarrow> ((tls_error + list_u8) \<times> 'r server_rep_scheme) outcome" where
  "ep_read mx r w = do {
     (p, w) \<leftarrow> xmalloc (if mx \<noteq> 0 then mx else 1) w;
     (_, w) \<leftarrow> deref (ep_self r) w;
     ((a, kl), w) \<leftarrow> ssl_call ''SSL_read'' [Ptr (ep_ssl r), Ptr p, Val (c_int mx)] (ep_keylog r) w;
     let r = r\<lparr> ep_keylog := kl \<rparr>;
     if rc a < 0
     then do {
       (_, w) \<leftarrow> cfree p w;
       (e, w) \<leftarrow> SSL_get_error (ep_ssl r) (rc a) w;
       Some ((Inl (Tls_internal (Some (c_u64 e))), r), w) }
     else Some ((Inr \<lparr> at = p, len = c_u32 (rc a), bytes = take (nat (rc a)) (written a) \<rparr>, r), w) }"

definition ep_has_pending :: "'r server_rep_scheme \<Rightarrow> world \<Rightarrow> (bool \<times> 'r server_rep_scheme) outcome" where
  "ep_has_pending r w = do {
     (_, w) \<leftarrow> deref (ep_self r) w;
     (a, w) \<leftarrow> ccall ''SSL_has_pending'' [Ptr (ep_ssl r)] w;
     Some ((rc a \<noteq> 0, r), w) }"

text \<open>The \<open>poll\<close> events of wasi-libc.\<close>

definition POLLIN :: int where "POLLIN = 1"
definition POLLERR :: int where "POLLERR = 0x1000"
definition POLLHUP :: int where "POLLHUP = 0x2000"

definition ep_socket_readable :: "'r server_rep_scheme \<Rightarrow> world \<Rightarrow> (bool \<times> 'r server_rep_scheme) outcome" where
  "ep_socket_readable r w = do {
     (_, w) \<leftarrow> deref (ep_self r) w;
     (fd, w) \<leftarrow> ccall ''SSL_get_fd'' [Ptr (ep_ssl r)] w;
     if rc fd < 0 then Some ((False, r), w)
     else do {
       (a, w) \<leftarrow> ccall ''poll'' [Val (rc fd), Val POLLIN, Val 1] w;
       Some ((0 < rc a \<and> flg a AND (POLLIN OR POLLHUP OR POLLERR) \<noteq> 0, r), w) } }"

definition ep_socket_fd :: "'r server_rep_scheme \<Rightarrow> world \<Rightarrow> (int \<times> 'r server_rep_scheme) outcome" where
  "ep_socket_fd r w = do {
     (_, w) \<leftarrow> deref (ep_self r) w;
     (fd, w) \<leftarrow> ccall ''SSL_get_fd'' [Ptr (ep_ssl r)] w;
     Some ((rc fd, r), w) }"

text \<open>\<open>SSL_write_early_data\<close> stores the number of bytes written through its last argument.\<close>

definition client_write_early ::
    "u8 list \<Rightarrow> 'r server_rep_scheme \<Rightarrow> world \<Rightarrow> ((tls_error + nat) \<times> 'r server_rep_scheme) outcome" where
  "client_write_early data r w = do {
     (_, w) \<leftarrow> deref (ep_self r) w;
     ((a, kl), w) \<leftarrow> ssl_call ''SSL_write_early_data'' [Ptr (ep_ssl r), Buf data, Val (int (length data))] (ep_keylog r) w;
     let r = r\<lparr> ep_keylog := kl \<rparr>;
     if rc a \<le> 0
     then do {
       (e, w) \<leftarrow> SSL_get_error (ep_ssl r) (rc a) w;
       Some ((Inl (Tls_internal (Some (c_u64 e))), r), w) }
     else Some ((Inr (c_u32 (outl a)), r), w) }"

text \<open>\<open>SSL_EARLY_DATA_ACCEPTED\<close> is 2.\<close>

definition client_early_data_accepted :: "'r server_rep_scheme \<Rightarrow> world \<Rightarrow> (bool \<times> 'r server_rep_scheme) outcome" where
  "client_early_data_accepted r w = do {
     (_, w) \<leftarrow> deref (ep_self r) w;
     (a, w) \<leftarrow> ccall ''SSL_get_early_data_status'' [Ptr (ep_ssl r)] w;
     Some ((rc a = 2, r), w) }"

definition ep_peer :: "'r server_rep_scheme \<Rightarrow> world \<Rightarrow> (peer_info \<times> 'r server_rep_scheme) outcome" where
  "ep_peer r w = do {
     (_, w) \<leftarrow> deref (ep_self r) w;
     (p, w) \<leftarrow> fill_peer_info (ep_ssl r) w;
     Some ((p, r), w) }"

definition client_session_ticket ::
    "'r server_rep_scheme \<Rightarrow> world \<Rightarrow> (list_u8 option \<times> 'r server_rep_scheme) outcome" where
  "client_session_ticket r w = do {
     (_, w) \<leftarrow> deref (ep_self r) w;
     (s, w) \<leftarrow> create (Obj ''SSL_SESSION'') ''SSL_get1_session'' [Ptr (ep_ssl r)] w;
     if s = 0 then Some ((None, r), w)
     else do {
       ((a, buf), w) \<leftarrow> i2d ''i2d_SSL_SESSION'' [Ptr s] w;
       (_, w) \<leftarrow> release (Obj ''SSL_SESSION'') ''SSL_SESSION_free'' s w;
       if rc a \<le> 0
       then do {
         (_, w) \<leftarrow> (if buf \<noteq> 0 then OPENSSL_free buf w else Some ((), w));
         Some ((None, r), w) }
       else do {
         (l, w) \<leftarrow> list_u8_take (encoded a) w;
         (_, w) \<leftarrow> OPENSSL_free buf w;
         Some ((Some l, r), w) } } }"

definition client_peer_chain_der :: "'r server_rep_scheme \<Rightarrow> world \<Rightarrow> (list_string \<times> 'r server_rep_scheme) outcome" where
  "client_peer_chain_der r w = do {
     (_, w) \<leftarrow> deref (ep_self r) w;
     (l, w) \<leftarrow> fill_peer_chain_der (ep_ssl r) w;
     Some ((l, r), w) }"

definition ep_drain_keylog :: "'r server_rep_scheme \<Rightarrow> world \<Rightarrow> (list_string \<times> 'r server_rep_scheme) outcome" where
  "ep_drain_keylog r w = do {
     (_, w) \<leftarrow> deref (ep_self r) w;
     ((l, kl), w) \<leftarrow> keylog_buf_drain_to (ep_keylog r) w;
     Some ((l, r\<lparr> ep_keylog := kl \<rparr>), w) }"

section \<open>Destruction\<close>

text \<open>The shutdown alert and the end of the \<open>SSL\<close> and its socket.\<close>

definition hang_up :: "'r server_rep_scheme \<Rightarrow> world \<Rightarrow> 'r server_rep_scheme outcome" where
  "hang_up r w = do {
     (r, w) \<leftarrow> (if ep_ssl r \<noteq> 0
       then do {
         ((_, kl), w) \<leftarrow> ssl_call ''SSL_shutdown'' [Ptr (ep_ssl r)] (ep_keylog r) w;
         (_, w) \<leftarrow> SSL_free (ep_ssl r) w;
         Some (r\<lparr> ep_keylog := kl \<rparr>, w) }
       else Some (r, w));
     (_, w) \<leftarrow> (if ep_fd r \<noteq> 0 then close_fd (ep_fd r) w else Some ((), w));
     Some (r, w) }"

definition client_destructor :: "client_rep \<Rightarrow> world \<Rightarrow> unit outcome" where
  "client_destructor r w =
     (if ep_self r = 0 then Some ((), w)
      else do {
        (_, w) \<leftarrow> deref (ep_self r) w;
        (r, w) \<leftarrow> hang_up r w;
        (_, w) \<leftarrow> free_ctx (ep_ctx r) w;
        (_, w) \<leftarrow> keylog_buf_clear (ep_keylog r) w;
        cfree (ep_self r) w })"

definition client_close :: "client_rep \<Rightarrow> world \<Rightarrow> unit outcome" where
  "client_close r w = do {
     (_, w) \<leftarrow> deref (ep_self r) w;
     (r, w) \<leftarrow> hang_up r w;
     (_, w) \<leftarrow> free_ctx (ep_ctx r) w;
     client_destructor (r\<lparr> ep_ssl := 0, ep_ctx := 0, ep_fd := 0 \<rparr>) w }"

definition server_destructor :: "server_rep \<Rightarrow> world \<Rightarrow> unit outcome" where
  "server_destructor r w =
     (if ep_self r = 0 then Some ((), w)
      else do {
        (_, w) \<leftarrow> deref (ep_self r) w;
        (r, w) \<leftarrow> hang_up r w;
        (_, w) \<leftarrow> keylog_buf_clear (ep_keylog r) w;
        cfree (ep_self r) w })"

definition server_close :: "server_rep \<Rightarrow> world \<Rightarrow> unit outcome" where
  "server_close r w = do {
     (_, w) \<leftarrow> deref (ep_self r) w;
     (r, w) \<leftarrow> hang_up r w;
     server_destructor (r\<lparr> ep_ssl := 0, ep_fd := 0 \<rparr>) w }"

definition listener_shut :: "listener_rep \<Rightarrow> world \<Rightarrow> unit outcome" where
  "listener_shut l w = do {
     (_, w) \<leftarrow> (if ln_fd l \<noteq> 0 then close_fd (ln_fd l) w else Some ((), w));
     (_, w) \<leftarrow> free_ctx (ln_ctx l) w;
     (if ln_alpn l \<noteq> 0 then cfree (ln_alpn l) w else Some ((), w)) }"

definition server_listener_destructor :: "listener_rep \<Rightarrow> world \<Rightarrow> unit outcome" where
  "server_listener_destructor l w =
     (if ln_self l = 0 then Some ((), w)
      else do {
        (_, w) \<leftarrow> deref (ln_self l) w;
        (_, w) \<leftarrow> listener_shut l w;
        cfree (ln_self l) w })"

definition server_listener_close :: "listener_rep \<Rightarrow> world \<Rightarrow> unit outcome" where
  "server_listener_close l w = do {
     (_, w) \<leftarrow> deref (ln_self l) w;
     (_, w) \<leftarrow> listener_shut l w;
     server_listener_destructor (l\<lparr> ln_fd := 0, ln_ctx := 0, ln_alpn := 0 \<rparr>) w }"

section \<open>Calls\<close>

datatype tls_call =
    Tls_write "u8 list"
  | Tls_read nat
  | Has_pending
  | Socket_readable
  | Socket_fd
  | Write_early "u8 list"
  | Early_data_accepted
  | Tls_peer
  | Session_ticket
  | Tls_peer_chain_der
  | Drain_keylog

datatype tls_reply = Fd int | Reply mb_reply

definition responding :: "('x \<Rightarrow> tls_reply) \<Rightarrow> ('x \<times> 'r) outcome \<Rightarrow> (tls_reply \<times> 'r) outcome" where
  "responding f m = do { ((x, r), w) \<leftarrow> m; Some ((f x, r), w) }"

fun tls_method ::
    "tls_call \<Rightarrow> 'r server_rep_scheme \<Rightarrow> world \<Rightarrow> (tls_reply \<times> 'r server_rep_scheme) outcome" where
  "tls_method (Tls_write d) r w = responding (Reply \<circ> Sent) (ep_write d r w)"
| "tls_method (Tls_read n) r w = responding (Reply \<circ> Received) (ep_read n r w)"
| "tls_method Has_pending r w = responding (Reply \<circ> Flag) (ep_has_pending r w)"
| "tls_method Socket_readable r w = responding (Reply \<circ> Flag) (ep_socket_readable r w)"
| "tls_method Socket_fd r w = responding Fd (ep_socket_fd r w)"
| "tls_method (Write_early d) r w = responding (Reply \<circ> Sent) (client_write_early d r w)"
| "tls_method Early_data_accepted r w = responding (Reply \<circ> Flag) (client_early_data_accepted r w)"
| "tls_method Tls_peer r w = responding (Reply \<circ> Info) (ep_peer r w)"
| "tls_method Session_ticket r w = responding (Reply \<circ> Maybe) (client_session_ticket r w)"
| "tls_method Tls_peer_chain_der r w = responding (Reply \<circ> Ders) (client_peer_chain_der r w)"
| "tls_method Drain_keylog r w = responding (Reply \<circ> Ders) (ep_drain_keylog r w)"

text \<open>The connections of a listener repeat the functions they share with the client.\<close>

definition server_write :: "u8 list \<Rightarrow> server_rep \<Rightarrow> world \<Rightarrow> ((tls_error + nat) \<times> server_rep) outcome" where
  "server_write = ep_write"

definition server_read :: "nat \<Rightarrow> server_rep \<Rightarrow> world \<Rightarrow> ((tls_error + list_u8) \<times> server_rep) outcome" where
  "server_read = ep_read"

definition server_has_pending :: "server_rep \<Rightarrow> world \<Rightarrow> (bool \<times> server_rep) outcome" where
  "server_has_pending = ep_has_pending"

definition server_socket_readable :: "server_rep \<Rightarrow> world \<Rightarrow> (bool \<times> server_rep) outcome" where
  "server_socket_readable = ep_socket_readable"

definition server_socket_fd :: "server_rep \<Rightarrow> world \<Rightarrow> (int \<times> server_rep) outcome" where
  "server_socket_fd = ep_socket_fd"

definition server_peer :: "server_rep \<Rightarrow> world \<Rightarrow> (peer_info \<times> server_rep) outcome" where
  "server_peer = ep_peer"

definition server_drain_keylog :: "server_rep \<Rightarrow> world \<Rightarrow> (list_string \<times> server_rep) outcome" where
  "server_drain_keylog = ep_drain_keylog"

datatype server_call =
    Server_write "u8 list"
  | Server_read nat
  | Server_has_pending
  | Server_socket_readable
  | Server_socket_fd
  | Server_peer
  | Server_drain_keylog

fun server_method :: "server_call \<Rightarrow> server_rep \<Rightarrow> world \<Rightarrow> (tls_reply \<times> server_rep) outcome" where
  "server_method (Server_write d) r w = responding (Reply \<circ> Sent) (server_write d r w)"
| "server_method (Server_read n) r w = responding (Reply \<circ> Received) (server_read n r w)"
| "server_method Server_has_pending r w = responding (Reply \<circ> Flag) (server_has_pending r w)"
| "server_method Server_socket_readable r w = responding (Reply \<circ> Flag) (server_socket_readable r w)"
| "server_method Server_socket_fd r w = responding (Fd) (server_socket_fd r w)"
| "server_method Server_peer r w = responding (Reply \<circ> Info) (server_peer r w)"
| "server_method Server_drain_keylog r w = responding (Reply \<circ> Ders) (server_drain_keylog r w)"

fun as_client_call :: "server_call \<Rightarrow> tls_call" where
  "as_client_call (Server_write d) = Tls_write d"
| "as_client_call (Server_read n) = Tls_read n"
| "as_client_call Server_has_pending = Has_pending"
| "as_client_call Server_socket_readable = Socket_readable"
| "as_client_call Server_socket_fd = Socket_fd"
| "as_client_call Server_peer = Tls_peer"
| "as_client_call Server_drain_keylog = Drain_keylog"

lemma server_method_eq: "server_method c = tls_method (as_client_call c)"
proof (intro ext)
  show "server_method c r w = tls_method (as_client_call c) r w" for r w
    by (cases c) (simp_all add: server_write_def server_read_def server_has_pending_def server_socket_readable_def
        server_socket_fd_def server_peer_def server_drain_keylog_def)
qed

fun tls_reply_fp :: "tls_reply \<Rightarrow> footprint" where
  "tls_reply_fp (Fd n) = []"
| "tls_reply_fp (Reply x) = mb_reply_fp x"

section \<open>Resource safety\<close>

lemma connect_loop_triple: "ledger_triple fns A (connect_loop ps) (\<lambda>fd. own fd fd_kind @ A)"
proof (induction ps)
  case Nil
  have "connect_loop [] = (\<lambda>w. Some (0, w))" by (rule ext) simp
  then show ?case by (simp add: triple_done)
next
  case (Cons p ps)
  have e: "connect_loop (p # ps) = (\<lambda>w. do {
     (fd, w) \<leftarrow> create fd_kind ''socket'' [Buf p] w;
     if fd = 0 then connect_loop ps w
     else do {
       (a, w) \<leftarrow> ccall ''connect'' [Ptr fd, Buf p] w;
       if rc a = 0 then Some (fd, w)
       else do { (_, w) \<leftarrow> close_fd fd w; connect_loop ps w } } })"
    by (rule ext) simp
  show ?case unfolding e close_fd_def
    by (rule step_known, assumption | rule steps_first | rule Cons.IH | rule steps | rule fp_rules | (simp; fail))+
qed

lemma bind_loop_triple: "ledger_triple fns A (bind_loop ps) (\<lambda>fd. own fd fd_kind @ A)"
proof (induction ps)
  case Nil
  have "bind_loop [] = (\<lambda>w. Some (0, w))" by (rule ext) simp
  then show ?case by (simp add: triple_done)
next
  case (Cons p ps)
  have e: "bind_loop (p # ps) = (\<lambda>w. do {
     (fd, w) \<leftarrow> create fd_kind ''socket'' [Buf p] w;
     if fd = 0 then bind_loop ps w
     else do {
       (_, w) \<leftarrow> ccall ''setsockopt'' [Ptr fd, Str ''SO_REUSEADDR'', Val 1] w;
       (a, w) \<leftarrow> ccall ''bind'' [Ptr fd, Buf p] w;
       (ok, w) \<leftarrow> (if rc a = 0
         then do { (l, w) \<leftarrow> ccall ''listen'' [Ptr fd, Val 16] w; Some (rc l = 0, w) }
         else Some (False, w));
       if ok then Some (fd, w)
       else do { (_, w) \<leftarrow> close_fd fd w; bind_loop ps w } } })"
    by (rule ext) simp
  show ?case unfolding e close_fd_def
    by (rule step_known, assumption | rule steps_first | rule Cons.IH | rule steps | rule fp_rules | (simp; fail))+
qed

lemma connect_tcp_triple: "ledger_triple fns A (connect_tcp h p) (\<lambda>fd. own fd fd_kind @ A)"
  unfolding connect_tcp_def getaddrinfo_def
  by (rule step_known, assumption | rule steps_first | rule connect_loop_triple [THEN triple_bind] | rule steps | rule fp_rules | (simp; fail))+

lemma bind_tcp_triple: "ledger_triple fns A (bind_tcp h p) (\<lambda>fd. own fd fd_kind @ A)"
  unfolding bind_tcp_def getaddrinfo_def
  by (rule step_known, assumption | rule steps_first | rule bind_loop_triple [THEN triple_bind] | rule steps | rule fp_rules | (simp; fail))+

lemma step_tcp [step_calls]:
  assumes "\<And>fd. fd \<noteq> 0 \<Longrightarrow> ledger_triple fns ((fd, fd_kind) # A) (f fd) C" and "ledger_triple fns A (f 0) C"
  shows "ledger_triple fns A (\<lambda>w. Option.bind (connect_tcp h p w) (\<lambda>(fd, w). f fd w)) C"
    "ledger_triple fns A (\<lambda>w. Option.bind (bind_tcp h p w) (\<lambda>(fd, w). f fd w)) C"
proof -
  have "ledger_triple fns (own fd fd_kind @ A) (f fd) C" for fd
    using assms by (cases "fd = 0") simp_all
  then show "ledger_triple fns A (\<lambda>w. Option.bind (connect_tcp h p w) (\<lambda>(fd, w). f fd w)) C"
    "ledger_triple fns A (\<lambda>w. Option.bind (bind_tcp h p w) (\<lambda>(fd, w). f fd w)) C"
    using connect_tcp_triple [THEN triple_bind] bind_tcp_triple [THEN triple_bind] by blast+
qed

text \<open>A call made while the buffer is not yet in a representation. Without a hook there is no
  buffer, and none comes into being.\<close>

lemma keylog_cbs_unhooked: "keylog_cbs ls (new_keylog False) w = Some (new_keylog False, w)"
  by (induction ls) (simp_all add: keylog_cb_def new_keylog_def)

lemma step_ssl_call_pre:
  assumes "fp A (pre_owns pre b) F" and "''malloc'' \<in> set fns" and "list_all (usable_fp F) args"
    and "\<And>a b. ledger_triple fns (pre_owns pre b @ F) (f a b) C"
  shows "ledger_triple fns A (\<lambda>w. Option.bind (ssl_call fn args b w) (\<lambda>((a, b), w). f a b w)) C"
proof -
  have "ledger_triple fns (guarded (pre = 0 \<longrightarrow> b = new_keylog False) (own pre Mem) @ keylog_owns b @ F)
      (\<lambda>w. Option.bind (ssl_call fn args b w) (\<lambda>((a, b), w). f a b w)) C"
  proof (rule triple_guarded, (rule fp_rules)+)
    assume p: "pre = 0 \<longrightarrow> b = new_keylog False"
    show "ledger_triple fns (own pre Mem @ keylog_owns b @ F)
        (\<lambda>w. Option.bind (ssl_call fn args b w) (\<lambda>((a, b), w). f a b w)) C"
    proof (cases "pre = 0")
      case True
      have "ledger_triple fns F (f a b) C" for a
        using assms(4) [of b a] p True by (simp add: pre_owns_def)
      then have "ledger_triple fns F (\<lambda>w. Option.bind (ccall fn args w) (\<lambda>(a, w). f a b w)) C"
        by (rule step_ccall [OF assms(3)])
      then show ?thesis using p True
        by (simp add: ssl_call_def keylog_cbs_unhooked Option.bind_assoc case_prod_unfold)
    next
      case False
      show ?thesis
      proof (rule step_ssl_call [where F = "own pre Mem @ F"])
        show "list_all (usable_fp (own pre Mem @ keylog_owns b @ F)) args"
          using assms(3) by (auto simp: list_all_iff usable_fp_def split: arg.splits)
        show "ledger_triple fns (keylog_owns b @ own pre Mem @ F) (f a b) C" for a b
          by (rule triple_perm [OF assms(4) [of b a]]) (simp_all add: pre_owns_def False)
      qed (simp_all add: fp_def assms(2))
    qed
  qed
  then show ?thesis by (rule triple_perm) (use assms(1) in \<open>simp_all add: pre_owns_def fp_def\<close>)
qed

definition client_owns :: "client_rep \<Rightarrow> footprint" where
  "client_owns r = [(ep_self r, Mem), (ep_ssl r, Obj ''SSL''), (ep_fd r, fd_kind), (ep_ctx r, Obj ''SSL_CTX'')] @
     keylog_owns (ep_keylog r)"

definition server_owns :: "'r server_rep_scheme \<Rightarrow> footprint" where
  "server_owns r = [(ep_self r, Mem), (ep_ssl r, Obj ''SSL''), (ep_fd r, fd_kind)] @ keylog_owns (ep_keylog r)"

definition listener_owns :: "listener_rep \<Rightarrow> footprint" where
  "listener_owns l = [(ln_self l, Mem), (ln_ctx l, Obj ''SSL_CTX''), (ln_fd l, fd_kind)] @ own (ln_alpn l) Mem"

lemma name_host_triple:
  "''malloc'' \<in> set fns \<Longrightarrow> ssl \<in> fst ` set A \<Longrightarrow> ledger_triple fns A (name_host ssl n h) (\<lambda>_. A)"
  unfolding name_host_def
  by (assumption | rule with_cstring_names_triple | rule set_names_triple | rule steps | (simp; fail))+

lemmas socket_frees = SSL_free_def close_fd_def free_ctx_def SSL_CTX_free_def OPENSSL_free_def

lemma client_connect_triple:
  assumes "client_refs cf \<subseteq> fst ` set B"
  shows "ledger_triple [''malloc''] B (client_connect h p cf) (\<lambda>x. result_fp client_owns x @ B)"
  unfolding client_connect_def socket_frees
  by (insert assms, (assumption | rule step_known, assumption | rule steps_first | rule step_ssl_call_pre
    | rule step_new | rule name_host_triple [THEN triple_bind] | rule step_calls
    | rule steps | rule fp_rules | (simp add: client_owns_def subset_insertI2; fail))+)

lemma server_listener_bind_triple:
  assumes "server_refs cf \<subseteq> fst ` set B"
  shows "ledger_triple [''malloc''] B (server_listener_bind h p cf) (\<lambda>x. result_fp listener_owns x @ B)"
  unfolding server_listener_bind_def socket_frees
  by (insert assms, (assumption | rule step_known, assumption | rule steps_first 
    | rule step_new | rule step_calls
    | rule steps | rule fp_rules | (simp add: listener_owns_def subset_insertI2; fail))+)

lemma server_listener_accept_triple:
  "ledger_triple mb_services (listener_owns l) (server_listener_accept l)
     (\<lambda>(x, l'). guarded (l' = l) (listener_owns l) @ result_fp server_owns x)"
  unfolding server_listener_accept_def socket_frees listener_owns_def server_owns_def
  by (assumption | rule step_known, assumption | rule steps_first | rule step_ssl_call_pre
    | rule print_errors_triple [THEN triple_bind] | rule step_new | rule step_calls
    | rule steps | rule fp_rules | (simp; fail))+

text \<open>A method leaves the pointers and the client's fields alone.\<close>

definition ep_same :: "'r server_rep_scheme \<Rightarrow> 'r server_rep_scheme \<Rightarrow> bool" where
  "ep_same r r' \<longleftrightarrow> ep_self r' = ep_self r \<and> ep_ssl r' = ep_ssl r \<and> ep_fd r' = ep_fd r \<and>
     server_rep.more r' = server_rep.more r"

lemma step_responding:
  "ledger_triple fns A (\<lambda>w. do { ((x, r), w) \<leftarrow> m w; Some ((f x, r), w) }) B \<Longrightarrow>
   ledger_triple fns A (\<lambda>w. responding f (m w)) B"
  by (simp add: responding_def)

lemma step_drain_keylog [step_calls]:
  "fp A (keylog_owns b) F \<Longrightarrow> (\<And>l b. ledger_triple [''malloc''] (strings_fp l @ keylog_owns b @ F) (f l b) C) \<Longrightarrow>
   ledger_triple [''malloc''] A (\<lambda>w. Option.bind (keylog_buf_drain_to b w) (\<lambda>((l, b), w). f l b w)) C"
  by (rule triple_step2 [OF keylog_buf_drain_to_triple]) (simp_all add: fp_def)

lemma tls_method_triple:
  "ledger_triple [''malloc''] (server_owns r @ []) (tls_method c r)
     (\<lambda>(x, r'). guarded (ep_same r r') (server_owns r') @ tls_reply_fp x)"
  by (cases c; simp only: tls_method.simps [abs_def];
      unfold server_owns_def ep_write_def ep_read_def ep_has_pending_def ep_socket_readable_def ep_socket_fd_def
        client_write_early_def client_early_data_accepted_def ep_peer_def client_session_ticket_def
        client_peer_chain_der_def ep_drain_keylog_def OPENSSL_free_def;
      rule step_responding;
      (rule step_known, assumption | rule steps_first | rule step_calls
        | rule steps | rule fp_rules | (simp add: ep_same_def server_owns_def; fail))+)

lemma tls_server_method_triple:
  "ledger_triple [''malloc''] (server_owns r) (server_method c r) (\<lambda>(x, r'). server_owns r' @ tls_reply_fp x)"
  unfolding server_method_eq
  by (rule triple_guarded_post [where P = "\<lambda>p. ep_same r (snd p)"])
    (use tls_method_triple [of r "as_client_call c"] in \<open>simp_all add: case_prod_unfold\<close>)

lemma tls_client_method_triple:
  "ledger_triple [''malloc''] (client_owns r) (tls_method c r) (\<lambda>(x, r'). client_owns r' @ tls_reply_fp x)"
proof (rule triple_guarded_post [where P = "\<lambda>p. ep_same r (snd p)"])
  have e: "mset (client_owns r) = mset (server_owns r @ [(ep_ctx r, Obj ''SSL_CTX'')])"
    by (simp add: client_owns_def server_owns_def)
  show "ledger_triple [''malloc''] (client_owns r) (tls_method c r)
      (\<lambda>p. guarded (ep_same r (snd p)) (server_owns (snd p)) @ tls_reply_fp (fst p) @ [(ep_ctx r, Obj ''SSL_CTX'')])"
    by (rule triple_perm [OF triple_frame [OF tls_method_triple [of r c], of "[(ep_ctx r, Obj ''SSL_CTX'')]"]])
      (simp_all add: e case_prod_unfold)
  fix p :: "tls_reply \<times> client_rep"
  assume "ep_same r (snd p)"
  then have "ep_ctx (snd p) = ep_ctx r" by (cases r; cases "snd p"; simp add: ep_same_def)
  then show "mset (server_owns (snd p) @ tls_reply_fp (fst p) @ [(ep_ctx r, Obj ''SSL_CTX'')]) =
      mset (case p of (x, r') \<Rightarrow> client_owns r' @ tls_reply_fp x)"
    by (simp add: server_owns_def client_owns_def case_prod_unfold)
qed

lemma closed_triples:
  "ep_ssl r = 0 \<Longrightarrow> ep_fd r = 0 \<Longrightarrow> ep_ctx r = 0 \<Longrightarrow>
   ledger_triple fns ((ep_self r, Mem) # keylog_owns (ep_keylog r)) (client_destructor r) (\<lambda>_. [])"
  "ep_ssl s = 0 \<Longrightarrow> ep_fd s = 0 \<Longrightarrow>
   ledger_triple fns ((ep_self s, Mem) # keylog_owns (ep_keylog s)) (server_destructor s) (\<lambda>_. [])"
  "ln_fd l = 0 \<Longrightarrow> ln_ctx l = 0 \<Longrightarrow> ln_alpn l = 0 \<Longrightarrow>
   ledger_triple fns [(ln_self l, Mem)] (server_listener_destructor l) (\<lambda>_. [])"
  unfolding client_destructor_def server_destructor_def hang_up_def server_listener_destructor_def listener_shut_def socket_frees
  subgoal by (rule triple_nonnull,
    (rule step_known, assumption | rule steps_first | rule keylog_buf_clear_triple [THEN triple_step1] | rule step_calls
        | rule steps | rule fp_rules | (simp; fail))+)
  subgoal by (rule triple_nonnull,
    (rule step_known, assumption | rule steps_first | rule keylog_buf_clear_triple [THEN triple_step1] | rule step_calls
        | rule steps | rule fp_rules | (simp; fail))+)
  subgoal by (rule triple_nonnull,
    (rule step_known, assumption | rule steps_first | rule step_calls
        | rule steps | rule fp_rules | (simp; fail))+)
  done

lemma keylog_updates:
  "ep_self (r\<lparr> ep_keylog := k \<rparr>) = ep_self r" "ep_ssl (r\<lparr> ep_keylog := k \<rparr>) = ep_ssl r"
  "ep_fd (r\<lparr> ep_keylog := k \<rparr>) = ep_fd r" "ep_keylog (r\<lparr> ep_keylog := k \<rparr>) = k" "ep_ctx (c\<lparr> ep_keylog := k \<rparr>) = ep_ctx c"
  by simp_all

lemma step_hang_up:
  assumes "fp A ([(ep_ssl r, Obj ''SSL''), (ep_fd r, fd_kind)] @ keylog_owns (ep_keylog r)) F"
    and "ep_ssl r \<noteq> 0" and "ep_fd r \<noteq> 0" and "''malloc'' \<in> set fns"
    and "\<And>k. ledger_triple fns (keylog_owns k @ F) (f (r\<lparr> ep_keylog := k \<rparr>)) C"
  shows "ledger_triple fns A (\<lambda>w. Option.bind (hang_up r w) (\<lambda>(r, w). f r w)) C"
proof -
  have "ledger_triple fns (((ep_ssl r, Obj ''SSL'') # (ep_fd r, fd_kind) # keylog_owns (ep_keylog r)) @ F)
      (\<lambda>w. Option.bind (hang_up r w) (\<lambda>(r, w). f r w)) C"
    unfolding hang_up_def SSL_free_def close_fd_def
    by (insert assms(2-5), ((simp only: keylog_updates) | assumption | rule step_known, assumption | rule steps_first | rule step_calls
        | rule steps | rule fp_rules | (simp; fail))+)
  then show ?thesis by (rule triple_perm) (use assms(1) in \<open>simp_all add: fp_def\<close>)
qed

lemma client_fin_triples:
  "ledger_triple [''malloc''] (client_owns r) (client_destructor r) (\<lambda>_. [])"
  "ledger_triple [''malloc''] (client_owns r) (client_close r) (\<lambda>_. [])"
  unfolding client_close_def client_destructor_def [of r] socket_frees client_owns_def
  subgoal by (rule triple_all_nonnull, simp only: append.simps append_assoc list.pred_inject prod.case simp_thms, (erule conjE)+,
    ((simp only: keylog_updates) | rule step_known, assumption | rule steps_first | rule step_hang_up | rule keylog_buf_clear_triple [THEN triple_step1]
      | rule triple_perm [OF closed_triples(1)] | rule step_calls | rule steps | rule fp_rules | (simp; fail))+)
  subgoal by (rule triple_all_nonnull, simp only: append.simps append_assoc list.pred_inject prod.case simp_thms, (erule conjE)+,
    ((simp only: keylog_updates) | rule step_known, assumption | rule steps_first | rule step_hang_up | rule keylog_buf_clear_triple [THEN triple_step1]
      | rule triple_perm [OF closed_triples(1)] | rule step_calls | rule steps | rule fp_rules | (simp; fail))+)
  done

lemma server_fin_triples:
  "ledger_triple [''malloc''] (server_owns s) (server_destructor s) (\<lambda>_. [])"
  "ledger_triple [''malloc''] (server_owns s) (server_close s) (\<lambda>_. [])"
  unfolding server_close_def server_destructor_def [of s] socket_frees server_owns_def
  subgoal by (rule triple_all_nonnull, simp only: append.simps append_assoc list.pred_inject prod.case simp_thms, (erule conjE)+,
    ((simp only: keylog_updates) | rule step_known, assumption | rule steps_first | rule step_hang_up | rule keylog_buf_clear_triple [THEN triple_step1]
      | rule triple_perm [OF closed_triples(2)] | rule step_calls | rule steps | rule fp_rules | (simp; fail))+)
  subgoal by (rule triple_all_nonnull, simp only: append.simps append_assoc list.pred_inject prod.case simp_thms, (erule conjE)+,
    ((simp only: keylog_updates) | rule step_known, assumption | rule steps_first | rule step_hang_up | rule keylog_buf_clear_triple [THEN triple_step1]
      | rule triple_perm [OF closed_triples(2)] | rule step_calls | rule steps | rule fp_rules | (simp; fail))+)
  done

lemma listener_fin_triples:
  "ledger_triple fns (listener_owns l) (server_listener_destructor l) (\<lambda>_. [])"
  "ledger_triple fns (listener_owns l) (server_listener_close l) (\<lambda>_. [])"
  unfolding server_listener_close_def server_listener_destructor_def [of l] listener_shut_def socket_frees listener_owns_def
  subgoal by (rule triple_all_nonnull, simp only: append.simps append_assoc list.pred_inject prod.case simp_thms, (erule conjE)+,
    (rule step_known, assumption | rule steps_first | rule step_hang_up | rule keylog_buf_clear_triple [THEN triple_step1]
      | rule triple_perm [OF closed_triples(3)] | rule step_calls | rule steps | rule fp_rules | (simp only: own_simps append_Nil2 append.simps append_assoc) | (simp; fail))+)
  subgoal by (rule triple_all_nonnull, simp only: append.simps append_assoc list.pred_inject prod.case simp_thms, (erule conjE)+,
    (rule step_known, assumption | rule steps_first | rule step_hang_up | rule keylog_buf_clear_triple [THEN triple_step1]
      | rule triple_perm [OF closed_triples(3)] | rule step_calls | rule steps | rule fp_rules | (simp only: own_simps append_Nil2 append.simps append_assoc) | (simp; fail))+)
  done

interpretation tls_client: stateful_resource "[''malloc'']" client_owns "range tls_method" tls_reply_fp client_destructor
  by unfold_locales (use tls_client_method_triple client_fin_triples in auto)

interpretation tls_server: stateful_resource "[''malloc'']" server_owns "range server_method" tls_reply_fp server_destructor
  by unfold_locales (use tls_server_method_triple server_fin_triples in auto)

lemma listener_accept_owned:
  "ledger_triple mb_services (listener_owns l) (server_listener_accept l)
     (\<lambda>(x, l'). listener_owns l' @ result_fp server_owns x)"
  by (rule triple_guarded_post [where P = "\<lambda>p. snd p = l"])
    (use server_listener_accept_triple [of l] in \<open>auto simp: case_prod_unfold\<close>)

interpretation tls_listener: stateful_resource mb_services listener_owns "{server_listener_accept}"
  "result_fp server_owns" server_listener_destructor
  by unfold_locales (use listener_accept_owned listener_fin_triples in auto)

section \<open>Properties\<close>

text \<open>C24: Whatever the library and the network answer, a client's life (connect, any calls, close
  or drop) leaves live exactly what its calls returned; a listener that accepts any number of
  times and is then closed or dropped leaves exactly the connections it handed out; and the
  life of such a connection, which never depends on the listener's fate, is balanced as well:
  no socket, context or buffer leaks on any error path.\<close>

theorem tls_socket_lives_balanced:
  assumes "client_refs cf \<subseteq> fst ` set A" and "server_refs sf \<subseteq> fst ` set A"
    and "cfin \<in> {client_close, client_destructor}" and "sfin \<in> {server_close, server_destructor}"
    and "lfin \<in> {server_listener_close, server_listener_destructor}"
  shows "ledger_triple [''malloc''] A (lifetime (client_connect h p cf) (map tls_method cs) cfin)
      (\<lambda>x. result_fp (\<lambda>xs. concat (map tls_reply_fp xs)) x @ A) \<and>
    ledger_triple mb_services A (lifetime (server_listener_bind h p sf) (replicate n server_listener_accept) lfin)
      (\<lambda>x. result_fp (\<lambda>xs. concat (map (result_fp server_owns) xs)) x @ A) \<and>
    ledger_triple [''malloc''] (server_owns s) (\<lambda>w. do {
         ((xs, s), w) \<leftarrow> run_steps (map server_method ds) s w; (_, w) \<leftarrow> sfin s w; Some (xs, w) })
      (\<lambda>xs. concat (map tls_reply_fp xs))"
proof (intro conjI)
  have ms: "set (map tls_method cs) \<subseteq> range tls_method" "set (map server_method ds) \<subseteq> range server_method" by auto
  show "ledger_triple [''malloc''] A (lifetime (client_connect h p cf) (map tls_method cs) cfin)
      (\<lambda>x. result_fp (\<lambda>xs. concat (map tls_reply_fp xs)) x @ A)"
    by (rule tls_client.life_balanced [OF ms(1) client_connect_triple [OF assms(1)]])
      (use assms(3) client_fin_triples in auto)
  show "ledger_triple mb_services A (lifetime (server_listener_bind h p sf) (replicate n server_listener_accept) lfin)
      (\<lambda>x. result_fp (\<lambda>xs. concat (map (result_fp server_owns) xs)) x @ A)"
    by (rule tls_listener.life_balanced [OF _ triple_weaken [OF server_listener_bind_triple [OF assms(2)]]])
      (use assms(5) listener_fin_triples in \<open>auto split: if_splits\<close>)
  have fin: "ledger_triple [''malloc''] (server_owns r) (sfin r) (\<lambda>_. [])" for r
    using assms(4) server_fin_triples by auto
  show "ledger_triple [''malloc''] (server_owns s) (\<lambda>w. do {
         ((xs, s), w) \<leftarrow> run_steps (map server_method ds) s w; (_, w) \<leftarrow> sfin s w; Some (xs, w) })
      (\<lambda>xs. concat (map tls_reply_fp xs))"
  proof (rule triple_bind2 [OF tls_server.steps_balanced [OF ms(2), of _ "[]", simplified]])
    show "ledger_triple [''malloc''] (server_owns r @ concat (map tls_reply_fp xs))
        (\<lambda>w. do { (_, w) \<leftarrow> sfin r w; Some (xs, w) }) (\<lambda>xs. concat (map tls_reply_fp xs))" for xs r
      by (rule triple_step [OF fin, where F = "concat (map tls_reply_fp xs)"]) (simp_all add: triple_done)
  qed
qed

theorem tls_socket_lives_balanced_witness:
  "let A = [(1, Obj ''X509_STORE''), (2, Obj ''X509''), (3, Obj ''EVP_PKEY'')] in
   ledger_triple [''malloc''] A (lifetime (client_connect [104] 443 sample_client) (map tls_method [Tls_write [1], Drain_keylog]) client_close)
      (\<lambda>x. result_fp (\<lambda>xs. concat (map tls_reply_fp xs)) x @ A) \<and>
   ledger_triple mb_services A (lifetime (server_listener_bind [104] 443 sample_server) (replicate 2 server_listener_accept) server_listener_destructor)
      (\<lambda>x. result_fp (\<lambda>xs. concat (map (result_fp server_owns) xs)) x @ A)"
  using tls_socket_lives_balanced [of sample_client "[(1, Obj ''X509_STORE''), (2, Obj ''X509''), (3, Obj ''EVP_PKEY'')]"
      sample_server client_close server_close server_listener_destructor "[104]" 443 "[Tls_write [1], Drain_keylog]" 2
      "\<lparr> ep_self = 4, ep_ssl = 5, ep_fd = 6, ep_keylog = new_keylog False \<rparr>" "[]"]
  by (simp add: client_refs_def server_refs_def sample_client_def sample_server_def Let_def)

lemma ntohs_load:
  "unat (ntohs (load_u16 [hi, lo])) = 256 * unat hi + unat lo"
proof -
  have "ntohs (load_u16 [hi, lo]) = push_bit 8 (ucast hi) OR ucast lo"
    by (rule bit_word_eqI) (auto simp: ntohs_def load_u16_def bit_simps dest: bit_imp_le_length)
  also have "\<dots> = push_bit 8 (ucast hi) + ucast lo"
    by (rule disjunctive_add [symmetric]) (auto simp: bit_simps dest: bit_imp_le_length)
  also have "unat \<dots> = 256 * unat hi + unat lo"
  proof -
    have "unat hi < 256" "unat lo < 256" using unsigned_less [of hi] unsigned_less [of lo] by simp_all
    then show ?thesis
      by (simp add: unat_word_ariths push_bit_eq_mult unsigned_ucast_eq take_bit_nat_eq_self)
  qed
  finally show ?thesis .
qed

text \<open>The port text fits the 8-byte buffer with its NUL and denotes the port, and the port a
  listener reports is the big-endian number in the socket address, for IPv4 and IPv6 alike.\<close>

theorem tls_ports:
  assumes "p < 65536"
  shows "length (decimal p @ [0]) \<le> 8 \<and> decimal_value (decimal p) = p \<and>
    (let a = lib w (log w) ''getsockname'' [Ptr (ln_fd l)] in
       0 \<le> rc a \<longrightarrow> flg a \<in> {1, 2} \<longrightarrow> written a = [hi, lo] \<longrightarrow>
       (\<exists>w' q. server_listener_local_port l w = Some (q, w') \<and> unat q = 256 * unat hi + unat lo))"
  using length_decimal [of 5 p] assms
  by (auto simp: Let_def decimal_value_decimal server_listener_local_port_def run_eqs ntohs_load)

theorem tls_ports_witness:
  "length (decimal 8443 @ [0]) \<le> 8 \<and>
   (\<exists>w' q. server_listener_local_port \<lparr> ln_self = 1, ln_ctx = 2, ln_fd = 3, ln_alpn = 0, ln_alpn_len = 0, ln_keylog = False \<rparr>
      (first_world (\<lambda>_ _ _. ok_answer\<lparr> flg := 2, written := [32, 251] \<rparr>)) = Some (q, w') \<and> unat q = 8443)"
  using tls_ports [of 8443 "first_world (\<lambda>_ _ _. ok_answer\<lparr> flg := 2, written := [32, 251] \<rparr>)"
      "\<lparr> ln_self = 1, ln_ctx = 2, ln_fd = 3, ln_alpn = 0, ln_alpn_len = 0, ln_keylog = False \<rparr>" 32 251]
  by (simp add: Let_def ok_answer_def)

end
