(* ===== verification/X509_Time.thy ===== *)
theory X509_Time
  imports Decimal
begin

text \<open>
  Times: the text in which \<open>src/x509.c\<close> shows the validity of a certificate, and the parser with
  which \<open>src/x509_build.c\<close> reads it.
\<close>

section \<open>Showing a time\<close>

text \<open>The fields of a \<open>struct tm\<close> that the code uses; in memory it is an array of 32-bit integers, in
  this order.\<close>

record tm =
  tm_sec :: int
  tm_min :: int
  tm_hour :: int
  tm_mday :: int
  tm_mon :: int
  tm_year :: int

lemma tm_eta:
  "\<lparr> tm_sec = tm_sec t, tm_min = tm_min t, tm_hour = tm_hour t, tm_mday = tm_mday t, tm_mon = tm_mon t,
     tm_year = tm_year t \<rparr> = t"
  by (cases t) simp

definition load_int :: "u8 list \<Rightarrow> nat \<Rightarrow> int" where
  "load_int bs k = c_wrap (foldr (\<lambda>b a. int (unat b) + 256 * a) (take 4 (drop (4 * k) bs)) 0)"

definition load_tm :: "u8 list \<Rightarrow> tm" where
  "load_tm bs = \<lparr> tm_sec = load_int bs 0, tm_min = load_int bs 1, tm_hour = load_int bs 2,
     tm_mday = load_int bs 3, tm_mon = load_int bs 4, tm_year = load_int bs 5 \<rparr>"

definition iso_text :: "tm \<Rightarrow> u8 list" where
  "iso_text t = print_int 4 (tm_year t + 1900) @ 45 # print_int 2 (tm_mon t + 1) @ 45 # print_int 2 (tm_mday t) @ 84 #
     print_int 2 (tm_hour t) @ 58 # print_int 2 (tm_min t) @ 58 # print_int 2 (tm_sec t) @ [90]"

text \<open>A time is known by the call that gave the pointer to it; \<open>present\<close> says that the pointer is not
  \<open>NULL\<close>. The buffer has 32 bytes. A time that does not convert is shown as the empty text.\<close>

definition asn1_time_to_iso :: "arg list \<Rightarrow> bool \<Rightarrow> world \<Rightarrow> list_u8 outcome" where
  "asn1_time_to_iso src present w = do {
     (buf, w) \<leftarrow>
       (if present
        then do {
          (a, w) \<leftarrow> ccall ''ASN1_TIME_to_tm'' src w;
          Some (if rc a \<noteq> 0 then take 31 (iso_text (load_tm (written a))) else [], w) }
        else Some ([], w));
     string_take buf w }"

section \<open>Parsing a time\<close>

text \<open>\<open>sscanf (buf, "%d-%d-%dT%d:%d:%dZ")\<close>: the six numbers, if all are there. What follows the sixth
  does not matter to the result.\<close>

definition scan_iso :: "u8 list \<Rightarrow> (int \<times> int \<times> int \<times> int \<times> int \<times> int) option" where
  "scan_iso s = do {
     (y, s) \<leftarrow> scan_int s; s \<leftarrow> scan_char 45 s;
     (mo, s) \<leftarrow> scan_int s; s \<leftarrow> scan_char 45 s;
     (d, s) \<leftarrow> scan_int s; s \<leftarrow> scan_char 84 s;
     (h, s) \<leftarrow> scan_int s; s \<leftarrow> scan_char 58 s;
     (mi, s) \<leftarrow> scan_int s; s \<leftarrow> scan_char 58 s;
     (se, s) \<leftarrow> scan_int s;
     Some (y, mo, d, h, mi, se) }"

text \<open>The C library's \<open>timegm\<close>: seconds since 1970 in the Gregorian calendar; months outside the year
  move the year.\<close>

definition leap_year :: "int \<Rightarrow> bool" where
  "leap_year y \<longleftrightarrow> y mod 4 = 0 \<and> (y mod 100 \<noteq> 0 \<or> y mod 400 = 0)"

definition days_before_year :: "int \<Rightarrow> int" where
  "days_before_year y = 365 * (y - 1970) + (y - 1) div 4 - (y - 1) div 100 + (y - 1) div 400 - 477"

definition days_before_month :: "bool \<Rightarrow> nat \<Rightarrow> int" where
  "days_before_month leap m =
     [0, 31, 59, 90, 120, 151, 181, 212, 243, 273, 304, 334] ! m + (if leap \<and> 2 \<le> m then 1 else 0)"

definition timegm :: "tm \<Rightarrow> int" where
  "timegm t =
     (let y = 1900 + tm_year t + tm_mon t div 12;
          m = nat (tm_mon t mod 12)
      in 86400 * (days_before_year y + days_before_month (leap_year y) m + tm_mday t - 1) +
         3600 * tm_hour t + 60 * tm_min t + tm_sec t)"

abbreviation time_kind :: kind where "time_kind \<equiv> Obj ''ASN1_TIME''"

text \<open>At most 31 bytes are copied, and the text ends at the first NUL. A \<open>timegm\<close> of -1 is taken for
  its error value.\<close>

definition parse_iso :: "u8 list \<Rightarrow> world \<Rightarrow> ptr outcome" where
  "parse_iso s w = (case scan_iso (takeWhile (\<lambda>c. c \<noteq> 0) (take 31 s)) of
     None \<Rightarrow> Some (0, w)
   | Some (y, mo, d, h, mi, se) \<Rightarrow>
       let t = timegm \<lparr> tm_sec = se, tm_min = mi, tm_hour = h, tm_mday = d, tm_mon = c_wrap (mo - 1),
                        tm_year = c_wrap (y - 1900) \<rparr>
       in if t = - 1 then Some (0, w)
          else create time_kind ''ASN1_TIME_set'' [Ptr 0, Val t] w)"

section \<open>Lemmas\<close>

definition valid_tm :: "tm \<Rightarrow> bool" where
  "valid_tm t \<longleftrightarrow> tm_year t + 1900 \<in> {0..9999} \<and> tm_mon t \<in> {0..11} \<and> tm_mday t \<in> {1..31} \<and>
     tm_hour t \<in> {0..23} \<and> tm_min t \<in> {0..59} \<and> tm_sec t \<in> {0..60}"

lemma step_time [step_calls]:
  assumes "''malloc'' \<in> set fns" and "list_all (usable_fp A) src"
    and "\<And>l. ledger_triple fns (own (at l) Mem @ A) (f l) C"
  shows "ledger_triple fns A (\<lambda>w. Option.bind (asn1_time_to_iso src present w) (\<lambda>(l, w). f l w)) C"
proof (rule triple_bind [OF _ assms(3)])
  show "ledger_triple fns A (asn1_time_to_iso src present) (\<lambda>l. own (at l) Mem @ A)"
    unfolding asn1_time_to_iso_def
    by (assumption | rule assms(1,2) | rule steps_first | rule steps | (simp; fail))+
qed

lemma step_parse_iso [step_calls]:
  assumes "\<And>p. p \<noteq> 0 \<Longrightarrow> ledger_triple fns ((p, time_kind) # A) (f p) C" and "ledger_triple fns A (f 0) C"
  shows "ledger_triple fns A (\<lambda>w. Option.bind (parse_iso s w) (\<lambda>(p, w). f p w)) C"
proof (rule triple_bind)
  show "ledger_triple fns A (parse_iso s) (\<lambda>p. own p time_kind @ A)"
    unfolding parse_iso_def
    by (cases "scan_iso (takeWhile (\<lambda>c. c \<noteq> 0) (take 31 s))")
      (auto simp: Let_def triple_done split: prod.split intro!: triple_if triple_create)
  show "ledger_triple fns (own p time_kind @ A) (f p) C" for p
    using assms by (cases "p = 0") simp_all
qed

lemma print_int_nat: "0 \<le> i \<Longrightarrow> print_int k i = padded k (nat i)"
  by (simp add: print_int_def)

lemma scan_print:
  assumes "\<not> is_digit c" and "0 \<le> i" and "i < 2 ^ 31"
  shows "scan_int (print_int k i @ c # s) = Some (i, c # s)"
  using scan_padded [OF assms(1), of "nat i" k s] assms by (simp add: print_int_nat)

lemma length_print: "0 \<le> i \<Longrightarrow> i < 10 ^ k \<Longrightarrow> 0 < k \<Longrightarrow> length (print_int k i) = k"
  by (simp add: print_int_nat length_padded nat_less_iff)

lemma separators: "\<not> is_digit 45" "\<not> is_digit 84" "\<not> is_digit 58" "\<not> is_digit 90"
  by (simp_all add: is_digit_def word_le_nat_alt)

lemma scan_iso_text:
  assumes "valid_tm t"
  shows "scan_iso (iso_text t) =
    Some (tm_year t + 1900, tm_mon t + 1, tm_mday t, tm_hour t, tm_min t, tm_sec t)"
  using assms by (simp add: valid_tm_def scan_iso_def iso_text_def scan_print separators scan_char_def)

lemma length_iso_text: "valid_tm t \<Longrightarrow> length (iso_text t) = 20"
  by (simp add: valid_tm_def iso_text_def length_print)

lemma print_no_nul: "0 \<le> i \<Longrightarrow> 0 \<notin> set (print_int k i)"
  using padded_digits(1) [of k "nat i"]
  by (auto simp: print_int_nat list_all_iff is_digit_def word_le_nat_alt)

lemma iso_text_no_nul:
  assumes "valid_tm t"
  shows "takeWhile (\<lambda>c. c \<noteq> 0) (iso_text t) = iso_text t"
proof -
  have "0 \<notin> set (iso_text t)"
    using assms by (simp add: iso_text_def valid_tm_def print_no_nul)
  then show ?thesis
    by (subst takeWhile_eq_all_conv) blast
qed

section \<open>Properties\<close>

text \<open>C31: The text in which a certificate's time is shown is read back by the parser for new
  certificates as the same instant: the printed fields denote the very time that is set, except
  that the last second of 1969, whose number is the error value of timegm, is refused.\<close>

theorem iso_time_round_trip:
  assumes "grants (lib w) ''malloc''" and "0 < nxt w"
    and "a = lib w (log w) ''ASN1_TIME_to_tm'' src" and "rc a \<noteq> 0" and "valid_tm (load_tm (written a))"
  shows "\<exists>l w'. asn1_time_to_iso src True w = Some (l, w') \<and> len l = 20 \<and>
    parse_iso (bytes l) u =
      (if timegm (load_tm (written a)) = - 1 then Some (0, u)
       else create time_kind ''ASN1_TIME_set'' [Ptr 0, Val (timegm (load_tm (written a)))] u)"
proof -
  let ?t = "load_tm (written a)"
  have "c_wrap i = i" if "- (2 ^ 31) \<le> i" "i < 2 ^ 31" for i
    using that by (simp add: c_wrap_def signed_of_int signed_take_bit_int_eq_self)
  then have f: "c_wrap (tm_mon ?t + 1 - 1) = tm_mon ?t" "c_wrap (tm_year ?t + 1900 - 1900) = tm_year ?t"
    using assms(5) by (simp_all add: valid_tm_def)
  have l: "length (iso_text ?t) = 20"
    using length_iso_text [OF assms(5)] .
  have "parse_iso (iso_text ?t) u =
      (if timegm ?t = - 1 then Some (0, u) else create time_kind ''ASN1_TIME_set'' [Ptr 0, Val (timegm ?t)] u)"
    unfolding parse_iso_def take_all [OF eq_refl [OF l, THEN le_trans, of 31, simplified]] iso_text_no_nul [OF assms(5)]
      scan_iso_text [OF assms(5)]
    by (simp add: Let_def f [simplified] tm_eta)
  moreover have "\<exists>l w'. asn1_time_to_iso src True w = Some (l, w') \<and> len l = 20 \<and> bytes l = iso_text ?t"
    using assms(1-4) l by (simp add: asn1_time_to_iso_def run_eqs Let_def)
  ultimately show ?thesis
    by metis
qed

definition leap_day :: "u8 list" where
  "leap_day = [5, 0, 0, 0, 4, 0, 0, 0, 3, 0, 0, 0, 29, 0, 0, 0, 1, 0, 0, 0, 124, 0, 0, 0]"

theorem iso_time_round_trip_witness:
  "let start = first_world (\<lambda>_ _ _. ok_answer\<lparr> written := leap_day \<rparr>) in
    \<exists>l w'. asn1_time_to_iso [] True start = Some (l, w') \<and> len l = 20 \<and>
    parse_iso (bytes l) start = create time_kind ''ASN1_TIME_set'' [Ptr 0, Val 1709175845] start"
proof -
  have t: "load_tm leap_day = \<lparr> tm_sec = 5, tm_min = 4, tm_hour = 3, tm_mday = 29, tm_mon = 1, tm_year = 124 \<rparr>"
    by (simp add: load_tm_def load_int_def leap_day_def c_wrap_def)
  have g: "timegm (load_tm leap_day) = 1709175845"
    unfolding t by (simp add: timegm_def days_before_year_def days_before_month_def leap_year_def Let_def)
  let ?fn = "\<lambda>_ _ _. ok_answer\<lparr> written := leap_day \<rparr>"
  have "grants (lib (first_world ?fn)) ''malloc''" "0 < nxt (first_world ?fn)"
    by (simp_all add: grants_def ok_answer_def)
  from iso_time_round_trip [OF this, of "ok_answer\<lparr> written := leap_day \<rparr>" "[]" "first_world ?fn"] show ?thesis
    by (simp add: g ok_answer_def Let_def) (simp add: t valid_tm_def)
qed

end
