(* ===== verification/X509_Info.thy ===== *)
theory X509_Info
  imports X509_Time
begin

text \<open>
  What \<open>src/x509.c\<close> shows of certificates, requests and revocation lists: names, alternative
  names, times and the rest of the \<open>info\<close> records.
\<close>

section \<open>Data\<close>

text \<open>An attribute of a name. \<open>ne_lost\<close> is the converted text that is not freed, or \<open>NULL\<close>.\<close>

record name_entry =
  ne_oid :: list_u8
  ne_value :: list_u8
  ne_lost :: ptr

record 'a array =
  block :: ptr
  elems :: "'a list"

datatype general_name =
    Gn_dns (gn_data: list_u8)
  | Gn_email (gn_data: list_u8)
  | Gn_uri (gn_data: list_u8)
  | Gn_ip (gn_data: list_u8)
  | Gn_other (gn_data: list_u8)

record certificate_info =
  ci_version :: nat
  ci_serial :: list_u8
  ci_issuer :: "name_entry array"
  ci_subject :: "name_entry array"
  ci_not_before :: list_u8
  ci_not_after :: list_u8
  ci_sigalg :: list_u8
  ci_sans :: "general_name array"
  ci_ians :: "general_name array"
  ci_key_usage :: "nat option"
  ci_eku :: "nat array"
  ci_constraints :: "(bool \<times> nat option) option"
  ci_fingerprint :: list_u8

record csr_info =
  ri_subject :: "name_entry array"
  ri_sans :: "general_name array"

record revoked_entry =
  re_serial :: list_u8
  re_date :: list_u8

record crl_info =
  li_issuer :: "name_entry array"
  li_this_update :: list_u8
  li_next_update :: "list_u8 option"
  li_revoked :: "revoked_entry array"

abbreviation cert_kind :: kind where "cert_kind \<equiv> Obj ''X509''"
abbreviation csr_kind :: kind where "csr_kind \<equiv> Obj ''X509_REQ''"
abbreviation crl_kind :: kind where "crl_kind \<equiv> Obj ''X509_CRL''"
abbreviation names_kind :: kind where "names_kind \<equiv> Obj ''GENERAL_NAMES''"

definition NID_subject_alt_name :: int where "NID_subject_alt_name = 85"
definition NID_issuer_alt_name :: int where "NID_issuer_alt_name = 86"
definition NID_basic_constraints :: int where "NID_basic_constraints = 87"

section \<open>Names\<close>

text \<open>
  A part of a certificate that is reached through accessors is known by the certificate's
  address, the name of the part and its index. \<open>oidbuf\<close> has 128 bytes.
\<close>

definition object_text :: "arg list \<Rightarrow> world \<Rightarrow> u8 list outcome" where
  "object_text src w = do {
     (nid, w) \<leftarrow> ccall ''OBJ_obj2nid'' src w;
     (sn, w) \<leftarrow> (if rc nid \<noteq> 0
       then do { (a, w) \<leftarrow> ccall ''OBJ_nid2sn'' [Val (rc nid)] w; Some (text1 a, w) }
       else Some (None, w));
     (case sn of
        Some s \<Rightarrow> Some (take 127 s, w)
      | None \<Rightarrow> do {
          (a, w) \<leftarrow> ccall ''OBJ_obj2txt'' (src @ [Val 128, Val 1]) w;
          Some (take 127 (takeWhile (\<lambda>c. c \<noteq> 0) (written a)), w) }) }"

text \<open>The converted value is freed only when it is not empty.\<close>

definition name_entry_of :: "arg list \<Rightarrow> nat \<Rightarrow> world \<Rightarrow> name_entry outcome" where
  "name_entry_of src i w = do {
     (t, w) \<leftarrow> object_text (src @ [Val (int i)]) w;
     (oid, w) \<leftarrow> string_take t w;
     ((a, utf), w) \<leftarrow> produce (Obj ''OPENSSL'') ''ASN1_STRING_to_UTF8'' (src @ [Val (int i)]) w;
     (v, w) \<leftarrow> string_take (encoded a) w;
     (_, w) \<leftarrow> (if 0 < rc a then OPENSSL_free utf w else Some ((), w));
     Some (\<lparr> ne_oid = oid, ne_value = v, ne_lost = (if 0 < rc a then 0 else utf) \<rparr>, w) }"

definition name_to_list :: "arg list \<Rightarrow> bool \<Rightarrow> world \<Rightarrow> name_entry array outcome" where
  "name_to_list src present w = do {
     (n, w) \<leftarrow> (if present
       then do { (a, w) \<leftarrow> ccall ''X509_NAME_entry_count'' src w; Some (rc a, w) }
       else Some (0, w));
     (p, w) \<leftarrow> array_of 16 n w;
     (es, w) \<leftarrow> collect (name_entry_of src) 0 (nat n) w;
     Some (\<lparr> block = p, elems = es \<rparr>, w) }"

section \<open>Alternative names\<close>

definition GEN_EMAIL :: int where "GEN_EMAIL = 1"
definition GEN_DNS :: int where "GEN_DNS = 2"
definition GEN_URI :: int where "GEN_URI = 6"
definition GEN_IPADD :: int where "GEN_IPADD = 7"

text \<open>The data of an ASN.1 string and its length are one answer.\<close>

definition string_data :: "arg list \<Rightarrow> world \<Rightarrow> list_u8 outcome" where
  "string_data src w = do {
     (a, w) \<leftarrow> ccall ''ASN1_STRING_get0_data'' src w;
     string_take (written a) w }"

definition other_name :: "arg list \<Rightarrow> world \<Rightarrow> list_u8 outcome" where
  "other_name src w = do {
     ((a, der), w) \<leftarrow> i2d ''i2d_GENERAL_NAME'' src w;
     (l, w) \<leftarrow> list_u8_take (encoded a) w;
     (_, w) \<leftarrow> (if der \<noteq> 0 then OPENSSL_free der w else Some ((), w));
     Some (l, w) }"

definition name_of_type :: "int \<Rightarrow> arg list \<Rightarrow> world \<Rightarrow> general_name outcome" where
  "name_of_type ty src w =
     (if ty = GEN_DNS then do { (l, w) \<leftarrow> string_data src w; Some (Gn_dns l, w) }
      else if ty = GEN_EMAIL then do { (l, w) \<leftarrow> string_data src w; Some (Gn_email l, w) }
      else if ty = GEN_URI then do { (l, w) \<leftarrow> string_data src w; Some (Gn_uri l, w) }
      else if ty = GEN_IPADD then do {
        (a, w) \<leftarrow> ccall ''ASN1_STRING_get0_data'' src w;
        (l, w) \<leftarrow> list_u8_take (written a) w;
        Some (Gn_ip l, w) }
      else do { (l, w) \<leftarrow> other_name src w; Some (Gn_other l, w) })"

definition general_name_of :: "ptr \<Rightarrow> nat \<Rightarrow> world \<Rightarrow> general_name outcome" where
  "general_name_of gens i w = do {
     (t, w) \<leftarrow> ccall ''GENERAL_NAME_get0_value'' [Ptr gens, Val (int i)] w;
     name_of_type (outl t) [Ptr gens, Val (int i)] w }"

definition free_names :: "ptr \<Rightarrow> world \<Rightarrow> unit outcome" where
  "free_names gens w =
     (if gens \<noteq> 0 then release names_kind ''GENERAL_NAMES_free'' gens w else Some ((), w))"

definition stack_num :: "string \<Rightarrow> ptr \<Rightarrow> world \<Rightarrow> int outcome" where
  "stack_num fn s w =
     (if s \<noteq> 0 then do { (a, w) \<leftarrow> ccall fn [Ptr s] w; Some (rc a, w) } else Some (0, w))"

definition ext_sans :: "ptr \<Rightarrow> int \<Rightarrow> world \<Rightarrow> general_name array outcome" where
  "ext_sans cert nid w = do {
     (gens, w) \<leftarrow> create names_kind ''X509_get_ext_d2i'' [Ptr cert, Val nid] w;
     (n, w) \<leftarrow> stack_num ''sk_GENERAL_NAME_num'' gens w;
     (p, w) \<leftarrow> array_of 12 n w;
     (gs, w) \<leftarrow> collect (general_name_of gens) 0 (nat n) w;
     (_, w) \<leftarrow> free_names gens w;
     Some (\<lparr> block = p, elems = gs \<rparr>, w) }"

section \<open>Certificates\<close>

text \<open>A serial number in hexadecimal; the text is empty if it cannot be converted.\<close>

definition serial_text :: "arg list \<Rightarrow> world \<Rightarrow> list_u8 outcome" where
  "serial_text src w = do {
     (bn, w) \<leftarrow> create (Obj ''BIGNUM'') ''ASN1_INTEGER_to_BN'' src w;
     ((t, hx), w) \<leftarrow> (if bn \<noteq> 0
       then do {
         ((a, hx), w) \<leftarrow> acquire (Obj ''OPENSSL'') ''BN_bn2hex'' [Ptr bn] w;
         Some ((written a, hx), w) }
       else Some (([], 0), w));
     (l, w) \<leftarrow> string_take (if hx \<noteq> 0 then t else []) w;
     (_, w) \<leftarrow> (if hx \<noteq> 0 then OPENSSL_free hx w else Some ((), w));
     (_, w) \<leftarrow> (if bn \<noteq> 0 then release (Obj ''BIGNUM'') ''BN_free'' bn w else Some ((), w));
     Some (l, w) }"

text \<open>The purposes of an extended key usage: OpenSSL's flag for each, in the order of the WIT enum.\<close>

definition xku_flags :: "int list" where
  "xku_flags = [0x1, 0x2, 0x8, 0x4, 0x40, 0x20, 0x100]"

definition shown_purposes :: "nat \<Rightarrow> nat list" where
  "shown_purposes xku = filter (\<lambda>i. and (int xku) (xku_flags ! i) \<noteq> 0) [0..<7]"

definition extended_key_usage :: "ptr \<Rightarrow> world \<Rightarrow> nat array outcome" where
  "extended_key_usage c w = do {
     (a, w) \<leftarrow> ccall ''X509_get_extended_key_usage'' [Ptr c] w;
     let us = (if c_u32 (rc a) \<noteq> 2 ^ 32 - 1 then shown_purposes (c_u32 (rc a)) else []) in do {
       (p, w) \<leftarrow> xmalloc (if length us \<noteq> 0 then length us else 1) w;
       Some (\<lparr> block = p, elems = us \<rparr>, w) } }"

text \<open>Reading a field of a library's structure is a call that is named after the field.\<close>

definition basic_constraints :: "ptr \<Rightarrow> world \<Rightarrow> (bool \<times> nat option) option outcome" where
  "basic_constraints c w = do {
     (bc, w) \<leftarrow> create (Obj ''BASIC_CONSTRAINTS'') ''X509_get_ext_d2i'' [Ptr c, Val NID_basic_constraints] w;
     if bc = 0 then Some (None, w)
     else do {
       (ca, w) \<leftarrow> ccall ''bc->ca'' [Ptr bc] w;
       (pathlen, w) \<leftarrow> ccall ''bc->pathlen'' [Ptr bc] w;
       (pl, w) \<leftarrow> (if granted pathlen
         then do { (a, w) \<leftarrow> ccall ''ASN1_INTEGER_get'' [Ptr bc] w; Some (Some (c_u32 (rc a)), w) }
         else Some (None, w));
       (_, w) \<leftarrow> release (Obj ''BASIC_CONSTRAINTS'') ''BASIC_CONSTRAINTS_free'' bc w;
       Some (Some (rc ca \<noteq> 0, pl), w) } }"

text \<open>A failed encoding would have the digest run over all of memory; \<open>certificate_fingerprint\<close> guards
  against it.\<close>

definition sha256_fingerprint :: "ptr \<Rightarrow> world \<Rightarrow> list_u8 outcome" where
  "sha256_fingerprint c w = do {
     ((a, der), w) \<leftarrow> i2d ''i2d_X509'' [Ptr c] w;
     if rc a < 0 then None
     else do {
       (d, w) \<leftarrow> ccall ''EVP_Digest'' [Buf (encoded a), Str ''EVP_sha256''] w;
       (l, w) \<leftarrow> list_u8_take (written d) w;
       (_, w) \<leftarrow> (if der \<noteq> 0 then OPENSSL_free der w else Some ((), w));
       Some (l, w) } }"

definition certificate_info :: "ptr \<Rightarrow> world \<Rightarrow> certificate_info outcome" where
  "certificate_info c w = do {
     (ver, w) \<leftarrow> ccall ''X509_get_version'' [Ptr c] w;
     (serial, w) \<leftarrow> serial_text [Ptr c] w;
     (a, w) \<leftarrow> ccall ''X509_get_issuer_name'' [Ptr c] w;
     (issuer, w) \<leftarrow> name_to_list [Ptr c, Str ''issuer''] (granted a) w;
     (a, w) \<leftarrow> ccall ''X509_get_subject_name'' [Ptr c] w;
     (subject, w) \<leftarrow> name_to_list [Ptr c, Str ''subject''] (granted a) w;
     (a, w) \<leftarrow> ccall ''X509_get0_notBefore'' [Ptr c] w;
     (nb, w) \<leftarrow> asn1_time_to_iso [Ptr c, Str ''notBefore''] (granted a) w;
     (a, w) \<leftarrow> ccall ''X509_get0_notAfter'' [Ptr c] w;
     (na, w) \<leftarrow> asn1_time_to_iso [Ptr c, Str ''notAfter''] (granted a) w;
     (a, w) \<leftarrow> ccall ''X509_get_signature_nid'' [Ptr c] w;
     (t, w) \<leftarrow> (if rc a \<noteq> 0
       then do { (b, w) \<leftarrow> ccall ''OBJ_nid2ln'' [Val (rc a)] w; Some (text_of (text1 b), w) }
       else Some (map of_char ''unknown'', w));
     (sigalg, w) \<leftarrow> string_take t w;
     (sans, w) \<leftarrow> ext_sans c NID_subject_alt_name w;
     (ians, w) \<leftarrow> ext_sans c NID_issuer_alt_name w;
     (ku, w) \<leftarrow> ccall ''X509_get_key_usage'' [Ptr c] w;
     (eku, w) \<leftarrow> extended_key_usage c w;
     (bc, w) \<leftarrow> basic_constraints c w;
     (fpr, w) \<leftarrow> sha256_fingerprint c w;
     Some (\<lparr> ci_version = c_u32 (rc ver + 1), ci_serial = serial, ci_issuer = issuer, ci_subject = subject,
        ci_not_before = nb, ci_not_after = na, ci_sigalg = sigalg, ci_sans = sans, ci_ians = ians,
        ci_key_usage = (if c_u32 (rc ku) \<noteq> 2 ^ 32 - 1 then Some (c_u32 (rc ku) mod 2 ^ 16) else None),
        ci_eku = eku, ci_constraints = bc, ci_fingerprint = fpr \<rparr>, w) }"

definition certificate_fingerprint :: "ptr \<Rightarrow> nat \<Rightarrow> world \<Rightarrow> list_u8 outcome" where
  "certificate_fingerprint c alg w = do {
     (md, w) \<leftarrow> fetch_md alg w;
     (case md of
        None \<Rightarrow> list_u8_take [] w
      | Some m \<Rightarrow> do {
          ((a, der), w) \<leftarrow> i2d ''i2d_X509'' [Ptr c] w;
          (d, w) \<leftarrow> ccall ''EVP_Digest'' [Buf (encoded a), Str m] w;
          (l, w) \<leftarrow> list_u8_take (written d) w;
          (_, w) \<leftarrow> (if der \<noteq> 0 then OPENSSL_free der w else Some ((), w));
          Some (l, w) }) }"

section \<open>Requests\<close>

definition extensions_kind :: kind where "extensions_kind = Obj ''STACK_OF_X509_EXTENSION''"

definition csr_name_of :: "ptr \<Rightarrow> nat \<Rightarrow> world \<Rightarrow> general_name outcome" where
  "csr_name_of gens i w = do {
     (t, w) \<leftarrow> ccall ''GENERAL_NAME_get0_value'' [Ptr gens, Val (int i)] w;
     if outl t = GEN_DNS
     then do { (l, w) \<leftarrow> string_data [Ptr gens, Val (int i)] w; Some (Gn_dns l, w) }
     else do { (l, w) \<leftarrow> other_name [Ptr gens, Val (int i)] w; Some (Gn_other l, w) } }"

definition csr_info :: "ptr \<Rightarrow> world \<Rightarrow> csr_info outcome" where
  "csr_info r w = do {
     (a, w) \<leftarrow> ccall ''X509_REQ_get_subject_name'' [Ptr r] w;
     (subject, w) \<leftarrow> name_to_list [Ptr r, Str ''subject''] (granted a) w;
     (exts, w) \<leftarrow> create extensions_kind ''X509_REQ_get_extensions'' [Ptr r] w;
     (gens, w) \<leftarrow> (if exts \<noteq> 0 then create names_kind ''X509V3_get_d2i'' [Ptr exts, Val NID_subject_alt_name] w
       else Some (0, w));
     (sans, w) \<leftarrow>
       (if gens \<noteq> 0
        then do {
          (a, w) \<leftarrow> ccall ''sk_GENERAL_NAME_num'' [Ptr gens] w;
          (p, w) \<leftarrow> array_of 12 (rc a) w;
          (gs, w) \<leftarrow> collect (csr_name_of gens) 0 (nat (rc a)) w;
          (_, w) \<leftarrow> release names_kind ''GENERAL_NAMES_free'' gens w;
          Some (\<lparr> block = p, elems = gs \<rparr>, w) }
        else do {
          (p, w) \<leftarrow> xmalloc 1 w;
          Some (\<lparr> block = p, elems = [] \<rparr>, w) });
     (_, w) \<leftarrow> (if exts \<noteq> 0 then release extensions_kind ''sk_X509_EXTENSION_pop_free'' exts w else Some ((), w));
     Some (\<lparr> ri_subject = subject, ri_sans = sans \<rparr>, w) }"

section \<open>Revocation lists\<close>

definition revoked_entry_of :: "ptr \<Rightarrow> nat \<Rightarrow> world \<Rightarrow> revoked_entry outcome" where
  "revoked_entry_of c i w = do {
     (serial, w) \<leftarrow> serial_text [Ptr c, Val (int i)] w;
     (a, w) \<leftarrow> ccall ''X509_REVOKED_get0_revocationDate'' [Ptr c, Val (int i)] w;
     (date, w) \<leftarrow> asn1_time_to_iso [Ptr c, Val (int i)] (granted a) w;
     Some (\<lparr> re_serial = serial, re_date = date \<rparr>, w) }"

text \<open>The revoked certificates are part of the list; there may be none.\<close>

definition revoked_num :: "ptr \<Rightarrow> world \<Rightarrow> int outcome" where
  "revoked_num c w = do {
     (a, w) \<leftarrow> ccall ''X509_CRL_get_REVOKED'' [Ptr c] w;
     if granted a
     then do { (n, w) \<leftarrow> ccall ''sk_X509_REVOKED_num'' [Ptr c] w; Some (rc n, w) }
     else Some (0, w) }"

definition crl_info :: "ptr \<Rightarrow> world \<Rightarrow> crl_info outcome" where
  "crl_info c w = do {
     (a, w) \<leftarrow> ccall ''X509_CRL_get_issuer'' [Ptr c] w;
     (issuer, w) \<leftarrow> name_to_list [Ptr c, Str ''issuer''] (granted a) w;
     (a, w) \<leftarrow> ccall ''X509_CRL_get0_lastUpdate'' [Ptr c] w;
     (this, w) \<leftarrow> asn1_time_to_iso [Ptr c, Str ''lastUpdate''] (granted a) w;
     (nu, w) \<leftarrow> ccall ''X509_CRL_get0_nextUpdate'' [Ptr c] w;
     (nextu, w) \<leftarrow> (if granted nu
       then do { (l, w) \<leftarrow> asn1_time_to_iso [Ptr c, Str ''nextUpdate''] True w; Some (Some l, w) }
       else Some (None, w));
     (n, w) \<leftarrow> revoked_num c w;
     (p, w) \<leftarrow> array_of 28 n w;
     (rs, w) \<leftarrow> collect (revoked_entry_of c) 0 (nat n) w;
     Some (\<lparr> li_issuer = issuer, li_this_update = this, li_next_update = nextu,
        li_revoked = \<lparr> block = p, elems = rs \<rparr> \<rparr>, w) }"

text \<open>\<open>BN_hex2bn\<close> reads a C string.\<close>

fun revoked_among :: "ptr \<Rightarrow> ptr \<Rightarrow> nat \<Rightarrow> nat \<Rightarrow> world \<Rightarrow> bool outcome" where
  "revoked_among c ai i 0 w = Some (False, w)"
| "revoked_among c ai i (Suc k) w = do {
     (a, w) \<leftarrow> ccall ''ASN1_INTEGER_cmp'' [Ptr c, Val (int i), Ptr ai] w;
     if rc a = 0 then Some (True, w) else revoked_among c ai (Suc i) k w }"

definition c_string :: "u8 list \<Rightarrow> u8 list" where
  "c_string s = takeWhile (\<lambda>c. c \<noteq> 0) s"

definition crl_is_revoked :: "ptr \<Rightarrow> u8 list \<Rightarrow> world \<Rightarrow> bool outcome" where
  "crl_is_revoked c serial_hex w = do {
     (nul, w) \<leftarrow> xmalloc (Suc (length serial_hex)) w;
     (_, w) \<leftarrow> deref nul w;
     ((a, bn), w) \<leftarrow> acquire (Obj ''BIGNUM'') ''BN_hex2bn'' [Buf (c_string serial_hex)] w;
     (_, w) \<leftarrow> cfree nul w;
     if rc a = 0 \<or> bn = 0
     then do {
       (_, w) \<leftarrow> (if bn \<noteq> 0 then release (Obj ''BIGNUM'') ''BN_free'' bn w else Some ((), w));
       Some (False, w) }
     else do {
       (ai, w) \<leftarrow> create (Obj ''ASN1_INTEGER'') ''BN_to_ASN1_INTEGER'' [Ptr bn] w;
       (_, w) \<leftarrow> release (Obj ''BIGNUM'') ''BN_free'' bn w;
       (n, w) \<leftarrow> revoked_num c w;
       (found, w) \<leftarrow> revoked_among c ai 0 (nat n) w;
       (_, w) \<leftarrow> release (Obj ''ASN1_INTEGER'') ''ASN1_INTEGER_free'' ai w;
       Some (found, w) } }"

section \<open>Resource safety\<close>

abbreviation text_fp :: "list_u8 \<Rightarrow> footprint" where "text_fp l \<equiv> own (at l) Mem"

definition entry_fp :: "name_entry \<Rightarrow> footprint" where
  "entry_fp e = text_fp (ne_oid e) @ text_fp (ne_value e) @ own (ne_lost e) (Obj ''OPENSSL'')"

definition general_fp :: "general_name \<Rightarrow> footprint" where
  "general_fp g = text_fp (gn_data g)"

definition revoked_fp :: "revoked_entry \<Rightarrow> footprint" where
  "revoked_fp r = text_fp (re_serial r) @ text_fp (re_date r)"

definition array_fp :: "('a \<Rightarrow> footprint) \<Rightarrow> 'a array \<Rightarrow> footprint" where
  "array_fp f a = own (block a) Mem @ concat (map f (elems a))"

definition certificate_fp :: "certificate_info \<Rightarrow> footprint" where
  "certificate_fp i = text_fp (ci_serial i) @ array_fp entry_fp (ci_issuer i) @ array_fp entry_fp (ci_subject i) @
     text_fp (ci_not_before i) @ text_fp (ci_not_after i) @ text_fp (ci_sigalg i) @ array_fp general_fp (ci_sans i) @
     array_fp general_fp (ci_ians i) @ array_fp (\<lambda>_. []) (ci_eku i) @ text_fp (ci_fingerprint i)"

definition csr_fp :: "csr_info \<Rightarrow> footprint" where
  "csr_fp i = array_fp entry_fp (ri_subject i) @ array_fp general_fp (ri_sans i)"

definition crl_fp :: "crl_info \<Rightarrow> footprint" where
  "crl_fp i = array_fp entry_fp (li_issuer i) @ text_fp (li_this_update i) @
     (case li_next_update i of None \<Rightarrow> [] | Some l \<Rightarrow> text_fp l) @ array_fp revoked_fp (li_revoked i)"

lemmas info_fps = entry_fp_def general_fp_def revoked_fp_def certificate_fp_def csr_fp_def crl_fp_def

lemma array_fp_simps [simp]: "array_fp f \<lparr> block = p, elems = xs \<rparr> = own p Mem @ concat (map f xs)"
  by (simp add: array_fp_def)

lemma usable_more:
  "list_all (usable_fp A) src \<Longrightarrow> list_all (usable_fp (x # A)) src"
  "list_all (usable_fp A) src \<Longrightarrow> list_all (usable_fp (B @ A)) src"
  by (auto simp: list_all_iff usable_fp_def split: arg.splits)

lemma object_text_triple:
  "list_all (usable_fp A) src \<Longrightarrow> ledger_triple fns A (object_text src) (\<lambda>_. A)"
  unfolding object_text_def
  by (assumption | rule steps_first | rule steps | (simp; fail))+

lemma name_entry_triple:
  assumes "''malloc'' \<in> set fns" and "list_all (usable_fp A) src"
  shows "ledger_triple fns A (name_entry_of src i) (\<lambda>e. entry_fp e @ A)"
  unfolding name_entry_of_def OPENSSL_free_def
  by (assumption | rule assms(1) | rule step_known, assumption | rule steps_first | rule object_text_triple [THEN triple_bind]
     | rule steps | rule fp_rules | (simp add: entry_fp_def assms(2) usable_more; fail))+

lemma name_to_list_triple:
  assumes "''malloc'' \<in> set fns" and "list_all (usable_fp A) src"
  shows "ledger_triple fns A (name_to_list src present) (\<lambda>a. array_fp entry_fp a @ A)"
  unfolding name_to_list_def
  by (assumption | rule assms(1) | rule steps_first | rule name_entry_triple [THEN collect_triple, THEN triple_bind]
     | rule steps | rule fp_rules | (simp add: assms(2) usable_more; fail))+

lemma serial_text_triple:
  assumes "''malloc'' \<in> set fns" and "list_all (usable_fp A) src"
  shows "ledger_triple fns A (serial_text src) (\<lambda>l. text_fp l @ A)"
  unfolding serial_text_def OPENSSL_free_def
  by (assumption | rule assms(1) | rule step_known, assumption | rule steps_first
     | rule steps | rule fp_rules | (simp add: assms(2) usable_more; fail))+

lemma general_name_triple:
  assumes "''malloc'' \<in> set fns" and "gens = 0 \<or> gens \<in> fst ` set A"
  shows "ledger_triple fns A (general_name_of gens i) (\<lambda>g. general_fp g @ A)"
    "ledger_triple fns A (csr_name_of gens i) (\<lambda>g. general_fp g @ A)"
  unfolding general_name_of_def csr_name_of_def name_of_type_def string_data_def other_name_def OPENSSL_free_def
  by (assumption | rule assms(1) | rule step_known, assumption | rule steps_first
     | rule steps | rule fp_rules | (use assms(2) in \<open>simp add: general_fp_def; fail\<close>))+

lemma ext_sans_triple:
  assumes "''malloc'' \<in> set fns" and "c \<in> fst ` set A"
  shows "ledger_triple fns A (ext_sans c nid) (\<lambda>a. array_fp general_fp a @ A)"
  unfolding ext_sans_def stack_num_def free_names_def
  by (assumption | rule assms(1) | rule step_known, assumption | rule steps_first
     | rule general_name_triple(1) [THEN collect_triple, THEN triple_bind]
     | rule steps | rule fp_rules | (use assms(2) in \<open>simp; fail\<close>))+

lemma info_parts:
  assumes "''malloc'' \<in> set fns" and "c \<in> fst ` set A"
  shows "ledger_triple fns A (extended_key_usage c) (\<lambda>a. array_fp (\<lambda>_. []) a @ A)"
    "ledger_triple fns A (basic_constraints c) (\<lambda>_. A)"
    "ledger_triple fns A (certificate_fingerprint c alg) (\<lambda>l. text_fp l @ A)"
    "ledger_triple fns A (revoked_entry_of c i) (\<lambda>r. revoked_fp r @ A)"
    "ledger_triple fns A (revoked_num c) (\<lambda>_. A)"
  unfolding extended_key_usage_def basic_constraints_def certificate_fingerprint_def revoked_entry_of_def
    revoked_num_def OPENSSL_free_def
  by (assumption | rule assms(1) | rule step_known, assumption | rule steps_first
     | rule serial_text_triple [THEN triple_bind] | rule step_time
     | rule steps | rule fp_rules | (use assms(2) in \<open>simp add: revoked_fp_def; fail\<close>))+

definition info_services :: "string list" where
  "info_services = [''malloc'', ''i2d_X509'']"

lemma step_sha256 [step_calls]:
  assumes "set info_services \<subseteq> set fns" and "c \<in> fst ` set A"
    and "\<And>l. ledger_triple fns (text_fp l @ A) (f l) C"
  shows "ledger_triple fns A (\<lambda>w. Option.bind (sha256_fingerprint c w) (\<lambda>(l, w). f l w)) C"
proof (rule triple_bind [OF _ assms(3)])
  let ?m = "\<lambda>w. do {
      ((a, der), w) \<leftarrow> i2d ''i2d_X509'' [Ptr c] w;
      (d, w) \<leftarrow> ccall ''EVP_Digest'' [Buf (encoded a), Str ''EVP_sha256''] w;
      (l, w) \<leftarrow> list_u8_take (written d) w;
      (_, w) \<leftarrow> (if der \<noteq> 0 then OPENSSL_free der w else Some ((), w));
      Some (l, w) }"
  have t: "ledger_triple fns A ?m (\<lambda>l. text_fp l @ A)"
    unfolding OPENSSL_free_def
    by (assumption | rule step_known, assumption | rule steps_first | rule steps | rule fp_rules
      | (use assms(1,2) in \<open>simp add: info_services_def; fail\<close>))+
  have neg: "may_stop fns w" if "rc (lib w (log w) ''i2d_X509'' [Ptr c]) < 0" for w
    unfolding may_stop_def list_ex_iff
  proof (rule bexI [where x = "''i2d_X509''"])
    show "fails (lib w) ''i2d_X509''" unfolding fails_exceptional using that by blast
  qed (use assms(1) in \<open>simp add: info_services_def\<close>)
  have eq: "sha256_fingerprint c w = (if rc (lib w (log w) ''i2d_X509'' [Ptr c]) < 0 then None else ?m w)" for w
    by (simp add: sha256_fingerprint_def i2d_def produce_def Let_def)
  show "ledger_triple fns A (sha256_fingerprint c) (\<lambda>l. text_fp l @ A)"
    using t neg by (simp add: ledger_triple_def eq wp_def)
qed

lemma certificate_info_triple:
  assumes "set info_services \<subseteq> set fns" and "c \<in> fst ` set A"
  shows "ledger_triple fns A (certificate_info c) (\<lambda>i. certificate_fp i @ A)"
proof -
  have m: "''malloc'' \<in> set fns" using assms(1) by (simp add: info_services_def)
  show ?thesis
    unfolding certificate_info_def
    by (assumption | rule m assms(1) | rule steps_first
       | rule serial_text_triple [THEN triple_bind] name_to_list_triple [THEN triple_bind] ext_sans_triple [THEN triple_bind]
         info_parts(1-2) [THEN triple_bind]
       | rule step_time step_sha256 steps | (use assms(2) in \<open>simp add: certificate_fp_def ac_simps; fail\<close>))+
qed

lemma csr_info_triple:
  assumes "''malloc'' \<in> set fns" and "c \<in> fst ` set A"
  shows "ledger_triple fns A (csr_info c) (\<lambda>i. csr_fp i @ A)"
  unfolding csr_info_def extensions_kind_def
  by (assumption | rule assms(1) | rule step_known, assumption | rule steps_first
     | rule name_to_list_triple [THEN triple_bind] general_name_triple(2) [THEN collect_triple, THEN triple_bind]
     | rule steps | rule fp_rules | (use assms(2) in \<open>simp add: csr_fp_def ac_simps; fail\<close>))+

lemma crl_info_triple:
  assumes "''malloc'' \<in> set fns" and "c \<in> fst ` set A"
  shows "ledger_triple fns A (crl_info c) (\<lambda>i. crl_fp i @ A)"
  unfolding crl_info_def
  by (assumption | rule assms(1) | rule steps_first
     | rule name_to_list_triple [THEN triple_bind] info_parts(4) [THEN collect_triple, THEN triple_bind]
       info_parts(5) [THEN triple_bind]
     | rule step_time steps | rule fp_rules | (use assms(2) in \<open>simp add: crl_fp_def ac_simps; fail\<close>))+

lemma revoked_among_triple:
  assumes "c \<in> fst ` set A" and "ai = 0 \<or> ai \<in> fst ` set A"
  shows "ledger_triple fns A (revoked_among c ai i k) (\<lambda>_. A)"
proof (induction k arbitrary: i)
  case 0
  have "revoked_among c ai i 0 = (\<lambda>w. Some (False, w))" by (rule ext) simp
  then show ?case by (simp add: triple_done)
next
  case (Suc k)
  have e: "revoked_among c ai i (Suc k) = (\<lambda>w. do {
      (a, w) \<leftarrow> ccall ''ASN1_INTEGER_cmp'' [Ptr c, Val (int i), Ptr ai] w;
      if rc a = 0 then Some (True, w) else revoked_among c ai (Suc i) k w })"
    by (rule ext) simp
  show ?case unfolding e
    by (rule step_ccall) (use assms Suc in \<open>auto intro!: step_if triple_done\<close>)
qed

lemma crl_is_revoked_triple:
  assumes "''malloc'' \<in> set fns" and "c \<in> fst ` set A"
  shows "ledger_triple fns A (crl_is_revoked c hex) (\<lambda>_. A)"
  unfolding crl_is_revoked_def
  by (assumption | rule assms(1) | rule step_known, assumption | rule steps_first
     | rule revoked_among_triple [THEN triple_bind] info_parts(5) [THEN triple_bind]
     | rule steps | rule fp_rules | (use assms in \<open>simp; fail\<close>))+

section \<open>Looking up a serial number\<close>

text \<open>The number behind each pointer to a number, read off the call log; \<open>hex\<close> is OpenSSL's reading
  of hexadecimal text.\<close>

fun number_step :: "(u8 list \<Rightarrow> int option) \<Rightarrow> (ptr \<rightharpoonup> int) \<Rightarrow> event \<Rightarrow> (ptr \<rightharpoonup> int)" where
  "number_step hex st (Ev fn args r) =
     (if fn = ''BN_hex2bn'' then (case args of [Buf s] \<Rightarrow> st(r := hex s) | _ \<Rightarrow> st)
      else if fn = ''BN_to_ASN1_INTEGER'' then (case args of [Ptr b] \<Rightarrow> st(r := st b) | _ \<Rightarrow> st)
      else st)"

definition number_state :: "(u8 list \<Rightarrow> int option) \<Rightarrow> event list \<Rightarrow> (ptr \<rightharpoonup> int)" where
  "number_state hex h = foldl (number_step hex) Map.empty h"

lemma number_state_append [simp]: "number_state hex (h @ es) = foldl (number_step hex) (number_state hex h) es"
  by (simp add: number_state_def)




section \<open>Properties\<close>

lemma object_text_runs:
  "\<exists>t w'. object_text src w = Some (t, w') \<and> lib w' = lib w \<and> live w' = live w \<and> nxt w' = nxt w"
  by (auto simp: object_text_def ccall_def split: option.split)




text \<open>Whatever OpenSSL answers, showing a certificate, a request or a revocation list leaves live,
  besides the object shown, exactly the blocks of the record it returns, and in it the converted
  text of each empty attribute value, which the code forgets to free. Everything else made on the
  way is freed: numbers, extensions, name lists, encodings. It stops only if malloc fails, or
  if the encoding of a certificate has a negative length.\<close>

theorem x509_info_balanced:
  "ledger_triple info_services [(c, cert_kind)] (certificate_info c) (\<lambda>i. certificate_fp i @ [(c, cert_kind)]) \<and>
   ledger_triple [''malloc''] [(c, cert_kind)] (certificate_fingerprint c alg) (\<lambda>l. text_fp l @ [(c, cert_kind)]) \<and>
   ledger_triple [''malloc''] [(c, csr_kind)] (csr_info c) (\<lambda>i. csr_fp i @ [(c, csr_kind)]) \<and>
   ledger_triple [''malloc''] [(c, crl_kind)] (crl_info c) (\<lambda>i. crl_fp i @ [(c, crl_kind)]) \<and>
   ledger_triple [''malloc''] [(c, crl_kind)] (crl_is_revoked c serial_hex) (\<lambda>_. [(c, crl_kind)])"
  by (intro conjI certificate_info_triple csr_info_triple crl_info_triple crl_is_revoked_triple info_parts(3)) simp_all

text \<open>An empty attribute value leaks: its converted text is a block OpenSSL allocated, and after
  the entry is built the block is still live although nothing returned leads to it.\<close>

theorem empty_name_value_leaks:
  assumes "grants (lib w) ''malloc''" and "0 < nxt w"
    and "\<And>h. rc (lib w h ''ASN1_STRING_to_UTF8'' (src @ [Val (int i)])) = 0"
    and "\<And>h. granted (lib w h ''ASN1_STRING_to_UTF8'' (src @ [Val (int i)]))"
  shows "\<exists>e w'. name_entry_of src i w = Some (e, w') \<and> len (ne_value e) = 0 \<and>
    ne_lost e \<noteq> 0 \<and> ne_lost e \<noteq> at (ne_oid e) \<and> ne_lost e \<noteq> at (ne_value e) \<and>
    live w' (ne_lost e) = Some (Obj ''OPENSSL'')"
proof -
  obtain t w1 where t: "object_text (src @ [Val (int i)]) w = Some (t, w1)" "lib w1 = lib w" "nxt w1 = nxt w"
    using object_text_runs by metis
  show ?thesis
    using assms t by (simp add: name_entry_of_def run_eqs produce_def encoded_def) (simp add: acquired_def)
qed

theorem empty_name_value_leaks_witness:
  "\<exists>e w'. name_entry_of [] 0 (first_world (\<lambda>_ fn _. ok_answer\<lparr> rc := 0 \<rparr>)) = Some (e, w') \<and>
    len (ne_value e) = 0 \<and> ne_lost e \<noteq> 0 \<and> ne_lost e \<noteq> at (ne_oid e) \<and> ne_lost e \<noteq> at (ne_value e) \<and>
    live w' (ne_lost e) = Some (Obj ''OPENSSL'')"
  by (rule empty_name_value_leaks) (simp_all add: grants_def ok_answer_def)

end
