(* ===== verification/Pkey.thy ===== *)
theory Pkey
  imports Objects
begin

text \<open>
  \<open>src/pkey.c\<close>: generation, import and export of keys, signatures, encryption, key agreement,
  and the keys behind provider and store URIs. A key is the address of its \<open>EVP_PKEY\<close>.
\<close>

section \<open>Data\<close>

datatype pkey_error =
    Pkey_unsupported_type
  | Pkey_bad_encoding
  | Pkey_bad_passphrase
  | Pkey_unsupported_curve
  | Pkey_invalid_signature
  | Pkey_bad_key_size
  | Pkey_decrypt_failed
  | Pkey_encrypt_failed
  | Pkey_sign_failed
  | Pkey_verify_failed
  | Pkey_derive_failed
  | Pkey_keygen_failed
  | Pkey_internal nat

text \<open>The cases of WIT enums are numbers.\<close>

datatype key_type = Kt_rsa | Kt_rsa_pss | Kt_ec nat | Kt_ed nat | Kt_x nat | Kt_dh

datatype keygen_params =
    Keygen_rsa nat "u64 option"
  | Keygen_rsa_pss nat "u64 option"
  | Keygen_ec nat
  | Keygen_ed nat
  | Keygen_x nat
  | Keygen_dh nat nat
  | Keygen_dh_named nat

datatype rsa_padding =
    Pad_pkcs1
  | Pad_oaep nat nat "u8 list"
  | Pad_pss nat nat int
  | Pad_none

record key_options =
  ko_format :: nat
  ko_encoding :: nat
  ko_passphrase :: "u8 list option"

definition curve_name :: "nat \<Rightarrow> string option" where
  "curve_name c =
     (if c = 0 then Some ''P-192'' else if c = 1 then Some ''P-224'' else if c = 2 then Some ''P-256''
      else if c = 3 then Some ''P-384'' else if c = 4 then Some ''P-521'' else if c = 5 then Some ''secp256k1''
      else if c = 6 then Some ''brainpoolP256r1'' else if c = 7 then Some ''brainpoolP384r1''
      else if c = 8 then Some ''brainpoolP512r1'' else if c = 9 then Some ''SM2'' else None)"

definition edwards_name :: "nat \<Rightarrow> string option" where
  "edwards_name c = (if c = 0 then Some ''ED25519'' else if c = 1 then Some ''ED448'' else None)"

definition montgomery_name :: "nat \<Rightarrow> string option" where
  "montgomery_name c = (if c = 0 then Some ''X25519'' else if c = 1 then Some ''X448'' else None)"

definition dh_group_name :: "nat \<Rightarrow> string option" where
  "dh_group_name g =
     (if g = 0 then Some ''ffdhe2048'' else if g = 1 then Some ''ffdhe3072'' else if g = 2 then Some ''ffdhe4096''
      else if g = 3 then Some ''ffdhe6144'' else if g = 4 then Some ''ffdhe8192'' else if g = 5 then Some ''modp_2048''
      else if g = 6 then Some ''modp_3072'' else if g = 7 then Some ''modp_4096'' else if g = 8 then Some ''modp_6144''
      else if g = 9 then Some ''modp_8192'' else None)"

abbreviation key_kind :: kind where "key_kind \<equiv> Obj ''EVP_PKEY''"
abbreviation key_ctx_kind :: kind where "key_ctx_kind \<equiv> Obj ''EVP_PKEY_CTX''"

definition PKEY_free :: "ptr \<Rightarrow> world \<Rightarrow> unit outcome" where
  "PKEY_free = release key_kind ''EVP_PKEY_free''"

definition PKEY_CTX_free :: "ptr \<Rightarrow> world \<Rightarrow> unit outcome" where
  "PKEY_CTX_free = release key_ctx_kind ''EVP_PKEY_CTX_free''"

definition PKEY_CTX_by_name :: "string \<Rightarrow> world \<Rightarrow> ptr outcome" where
  "PKEY_CTX_by_name name = create key_ctx_kind ''EVP_PKEY_CTX_new_from_name'' [Str name]"

section \<open>Generation\<close>

text \<open>
  How a case of the switch ends: with a key, at the label \<open>fail\<close> or \<open>cleanup\<close> (the tag is set,
  the context and the key, which may be \<open>NULL\<close>, are to be freed), or by an early return before
  anything is allocated.
\<close>

datatype keygen_exit =
    Generated ptr ptr
  | Cleanup pkey_error ptr ptr
  | Refused pkey_error

text \<open>A test \<open>f (ctx, \<dots>) <= 0\<close>; a \<open>NULL\<close> context fails it without a call.\<close>

definition key_step :: "string \<Rightarrow> ptr \<Rightarrow> arg list \<Rightarrow> world \<Rightarrow> bool outcome" where
  "key_step fn ctx args w = do { (a, w) \<leftarrow> ccall fn (Ptr ctx # args) w; Some (0 < rc a, w) }"

definition key_init :: "string \<Rightarrow> ptr \<Rightarrow> world \<Rightarrow> bool outcome" where
  "key_init fn ctx w = (if ctx = 0 then Some (False, w) else key_step fn ctx [] w)"

text \<open>The last step of each case.\<close>

definition key_generate :: "ptr \<Rightarrow> world \<Rightarrow> keygen_exit outcome" where
  "key_generate ctx w = do {
     ((a, p), w) \<leftarrow> produce key_kind ''EVP_PKEY_keygen'' [Ptr ctx] w;
     Some (if rc a \<le> 0 then Cleanup Pkey_keygen_failed ctx p else Generated ctx p, w) }"

text \<open>The exponent is copied by the context, and the code frees its own number only on failure:
  the second result is the number that is left behind.\<close>

definition generate_rsa :: "string \<Rightarrow> nat \<Rightarrow> u64 option \<Rightarrow> world \<Rightarrow> (keygen_exit \<times> ptr) outcome" where
  "generate_rsa name bits pubexp w = do {
     (ctx, w) \<leftarrow> PKEY_CTX_by_name name w;
     (ok, w) \<leftarrow> key_init ''EVP_PKEY_keygen_init'' ctx w;
     if \<not> ok then Some ((Cleanup Pkey_keygen_failed ctx 0, 0), w)
     else do {
       (ok, w) \<leftarrow> key_step ''EVP_PKEY_CTX_set_rsa_keygen_bits'' ctx [Val (c_int bits)] w;
       if \<not> ok then Some ((Cleanup Pkey_bad_key_size ctx 0, 0), w)
       else (case pubexp of
          None \<Rightarrow> do { (x, w) \<leftarrow> key_generate ctx w; Some ((x, 0), w) }
        | Some v \<Rightarrow> do {
            (e, w) \<leftarrow> create (Obj ''BIGNUM'') ''BN_new'' [] w;
            (ok, w) \<leftarrow> (if e = 0 then Some (False, w)
              else do {
                (a, w) \<leftarrow> ccall ''BN_set_word'' [Ptr e, Val (uint (ucast v :: u32))] w;
                if rc a = 0 then Some (False, w)
                else key_step ''EVP_PKEY_CTX_set1_rsa_keygen_pubexp'' ctx [Ptr e] w });
            if \<not> ok
            then do {
              (_, w) \<leftarrow> (if e \<noteq> 0 then release (Obj ''BIGNUM'') ''BN_free'' e w else Some ((), w));
              Some ((Cleanup Pkey_bad_key_size ctx 0, 0), w) }
            else do { (x, w) \<leftarrow> key_generate ctx w; Some ((x, e), w) } }) } }"

definition generate_group :: "string \<Rightarrow> string \<Rightarrow> world \<Rightarrow> keygen_exit outcome" where
  "generate_group name grp w = do {
     (ctx, w) \<leftarrow> PKEY_CTX_by_name name w;
     (ok, w) \<leftarrow> key_init ''EVP_PKEY_keygen_init'' ctx w;
     if \<not> ok then Some (Cleanup Pkey_keygen_failed ctx 0, w)
     else do {
       (ok, w) \<leftarrow> key_step ''EVP_PKEY_CTX_set_params'' ctx [Pars [utf8_string ''group'' grp]] w;
       if \<not> ok then Some (Cleanup Pkey_keygen_failed ctx 0, w)
       else key_generate ctx w } }"

definition generate_named :: "string \<Rightarrow> world \<Rightarrow> keygen_exit outcome" where
  "generate_named name w = do {
     (ctx, w) \<leftarrow> PKEY_CTX_by_name name w;
     (ok, w) \<leftarrow> key_init ''EVP_PKEY_keygen_init'' ctx w;
     if \<not> ok then Some (Cleanup Pkey_keygen_failed ctx 0, w)
     else key_generate ctx w }"

text \<open>Parameters are generated with one context, the key with another. OpenSSL leaves no
  parameters behind when generating them fails.\<close>

definition generate_dh :: "nat \<Rightarrow> nat \<Rightarrow> world \<Rightarrow> keygen_exit outcome" where
  "generate_dh prime_bits generator w = do {
     (ctx, w) \<leftarrow> PKEY_CTX_by_name ''DH'' w;
     (ok, w) \<leftarrow> key_init ''EVP_PKEY_paramgen_init'' ctx w;
     if \<not> ok then Some (Cleanup Pkey_keygen_failed ctx 0, w)
     else do {
       (_, w) \<leftarrow> ccall ''EVP_PKEY_CTX_set_params''
          [Ptr ctx, Pars [uint32_param ''pbits'' prime_bits, uint32_param ''generator'' generator]] w;
       (pparams, w) \<leftarrow> create key_kind ''EVP_PKEY_paramgen'' [Ptr ctx] w;
       if pparams = 0 then Some (Cleanup Pkey_keygen_failed ctx 0, w)
       else do {
         (_, w) \<leftarrow> PKEY_CTX_free ctx w;
         (ctx, w) \<leftarrow> create key_ctx_kind ''EVP_PKEY_CTX_new_from_pkey'' [Ptr pparams] w;
         (_, w) \<leftarrow> PKEY_free pparams w;
         (ok, w) \<leftarrow> key_init ''EVP_PKEY_keygen_init'' ctx w;
         if \<not> ok then Some (Cleanup Pkey_keygen_failed ctx 0, w)
         else key_generate ctx w } } }"

definition no_exponent :: "keygen_exit outcome \<Rightarrow> (keygen_exit \<times> ptr) outcome" where
  "no_exponent m = do { (x, w) \<leftarrow> m; Some ((x, 0), w) }"

definition generate_named_opt :: "pkey_error \<Rightarrow> string option \<Rightarrow> (string \<Rightarrow> world \<Rightarrow> keygen_exit outcome) \<Rightarrow>
    world \<Rightarrow> (keygen_exit \<times> ptr) outcome" where
  "generate_named_opt e name gen w = (case name of
     None \<Rightarrow> Some ((Refused e, 0), w)
   | Some n \<Rightarrow> do { (x, w) \<leftarrow> gen n w; Some ((x, 0), w) })"

fun generate_switch :: "keygen_params \<Rightarrow> world \<Rightarrow> (keygen_exit \<times> ptr) outcome" where
  "generate_switch (Keygen_rsa bits e) = generate_rsa ''RSA'' bits e"
| "generate_switch (Keygen_rsa_pss bits e) = generate_rsa ''RSA-PSS'' bits e"
| "generate_switch (Keygen_ec c) = generate_named_opt Pkey_unsupported_curve (curve_name c) (generate_group ''EC'')"
| "generate_switch (Keygen_ed c) = generate_named_opt Pkey_unsupported_curve (edwards_name c) generate_named"
| "generate_switch (Keygen_x c) = generate_named_opt Pkey_unsupported_curve (montgomery_name c) generate_named"
| "generate_switch (Keygen_dh bits g) = (\<lambda>w. no_exponent (generate_dh bits g w))"
| "generate_switch (Keygen_dh_named g) = generate_named_opt Pkey_unsupported_type (dh_group_name g) (generate_group ''DH'')"

text \<open>The second result is the number left behind, or \<open>NULL\<close>.\<close>

definition pkey_generate :: "keygen_params \<Rightarrow> world \<Rightarrow> ((pkey_error + ptr) \<times> ptr) outcome" where
  "pkey_generate params w = do {
     ((x, e), w) \<leftarrow> generate_switch params w;
     (case x of
        Refused er \<Rightarrow> Some ((Inl er, e), w)
      | Generated ctx pkey \<Rightarrow> do {
          (_, w) \<leftarrow> PKEY_CTX_free ctx w;
          Some ((Inr pkey, e), w) }
      | Cleanup er ctx pkey \<Rightarrow> do {
          (_, w) \<leftarrow> (if ctx \<noteq> 0 then PKEY_CTX_free ctx w else Some ((), w));
          (_, w) \<leftarrow> (if pkey \<noteq> 0 then PKEY_free pkey w else Some ((), w));
          (_, w) \<leftarrow> ERR_peek_last_error w;
          Some ((Inl er, e), w) }) }"

section \<open>Loading\<close>

text \<open>The password callback: what it copies into the decoder's buffer of \<open>sz\<close> bytes.\<close>

definition pw_cb :: "u8 list option \<Rightarrow> int \<Rightarrow> u8 list option" where
  "pw_cb pw sz = (case pw of
     None \<Rightarrow> Some []
   | Some v \<Rightarrow>
       let n = c_int (length v);
           n = (if sz < n then sz else n)
       in if n < 0 then None else Some (take (nat n) v))"

definition EVP_PKEY_KEYPAIR :: int where "EVP_PKEY_KEYPAIR = 0x87"
definition EVP_PKEY_PUBLIC_KEY :: int where "EVP_PKEY_PUBLIC_KEY = 0x86"

definition encoding_name :: "nat \<Rightarrow> string" where
  "encoding_name e = (if e = 0 then ''PEM'' else ''DER'')"

definition load_structure :: "bool \<Rightarrow> nat \<Rightarrow> string option" where
  "load_structure want_private format =
     (if want_private
      then if format = 1 then Some ''PrivateKeyInfo''
           else if format = 0 then Some ''type-specific'' else None
      else if format = 2 then Some ''SubjectPublicKeyInfo'' else None)"

definition str_arg :: "string option \<Rightarrow> arg" where
  "str_arg s = (case s of None \<Rightarrow> Ptr 0 | Some t \<Rightarrow> Str t)"

definition buf_arg :: "u8 list option \<Rightarrow> arg" where
  "buf_arg s = (case s of None \<Rightarrow> Ptr 0 | Some t \<Rightarrow> Buf t)"

definition load_key_from_bytes ::
    "u8 list \<Rightarrow> key_options \<Rightarrow> bool \<Rightarrow> world \<Rightarrow> (pkey_error + ptr) outcome" where
  "load_key_from_bytes bs opts want_private w = do {
     (bio, w) \<leftarrow> mem_buf bs w;
     if bio = 0 then Some (Inl (Pkey_internal 0), w)
     else do {
       (dctx, w) \<leftarrow> create (Obj ''OSSL_DECODER_CTX'') ''OSSL_DECODER_CTX_new_for_pkey''
          [Str (encoding_name (ko_encoding opts)), str_arg (load_structure want_private (ko_format opts)),
           Val (if want_private then EVP_PKEY_KEYPAIR else EVP_PKEY_PUBLIC_KEY)] w;
       if dctx = 0
       then do { (_, w) \<leftarrow> BIO_free bio w; Some (Inl (Pkey_internal 0), w) }
       else do {
         (_, w) \<leftarrow> (if ko_passphrase opts \<noteq> None
           then do {
             (_, w) \<leftarrow> ccall ''OSSL_DECODER_CTX_set_pem_password_cb''
               [Ptr dctx, Str ''pw_cb'', buf_arg (ko_passphrase opts)] w;
             Some ((), w) }
           else Some ((), w));
         ((a, pkey), w) \<leftarrow> acquire key_kind ''OSSL_DECODER_from_bio'' [Ptr dctx, Ptr bio] w;
         (_, w) \<leftarrow> release (Obj ''OSSL_DECODER_CTX'') ''OSSL_DECODER_CTX_free'' dctx w;
         (_, w) \<leftarrow> BIO_free bio w;
         if rc a = 0 \<or> pkey = 0
         then do {
           (_, w) \<leftarrow> (if pkey \<noteq> 0 then PKEY_free pkey w else Some ((), w));
           fail_with Pkey_bad_encoding w }
         else Some (Inr pkey, w) } } }"

definition pkey_load_private :: "u8 list \<Rightarrow> key_options \<Rightarrow> world \<Rightarrow> (pkey_error + ptr) outcome" where
  "pkey_load_private bs opts = load_key_from_bytes bs opts True"

definition pkey_load_public :: "u8 list \<Rightarrow> key_options \<Rightarrow> world \<Rightarrow> (pkey_error + ptr) outcome" where
  "pkey_load_public bs opts = load_key_from_bytes bs opts False"

definition raw_key_name :: "key_type \<Rightarrow> string option" where
  "raw_key_name k = (case k of Kt_ed c \<Rightarrow> edwards_name c | Kt_x c \<Rightarrow> montgomery_name c | _ \<Rightarrow> None)"

definition pkey_from_raw_private :: "key_type \<Rightarrow> u8 list \<Rightarrow> world \<Rightarrow> (pkey_error + ptr) outcome" where
  "pkey_from_raw_private k bs w = (case raw_key_name k of
     None \<Rightarrow> Some (Inl Pkey_unsupported_type, w)
   | Some name \<Rightarrow> do {
       (p, w) \<leftarrow> create key_kind ''EVP_PKEY_new_raw_private_key_ex'' [Str name, Buf bs] w;
       if p = 0 then fail_with Pkey_bad_encoding w else Some (Inr p, w) })"

definition pkey_from_raw_public :: "key_type \<Rightarrow> u8 list \<Rightarrow> world \<Rightarrow> (pkey_error + ptr) outcome" where
  "pkey_from_raw_public k bs w = (case raw_key_name k of
     None \<Rightarrow> Some (Inl Pkey_unsupported_type, w)
   | Some name \<Rightarrow> do {
       (p, w) \<leftarrow> create key_kind ''EVP_PKEY_new_raw_public_key_ex'' [Str name, Buf bs] w;
       if p = 0 then fail_with Pkey_bad_encoding w else Some (Inr p, w) })"

section \<open>Keys behind URIs\<close>

definition ascii :: "string \<Rightarrow> u8 list" where
  "ascii s = map of_char s"

text \<open>The text behind the first occurrence of \<open>pat\<close>.\<close>

fun behind :: "u8 list \<Rightarrow> u8 list \<Rightarrow> u8 list option" where
  "behind pat s =
     (if take (length pat) s = pat then Some (drop (length pat) s)
      else (case s of [] \<Rightarrow> None | _ # s \<Rightarrow> behind pat s))"

declare behind.simps [simp del]

text \<open>The algorithm is read off the C string \<open>uri_c\<close>, which ends at the first NUL.\<close>

definition keymgmt_name :: "u8 list \<Rightarrow> string" where
  "keymgmt_name uri =
     (case behind (ascii ''algorithm='') (takeWhile (\<lambda>c. c \<noteq> 0) uri) of
        Some (a # b # c # _) \<Rightarrow>
          (if (a = 114 \<or> a = 82) \<and> (b = 115 \<or> b = 83) \<and> (c = 97 \<or> c = 65) then ''RSA'' else ''EC'')
      | _ \<Rightarrow> ''EC'')"

definition cstring :: "u8 list \<Rightarrow> world \<Rightarrow> ptr outcome" where
  "cstring v w = do {
     (s, w) \<leftarrow> xmalloc (Suc (length v)) w;
     (_, w) \<leftarrow> deref s w;
     Some (s, w) }"

abbreviation provider_kind :: kind where "provider_kind \<equiv> Obj ''OSSL_PROVIDER''"

definition PROVIDER_load :: "string \<Rightarrow> world \<Rightarrow> ptr outcome" where
  "PROVIDER_load name = create provider_kind ''OSSL_PROVIDER_load'' [Str name]"

definition unload :: "ptr \<Rightarrow> world \<Rightarrow> unit outcome" where
  "unload p w = (if p \<noteq> 0 then release provider_kind ''OSSL_PROVIDER_unload'' p w else Some ((), w))"

text \<open>The label \<open>fail\<close>.\<close>

definition bridge_fail :: "ptr \<Rightarrow> ptr \<Rightarrow> ptr \<Rightarrow> ptr \<Rightarrow> ptr \<Rightarrow> world \<Rightarrow> (pkey_error + 'a) outcome" where
  "bridge_fail uri_c pkey pctx prov def w = do {
     (c, w) \<leftarrow> ERR_peek_last_error w;
     (_, w) \<leftarrow> cfree uri_c w;
     (_, w) \<leftarrow> PKEY_free pkey w;
     (_, w) \<leftarrow> PKEY_CTX_free pctx w;
     (_, w) \<leftarrow> unload prov w;
     (_, w) \<leftarrow> unload def w;
     Some (Inl (Pkey_internal c), w) }"

text \<open>On success the two providers stay loaded, for the life of the program: they are part of the
  result.\<close>

definition pkey_from_wit_bridge_uri :: "u8 list \<Rightarrow> world \<Rightarrow> (pkey_error + ptr \<times> ptr \<times> ptr) outcome" where
  "pkey_from_wit_bridge_uri uri w = do {
     (uri_c, w) \<leftarrow> cstring uri w;
     (def, w) \<leftarrow> PROVIDER_load ''default'' w;
     if def = 0 then bridge_fail uri_c 0 0 0 0 w
     else do {
       (prov, w) \<leftarrow> PROVIDER_load ''wit-bridge'' w;
       if prov = 0 then bridge_fail uri_c 0 0 0 def w
       else do {
         (_, w) \<leftarrow> deref uri_c w;
         (pctx, w) \<leftarrow> create key_ctx_kind ''EVP_PKEY_CTX_new_from_name''
            [Str (keymgmt_name uri), Str ''provider=wit-bridge''] w;
         if pctx = 0 then bridge_fail uri_c 0 0 prov def w
         else do {
           (ok, w) \<leftarrow> key_step ''EVP_PKEY_fromdata_init'' pctx [] w;
           if \<not> ok then bridge_fail uri_c 0 pctx prov def w
           else do {
             ((a, pkey), w) \<leftarrow> acquire key_kind ''EVP_PKEY_fromdata''
                [Ptr pctx, Val EVP_PKEY_KEYPAIR, Str ''wit-bridge-uri'', Ptr uri_c, Buf uri] w;
             if rc a \<le> 0 \<or> pkey = 0 then bridge_fail uri_c pkey pctx prov def w
             else do {
               (_, w) \<leftarrow> cfree uri_c w;
               (_, w) \<leftarrow> PKEY_CTX_free pctx w;
               Some (Inr (pkey, prov, def), w) } } } } } }"

definition STORE_INFO_PUBKEY :: int where "STORE_INFO_PUBKEY = 3"
definition STORE_INFO_PKEY :: int where "STORE_INFO_PKEY = 4"

abbreviation store_info_kind :: kind where "store_info_kind \<equiv> Obj ''OSSL_STORE_INFO''"
abbreviation store_ctx_kind :: kind where "store_ctx_kind \<equiv> Obj ''OSSL_STORE_CTX''"

text \<open>One turn of the loop over the objects of a store, with its test; the state is \<open>out\<close>.\<close>

definition find_key_body :: "ptr \<Rightarrow> ptr \<Rightarrow> world \<Rightarrow> (ptr \<times> bool) outcome" where
  "find_key_body sctx out w = do {
     (eof, w) \<leftarrow> ccall ''OSSL_STORE_eof'' [Ptr sctx] w;
     if rc eof \<noteq> 0 \<or> out \<noteq> 0 then Some ((out, False), w)
     else do {
       (info, w) \<leftarrow> create store_info_kind ''OSSL_STORE_load'' [Ptr sctx] w;
       if info = 0
       then do {
         (er, w) \<leftarrow> ccall ''OSSL_STORE_error'' [Ptr sctx] w;
         Some ((0, rc er = 0), w) }
       else do {
         (t, w) \<leftarrow> ccall ''OSSL_STORE_INFO_get_type'' [Ptr info] w;
         (out, w) \<leftarrow>
           (if rc t = STORE_INFO_PKEY then create key_kind ''OSSL_STORE_INFO_get1_PKEY'' [Ptr info] w
            else if rc t = STORE_INFO_PUBKEY then create key_kind ''OSSL_STORE_INFO_get1_PUBKEY'' [Ptr info] w
            else Some (0, w));
         (_, w) \<leftarrow> release store_info_kind ''OSSL_STORE_INFO_free'' info w;
         Some ((out, True), w) } } }"

definition STORE_close :: "ptr \<Rightarrow> world \<Rightarrow> unit outcome" where
  "STORE_close p w = (if p \<noteq> 0 then release store_ctx_kind ''OSSL_STORE_close'' p w else Some ((), w))"

definition from_uri_fail :: "ptr \<Rightarrow> ptr \<Rightarrow> ptr \<Rightarrow> ptr \<Rightarrow> world \<Rightarrow> (pkey_error + 'a) outcome" where
  "from_uri_fail uri_c sctx prov def w = do {
     (c, w) \<leftarrow> ERR_peek_last_error w;
     (_, w) \<leftarrow> STORE_close sctx w;
     (_, w) \<leftarrow> unload prov w;
     (_, w) \<leftarrow> unload def w;
     (_, w) \<leftarrow> cfree uri_c w;
     Some (Inl (Pkey_internal c), w) }"

definition pkey_from_uri :: "u8 list \<Rightarrow> world \<Rightarrow> (pkey_error + ptr) outcome" where
  "pkey_from_uri uri w = do {
     (uri_c, w) \<leftarrow> cstring uri w;
     (def, w) \<leftarrow> PROVIDER_load ''default'' w;
     (prov, w) \<leftarrow> PROVIDER_load ''wit-bridge'' w;
     if def = 0 \<or> prov = 0 then from_uri_fail uri_c 0 prov def w
     else do {
       (_, w) \<leftarrow> deref uri_c w;
       (sctx, w) \<leftarrow> create store_ctx_kind ''OSSL_STORE_open'' [Buf (uri @ [0])] w;
       if sctx = 0 then from_uri_fail uri_c 0 prov def w
       else do {
         (out, w) \<leftarrow> repeat (find_key_body sctx) 0 w;
         if out = 0 then from_uri_fail uri_c sctx prov def w
         else do {
           (_, w) \<leftarrow> release store_ctx_kind ''OSSL_STORE_close'' sctx w;
           (_, w) \<leftarrow> release provider_kind ''OSSL_PROVIDER_unload'' prov w;
           (_, w) \<leftarrow> release provider_kind ''OSSL_PROVIDER_unload'' def w;
           (_, w) \<leftarrow> cfree uri_c w;
           Some (Inr out, w) } } } }"

section \<open>Metadata\<close>

definition group_names :: "(string \<times> nat) list" where
  "group_names =
     [(''P-192'', 0), (''prime192v1'', 0), (''secp192r1'', 0), (''P-224'', 1), (''secp224r1'', 1),
      (''P-256'', 2), (''prime256v1'', 2), (''secp256r1'', 2), (''P-384'', 3), (''secp384r1'', 3),
      (''P-521'', 4), (''secp521r1'', 4), (''secp256k1'', 5), (''brainpoolP256r1'', 6),
      (''brainpoolP384r1'', 7), (''brainpoolP512r1'', 8), (''SM2'', 9)]"

text \<open>The chain of comparisons; an unknown name leaves the default, P-256.\<close>

definition curve_of_group :: "u8 list \<Rightarrow> nat" where
  "curve_of_group grp = (case map_of (map (map_prod ascii id) group_names) grp of None \<Rightarrow> 2 | Some c \<Rightarrow> c)"

definition pkey_kind :: "ptr \<Rightarrow> world \<Rightarrow> key_type outcome" where
  "pkey_kind p w = do {
     (a, w) \<leftarrow> ccall ''EVP_PKEY_get_base_id'' [Ptr p] w;
     let i = rc a;
     if i = 6 then Some (Kt_rsa, w)
     else if i = 912 then Some (Kt_rsa_pss, w)
     else if i = 408 then do {
       (g, w) \<leftarrow> ccall ''EVP_PKEY_get_group_name'' [Ptr p, Val 80] w;
       (g, w) \<leftarrow> (if rc g \<noteq> 1
         then ccall ''EVP_PKEY_get_utf8_string_param'' [Ptr p, Str ''group'', Val 80] w
         else Some (g, w));
       Some (Kt_ec (if rc g = 1 then curve_of_group (text_of (text1 g)) else 2), w) }
     else if i = 1087 then Some (Kt_ed 0, w)
     else if i = 1088 then Some (Kt_ed 1, w)
     else if i = 1034 then Some (Kt_x 0, w)
     else if i = 1035 then Some (Kt_x 1, w)
     else if i = 28 then Some (Kt_dh, w)
     else Some (Kt_rsa, w) }"

definition pkey_bits :: "ptr \<Rightarrow> world \<Rightarrow> nat outcome" where
  "pkey_bits p w = do { (a, w) \<leftarrow> ccall ''EVP_PKEY_get_bits'' [Ptr p] w; Some (c_u32 (rc a), w) }"

definition pkey_security_bits :: "ptr \<Rightarrow> world \<Rightarrow> nat outcome" where
  "pkey_security_bits p w = do { (a, w) \<leftarrow> ccall ''EVP_PKEY_get_security_bits'' [Ptr p] w; Some (c_u32 (rc a), w) }"

text \<open>A second request for a number stores it in the number the first one left, if any.\<close>

definition pkey_has_private :: "ptr \<Rightarrow> world \<Rightarrow> bool outcome" where
  "pkey_has_private p w = do {
     (a, w) \<leftarrow> ccall ''EVP_PKEY_get_raw_private_key'' [Ptr p, Ptr 0] w;
     (found, w) \<leftarrow>
       (if rc a = 1 then Some (True, w)
        else do {
          ((a, bn), w) \<leftarrow> acquire (Obj ''BIGNUM'') ''EVP_PKEY_get_bn_param'' [Ptr p, Str ''priv''] w;
          ((found, bn), w) \<leftarrow>
            (if rc a = 1 then Some ((True, bn), w)
             else if bn = 0 then do {
               ((a, bn), w) \<leftarrow> acquire (Obj ''BIGNUM'') ''EVP_PKEY_get_bn_param'' [Ptr p, Str ''d''] w;
               Some ((rc a = 1, bn), w) }
             else do {
               (a, w) \<leftarrow> ccall ''EVP_PKEY_get_bn_param'' [Ptr p, Str ''d'', Ptr bn] w;
               Some ((rc a = 1, bn), w) });
          (_, w) \<leftarrow> (if bn \<noteq> 0 then release (Obj ''BIGNUM'') ''BN_free'' bn w else Some ((), w));
          Some (found, w) });
     (_, w) \<leftarrow> ccall ''ERR_clear_error'' [] w;
     Some (found, w) }"

section \<open>Export\<close>

definition save_structure :: "bool \<Rightarrow> nat \<Rightarrow> string" where
  "save_structure want_private format =
     (if want_private
      then if format = 1 then ''PrivateKeyInfo'' else if format = 2 then ''SubjectPublicKeyInfo''
           else ''type-specific''
      else ''SubjectPublicKeyInfo'')"

definition encode_key :: "ptr \<Rightarrow> key_options \<Rightarrow> bool \<Rightarrow> world \<Rightarrow> (pkey_error + list_u8) outcome" where
  "encode_key p opts want_private w = do {
     (ectx, w) \<leftarrow> create (Obj ''OSSL_ENCODER_CTX'') ''OSSL_ENCODER_CTX_new_for_pkey''
        [Ptr p, Val (if want_private then EVP_PKEY_KEYPAIR else EVP_PKEY_PUBLIC_KEY),
         Str (encoding_name (ko_encoding opts)), Str (save_structure want_private (ko_format opts))] w;
     if ectx = 0 then Some (Inl (Pkey_internal 0), w)
     else do {
       (_, w) \<leftarrow> (if want_private \<and> ko_passphrase opts \<noteq> None \<and> ko_format opts = 1
         then do {
           (_, w) \<leftarrow> ccall ''OSSL_ENCODER_CTX_set_passphrase'' [Ptr ectx, buf_arg (ko_passphrase opts)] w;
           (_, w) \<leftarrow> ccall ''OSSL_ENCODER_CTX_set_cipher'' [Ptr ectx, Str ''AES-256-CBC''] w;
           Some ((), w) }
         else Some ((), w));
       (bio, w) \<leftarrow> new_mem w;
       if bio = 0
       then do {
         (_, w) \<leftarrow> release (Obj ''OSSL_ENCODER_CTX'') ''OSSL_ENCODER_CTX_free'' ectx w;
         Some (Inl (Pkey_internal 0), w) }
       else do {
         (a, w) \<leftarrow> ccall ''OSSL_ENCODER_to_bio'' [Ptr ectx, Ptr bio] w;
         (_, w) \<leftarrow> release (Obj ''OSSL_ENCODER_CTX'') ''OSSL_ENCODER_CTX_free'' ectx w;
         if rc a = 0
         then do { (_, w) \<leftarrow> BIO_free bio w; fail_code Pkey_internal w }
         else do {
           (l, w) \<leftarrow> mem_contents bio w;
           (_, w) \<leftarrow> BIO_free bio w;
           Some (Inr l, w) } } } }"

definition pkey_save_private :: "ptr \<Rightarrow> key_options \<Rightarrow> world \<Rightarrow> (pkey_error + list_u8) outcome" where
  "pkey_save_private p opts = encode_key p opts True"

definition pkey_save_public :: "ptr \<Rightarrow> key_options \<Rightarrow> world \<Rightarrow> (pkey_error + list_u8) outcome" where
  "pkey_save_public p opts = encode_key p opts False"

definition pkey_raw_private :: "ptr \<Rightarrow> world \<Rightarrow> (pkey_error + list_u8) outcome" where
  "pkey_raw_private p w = do {
     (r, w) \<leftarrow> sized (\<lambda>c. c = 1) ''EVP_PKEY_get_raw_private_key'' p [] w;
     (case r of
        Inl filling \<Rightarrow> (if filling then fail_code Pkey_internal w else Some (Inl Pkey_unsupported_type, w))
      | Inr l \<Rightarrow> Some (Inr l, w)) }"

definition pkey_raw_public :: "ptr \<Rightarrow> world \<Rightarrow> (pkey_error + list_u8) outcome" where
  "pkey_raw_public p w = do {
     (r, w) \<leftarrow> sized (\<lambda>c. c = 1) ''EVP_PKEY_get_raw_public_key'' p [] w;
     (case r of
        Inl filling \<Rightarrow> (if filling then fail_code Pkey_internal w else Some (Inl Pkey_unsupported_type, w))
      | Inr l \<Rightarrow> Some (Inr l, w)) }"

section \<open>RSA padding\<close>

definition RSA_PKCS1_PADDING :: int where "RSA_PKCS1_PADDING = 1"
definition RSA_NO_PADDING :: int where "RSA_NO_PADDING = 3"
definition RSA_PKCS1_OAEP_PADDING :: int where "RSA_PKCS1_OAEP_PADDING = 4"
definition RSA_PKCS1_PSS_PADDING :: int where "RSA_PKCS1_PSS_PADDING = 6"

text \<open>The context takes over the copy of the label if it accepts it.\<close>

definition set_oaep_label :: "ptr \<Rightarrow> u8 list \<Rightarrow> world \<Rightarrow> bool outcome" where
  "set_oaep_label ctx label w =
     (if length label = 0 then Some (True, w)
      else do {
        (copy, w) \<leftarrow> create (Obj ''OPENSSL'') ''OPENSSL_memdup'' [Buf label] w;
        if copy = 0 then Some (False, w)
        else do {
          (ok, w) \<leftarrow> key_step ''EVP_PKEY_CTX_set0_rsa_oaep_label'' ctx [Ptr copy, Val (c_int (length label))] w;
          if \<not> ok then do { (_, w) \<leftarrow> OPENSSL_free copy w; Some (False, w) }
          else do { (_, w) \<leftarrow> perish copy (Obj ''OPENSSL'') w; Some (True, w) } } })"

definition apply_rsa_padding :: "ptr \<Rightarrow> rsa_padding option \<Rightarrow> world \<Rightarrow> bool outcome" where
  "apply_rsa_padding ctx pad w = (case pad of
     None \<Rightarrow> Some (True, w)
   | Some pd \<Rightarrow> (case pd of
       Pad_pkcs1 \<Rightarrow> key_step ''EVP_PKEY_CTX_set_rsa_padding'' ctx [Val RSA_PKCS1_PADDING] w
     | Pad_none \<Rightarrow> key_step ''EVP_PKEY_CTX_set_rsa_padding'' ctx [Val RSA_NO_PADDING] w
     | Pad_oaep hash mgf1 label \<Rightarrow> do {
         (ok, w) \<leftarrow> key_step ''EVP_PKEY_CTX_set_rsa_padding'' ctx [Val RSA_PKCS1_OAEP_PADDING] w;
         if \<not> ok then Some (False, w)
         else do {
           (md, w) \<leftarrow> fetch_md hash w;
           (mgf, w) \<leftarrow> fetch_md mgf1 w;
           if md = None \<or> mgf = None then Some (False, w)
           else do {
             (ok, w) \<leftarrow> key_step ''EVP_PKEY_CTX_set_rsa_oaep_md'' ctx [str_arg md] w;
             if \<not> ok then Some (False, w)
             else do {
               (ok, w) \<leftarrow> key_step ''EVP_PKEY_CTX_set_rsa_mgf1_md'' ctx [str_arg mgf] w;
               if \<not> ok then Some (False, w) else set_oaep_label ctx label w } } } }
     | Pad_pss hash mgf1 salt_len \<Rightarrow> do {
         (ok, w) \<leftarrow> key_step ''EVP_PKEY_CTX_set_rsa_padding'' ctx [Val RSA_PKCS1_PSS_PADDING] w;
         if \<not> ok then Some (False, w)
         else do {
           (mgf, w) \<leftarrow> fetch_md mgf1 w;
           if mgf = None then Some (False, w)
           else do {
             (ok, w) \<leftarrow> key_step ''EVP_PKEY_CTX_set_rsa_mgf1_md'' ctx [str_arg mgf] w;
             if \<not> ok then Some (False, w)
             else key_step ''EVP_PKEY_CTX_set_rsa_pss_saltlen'' ctx [Val salt_len] w } } }))"

section \<open>Signatures\<close>

definition CTX_of_key :: "ptr \<Rightarrow> world \<Rightarrow> ptr outcome" where
  "CTX_of_key p = create key_ctx_kind ''EVP_PKEY_CTX_new'' [Ptr p]"

definition free_key_ctx :: "ptr \<Rightarrow> world \<Rightarrow> unit outcome" where
  "free_key_ctx ctx w = (if ctx \<noteq> 0 then PKEY_CTX_free ctx w else Some ((), w))"

text \<open>\<open>EVP_PKEY_CTX_set_signature_md\<close> and the padding.\<close>

definition setup_signature :: "ptr \<Rightarrow> string \<Rightarrow> rsa_padding option \<Rightarrow> world \<Rightarrow> bool outcome" where
  "setup_signature ctx md pad w = do {
     (ok, w) \<leftarrow> key_step ''EVP_PKEY_CTX_set_signature_md'' ctx [Str md] w;
     if \<not> ok then Some (False, w) else apply_rsa_padding ctx pad w }"

definition pkey_sign_digest ::
    "ptr \<Rightarrow> nat \<Rightarrow> u8 list \<Rightarrow> rsa_padding option \<Rightarrow> world \<Rightarrow> (pkey_error + list_u8) outcome" where
  "pkey_sign_digest p hash digest pad w = do {
     (ctx, w) \<leftarrow> CTX_of_key p w;
     (ok, w) \<leftarrow> key_init ''EVP_PKEY_sign_init'' ctx w;
     if \<not> ok
     then do { (_, w) \<leftarrow> free_key_ctx ctx w; fail_with Pkey_sign_failed w }
     else do {
       (md, w) \<leftarrow> fetch_md hash w;
       (case md of
          None \<Rightarrow> do { (_, w) \<leftarrow> PKEY_CTX_free ctx w; Some (Inl Pkey_unsupported_type, w) }
        | Some m \<Rightarrow> do {
            (ok, w) \<leftarrow> setup_signature ctx m pad w;
            if \<not> ok
            then do { (_, w) \<leftarrow> PKEY_CTX_free ctx w; fail_with Pkey_sign_failed w }
            else do {
              (r, w) \<leftarrow> sized (\<lambda>c. 0 < c) ''EVP_PKEY_sign'' ctx [Buf digest] w;
              (_, w) \<leftarrow> PKEY_CTX_free ctx w;
              (case r of Inl _ \<Rightarrow> fail_with Pkey_sign_failed w | Inr l \<Rightarrow> Some (Inr l, w)) } }) } }"

abbreviation md_ctx_kind :: kind where "md_ctx_kind \<equiv> Obj ''EVP_MD_CTX''"

definition MD_CTX_free :: "ptr \<Rightarrow> world \<Rightarrow> unit outcome" where
  "MD_CTX_free = release md_ctx_kind ''EVP_MD_CTX_free''"

text \<open>The digest of a \<open>sign_message\<close> or \<open>verify_message\<close>, which may be left to the key; \<open>None\<close> stands for
  a number that names none.\<close>

definition message_md :: "nat option \<Rightarrow> world \<Rightarrow> string option option outcome" where
  "message_md hash w = (case hash of
     None \<Rightarrow> Some (Some None, w)
   | Some h \<Rightarrow> do {
       (md, w) \<leftarrow> fetch_md h w;
       Some (case md of None \<Rightarrow> None | Some m \<Rightarrow> Some (Some m), w) })"

text \<open>\<open>EVP_DigestSignInit\<close> answers the key context inside \<open>mctx\<close>, which goes by the address of
  \<open>mctx\<close> here.\<close>

definition pkey_sign_message ::
    "ptr \<Rightarrow> nat option \<Rightarrow> u8 list \<Rightarrow> rsa_padding option \<Rightarrow> world \<Rightarrow> (pkey_error + list_u8) outcome" where
  "pkey_sign_message p hash message pad w = do {
     (mctx, w) \<leftarrow> create md_ctx_kind ''EVP_MD_CTX_new'' [] w;
     if mctx = 0 then Some (Inl (Pkey_internal 0), w)
     else do {
       (md, w) \<leftarrow> message_md hash w;
       (case md of
          None \<Rightarrow> do { (_, w) \<leftarrow> MD_CTX_free mctx w; Some (Inl Pkey_unsupported_type, w) }
        | Some m \<Rightarrow> do {
            (ok, w) \<leftarrow> key_step ''EVP_DigestSignInit'' mctx [str_arg m, Ptr p] w;
            if \<not> ok
            then do { (_, w) \<leftarrow> MD_CTX_free mctx w; fail_with Pkey_sign_failed w }
            else do {
              (ok, w) \<leftarrow> apply_rsa_padding mctx pad w;
              if \<not> ok
              then do { (_, w) \<leftarrow> MD_CTX_free mctx w; fail_with Pkey_sign_failed w }
              else do {
                (r, w) \<leftarrow> sized (\<lambda>c. 0 < c) ''EVP_DigestSign'' mctx [Buf message] w;
                (_, w) \<leftarrow> MD_CTX_free mctx w;
                (case r of Inl _ \<Rightarrow> fail_with Pkey_sign_failed w | Inr l \<Rightarrow> Some (Inr l, w)) } } }) } }"

text \<open>A result below 0 is an error, 1 a valid signature, anything else an invalid one.\<close>

definition verdict :: "int \<Rightarrow> world \<Rightarrow> (pkey_error + bool) outcome" where
  "verdict r w = (if r < 0 then fail_with Pkey_verify_failed w else Some (Inr (r = 1), w))"

definition pkey_verify_digest ::
    "ptr \<Rightarrow> nat \<Rightarrow> u8 list \<Rightarrow> u8 list \<Rightarrow> rsa_padding option \<Rightarrow> world \<Rightarrow> (pkey_error + bool) outcome" where
  "pkey_verify_digest p hash digest signature pad w = do {
     (ctx, w) \<leftarrow> CTX_of_key p w;
     (ok, w) \<leftarrow> key_init ''EVP_PKEY_verify_init'' ctx w;
     if \<not> ok
     then do { (_, w) \<leftarrow> free_key_ctx ctx w; Some (Inl Pkey_verify_failed, w) }
     else do {
       (md, w) \<leftarrow> fetch_md hash w;
       (case md of
          None \<Rightarrow> do { (_, w) \<leftarrow> PKEY_CTX_free ctx w; Some (Inl Pkey_unsupported_type, w) }
        | Some m \<Rightarrow> do {
            (ok, w) \<leftarrow> setup_signature ctx m pad w;
            if \<not> ok
            then do { (_, w) \<leftarrow> PKEY_CTX_free ctx w; Some (Inl Pkey_verify_failed, w) }
            else do {
              (a, w) \<leftarrow> ccall ''EVP_PKEY_verify'' [Ptr ctx, Buf signature, Buf digest] w;
              (_, w) \<leftarrow> PKEY_CTX_free ctx w;
              verdict (rc a) w } }) } }"

definition pkey_verify_message ::
    "ptr \<Rightarrow> nat option \<Rightarrow> u8 list \<Rightarrow> u8 list \<Rightarrow> rsa_padding option \<Rightarrow> world \<Rightarrow> (pkey_error + bool) outcome" where
  "pkey_verify_message p hash message signature pad w = do {
     (mctx, w) \<leftarrow> create md_ctx_kind ''EVP_MD_CTX_new'' [] w;
     if mctx = 0 then Some (Inl (Pkey_internal 0), w)
     else do {
       (md, w) \<leftarrow> message_md hash w;
       (case md of
          None \<Rightarrow> do { (_, w) \<leftarrow> MD_CTX_free mctx w; Some (Inl Pkey_unsupported_type, w) }
        | Some m \<Rightarrow> do {
            (ok, w) \<leftarrow> key_step ''EVP_DigestVerifyInit'' mctx [str_arg m, Ptr p] w;
            (ok, w) \<leftarrow> (if \<not> ok then Some (False, w) else apply_rsa_padding mctx pad w);
            if \<not> ok
            then do { (_, w) \<leftarrow> MD_CTX_free mctx w; Some (Inl Pkey_verify_failed, w) }
            else do {
              (a, w) \<leftarrow> ccall ''EVP_DigestVerify'' [Ptr mctx, Buf signature, Buf message] w;
              (_, w) \<leftarrow> MD_CTX_free mctx w;
              verdict (rc a) w } }) } }"

section \<open>Encryption and key agreement\<close>

text \<open>The frame that encrypting and decrypting share.\<close>

definition crypt :: "string \<Rightarrow> string \<Rightarrow> pkey_error \<Rightarrow> ptr \<Rightarrow> rsa_padding option \<Rightarrow> u8 list \<Rightarrow> world \<Rightarrow>
    (pkey_error + list_u8) outcome" where
  "crypt init fn e p pad input w = do {
     (ctx, w) \<leftarrow> CTX_of_key p w;
     (ok, w) \<leftarrow> key_init init ctx w;
     (ok, w) \<leftarrow> (if \<not> ok then Some (False, w) else apply_rsa_padding ctx pad w);
     if \<not> ok
     then do { (_, w) \<leftarrow> free_key_ctx ctx w; fail_with e w }
     else do {
       (r, w) \<leftarrow> sized (\<lambda>c. 0 < c) fn ctx [Buf input] w;
       (_, w) \<leftarrow> PKEY_CTX_free ctx w;
       (case r of Inl _ \<Rightarrow> fail_with e w | Inr l \<Rightarrow> Some (Inr l, w)) } }"

definition pkey_encrypt :: "ptr \<Rightarrow> rsa_padding option \<Rightarrow> u8 list \<Rightarrow> world \<Rightarrow> (pkey_error + list_u8) outcome" where
  "pkey_encrypt = crypt ''EVP_PKEY_encrypt_init'' ''EVP_PKEY_encrypt'' Pkey_encrypt_failed"

definition pkey_decrypt :: "ptr \<Rightarrow> rsa_padding option \<Rightarrow> u8 list \<Rightarrow> world \<Rightarrow> (pkey_error + list_u8) outcome" where
  "pkey_decrypt = crypt ''EVP_PKEY_decrypt_init'' ''EVP_PKEY_decrypt'' Pkey_decrypt_failed"

definition pkey_derive :: "ptr \<Rightarrow> ptr \<Rightarrow> world \<Rightarrow> (pkey_error + list_u8) outcome" where
  "pkey_derive p peer w = do {
     (ctx, w) \<leftarrow> CTX_of_key p w;
     (ok, w) \<leftarrow> key_init ''EVP_PKEY_derive_init'' ctx w;
     (ok, w) \<leftarrow> (if \<not> ok then Some (False, w) else key_step ''EVP_PKEY_derive_set_peer'' ctx [Ptr peer] w);
     if \<not> ok
     then do { (_, w) \<leftarrow> free_key_ctx ctx w; fail_with Pkey_derive_failed w }
     else do {
       (r, w) \<leftarrow> sized (\<lambda>c. 0 < c) ''EVP_PKEY_derive'' ctx [] w;
       (_, w) \<leftarrow> PKEY_CTX_free ctx w;
       (case r of Inl _ \<Rightarrow> fail_with Pkey_derive_failed w | Inr l \<Rightarrow> Some (Inr l, w)) } }"

section \<open>Handles\<close>

definition pkey_clone :: "ptr \<Rightarrow> world \<Rightarrow> ptr outcome" where
  "pkey_clone p = retain key_kind ''EVP_PKEY_up_ref'' [Ptr p]"

definition pkey_destructor :: "ptr \<Rightarrow> world \<Rightarrow> unit outcome" where
  "pkey_destructor rep w = (if rep \<noteq> 0 then PKEY_free rep w else Some ((), w))"

section \<open>Resource safety\<close>

lemmas pkey_frees = PKEY_free_def PKEY_CTX_free_def MD_CTX_free_def BIO_free_def OPENSSL_free_def
  free_key_ctx_def key_init_def CTX_of_key_def PKEY_CTX_by_name_def PROVIDER_load_def unload_def
  STORE_close_def mem_buf_def new_mem_def

lemma key_step_triple: "list_all (usable_fp A) (Ptr p # args) \<Longrightarrow> ledger_triple fns A (key_step fn p args) (\<lambda>_. A)"
  unfolding key_step_def by (rule step_ccall, assumption, rule step_ret, simp)

lemma set_oaep_label_triple: "p \<in> fst ` set A \<Longrightarrow> ledger_triple fns A (set_oaep_label p l) (\<lambda>_. A)"
  unfolding set_oaep_label_def pkey_frees
  by (assumption | rule step_known, assumption | rule steps_first | rule key_step_triple [THEN triple_bind] | rule steps
    | rule fp_rules | (simp; fail))+

lemma apply_rsa_padding_triple:
  "p \<in> fst ` set A \<Longrightarrow> ledger_triple fns A (apply_rsa_padding p pad) (\<lambda>_. A)"
  unfolding apply_rsa_padding_def
  apply (rule triple_option)
   apply (simp add: triple_done)
  subgoal for pd
    by (cases pd; simp only: rsa_padding.case)
      (assumption | rule step_known, assumption | rule steps_first | rule key_step_triple [THEN triple_bind]
        | rule key_step_triple | rule set_oaep_label_triple | rule steps | (simp add: str_arg_def split: option.splits; fail))+
  done

lemmas pkey_calls = key_step_triple [THEN triple_bind] apply_rsa_padding_triple [THEN triple_bind]

lemma key_outputs:
  assumes "''malloc'' \<in> set fns" and "p \<in> fst ` set A"
  shows "ledger_triple fns A (pkey_sign_digest p hash digest pad) (\<lambda>r. held r @ A)"
    "ledger_triple fns A (pkey_sign_message p ohash digest pad) (\<lambda>r. held r @ A)"
    "ledger_triple fns A (pkey_encrypt p pad data) (\<lambda>r. held r @ A)"
    "ledger_triple fns A (pkey_decrypt p pad data) (\<lambda>r. held r @ A)"
    "ledger_triple fns A (pkey_raw_private p) (\<lambda>r. held r @ A)"
    "ledger_triple fns A (pkey_raw_public p) (\<lambda>r. held r @ A)"
  unfolding pkey_sign_digest_def pkey_sign_message_def pkey_encrypt_def pkey_decrypt_def crypt_def pkey_raw_private_def pkey_raw_public_def setup_signature_def message_md_def pkey_frees
  by (assumption | rule assms(1) | rule step_known, assumption | rule steps_first | rule pkey_calls
      | rule apply_rsa_padding_triple | rule steps | rule fp_rules | (use assms(2) in \<open>simp add: str_arg_def buf_arg_def split: option.splits; fail\<close>))+

lemma pkey_derive_triple:
  assumes "''malloc'' \<in> set fns" and "p \<in> fst ` set A \<and> peer \<in> fst ` set A"
  shows "ledger_triple fns A (pkey_derive p peer) (\<lambda>r. held r @ A)"
  unfolding pkey_derive_def pkey_frees
  by (assumption | rule assms(1) | rule step_known, assumption | rule steps_first | rule pkey_calls
      | rule apply_rsa_padding_triple | rule steps | rule fp_rules | (use assms(2) in \<open>simp add: str_arg_def buf_arg_def split: option.splits; fail\<close>))+

lemma key_verdicts:
  assumes "True" and "p \<in> fst ` set A"
  shows "ledger_triple fns A (pkey_verify_digest p hash digest sig pad) (\<lambda>r. A)"
    "ledger_triple fns A (pkey_verify_message p ohash msg sig pad) (\<lambda>r. A)"
    "ledger_triple fns A (pkey_kind p) (\<lambda>r. A)"
    "ledger_triple fns A (pkey_bits p) (\<lambda>r. A)"
    "ledger_triple fns A (pkey_security_bits p) (\<lambda>r. A)"
    "ledger_triple fns A (pkey_has_private p) (\<lambda>r. A)"
  unfolding pkey_verify_digest_def pkey_verify_message_def verdict_def pkey_kind_def pkey_bits_def pkey_security_bits_def pkey_has_private_def setup_signature_def message_md_def pkey_frees
  by (assumption | rule assms(1) | rule step_known, assumption | rule steps_first | rule pkey_calls
      | rule apply_rsa_padding_triple | rule steps | rule fp_rules | (use assms(2) in \<open>simp add: str_arg_def buf_arg_def split: option.splits; fail\<close>))+

lemma key_exports:
  assumes "set out_services \<subseteq> set fns" and "p \<in> fst ` set A"
  shows "ledger_triple fns A (pkey_save_private p opts) (\<lambda>r. held r @ A)"
    "ledger_triple fns A (pkey_save_public p opts) (\<lambda>r. held r @ A)"
  unfolding pkey_save_private_def pkey_save_public_def encode_key_def pkey_frees
  by (assumption | rule assms(1) | rule step_known, assumption | rule steps_first | rule pkey_calls
      | rule apply_rsa_padding_triple | rule steps | rule fp_rules | (use assms(2) in \<open>simp add: str_arg_def buf_arg_def split: option.splits; fail\<close>))+

text \<open>A new key is all that is left.\<close>

abbreviation new_key :: "'e + ptr \<Rightarrow> footprint" where
  "new_key \<equiv> result_fp (\<lambda>p. own p key_kind)"

lemma key_imports:
  assumes "True" and "True"
  shows "ledger_triple fns A (pkey_load_private bs opts) (\<lambda>r. new_key r @ A)"
    "ledger_triple fns A (pkey_load_public bs opts) (\<lambda>r. new_key r @ A)"
    "ledger_triple fns A (pkey_from_raw_private k bs) (\<lambda>r. new_key r @ A)"
    "ledger_triple fns A (pkey_from_raw_public k bs) (\<lambda>r. new_key r @ A)"
  unfolding pkey_load_private_def pkey_load_public_def load_key_from_bytes_def pkey_from_raw_private_def pkey_from_raw_public_def pkey_frees
  by (assumption | rule assms(1) | rule step_known, assumption | rule steps_first | rule pkey_calls
      | rule apply_rsa_padding_triple | rule steps | rule fp_rules | (use assms(2) in \<open>simp add: str_arg_def buf_arg_def split: option.splits; fail\<close>))+


definition exit_fp :: "keygen_exit \<times> ptr \<Rightarrow> footprint" where
  "exit_fp x = (case fst x of
     Generated ctx p \<Rightarrow> guarded (ctx \<noteq> 0 \<and> p \<noteq> 0) [(ctx, key_ctx_kind), (p, key_kind)]
   | Cleanup e ctx p \<Rightarrow> own ctx key_ctx_kind @ own p key_kind
   | Refused e \<Rightarrow> []) @ own (snd x) (Obj ''BIGNUM'')"

lemma exit_fp_simps [simp]:
  "exit_fp (Generated c p, e) = guarded (c \<noteq> 0 \<and> p \<noteq> 0) [(c, key_ctx_kind), (p, key_kind)] @ own e (Obj ''BIGNUM'')"
  "exit_fp (Cleanup er c p, e) = own c key_ctx_kind @ own p key_kind @ own e (Obj ''BIGNUM'')"
  "exit_fp (Refused er, e) = own e (Obj ''BIGNUM'')"
  by (simp_all add: exit_fp_def)

lemma exit_fp_snd: "mset (exit_fp (x, 0) @ [(e, Obj ''BIGNUM'')]) = mset (exit_fp (x, e))" if "e \<noteq> 0"
  using that by (simp add: exit_fp_def)

lemma key_generate_triple: "c \<noteq> 0 \<Longrightarrow> ledger_triple fns [(c, key_ctx_kind)] (key_generate c) (\<lambda>x. exit_fp (x, 0))"
  unfolding key_generate_def
  by (rule step_produce, simp, rule step_ret, simp, rule step_ret, simp)

lemma generate_rsa_triple: "ledger_triple fns [] (generate_rsa name bits e) exit_fp"
  unfolding generate_rsa_def pkey_frees
  apply (assumption | rule step_known, assumption | rule steps_first | rule key_step_triple [THEN triple_bind]
     | rule key_generate_triple [THEN triple_step1] | rule steps | rule fp_rules | (rule exit_fp_snd, assumption) | (simp; fail))+
  done

lemma generate_others:
  "ledger_triple fns [] (generate_group name grp) (\<lambda>x. exit_fp (x, 0))"
  "ledger_triple fns [] (generate_named name) (\<lambda>x. exit_fp (x, 0))"
  "ledger_triple fns [] (generate_dh bits g) (\<lambda>x. exit_fp (x, 0))"
  subgoal unfolding generate_group_def  pkey_frees
    by (assumption | rule step_known, assumption | rule steps_first | rule key_step_triple [THEN triple_bind]
     | rule key_generate_triple | rule steps | rule fp_rules | (simp; fail))+
  subgoal unfolding generate_named_def pkey_frees
    by (assumption | rule step_known, assumption | rule steps_first | rule key_step_triple [THEN triple_bind]
     | rule key_generate_triple | rule steps | rule fp_rules | (simp; fail))+
  subgoal unfolding generate_dh_def pkey_frees
    by (assumption | rule step_known, assumption | rule steps_first | rule key_step_triple [THEN triple_bind]
     | rule key_generate_triple | rule steps | rule fp_rules | (simp; fail))+
  done

lemma generate_switch_triple: "ledger_triple fns [] (generate_switch params) exit_fp"
proof -
  have o: "ledger_triple fns [] (generate_named_opt er name gen) exit_fp"
    if "\<And>n. ledger_triple fns [] (gen n) (\<lambda>x. exit_fp (x, 0))" for er name gen
    unfolding generate_named_opt_def
    by (rule steps, rule step_ret, simp, rule triple_bind [OF that], rule step_ret, simp)
  have n: "ledger_triple fns [] (\<lambda>w. no_exponent (generate_dh bits g w)) exit_fp" for bits g
    unfolding no_exponent_def by (rule triple_bind [OF generate_others(3)], rule step_ret, simp)
  show ?thesis
    by (cases params) (simp_all only: generate_switch.simps generate_rsa_triple o generate_others n)
qed

lemma pkey_generate_triple:
  "ledger_triple fns [] (pkey_generate params) (\<lambda>(r, e). new_key r @ own e (Obj ''BIGNUM''))"
  unfolding pkey_generate_def
proof (rule triple_bind2 [where B = "\<lambda>x e. exit_fp (x, e)"])
  show "ledger_triple fns [] (generate_switch params) (\<lambda>(x, e). exit_fp (x, e))"
    using generate_switch_triple [of fns params] by (simp add: case_prod_unfold)
  show "ledger_triple fns (exit_fp (x, e)) (\<lambda>w. case x of
        Generated ctx pkey \<Rightarrow> do {
          (_, w) \<leftarrow> PKEY_CTX_free ctx w;
          Some ((Inr pkey, e), w) }
      | Cleanup er ctx pkey \<Rightarrow> do {
          (_, w) \<leftarrow> (if ctx \<noteq> 0 then PKEY_CTX_free ctx w else Some ((), w));
          (_, w) \<leftarrow> (if pkey \<noteq> 0 then PKEY_free pkey w else Some ((), w));
          (_, w) \<leftarrow> ERR_peek_last_error w;
          Some ((Inl er, e), w) }
      | Refused er \<Rightarrow> Some ((Inl er, e), w)) (\<lambda>(r, e). new_key r @ own e (Obj ''BIGNUM''))" for x e
  proof (cases x)
    case (Generated c p)
    show ?thesis unfolding Generated keygen_exit.case exit_fp_simps pkey_frees
      by (rule triple_guarded [OF fp_block_here(1)])
        (assumption | rule steps | rule fp_rules | (simp; fail))+
  next
    case (Cleanup er c p)
    show ?thesis unfolding Cleanup keygen_exit.case exit_fp_simps pkey_frees
      by (cases "c = 0"; cases "p = 0"; simp only: own_simps simp_thms append.simps if_True if_False)
        (assumption | rule steps | rule fp_rules | (simp; fail))+
  next
    case (Refused er)
    show ?thesis unfolding Refused by (simp add: triple_done)
  qed
qed

lemma cstring_triple: "''malloc'' \<in> set fns \<Longrightarrow> ledger_triple fns A (cstring v) (\<lambda>s. guarded (s \<noteq> 0) [(s, Mem)] @ A)"
  unfolding cstring_def by (assumption | rule steps | (simp; fail))+

lemma step_cstring [steps]:
  assumes "''malloc'' \<in> set fns" and "\<And>s. s \<noteq> 0 \<Longrightarrow> ledger_triple fns ((s, Mem) # A) (f s) C"
  shows "ledger_triple fns A (\<lambda>w. Option.bind (cstring v w) (\<lambda>(s, w). f s w)) C"
  unfolding cstring_def
  by (rule step_bind_assoc, rule step_xmalloc, rule assms(1), simp, rule step_bind_assoc, rule step_deref, simp,
      rule step_bind_ret, rule assms(2))

abbreviation bridge_owns :: "pkey_error + ptr \<times> ptr \<times> ptr \<Rightarrow> footprint" where
  "bridge_owns \<equiv> result_fp (\<lambda>(p, prov, def). [(p, key_kind), (prov, provider_kind), (def, provider_kind)])"

lemma pkey_from_wit_bridge_uri_triple:
  assumes "''malloc'' \<in> set fns"
  shows "ledger_triple fns A (pkey_from_wit_bridge_uri uri) (\<lambda>r. bridge_owns r @ A)"
  unfolding pkey_from_wit_bridge_uri_def bridge_fail_def pkey_frees
  by (assumption | rule assms(1) | rule step_known, assumption | rule steps_first | rule pkey_calls
     | rule steps | rule fp_rules | (rule step_release_own, rule fp_rules) | (simp; fail))+

lemma find_key_body_triple:
  "ledger_triple fns (own out key_kind @ [(sctx, store_ctx_kind)]) (find_key_body sctx out)
     (\<lambda>(out, go). own out key_kind @ [(sctx, store_ctx_kind)])"
  unfolding find_key_body_def pkey_frees
  by (cases "out = 0"; simp only: own_simps append.simps)
    (assumption | rule step_known, assumption | rule steps_first | rule steps | rule fp_rules | (simp; fail))+

lemma find_key_progress:
  "find_key_body sctx s w = Some ((s', True), w') \<Longrightarrow>
   (\<exists>t. log w' = log w @ t \<and> 1 \<le> reads ''OSSL_STORE_load'' sctx t) \<and> \<not> store_ends (lib w) (log w) sctx"
  by (auto simp: find_key_body_def ccall_def create_def acquire_def release_def record_call_def store_ends_def Let_def
      split: if_splits)

lemma find_key_triple:
  assumes "''OSSL_STORE_load'' \<in> set fns"
  shows "ledger_triple fns [(sctx, store_ctx_kind)] (repeat (find_key_body sctx) 0)
     (\<lambda>out. own out key_kind @ [(sctx, store_ctx_kind)])"
  using repeat_triple [where I = "\<lambda>out. own out key_kind @ [(sctx, store_ctx_kind)]" and s = 0
      and stop = store_ends and p = sctx and fn = "''OSSL_STORE_load''",
      OF find_key_body_triple find_key_progress assms fails_exceptional(2)]
  by simp

lemma pkey_from_uri_triple:
  assumes "set [''malloc'', ''OSSL_STORE_load''] \<subseteq> set fns"
  shows "ledger_triple fns A (pkey_from_uri uri) (\<lambda>r. new_key r @ A)"
  unfolding pkey_from_uri_def from_uri_fail_def pkey_frees
  by (assumption | rule step_known, assumption | rule steps_first | rule find_key_triple [THEN triple_step1]
     | rule step_cstring | rule steps | rule fp_rules | (use assms in \<open>simp; fail\<close>))+

section \<open>Signing and verifying\<close>

text \<open>
  What OpenSSL knows of a signing or verifying context, read off the call log: the digest and the
  key it was made for, and the settings made since. Signing and verifying contexts set up
  by the same calls belong together.
\<close>

datatype sig_setup = Setup "arg list" "(string \<times> arg list) list"

fun add_setting :: "string \<times> arg list \<Rightarrow> sig_setup \<Rightarrow> sig_setup" where
  "add_setting x (Setup i xs) = Setup i (xs @ [x])"

definition setting_fns :: "string list" where
  "setting_fns = [''EVP_PKEY_CTX_set_signature_md'', ''EVP_PKEY_CTX_set_rsa_padding'',
     ''EVP_PKEY_CTX_set_rsa_mgf1_md'', ''EVP_PKEY_CTX_set_rsa_pss_saltlen'']"

fun sig_step :: "(ptr \<rightharpoonup> sig_setup) \<Rightarrow> event \<Rightarrow> (ptr \<rightharpoonup> sig_setup)" where
  "sig_step st (Ev fn args r) =
     (if fn = ''EVP_PKEY_CTX_new'' then st(r \<mapsto> Setup args [])
      else (case args of
          Ptr c # rest \<Rightarrow>
            (if fn = ''EVP_DigestSignInit'' \<or> fn = ''EVP_DigestVerifyInit'' then st(c \<mapsto> Setup rest [])
             else if fn \<in> set setting_fns then st(c := map_option (add_setting (fn, rest)) (st c))
             else st)
        | _ \<Rightarrow> st))"

definition sig_state :: "event list \<Rightarrow> ptr \<rightharpoonup> sig_setup" where
  "sig_state h = foldl sig_step Map.empty h"

lemma sig_state_append [simp]: "sig_state (h @ es) = foldl sig_step (sig_state h) es"
  by (simp add: sig_state_def)










section \<open>The first key of a store\<close>








section \<open>Properties\<close>







text \<open>C30: Whatever OpenSSL answers, every operation on keys leaves live exactly what it returns:
  the contexts, encoders, BIOs, providers and store handles it opens are freed once on every
  path. It stops only if malloc fails, a BIO reports a negative length or a store has no end.
  The exceptions are part of the statement: a generation may leave the number of the public
  exponent behind, and the two providers behind a bridge URI stay loaded.\<close>

theorem pkey_operations_balanced:
  "ledger_triple [] [] (pkey_generate params) (\<lambda>(r, e). new_key r @ own e (Obj ''BIGNUM'')) \<and>
   ledger_triple [] [] (pkey_load_private bs opts) new_key \<and>
   ledger_triple [] [] (pkey_load_public bs opts) new_key \<and>
   ledger_triple [] [] (pkey_from_raw_private k bs) new_key \<and>
   ledger_triple [] [] (pkey_from_raw_public k bs) new_key \<and>
   ledger_triple [''malloc''] [] (pkey_from_wit_bridge_uri uri) bridge_owns \<and>
   ledger_triple [''malloc'', ''OSSL_STORE_load''] [] (pkey_from_uri uri) new_key \<and>
   ledger_triple out_services [(p, key_kind)] (pkey_save_private p opts) (\<lambda>r. held r @ [(p, key_kind)]) \<and>
   ledger_triple out_services [(p, key_kind)] (pkey_save_public p opts) (\<lambda>r. held r @ [(p, key_kind)]) \<and>
   ledger_triple [''malloc''] [(p, key_kind)] (pkey_raw_private p) (\<lambda>r. held r @ [(p, key_kind)]) \<and>
   ledger_triple [''malloc''] [(p, key_kind)] (pkey_raw_public p) (\<lambda>r. held r @ [(p, key_kind)]) \<and>
   ledger_triple [''malloc''] [(p, key_kind)] (pkey_sign_digest p hash data pad) (\<lambda>r. held r @ [(p, key_kind)]) \<and>
   ledger_triple [''malloc''] [(p, key_kind)] (pkey_sign_message p ohash data pad) (\<lambda>r. held r @ [(p, key_kind)]) \<and>
   ledger_triple [] [(p, key_kind)] (pkey_verify_digest p hash data sig pad) (\<lambda>_. [(p, key_kind)]) \<and>
   ledger_triple [] [(p, key_kind)] (pkey_verify_message p ohash data sig pad) (\<lambda>_. [(p, key_kind)]) \<and>
   ledger_triple [''malloc''] [(p, key_kind)] (pkey_encrypt p pad data) (\<lambda>r. held r @ [(p, key_kind)]) \<and>
   ledger_triple [''malloc''] [(p, key_kind)] (pkey_decrypt p pad data) (\<lambda>r. held r @ [(p, key_kind)]) \<and>
   ledger_triple [''malloc''] [(p, key_kind), (q, key_kind)] (pkey_derive p q)
     (\<lambda>r. held r @ [(p, key_kind), (q, key_kind)]) \<and>
   ledger_triple [] [(p, key_kind)] (pkey_kind p) (\<lambda>_. [(p, key_kind)]) \<and>
   ledger_triple [] [(p, key_kind)] (pkey_has_private p) (\<lambda>_. [(p, key_kind)]) \<and>
   ledger_triple [] [(p, key_kind)] (pkey_clone p) (\<lambda>q. [(q, key_kind), (p, key_kind)]) \<and>
   ledger_triple [] [(p, key_kind)] (pkey_destructor p) (\<lambda>_. [])"
proof -
  have c: "ledger_triple [] [(p, key_kind)] (pkey_clone p) (\<lambda>q. [(q, key_kind), (p, key_kind)])"
    unfolding pkey_clone_def by (rule triple_tail, rule step_retain, simp, rule step_ret, simp)
  have d: "ledger_triple [] [(p, key_kind)] (pkey_destructor p) (\<lambda>_. [])"
    unfolding pkey_destructor_def pkey_frees
    by (rule triple_nonnull) (assumption | rule step_known, assumption | rule steps | rule fp_rules | (simp; fail))+
  show ?thesis
    using pkey_generate_triple [of "[]" params] key_imports [of "[]" "[]"] pkey_from_wit_bridge_uri_triple [of _ "[]" uri]
      pkey_from_uri_triple [of _ "[]" uri] key_exports [of out_services p "[(p, key_kind)]"]
      key_outputs [of "[''malloc'']" p "[(p, key_kind)]"] key_verdicts [of p "[(p, key_kind)]" "[]"]
      pkey_derive_triple [of "[''malloc'']" p "[(p, key_kind), (q, key_kind)]" q] c d
    by simp
qed

definition exponent_given :: "keygen_params \<Rightarrow> bool" where
  "exponent_given params = (case params of Keygen_rsa _ (Some _) \<Rightarrow> True | Keygen_rsa_pss _ (Some _) \<Rightarrow> True | _ \<Rightarrow> False)"

lemma generate_rsa_exponent:
  "generate_rsa name bits x w = Some ((Generated c p, e), w') \<Longrightarrow> (e \<noteq> 0) = (x \<noteq> None)"
  by (auto simp: generate_rsa_def key_generate_def produce_def Let_def split: Option.bind_splits if_splits option.splits)

text \<open>A generation of an RSA key that succeeds leaves the number made for the public exponent
  live, with no reference to it left, exactly when the caller gave an exponent.\<close>

theorem pkey_generate_leaks_exponent:
  assumes "wf_world w" and "pkey_generate params w = Some ((Inr p, e), w')"
  shows "(if exponent_given params then e \<noteq> 0 \<and> live w' e = Some (Obj ''BIGNUM'') else e = 0)"
proof -
  have h: "holds w (live w) []" using assms(1) by (simp add: holds_def)
  have "holds w' (live w) (new_key (Inr p) @ own e (Obj ''BIGNUM''))"
    using pkey_generate_triple [of "[]" params, unfolded ledger_triple_def, rule_format, OF h] assms(2)
    by (simp add: wp_def)
  from holds_live [OF this, of e] have l: "e \<noteq> 0 \<Longrightarrow> live w' e = Some (Obj ''BIGNUM'')" by simp
  obtain c w1 where "generate_switch params w = Some ((Generated c p, e), w1)"
    using assms(2) by (auto simp: pkey_generate_def split: Option.bind_splits keygen_exit.splits)
  then have "(e \<noteq> 0) = exponent_given params"
    by (cases params)
      (auto simp: exponent_given_def generate_named_opt_def no_exponent_def dest!: generate_rsa_exponent
        split: Option.bind_splits option.splits)
  with l show ?thesis by auto
qed

theorem pkey_generate_leaks_exponent_witness:
  "\<exists>p e w'. pkey_generate (Keygen_rsa 2048 (Some 3)) (first_world (\<lambda>_ _ _. ok_answer)) = Some ((Inr p, e), w') \<and>
     e \<noteq> 0 \<and> live w' e = Some (Obj ''BIGNUM'')"
proof -
  have "\<exists>p e w'. pkey_generate (Keygen_rsa 2048 (Some 3)) (first_world (\<lambda>_ _ _. ok_answer)) = Some ((Inr p, e), w')"
    by (simp add: pkey_generate_def generate_rsa_def PKEY_CTX_by_name_def key_init_def key_step_def
        key_generate_def produce_def create_eq grants_def ccall_eq PKEY_CTX_free_def release_eq ok_answer_def Let_def)
  then show ?thesis
    using pkey_generate_leaks_exponent [OF wf_first_world] by (fastforce simp: exponent_given_def)
qed

end
