(* ===== verification/X509.thy ===== *)
theory X509
  imports X509_Info Pkey
begin

text \<open>
  \<open>src/x509.c\<close>, the rest: parsing and encoding of certificates, requests and revocation lists,
  bundles and stores of certificates, chain validation, PKCS#12 and CMS.
\<close>

section \<open>Data\<close>

datatype x509_error =
    X509_parse_failed
  | X509_encoding_failed
  | X509_sign_failed
  | X509_verify_failed
  | X509_bad_name
  | X509_bad_extension
  | X509_key_mismatch
  | X509_expired
  | X509_not_yet_valid
  | X509_unknown_issuer
  | X509_untrusted
  | X509_revoked
  | X509_hostname_mismatch
  | X509_internal "nat option"

text \<open>The code of \<open>internal\<close> may be left unset: the caller then reads what was in memory.\<close>

text \<open>
  \<open>sr_stack\<close> is the stack of intermediate certificates that the code attaches to a store, or
  \<open>NULL\<close>, and \<open>sr_certs\<close> the references on it. \<open>sr_lost\<close> are objects that the store should lead
  to but does not, because OpenSSL refused them.
\<close>

record cert_store =
  sr_self :: ptr
  sr_stack :: ptr
  sr_certs :: "ptr list"
  sr_lost :: footprint



abbreviation store_kind :: kind where "store_kind \<equiv> Obj ''X509_STORE''"
abbreviation stack_kind :: kind where "stack_kind \<equiv> Obj ''STACK_OF_X509''"

section \<open>Parsing and encoding\<close>









section \<open>Bundles\<close>










section \<open>Keys and signatures\<close>







definition certificate_clone :: "ptr \<Rightarrow> world \<Rightarrow> ptr outcome" where
  "certificate_clone c = retain cert_kind ''X509_up_ref'' [Ptr c]"

definition certificate_destructor :: "ptr \<Rightarrow> world \<Rightarrow> unit outcome" where
  "certificate_destructor rep w = (if rep \<noteq> 0 then release cert_kind ''X509_free'' rep w else Some ((), w))"

definition csr_destructor :: "ptr \<Rightarrow> world \<Rightarrow> unit outcome" where
  "csr_destructor rep w = (if rep \<noteq> 0 then release csr_kind ''X509_REQ_free'' rep w else Some ((), w))"

definition crl_destructor :: "ptr \<Rightarrow> world \<Rightarrow> unit outcome" where
  "crl_destructor rep w = (if rep \<noteq> 0 then release crl_kind ''X509_CRL_free'' rep w else Some ((), w))"

section \<open>Stores\<close>











section \<open>Chain validation\<close>









section \<open>PKCS#12\<close>





section \<open>CMS\<close>






section \<open>Resource safety: parsing and encoding\<close>






section \<open>Resource safety: bundles\<close>















section \<open>Resource safety: stores and verification\<close>

definition store_fp :: "cert_store \<Rightarrow> footprint" where
  "store_fp st = (sr_self st, store_kind) # own (sr_stack st) stack_kind @ objs_fp cert_kind (sr_certs st) @ sr_lost st"

lemma store_self [simp]: "sr_self st \<in> fst ` set (store_fp st)"
  by (simp add: store_fp_def)

















section \<open>Resource safety: PKCS#12 and CMS\<close>











section \<open>Reading a bundle\<close>


text \<open>The certificates read from the BIO \<open>b\<close>, in order.\<close>

fun certs_read :: "ptr \<Rightarrow> event list \<Rightarrow> ptr list" where
  "certs_read b [] = []"
| "certs_read b (Ev fn args r # es) =
     (if fn = ''PEM_read_bio_X509'' \<and> args = [Ptr b] \<and> r \<noteq> 0 then r # certs_read b es else certs_read b es)"

lemma certs_read_append [simp]: "certs_read b (es @ fs) = certs_read b es @ certs_read b fs"
  by (induction b es rule: certs_read.induct) simp_all




section \<open>Properties\<close>




section \<open>Validating a chain\<close>

text \<open>
  What OpenSSL knows of a validation, read off the call log: the certificates on each stack, and
  for each context the store, the leaf, the intermediates and the settings it was given. A chain is
  that of the context it was taken from.
\<close>

type_synonym validation = "ptr \<times> ptr \<times> ptr list \<times> (string \<times> arg list) list"

record validation_state =
  on_stack :: "ptr \<Rightarrow> ptr list"
  contexts :: "ptr \<rightharpoonup> validation"
  chains :: "ptr \<rightharpoonup> validation"

definition param_fns :: "string list" where
  "param_fns = [''X509_VERIFY_PARAM_set1_host'', ''X509_VERIFY_PARAM_set1_ip_asc'', ''X509_VERIFY_PARAM_set_purpose'',
     ''X509_VERIFY_PARAM_set_flags'']"

fun add_param :: "string \<times> arg list \<Rightarrow> validation \<Rightarrow> validation" where
  "add_param x (s, l, us, xs) = (s, l, us, xs @ [x])"

fun validation_step :: "validation_state \<Rightarrow> event \<Rightarrow> validation_state" where
  "validation_step st (Ev fn args r) =
     (if fn = ''sk_X509_new_null'' then st\<lparr> on_stack := (on_stack st)(r := []) \<rparr>
      else (case args of
          [Ptr s, Ptr p] \<Rightarrow>
            (if fn = ''sk_X509_push'' then st\<lparr> on_stack := (on_stack st)(s := on_stack st s @ [p]) \<rparr> else st)
        | [Ptr c, Ptr s, Ptr l, Ptr u] \<Rightarrow>
            (if fn = ''X509_STORE_CTX_init'' then st\<lparr> contexts := (contexts st)(c \<mapsto> (s, l, on_stack st u, [])) \<rparr> else st)
        | Ptr c # rest \<Rightarrow>
            (if fn \<in> set param_fns
             then st\<lparr> contexts := (contexts st)(c := map_option (add_param (fn, rest)) (contexts st c)) \<rparr>
             else if fn = ''X509_STORE_CTX_get1_chain'' then st\<lparr> chains := (chains st)(r := contexts st c) \<rparr>
             else st)
        | _ \<Rightarrow> st))"

definition validation_state :: "event list \<Rightarrow> validation_state" where
  "validation_state h = foldl validation_step \<lparr> on_stack = \<lambda>_. [], contexts = Map.empty, chains = Map.empty \<rparr> h"

lemma validation_state_append [simp]: "validation_state (h @ es) = foldl validation_step (validation_state h) es"
  by (simp add: validation_state_def)














section \<open>The life of a store\<close>












section \<open>What a store is told\<close>

text \<open>The certificate a reference was taken of, read off the call log, and the intermediates of a store:
  the abstract state of \<open>cert_store\<close>.\<close>

fun source_step :: "(ptr \<Rightarrow> ptr) \<Rightarrow> event \<Rightarrow> (ptr \<Rightarrow> ptr)" where
  "source_step f (Ev fn args r) =
     (case args of [Ptr c] \<Rightarrow> (if fn = ''X509_up_ref'' then f(r := c) else f) | _ \<Rightarrow> f)"

definition source :: "event list \<Rightarrow> ptr \<Rightarrow> ptr" where
  "source h = foldl source_step (\<lambda>p. p) h"

lemma source_append [simp]: "source (h @ es) = foldl source_step (source h) es"
  by (simp add: source_def)












section \<open>Stores and operations\<close>





end
