(* ===== verification/X509_Build.thy ===== *)
theory X509_Build
  imports X509
begin

text \<open>
  \<open>src/x509_build.c\<close>: certificates and requests built from WIT records and signed, PKCS#12 files,
  and CMS encryption.
\<close>

section \<open>Data\<close>






abbreviation bits_kind :: kind where "bits_kind \<equiv> Obj ''ASN1_BIT_STRING''"


section \<open>Names\<close>




section \<open>Extensions\<close>





abbreviation eku_kind :: kind where "eku_kind \<equiv> Obj ''EXTENDED_KEY_USAGE''"

definition eku_nids :: "int list" where
  "eku_nids = [129, 130, 131, 132, 133, 180, 910]"

text \<open>The objects of built-in identifiers are static, and \<open>OBJ_dup\<close> returns them as they are.\<close>

fun add_purposes :: "ptr \<Rightarrow> nat list \<Rightarrow> world \<Rightarrow> unit outcome" where
  "add_purposes ek [] w = Some ((), w)"
| "add_purposes ek (u # us) w =
     (if u < 7
      then do {
        (o1, w) \<leftarrow> ccall ''OBJ_nid2obj'' [Val (eku_nids ! u)] w;
        (_, w) \<leftarrow> (if granted o1
          then do { (_, w) \<leftarrow> ccall ''sk_ASN1_OBJECT_push'' [Ptr ek, Val (eku_nids ! u)] w; Some ((), w) }
          else Some ((), w));
        add_purposes ek us w }
      else add_purposes ek us w)"

definition build_eku :: "nat list \<Rightarrow> world \<Rightarrow> ptr outcome" where
  "build_eku us w =
     (if us = [] then Some (0, w)
      else do {
        (ek, w) \<leftarrow> create eku_kind ''EXTENDED_KEY_USAGE_new'' [] w;
        if ek = 0 then Some (0, w)
        else do { (_, w) \<leftarrow> add_purposes ek us w; Some (ek, w) } })"

text \<open>The loop over the bits \<open>i\<close>, \<dots> of the flags.\<close>

fun set_bits :: "ptr \<Rightarrow> nat \<Rightarrow> nat list \<Rightarrow> world \<Rightarrow> unit outcome" where
  "set_bits bs flags [] w = Some ((), w)"
| "set_bits bs flags (i # is) w = do {
     (_, w) \<leftarrow> (if bit flags i
       then do { (_, w) \<leftarrow> ccall ''ASN1_BIT_STRING_set_bit'' [Ptr bs, Val (int i), Val 1] w; Some ((), w) }
       else Some ((), w));
     set_bits bs flags is w }"

definition build_ku :: "nat \<Rightarrow> world \<Rightarrow> ptr outcome" where
  "build_ku flags w = do {
     (bs, w) \<leftarrow> create bits_kind ''ASN1_BIT_STRING_new'' [] w;
     if bs = 0 then Some (0, w)
     else do { (_, w) \<leftarrow> set_bits bs flags [0..<9] w; Some (bs, w) } }"













section \<open>Serial numbers\<close>








section \<open>Signing\<close>

definition EVP_PKEY_ED25519 :: int where "EVP_PKEY_ED25519 = 1087"
definition EVP_PKEY_ED448 :: int where "EVP_PKEY_ED448 = 1088"

definition edwards :: "int \<Rightarrow> bool" where
  "edwards sid \<longleftrightarrow> sid = EVP_PKEY_ED25519 \<or> sid = EVP_PKEY_ED448"

text \<open>The digest of a signature; a key on an Edwards curve has its own.\<close>

definition sign_md :: "int \<Rightarrow> nat \<Rightarrow> string option" where
  "sign_md sid hash = (if edwards sid then None else wit_digest_name hash)"

text \<open>0 is \<open>NID_undef\<close>. The Edwards key types are their own signature algorithms.\<close>

definition sigalg_nid_for :: "ptr \<Rightarrow> nat \<Rightarrow> world \<Rightarrow> int outcome" where
  "sigalg_nid_for pkey hash w = do {
     (s, w) \<leftarrow> ccall ''EVP_PKEY_get_base_id'' [Ptr pkey] w;
     if edwards (rc s) then Some (rc s, w)
     else do {
       (md, w) \<leftarrow> fetch_md hash w;
       (case md of
          None \<Rightarrow> Some (0, w)
        | Some m \<Rightarrow> do {
            (n, w) \<leftarrow> ccall ''EVP_MD_nid'' [Str m] w;
            (a, w) \<leftarrow> ccall ''OBJ_find_sigid_by_algs'' [Val (rc n), Val (rc s)] w;
            Some (if rc a = 0 then 0 else outl a, w) }) } }"

definition no_signature :: "ptr \<Rightarrow> ptr \<Rightarrow> world \<Rightarrow> (x509_error + list_u8) outcome" where
  "no_signature mdctx der w = do {
     (_, w) \<leftarrow> MD_CTX_free mdctx w;
     (_, w) \<leftarrow> OPENSSL_free der w;
     fail_with X509_sign_failed w }"

text \<open>The part that certificates and requests share: the signature, in a buffer of OpenSSL's, over the
  encoding \<open>tbs\<close> that is in the buffer \<open>der\<close>. The result owns the signature; \<open>der\<close> is freed.\<close>

definition sign_tbs :: "ptr \<Rightarrow> u8 list \<Rightarrow> string option \<Rightarrow> ptr \<Rightarrow> world \<Rightarrow> (x509_error + list_u8) outcome" where
  "sign_tbs der tbs mdname signer w = do {
     (mdctx, w) \<leftarrow> create md_ctx_kind ''EVP_MD_CTX_new'' [] w;
     if mdctx = 0
     then do { (_, w) \<leftarrow> OPENSSL_free der w; fail_with X509_sign_failed w }
     else do {
       (a, w) \<leftarrow> ccall ''EVP_DigestSignInit_ex'' [Ptr mdctx, str_arg mdname, Ptr signer] w;
       if rc a \<noteq> 1 then no_signature mdctx der w
       else do {
         (a, w) \<leftarrow> ccall ''EVP_DigestSign'' [Ptr mdctx, Ptr 0, Buf tbs] w;
         if rc a \<noteq> 1 \<or> c_u32 (outl a) = 0 then no_signature mdctx der w
         else do {
           (sig, w) \<leftarrow> create (Obj ''OPENSSL'') ''OPENSSL_malloc'' [Val (int (c_u32 (outl a)))] w;
           if sig = 0
           then do {
             (_, w) \<leftarrow> MD_CTX_free mdctx w;
             (_, w) \<leftarrow> OPENSSL_free der w;
             Some (Inl (X509_internal None), w) }
           else do {
             (b, w) \<leftarrow> ccall ''EVP_DigestSign'' [Ptr mdctx, Ptr sig, Buf tbs] w;
             (_, w) \<leftarrow> MD_CTX_free mdctx w;
             (_, w) \<leftarrow> OPENSSL_free der w;
             if rc b \<noteq> 1
             then do { (_, w) \<leftarrow> OPENSSL_free sig w; fail_with X509_sign_failed w }
             else Some (Inr \<lparr> at = sig, len = c_u32 (outl b), bytes = written b \<rparr>, w) } } } } }"

text \<open>A signature has whole bytes: \<open>flags &= ~(ASN1_STRING_FLAG_BITS_LEFT | 7)\<close>, and then the first of
  the two is set again.\<close>

definition ASN1_STRING_FLAG_BITS_LEFT :: int where "ASN1_STRING_FLAG_BITS_LEFT = 8"

definition whole_bytes :: "int \<Rightarrow> int" where
  "whole_bytes flags =
     or (and flags (not (or ASN1_STRING_FLAG_BITS_LEFT 7))) ASN1_STRING_FLAG_BITS_LEFT"

text \<open>Setting the flags and freeing the buffer.\<close>

definition finish_signature :: "ptr \<Rightarrow> ptr \<Rightarrow> world \<Rightarrow> unit outcome" where
  "finish_signature owner sig w = do {
     (f, w) \<leftarrow> ccall ''sig->flags'' [Ptr owner] w;
     (_, w) \<leftarrow> ccall ''sig->flags ='' [Ptr owner, Val (whole_bytes (rc f))] w;
     OPENSSL_free sig w }"

text \<open>
  The algorithm identifiers and the signature of a certificate are fields of it, known by the call
  that returns them; \<open>granted\<close> of \<open>X509_get0_signature\<close> says that both its results are there. The
  objects of built-in identifiers are static, so that \<open>OBJ_dup\<close> returns them as they are.
\<close>

definition set_cert_algs :: "ptr \<Rightarrow> int \<Rightarrow> world \<Rightarrow> bool outcome" where
  "set_cert_algs c signid w = do {
     (t, w) \<leftarrow> ccall ''X509_get0_tbs_sigalg'' [Ptr c] w;
     (s, w) \<leftarrow> ccall ''X509_get0_signature'' [Ptr c] w;
     if \<not> granted t \<or> \<not> granted s then Some (False, w)
     else do {
       (ob, w) \<leftarrow> ccall ''OBJ_nid2obj'' [Val signid] w;
       if \<not> granted ob then Some (False, w)
       else do {
         (a, w) \<leftarrow> ccall ''X509_ALGOR_set0'' [Ptr c, Str ''tbs_alg'', Val signid] w;
         if rc a = 0 then Some (False, w)
         else do {
           (a, w) \<leftarrow> ccall ''X509_ALGOR_set0'' [Ptr c, Str ''outer_alg'', Val signid] w;
           Some (rc a \<noteq> 0, w) } } } }"

definition sign_cert_with_pkey :: "ptr \<Rightarrow> ptr \<Rightarrow> nat \<Rightarrow> world \<Rightarrow> (x509_error + unit) outcome" where
  "sign_cert_with_pkey c signer hash w = do {
     (sid, w) \<leftarrow> ccall ''EVP_PKEY_get_base_id'' [Ptr signer] w;
     (signid, w) \<leftarrow> sigalg_nid_for signer hash w;
     if signid = 0 then fail_with X509_sign_failed w
     else do {
       (ok, w) \<leftarrow> set_cert_algs c signid w;
       if \<not> ok then Some (Inl (X509_internal None), w)
       else do {
         ((a, der), w) \<leftarrow> i2d ''i2d_re_X509_tbs'' [Ptr c] w;
         if rc a \<le> 0 \<or> der = 0
         then do {
           (r, w) \<leftarrow> fail_with X509_encoding_failed w;
           (_, w) \<leftarrow> OPENSSL_free der w;
           Some (r, w) }
         else do {
           (r, w) \<leftarrow> sign_tbs der (encoded a) (sign_md (rc sid) hash) signer w;
           (case r of
              Inl e \<Rightarrow> Some (Inl e, w)
            | Inr sig \<Rightarrow> do {
                (a, w) \<leftarrow> ccall ''ASN1_BIT_STRING_set''
                   [Ptr c, Ptr (at sig), Buf (bytes sig), Val (c_int (len sig))] w;
                if rc a = 0
                then do { (_, w) \<leftarrow> OPENSSL_free (at sig) w; fail_with X509_encoding_failed w }
                else do {
                  (_, w) \<leftarrow> finish_signature c (at sig) w;
                  Some (Inr (), w) } }) } } } }"





section \<open>Certificates and requests\<close>











section \<open>PKCS#12 and CMS encryption\<close>









section \<open>Resource safety\<close>






































section \<open>What is signed\<close>

text \<open>The certificate \<open>c\<close> as the calls made so far have left it: the algorithm in its signed part and the
  one outside, its signature, and the digest and key of each signing context.\<close>

record draft =
  inner_alg :: int
  outer_alg :: int
  signature :: "u8 list option"
  signing :: "ptr \<rightharpoonup> (arg \<times> ptr)"

fun draft_step :: "ptr \<Rightarrow> draft \<Rightarrow> event \<Rightarrow> draft" where
  "draft_step c d (Ev fn args r) = (case args of
     [Ptr p, Str f, Val n] \<Rightarrow>
       (if fn = ''X509_ALGOR_set0'' \<and> p = c
        then if f = ''tbs_alg'' then d\<lparr> inner_alg := n \<rparr> else d\<lparr> outer_alg := n \<rparr>
        else d)
   | [Ptr p, Ptr q, Buf b, Val n] \<Rightarrow>
       (if fn = ''ASN1_BIT_STRING_set'' \<and> p = c then d\<lparr> signature := Some (take (nat n) b) \<rparr> else d)
   | [Ptr m, md, Ptr k] \<Rightarrow>
       (if fn = ''EVP_DigestSignInit_ex'' then d\<lparr> signing := (signing d)(m \<mapsto> (md, k)) \<rparr> else d)
   | _ \<Rightarrow> d)"

definition draft_of :: "ptr \<Rightarrow> event list \<Rightarrow> draft" where
  "draft_of c h = foldl (draft_step c) \<lparr> inner_alg = 0, outer_alg = 0, signature = None, signing = Map.empty \<rparr> h"

lemma draft_append [simp]: "draft_of c (h @ es) = foldl (draft_step c) (draft_of c h) es"
  by (simp add: draft_of_def)

text \<open>A library with a signature scheme \<open>S\<close>, in which the signed part of \<open>c\<close> is encoded as \<open>T n\<close> when its
  algorithm is \<open>n\<close>. A signature is shorter than \<open>2 ^ 31\<close> bytes.\<close>

definition signs_certs ::
    "(event list \<Rightarrow> string \<Rightarrow> arg list \<Rightarrow> answer) \<Rightarrow> ptr \<Rightarrow> (int \<Rightarrow> u8 list) \<Rightarrow>
     (arg \<Rightarrow> ptr \<Rightarrow> u8 list \<Rightarrow> u8 list) \<Rightarrow> bool" where
  "signs_certs L c T S \<longleftrightarrow>
     (\<forall>h. written (L h ''i2d_re_X509_tbs'' [Ptr c]) = T (inner_alg (draft_of c h)) \<and>
          rc (L h ''i2d_re_X509_tbs'' [Ptr c]) = int (length (T (inner_alg (draft_of c h))))) \<and>
     (\<forall>h m md k p b. signing (draft_of c h) m = Some (md, k) \<longrightarrow> p \<noteq> 0 \<longrightarrow>
        written (L h ''EVP_DigestSign'' [Ptr m, Ptr p, Buf b]) = S md k b \<and>
        outl (L h ''EVP_DigestSign'' [Ptr m, Ptr p, Buf b]) = int (length (S md k b)) \<and>
        length (S md k b) < 2 ^ 31)"

declare draft_step.simps [simp del]

lemma draft_other [simp]:
  "fn \<noteq> ''X509_ALGOR_set0'' \<Longrightarrow> fn \<noteq> ''ASN1_BIT_STRING_set'' \<Longrightarrow> fn \<noteq> ''EVP_DigestSignInit_ex'' \<Longrightarrow>
   draft_step c d (Ev fn args r) = d"
  by (simp add: draft_step.simps split: list.split arg.split)

lemma draft_steps [simp]:
  "draft_step c d (Ev ''X509_ALGOR_set0'' [Ptr c, Str f, Val n] r) =
    (if f = ''tbs_alg'' then d\<lparr> inner_alg := n \<rparr> else d\<lparr> outer_alg := n \<rparr>)"
  "draft_step c d (Ev ''ASN1_BIT_STRING_set'' [Ptr c, Ptr q, Buf b, Val n] r) = d\<lparr> signature := Some (take (nat n) b) \<rparr>"
  "draft_step c d (Ev ''EVP_DigestSignInit_ex'' [Ptr m, str_arg md, Ptr k] r) =
    d\<lparr> signing := (signing d)(m \<mapsto> (str_arg md, k)) \<rparr>"
  by (cases md; simp add: draft_step.simps str_arg_def)+

lemma signs_certsD:
  assumes "signs_certs L c T S"
  shows "written (L h ''i2d_re_X509_tbs'' [Ptr c]) = T (inner_alg (draft_of c h))"
    "rc (L h ''i2d_re_X509_tbs'' [Ptr c]) = int (length (T (inner_alg (draft_of c h))))"
    "signing (draft_of c h) m = Some (md, k) \<Longrightarrow> p \<noteq> 0 \<Longrightarrow> written (L h ''EVP_DigestSign'' [Ptr m, Ptr p, Buf b]) = S md k b"
    "signing (draft_of c h) m = Some (md, k) \<Longrightarrow> p \<noteq> 0 \<Longrightarrow> c_u32 (outl (L h ''EVP_DigestSign'' [Ptr m, Ptr p, Buf b])) = length (S md k b)"
    "signing (draft_of c h) m = Some (md, k) \<Longrightarrow> p \<noteq> 0 \<Longrightarrow> length (S md k b) < 2 ^ 31"
proof -
  assume s: "signing (draft_of c h) m = Some (md, k)" "p \<noteq> 0"
  have o: "outl (L h ''EVP_DigestSign'' [Ptr m, Ptr p, Buf b]) = int (length (S md k b))" "length (S md k b) < 2 ^ 31"
    using assms s by (simp_all add: signs_certs_def)
  show "c_u32 (outl (L h ''EVP_DigestSign'' [Ptr m, Ptr p, Buf b])) = length (S md k b)"
    unfolding o(1) using o(2) by (simp add: c_u32_nat)
qed (use assms in \<open>simp_all add: signs_certs_def\<close>)

lemma sign_tbs_signs:
  assumes "signs_certs (lib w) c T S" and "sign_tbs der tbs md k w = Some (Inr sig, w')"
  shows "\<exists>sg. draft_of c (log w') = (draft_of c (log w))\<lparr> signing := sg \<rparr> \<and> lib w' = lib w \<and>
    bytes sig = S (str_arg md) k tbs \<and> len sig = length (bytes sig) \<and> len sig < 2 ^ 31"
proof -
  let ?w1 = "acquired md_ctx_kind ''EVP_MD_CTX_new'' [] w"
  let ?w2 = "record_call ''EVP_DigestSignInit_ex'' [Ptr (nxt w), str_arg md, Ptr k] 0 ?w1"
  let ?a = "lib w (log ?w2) ''EVP_DigestSign'' [Ptr (nxt w), Ptr 0, Buf tbs]"
  let ?w3 = "record_call ''EVP_DigestSign'' [Ptr (nxt w), Ptr 0, Buf tbs] 0 ?w2"
  let ?w4 = "acquired (Obj ''OPENSSL'') ''OPENSSL_malloc'' [Val (int (c_u32 (outl ?a)))] ?w3"
  let ?b = "lib w (log ?w4) ''EVP_DigestSign'' [Ptr (nxt w), Ptr (Suc (nxt w)), Buf tbs]"
  let ?w5 = "record_call ''EVP_DigestSign'' [Ptr (nxt w), Ptr (Suc (nxt w)), Buf tbs] 0 ?w4"
  have g: "granted (lib w (log w) ''EVP_MD_CTX_new'' [])"
    "granted (lib w (log ?w3) ''OPENSSL_malloc'' [Val (int (c_u32 (outl ?a)))])"
    "sig = \<lparr> at = Suc (nxt w), len = c_u32 (outl ?b), bytes = written ?b \<rparr>"
    "w' = released (Obj ''OPENSSL'') ''OPENSSL_free'' der (released md_ctx_kind ''EVP_MD_CTX_free'' (nxt w) ?w5)"
    using assms(2)
    by (auto simp: sign_tbs_def create_def acquire_def acquired_def Let_def ccall_def no_signature_def MD_CTX_free_def OPENSSL_free_def
        fail_with_def ERR_peek_last_error_def release_eq split: if_splits)
  show ?thesis using signs_certsD(3,4,5) [OF assms(1), of "log ?w4" "nxt w" "str_arg md" k "Suc (nxt w)" tbs]
    by (intro exI [of _ "(signing (draft_of c (log w)))(nxt w \<mapsto> (str_arg md, k))"]) (simp add: g)
qed

lemma set_cert_algs_draft:
  assumes "set_cert_algs c n w = Some (True, w')"
  shows "draft_of c (log w') = (draft_of c (log w))\<lparr> inner_alg := n, outer_alg := n \<rparr> \<and> lib w' = lib w"
  using assms by (auto simp: set_cert_algs_def ccall_def split: if_splits)

lemma sigalg_draft:
  assumes "sigalg_nid_for k hash w = Some (n, w')"
  shows "draft_of c (log w') = draft_of c (log w) \<and> lib w' = lib w"
  using assms by (auto simp: sigalg_nid_for_def ccall_def fetch_md_def split: if_splits option.splits)

text \<open>C37: A certificate is signed as it will be encoded: in a library with a signature scheme, signing
  that succeeds leaves in the certificate one algorithm identifier, inside and outside of the signed
  part, and the exact signature, by the key and digest asked for, over the encoding that the signed
  part has with this identifier in place.\<close>

theorem cert_signature_covers_tbs:
  assumes "signs_certs (lib w) c T S" and "sign_cert_with_pkey c signer hash w = Some (Inr (), w')"
  shows "\<exists>n. n \<noteq> 0 \<and> inner_alg (draft_of c (log w')) = n \<and> outer_alg (draft_of c (log w')) = n \<and>
    signature (draft_of c (log w')) =
      Some (S (str_arg (sign_md (rc (lib w (log w) ''EVP_PKEY_get_base_id'' [Ptr signer])) hash)) signer (T n))"
proof -
  let ?md = "sign_md (rc (lib w (log w) ''EVP_PKEY_get_base_id'' [Ptr signer])) hash"
  let ?w1 = "record_call ''EVP_PKEY_get_base_id'' [Ptr signer] 0 w"
  obtain n w2 where 2: "sigalg_nid_for signer hash ?w1 = Some (n, w2)" "n \<noteq> 0"
    using assms(2) by (auto simp: sign_cert_with_pkey_def ccall_def fail_with_def bind_eq_Some_conv split: if_splits)
  obtain w3 where 3: "set_cert_algs c n w2 = Some (True, w3)"
    using assms(2) 2 by (auto simp: sign_cert_with_pkey_def ccall_def bind_eq_Some_conv split: if_splits)
  let ?a = "lib w3 (log w3) ''i2d_re_X509_tbs'' [Ptr c]"
  let ?w4 = "acquired (Obj ''OPENSSL'') ''i2d_re_X509_tbs'' [Ptr c] w3"
  have i: "i2d ''i2d_re_X509_tbs'' [Ptr c] w3 = Some ((?a, nxt w3), ?w4)" "0 < rc ?a" "nxt w3 \<noteq> 0"
    using assms(2) 2 3
    by (auto simp: sign_cert_with_pkey_def ccall_def fail_with_def ERR_peek_last_error_def OPENSSL_free_def release_eq i2d_def
        produce_def acquired_def Let_def split: if_splits)
  obtain r w5 where r: "sign_tbs (nxt w3) (encoded ?a) ?md signer ?w4 = Some (r, w5)"
    using assms(2) 2 3 i
    by (auto simp: sign_cert_with_pkey_def ccall_def fail_with_def ERR_peek_last_error_def bind_eq_Some_conv split: if_splits)
  obtain sig where 5: "sign_tbs (nxt w3) (encoded ?a) ?md signer ?w4 = Some (Inr sig, w5)"
    using assms(2) 2 3 i r by (cases r) (auto simp: sign_cert_with_pkey_def ccall_def split: if_splits)
  have w': "draft_of c (log w') = (draft_of c (log w5))\<lparr> signature := Some (take (nat (c_int (len sig))) (bytes sig)) \<rparr>"
    using assms(2) 2 3 i 5
    by (auto simp: sign_cert_with_pkey_def ccall_def fail_with_def ERR_peek_last_error_def OPENSSL_free_def release_eq
        finish_signature_def split: if_splits)
  note d = sigalg_draft [OF 2(1), of c] set_cert_algs_draft [OF 3]
  have l: "signs_certs (lib ?w4) c T S" using assms(1) d by simp
  have "encoded ?a = T n"
    using signs_certsD(1,2) [OF assms(1), of "log w3"] d by (simp add: encoded_def)
  with sign_tbs_signs [OF l 5] w' d 2(2) show ?thesis by auto
qed

definition sample_signer :: "event list \<Rightarrow> string \<Rightarrow> arg list \<Rightarrow> answer" where
  "sample_signer h fn args =
     (if fn = ''EVP_PKEY_get_base_id'' then ok_answer\<lparr> rc := EVP_PKEY_ED25519 \<rparr>
      else if fn = ''i2d_re_X509_tbs''
      then ok_answer\<lparr> rc := 2, written := [word_of_int (inner_alg (draft_of 5 h)), 7] \<rparr>
      else if fn = ''EVP_DigestSign'' then (case args of
          [Ptr m, Ptr p, Buf b] \<Rightarrow> ok_answer\<lparr> outl := int (length (take 2 b @ [9])), written := take 2 b @ [9] \<rparr>
        | _ \<Rightarrow> ok_answer)
      else ok_answer)"

theorem cert_signature_covers_tbs_witness:
  "\<exists>n w'. sign_cert_with_pkey 5 6 3 (first_world sample_signer) = Some (Inr (), w') \<and> n \<noteq> 0 \<and>
    inner_alg (draft_of 5 (log w')) = n \<and> signature (draft_of 5 (log w')) = Some [word_of_int n, 7, 9]"
proof -
  have s: "signs_certs sample_signer 5 (\<lambda>n. [word_of_int n, 7]) (\<lambda>md k b. take 2 b @ [9])"
    by (auto simp: signs_certs_def sample_signer_def)
  have "\<exists>w'. sign_cert_with_pkey 5 6 3 (first_world sample_signer) = Some (Inr (), w')"
    by (simp add: sign_cert_with_pkey_def ccall_def sigalg_nid_for_def edwards_def EVP_PKEY_ED25519_def set_cert_algs_def sample_signer_def
      i2d_def produce_def sign_tbs_def create_def acquire_def MD_CTX_free_def OPENSSL_free_def release_eq finish_signature_def Let_def
       ok_answer_def draft_of_def encoded_def)
  then obtain w' where "sign_cert_with_pkey 5 6 3 (first_world sample_signer) = Some (Inr (), w')" by blast
  with cert_signature_covers_tbs [of "first_world sample_signer" 5 "\<lambda>n. [word_of_int n, 7]" "\<lambda>md k b. take 2 b @ [9]" 6 3 w'] s
  show ?thesis by fastforce
qed

section \<open>Usages\<close>

text \<open>The numbers that calls of \<open>fn\<close> put into \<open>s\<close>, in order.\<close>

fun put_step :: "string \<Rightarrow> ptr \<Rightarrow> event \<Rightarrow> int list" where
  "put_step fn s (Ev f args r) =
     (if f = fn then (case args of Ptr p # Val n # _ \<Rightarrow> if p = s then [n] else [] | _ \<Rightarrow> []) else [])"

definition put :: "string \<Rightarrow> ptr \<Rightarrow> event list \<Rightarrow> int list" where
  "put fn s h = concat (map (put_step fn s) h)"

lemma put_append [simp]: "put fn s (h @ es) = put fn s h @ put fn s es" "put fn s [] = []"
  "put fn s (e # es) = put_step fn s e @ put fn s es"
  by (simp_all add: put_def)

lemma add_purposes_put:
  assumes "grants (lib w) ''OBJ_nid2obj''"
  shows "\<exists>w'. add_purposes ek us w = Some ((), w') \<and>
    put ''sk_ASN1_OBJECT_push'' ek (log w') =
      put ''sk_ASN1_OBJECT_push'' ek (log w) @ map ((!) eku_nids) (filter (\<lambda>u. u < 7) us)"
  using assms
proof (induction us arbitrary: w)
  case (Cons u us)
  let ?w1 = "record_call ''sk_ASN1_OBJECT_push'' [Ptr ek, Val (eku_nids ! u)] 0 (record_call ''OBJ_nid2obj'' [Val (eku_nids ! u)] 0 w)"
  show ?case
    using Cons.IH [of w] Cons.IH [of ?w1] Cons.prems by (cases "u < 7") (auto simp: ccall_def grantsD)
qed simp

lemma or_meets:
  fixes f :: int
  shows "and (int (foldr or ns 0)) f \<noteq> 0 \<longleftrightarrow> (\<exists>n\<in>set ns. and (int n) f \<noteq> 0)"
proof (induction ns)
  case (Cons n ns)
  have "and (int (or n m)) f = 0 \<longleftrightarrow> and (int n) f = 0 \<and> and (int m) f = 0" for m
    by (simp add: of_nat_or_eq bit.conj_disj_distrib2 or_eq_0_iff)
  with Cons show ?case by simp
qed simp

lemma below_7: "i < 7 \<Longrightarrow> i \<in> {0, 1, 2, 3, 4, 5, 6 :: nat}"
  by auto

lemma purposes_distinct:
  assumes "map xku [129, 130, 131, 132, 133, 180, 910] = [0x1, 0x2, 0x8, 0x4, 0x40, 0x20, 0x100 :: nat]"
    and "u < 7" and "i < 7"
  shows "and (int (xku (eku_nids ! u))) (xku_flags ! i) \<noteq> 0 \<longleftrightarrow> u = i"
  using assms below_7 [OF assms(2)] below_7 [OF assms(3)]
  by (auto simp: eku_nids_def xku_flags_def)

text \<open>C38: The purposes asked for are those shown: in a library that refuses nothing, with the flag
  that OpenSSL has for each purpose's identifier, a certificate built with a list of extended key
  usages is shown with the same ones, each once and in the order of the WIT enum.\<close>

theorem extended_key_usage_round_trip:
  assumes "grants (lib w) ''EXTENDED_KEY_USAGE_new''" and "grants (lib w) ''OBJ_nid2obj''" and "0 < nxt w"
    and "put ''sk_ASN1_OBJECT_push'' (nxt w) (log w) = []" and "us \<noteq> []"
    and "map xku [129, 130, 131, 132, 133, 180, 910] = [0x1, 0x2, 0x8, 0x4, 0x40, 0x20, 0x100 :: nat]"
  shows "\<exists>ek w'. build_eku us w = Some (ek, w') \<and>
    shown_purposes (foldr or (map xku (put ''sk_ASN1_OBJECT_push'' ek (log w'))) 0) = filter (\<lambda>u. u \<in> set us) [0..<7]"
proof -
  let ?w1 = "acquired eku_kind ''EXTENDED_KEY_USAGE_new'' [] w"
  obtain w' where "add_purposes (nxt w) us ?w1 = Some ((), w')"
      "put ''sk_ASN1_OBJECT_push'' (nxt w) (log w') = map ((!) eku_nids) (filter (\<lambda>u. u < 7) us)"
    using add_purposes_put [of ?w1 "nxt w" us] assms by auto
  moreover have "shown_purposes (foldr or (map xku (map ((!) eku_nids) (filter (\<lambda>u. u < 7) us))) 0) = filter (\<lambda>u. u \<in> set us) [0..<7]"
    unfolding shown_purposes_def or_meets
    by (rule filter_cong) (auto simp: purposes_distinct [OF assms(6)])
  ultimately show ?thesis
    using assms by (auto simp: build_eku_def create_eq)
qed

definition sample_xku :: "int \<Rightarrow> nat" where
  "sample_xku n = (case map_of [(129, 0x1), (130, 0x2), (131, 0x8), (132, 0x4), (133, 0x40), (180, 0x20), (910, 0x100)] n of
     None \<Rightarrow> 0 | Some f \<Rightarrow> f)"

theorem extended_key_usage_round_trip_witness:
  "\<exists>ek w'. build_eku [4, 0, 4] (first_world (\<lambda>_ _ _. ok_answer)) = Some (ek, w') \<and>
    shown_purposes (foldr or (map sample_xku (put ''sk_ASN1_OBJECT_push'' ek (log w'))) 0) = [0, 4]"
proof -
  have f: "filter (\<lambda>u. u \<in> set [4, 0, 4]) [0..<7] = [0, 4 :: nat]"
    by (simp add: upt_rec eval_nat_numeral)
  show ?thesis
    using extended_key_usage_round_trip [of "first_world (\<lambda>_ _ _. ok_answer)" "[4, 0, 4]" sample_xku, unfolded f]
    by (simp add: grants_def ok_answer_def sample_xku_def)
qed

lemma set_bits_put:
  "\<exists>w'. set_bits bs flags is w = Some ((), w') \<and>
    put ''ASN1_BIT_STRING_set_bit'' bs (log w') = put ''ASN1_BIT_STRING_set_bit'' bs (log w) @ map int (filter (bit flags) is)"
proof (induction "is" arbitrary: w)
  case (Cons i js)
  let ?w1 = "record_call ''ASN1_BIT_STRING_set_bit'' [Ptr bs, Val (int i), Val 1] 0 w"
  show ?case using Cons [of w] Cons [of ?w1] by (cases "bit flags i") (auto simp: ccall_def)
qed simp

lemma bit_or_list: "bit (foldr or ns 0) k \<longleftrightarrow> (\<exists>n\<in>set ns. bit (n :: nat) k)"
  by (induction ns) (auto simp: bit_or_iff)

lemma key_usage_flag:
  assumes "map ku [0..8] = [0x80, 0x40, 0x20, 0x10, 0x8, 0x4, 0x2, 0x1, 0x8000 :: nat]" and "i < 9"
  shows "bit (ku (int i)) k \<longleftrightarrow> k = (if i < 8 then 7 - i else 15)"
proof -
  have "i \<in> {0, 1, 2, 3, 4, 5, 6, 7, 8}" using assms(2) by auto
  with assms(1) have "ku (int i) = 2 ^ (if i < 8 then 7 - i else 15)"
    by (auto simp: upto_rec1)
  then show ?thesis by (auto simp: bit_exp_iff)
qed

text \<open>C39: The key usage asked for is not the one shown: building sets bit i of the extension for
  flag i, so that in OpenSSL's flags, which are shown as they are, the first eight stand in reverse
  order and the ninth is bit 15.\<close>

theorem key_usage_reversed:
  assumes "grants (lib w) ''ASN1_BIT_STRING_new''" and "0 < nxt w"
    and "put ''ASN1_BIT_STRING_set_bit'' (nxt w) (log w) = []"
    and "map ku [0..8] = [0x80, 0x40, 0x20, 0x10, 0x8, 0x4, 0x2, 0x1, 0x8000 :: nat]"
  shows "\<exists>bs w' shown. build_ku flags w = Some (bs, w') \<and>
    shown = foldr or (map ku (put ''ASN1_BIT_STRING_set_bit'' bs (log w'))) 0 \<and>
    (\<forall>i<8. bit shown i = bit flags (7 - i)) \<and> bit shown 15 = bit flags 8"
proof -
  let ?w1 = "acquired bits_kind ''ASN1_BIT_STRING_new'' [] w"
  obtain w' where 1: "set_bits (nxt w) flags [0..<9] ?w1 = Some ((), w')"
      "put ''ASN1_BIT_STRING_set_bit'' (nxt w) (log w') = map int (filter (bit flags) [0..<9])"
    using set_bits_put [of "nxt w" flags "[0..<9]" ?w1] assms by auto
  let ?s = "foldr or (map ku (map int (filter (bit flags) [0..<9]))) 0"
  have s: "bit ?s k \<longleftrightarrow> (\<exists>i<9. bit flags i \<and> k = (if i < 8 then 7 - i else 15))" for k
    unfolding bit_or_list using key_usage_flag [OF assms(4)] by auto
  have "bit ?s k = bit flags (7 - k)" if "k < 8" for k
    unfolding s
  proof
    assume "bit flags (7 - k)"
    with that show "\<exists>i<9. bit flags i \<and> k = (if i < 8 then 7 - i else 15)"
      by (intro exI [of _ "7 - k"]) simp
  qed (use that in \<open>auto split: if_splits\<close>)
  moreover have "bit ?s 15 = bit flags 8"
    unfolding s
  proof
    assume "\<exists>i<9. bit flags i \<and> 15 = (if i < 8 then 7 - i else 15)"
    then obtain i where "i < 9" "bit flags i" "\<not> i < 8" by (auto split: if_splits)
    then show "bit flags 8" by (metis less_Suc_eq numeral_eq_Suc pred_numeral_simps(3))
  qed (intro exI [of _ 8], simp)
  ultimately show ?thesis
    using 1 assms by (auto simp: build_ku_def create_eq)
qed

theorem key_usage_reversed_witness:
  "\<exists>bs w' shown. build_ku 1 (first_world (\<lambda>_ _ _. ok_answer)) = Some (bs, w') \<and> bit (shown :: nat) 7 \<and> \<not> bit shown 0"
proof -
  let ?w = "first_world (\<lambda>_ _ _. ok_answer)"
  define ku :: "int \<Rightarrow> nat" where "ku i = (if i < 8 then 2 ^ nat (7 - i) else 2 ^ 15)" for i
  have k: "map ku [0..8] = [0x80, 0x40, 0x20, 0x10, 0x8, 0x4, 0x2, 0x1, 0x8000]"
    by (simp add: upto_rec1 ku_def)
  have g: "grants (lib ?w) ''ASN1_BIT_STRING_new''" "0 < nxt ?w" "put ''ASN1_BIT_STRING_set_bit'' (nxt ?w) (log ?w) = []"
    by (simp_all add: grants_def ok_answer_def)
  from key_usage_reversed [OF g k, of 1] obtain bs w' shown
    where s: "build_ku 1 ?w = Some (bs, w')" "\<forall>i<8. bit (shown :: nat) i = bit (1 :: nat) (7 - i)"
    by blast
  have "bit shown 7" "\<not> bit shown 0"
    using s(2) [rule_format, of 7] s(2) [rule_format, of 0] by (simp_all del: One_nat_def add: bit_1_iff)
  with s(1) show ?thesis by blast
qed

section \<open>Building leaves nothing behind\<close>




end
