(* ===== verification/Spec2Isabelle.thy ===== *)
theory Spec2Isabelle
  imports Aes_Correct Component Kdf Mac Bignum Cipher Tls_Mem Tls_Socket X509_Build
begin

text \<open>
  A model of the C sources of openssl-wasm, a WebAssembly component that offers OpenSSL behind
  the WIT interfaces in \<open>src/wit\<close>. The component's own code is the glue between the two
  worlds: it reads the arguments of a WIT call, drives OpenSSL, copies results into blocks that
  the caller is to free, translates failures into WIT error variants, keeps the state of
  resources (digests, MACs, ciphers, numbers, TLS connections) between calls, and replaces
  OpenSSL's AES block functions by SIMD code of its own.

  \<^bold>\<open>The C world.\<close> \<open>Prelude\<close> holds list and word lemmas. \<open>Glue\<close> models what every function
  touches: a \<open>world\<close> of live allocations with their kinds, the next address, the statics of the
  program, the log of the calls made so far, and the library itself as the field \<open>lib\<close>: a
  function from the log, a name and arguments to an \<open>answer\<close>. OpenSSL, libc's sockets and the WIT
  runtime are that parameter. No law about it is built in; a theorem that needs one states it as
  a hypothesis and has a witness with a concrete library. An operation has the type
  \<open>world \<Rightarrow> 'a outcome\<close>; \<open>None\<close> is undefined behaviour or \<open>abort\<close>: a use of a block that is not live,
  a second \<open>free\<close>, an access out of bounds, \<open>xmalloc\<close> out of memory. Errors that the code returns
  are values of \<open>error + 'a\<close>. A call that allocates may fail (address 0) as the library decides.

  \<^bold>\<open>Reasoning.\<close> \<open>Ledger\<close> defines \<open>ledger_triple\<close>: run on a world with a given footprint, an
  operation either ends with the footprint of its result or stops for lack of one of the named
  services (mostly \<open>malloc\<close>); every other allocation is untouched. So a triple says that no path
  leaks, frees twice or uses a freed block. The locale \<open>stateful_resource\<close> states the interface of
  a resource (every method keeps what the object owns, the finisher gives it back) and proves
  that every life, a constructor, any sequence of methods, a finisher, is balanced; it is
  interpreted on each resource of the code. \<open>Runs\<close> holds the calculus for exact results (which
  calls are made, which bytes come back). \<open>Steps\<close> is the calculus the triples of longer functions
  are proved with, one rule per kind of step. 

  \<^bold>\<open>Parts of the program.\<close>
  \<^item> \<open>Gf256\<close>, \<open>Aes_Fips\<close>: the field GF(256) and AES as FIPS 197 states it; \<open>Aes_Sbox\<close>, \<open>Aes_Simd\<close>: the
    code of \<open>src/aes_simd.c\<close>, lane by lane; \<open>Aes_Correct\<close>: the code is FIPS 197.
  \<^item> \<open>Component\<close> (\<open>component.c\<close>): error queue, random bytes, digests and XOFs. \<open>drain_loop\<close> and the other
    loops over the error queue run with fuel 17: OpenSSL's queue is a ring of 16 slots of which
    15 or 16 can be filled, so the loop ends at its 17th read at the latest; the theorem on \<open>drain_errors\<close> proves it.
  \<^item> \<open>Kdf\<close> (\<open>kdf.c\<close>), \<open>Mac\<close> (\<open>mac.c\<close>), \<open>Bignum\<close> (\<open>bignum.c\<close>), \<open>Cipher\<close> (\<open>cipher.c\<close>): one group of
    definitions for each, a record for each resource and a definition for each exported function.
  \<^item> \<open>Tls_Common\<close>, \<open>Tls_Mem\<close>, \<open>Tls_Socket\<close> (\<open>tls.c\<close>): the key-log buffer, configuration, ALPN and peer
    description; the endpoints that exchange records through memory BIOs; the endpoints on
    sockets with their listener. A definition \<open>mb_\<close>\<dots> or \<open>ep_\<close>\<dots> is the method of the client's
    resource; the methods of the server's resource, which repeat it, have names of their own.

  \<^bold>\<open>Conventions.\<close> \<open>size_t\<close> is \<open>nat\<close> with the wrap at 2^32 written out where a size is computed from
  the caller's lengths (\<open>szt\<close>); \<open>int\<close> is \<open>int\<close> with \<open>c_int\<close>, \<open>c_u32\<close> for the conversions; a WIT list is its
  address, its length and the bytes in it; a C string is its bytes without the NUL. A structure
  that the code allocates is a record with its own address as first field.

  \<^bold>\<open>What the lemmas show.\<close> Every exported function has a triple; the constructors, methods and
  finishers of a resource compose in its interpretation. Streaming interfaces equal their
  one-shot counterparts, encodings are inverted by the parsers of their formats, the AES code
  equals its standard, and the places where the code departs from what it means to do are
  theorems as well.

  \<^bold>\<open>Not modelled.\<close> The cryptography and the protocol engine inside OpenSSL (a parameter here); the key, certificate
  and provider interfaces (\<open>pkey.c\<close>, \<open>x509.c\<close>, \<open>x509_build.c\<close>, \<open>provider_wit.c\<close>, \<open>encoder_wit.c\<close>,
  \<open>decoder_wit.c\<close>, \<open>store_wit.c\<close>), which follow the same patterns; the generated WIT bindings; the
  example hosts and the no-op provider; build files and tests.
\<close>

end
